(* ===== verification/Prelude.thy ===== *)
theory Prelude
  imports
    Main
    "HOL-Library.Char_ord"
    "HOL-Library.List_Lexorder"
    "HOL-Library.Monad_Syntax"
    "HOL-Library.Multiset"
    "HOL-Library.Signed_Division"
begin

text \<open>
  Shared vocabulary of the development: Rust's fixed-width integer operations, byte strings
  and their standard-library methods, comparators and stable sorting, and vectors
  without duplicates. Nothing here models a file of the repository; the component theories do.

  Conventions. An \<open>i32\<close>, \<open>i64\<close>, \<open>u32\<close>, \<open>u64\<close> or \<open>usize\<close> is an \<open>int\<close> or a \<open>nat\<close>, and
  every operation whose result can leave the type's range is written with the saturation,
  wrap-around or failure the source asks for. A \<open>String\<close> or \<open>&str\<close> is the list of its UTF-8
  bytes. A panic is \<open>None\<close>; a \<open>Result\<close> is a sum with the error on the left.
\<close>

named_theorems rust_int \<open>range and arithmetic facts of the fixed-width integers\<close>
named_theorems rust_vec \<open>facts about vectors kept free of duplicates\<close>
named_theorems label_simps \<open>the label tables of the enumerations\<close>

section \<open>Fixed-width integers\<close>

definition is_i32 :: "int \<Rightarrow> bool" where
  "is_i32 x \<longleftrightarrow> - 2147483648 \<le> x \<and> x \<le> 2147483647"

definition is_i64 :: "int \<Rightarrow> bool" where
  "is_i64 x \<longleftrightarrow> - 9223372036854775808 \<le> x \<and> x \<le> 9223372036854775807"

definition i32_max :: int where
  "i32_max = 2147483647"

definition u32_max :: nat where
  "u32_max = 4294967295"

definition u64_max :: nat where
  "u64_max = 18446744073709551615"

definition i64_max :: int where
  "i64_max = 9223372036854775807"

definition usize_max :: nat where
  "usize_max = 18446744073709551615"

definition sat_i32 :: "int \<Rightarrow> int" where
  "sat_i32 x = max (- 2147483648) (min 2147483647 x)"

definition wrap_i32 :: "int \<Rightarrow> int" where
  "wrap_i32 x = (x + 2147483648) mod 4294967296 - 2147483648"

definition saturating_sub_i32 :: "int \<Rightarrow> int \<Rightarrow> int" where
  "saturating_sub_i32 a b = sat_i32 (a - b)"

definition saturating_add_i32 :: "int \<Rightarrow> int \<Rightarrow> int" where
  "saturating_add_i32 a b = sat_i32 (a + b)"

definition saturating_mul_i32 :: "int \<Rightarrow> int \<Rightarrow> int" where
  "saturating_mul_i32 a b = sat_i32 (a * b)"

definition saturating_neg_i32 :: "int \<Rightarrow> int" where
  "saturating_neg_i32 a = sat_i32 (- a)"

definition saturating_mul_usize :: "nat \<Rightarrow> nat \<Rightarrow> nat" where
  "saturating_mul_usize a b = min usize_max (a * b)"

text \<open>\<open>i32::try_from\<close> and \<open>u32::try_from\<close>: the value when it fits.\<close>

definition try_i32 :: "int \<Rightarrow> int option" where
  "try_i32 x = (if is_i32 x then Some x else None)"

definition try_u32 :: "int \<Rightarrow> nat option" where
  "try_u32 x = (if 0 \<le> x \<and> x \<le> int u32_max then Some (nat x) else None)"

lemma sat_i32_range [rust_int]: "is_i32 (sat_i32 x)"
  by (simp add: sat_i32_def is_i32_def)

lemma sat_i32_id [rust_int]: "is_i32 x \<Longrightarrow> sat_i32 x = x"
  by (simp add: sat_i32_def is_i32_def)

lemma sat_i32_mono: "x \<le> y \<Longrightarrow> sat_i32 x \<le> sat_i32 y"
  by (auto simp: sat_i32_def)

lemma wrap_i32_range [rust_int]: "is_i32 (wrap_i32 x)"
proof -
  have "0 \<le> (x + 2147483648) mod 4294967296" "(x + 2147483648) mod 4294967296 < 4294967296"
    by simp_all
  then show ?thesis by (simp add: wrap_i32_def is_i32_def)
qed

lemma wrap_i32_id [rust_int]: "is_i32 x \<Longrightarrow> wrap_i32 x = x"
  by (simp add: wrap_i32_def is_i32_def)

lemma saturating_sub_i32_ge_iff [rust_int]:
  "is_i32 d \<Longrightarrow> d \<le> saturating_sub_i32 a b \<longleftrightarrow> d \<le> a - b \<or> d = - 2147483648"
  by (auto simp: saturating_sub_i32_def sat_i32_def is_i32_def)

lemma saturating_sub_i32_nonneg [rust_int]:
  "0 \<le> d \<Longrightarrow> d \<le> saturating_sub_i32 a b \<Longrightarrow> b \<le> a"
  by (auto simp: saturating_sub_i32_def sat_i32_def)

lemma saturating_sub_i32_pos [rust_int]:
  "0 < d \<Longrightarrow> d \<le> saturating_sub_i32 a b \<Longrightarrow> b < a"
  by (auto simp: saturating_sub_i32_def sat_i32_def)

lemma saturating_sub_i32_zero_iff [rust_int]:
  "0 \<le> saturating_sub_i32 a b \<longleftrightarrow> b \<le> a"
  by (auto simp: saturating_sub_i32_def sat_i32_def)

lemma saturating_neg_i32_antimono: "a \<le> b \<Longrightarrow> saturating_neg_i32 b \<le> saturating_neg_i32 a"
  by (simp add: saturating_neg_i32_def sat_i32_mono)

section \<open>Three-way comparison and stable sorting\<close>

datatype ordering = Less | Equal | Greater

primrec reverse_ordering :: "ordering \<Rightarrow> ordering" where
  "reverse_ordering Less = Greater"
| "reverse_ordering Equal = Equal"
| "reverse_ordering Greater = Less"

primrec then_with :: "ordering \<Rightarrow> ordering \<Rightarrow> ordering" where
  "then_with Less _ = Less"
| "then_with Equal o2 = o2"
| "then_with Greater _ = Greater"

definition cmp :: "'a::linorder \<Rightarrow> 'a \<Rightarrow> ordering" where
  "cmp a b = (if a < b then Less else if a = b then Equal else Greater)"

lemma cmp_simps [simp]:
  "cmp a b = Less \<longleftrightarrow> a < b"
  "cmp a b = Equal \<longleftrightarrow> a = b"
  "cmp a b = Greater \<longleftrightarrow> b < a"
  "cmp a a = Equal"
  by (auto simp: cmp_def)

lemma reverse_ordering_iff [simp]:
  "reverse_ordering c = Less \<longleftrightarrow> c = Greater"
  "reverse_ordering c = Equal \<longleftrightarrow> c = Equal"
  "reverse_ordering c = Greater \<longleftrightarrow> c = Less"
  by (cases c; simp)+

lemma reverse_cmp: "reverse_ordering (cmp a b) = cmp b a"
  by (auto simp: cmp_def)

lemma then_with_iff:
  "then_with c d = Less \<longleftrightarrow> c = Less \<or> c = Equal \<and> d = Less"
  "then_with c d = Equal \<longleftrightarrow> c = Equal \<and> d = Equal"
  "then_with c d = Greater \<longleftrightarrow> c = Greater \<or> c = Equal \<and> d = Greater"
  by (cases c; simp)+

lemma reverse_then_with:
  "reverse_ordering (then_with c d) = then_with (reverse_ordering c) (reverse_ordering d)"
  by (cases c) simp_all

text \<open>\<open>slice::sort_by\<close> is a stable sort: elements that compare equal keep their order.\<close>

fun insort_by :: "('a \<Rightarrow> 'a \<Rightarrow> ordering) \<Rightarrow> 'a \<Rightarrow> 'a list \<Rightarrow> 'a list" where
  "insort_by c x [] = [x]"
| "insort_by c x (y # ys) = (if c x y = Greater then y # insort_by c x ys else x # y # ys)"

definition sort_by :: "('a \<Rightarrow> 'a \<Rightarrow> ordering) \<Rightarrow> 'a list \<Rightarrow> 'a list" where
  "sort_by c xs = foldr (insort_by c) xs []"

text \<open>\<open>Iterator::min_by\<close> returns the first least element, \<open>Iterator::max_by_key\<close> the last
  greatest one.\<close>

fun min_by :: "('a \<Rightarrow> 'a \<Rightarrow> ordering) \<Rightarrow> 'a list \<Rightarrow> 'a option" where
  "min_by c [] = None"
| "min_by c (x # xs) = Some (fold (\<lambda>y m. if c m y = Greater then y else m) xs x)"

fun max_by_key :: "('a \<Rightarrow> 'k::linorder) \<Rightarrow> 'a list \<Rightarrow> 'a option" where
  "max_by_key f [] = None"
| "max_by_key f (x # xs) = Some (fold (\<lambda>y m. if f y < f m then m else y) xs x)"

lemma mset_insort_by [simp]: "mset (insort_by c x xs) = add_mset x (mset xs)"
  by (induction xs) auto

lemma mset_sort_by [simp]: "mset (sort_by c xs) = mset xs"
  by (induction xs) (auto simp: sort_by_def)

lemma set_sort_by [simp]: "set (sort_by c xs) = set xs"
  by (metis mset_sort_by set_mset_mset)

lemma length_sort_by [simp]: "length (sort_by c xs) = length xs"
  by (metis mset_sort_by size_mset)

lemma max_by_key_None [simp]: "max_by_key f xs = None \<longleftrightarrow> xs = []"
  by (cases xs) auto

lemma min_by_None [simp]: "min_by c xs = None \<longleftrightarrow> xs = []"
  by (cases xs) auto

lemma fold_max_by_key:
  "fold (\<lambda>y m. if f y < f m then m else y) xs (x::'a) \<in> insert x (set xs) \<and>
   (\<forall>y \<in> insert x (set xs). (f y :: 'k::linorder) \<le> f (fold (\<lambda>y m. if f y < f m then m else y) xs x))"
proof (induction xs arbitrary: x)
  case Nil
  then show ?case by simp
next
  case (Cons z zs)
  let ?w = "if f z < f x then x else z"
  have "f x \<le> f ?w" "f z \<le> f ?w" "?w \<in> {x, z}" by auto
  then show ?case using Cons.IH [of ?w] by (auto intro: order_trans)
qed

lemma max_by_key_Some:
  "max_by_key f xs = Some m \<Longrightarrow> m \<in> set xs \<and> (\<forall>y \<in> set xs. f y \<le> f m)"
  using fold_max_by_key by (cases xs) fastforce+

text \<open>
  The contract a comparator has to meet for a sort to make sense: it is reflexive, its two
  readings agree, and it is transitive.
\<close>

locale comparator =
  fixes compare :: "'a \<Rightarrow> 'a \<Rightarrow> ordering"
  assumes refl: "compare x x = Equal"
    and swap: "compare y x = reverse_ordering (compare x y)"
    and trans: "compare x y \<noteq> Greater \<Longrightarrow> compare y z \<noteq> Greater \<Longrightarrow> compare x z \<noteq> Greater"
begin

abbreviation le :: "'a \<Rightarrow> 'a \<Rightarrow> bool" where
  "le x y \<equiv> compare x y \<noteq> Greater"

lemma le_total: "le x y \<or> le y x"
  using swap [of x y] by auto

lemma greater_le: "compare x y = Greater \<Longrightarrow> le y x"
  using swap [of x y] by auto

lemma le_antisym: "le x y \<Longrightarrow> le y x \<Longrightarrow> compare x y = Equal"
  using swap [of y x] by (cases "compare x y") auto

lemma less_trans: "compare x y = Less \<Longrightarrow> compare y z = Less \<Longrightarrow> compare x z = Less"
  by (metis ordering.distinct(3) ordering.exhaust reverse_ordering_iff(1) swap trans)

lemma sorted_insort_by:
  "sorted_wrt le xs \<Longrightarrow> sorted_wrt le (insort_by compare x xs)"
proof (induction xs)
  case Nil
  then show ?case by simp
next
  case (Cons y ys)
  have s: "set (insort_by compare x ys) = insert x (set ys)"
    by (metis mset_insort_by set_mset_add_mset_insert set_mset_mset)
  show ?case
  proof (cases "compare x y = Greater")
    case True
    with Cons greater_le show ?thesis by (auto simp: s)
  next
    case False
    with Cons.prems trans show ?thesis by auto
  qed
qed

lemma sorted_sort_by: "sorted_wrt le (sort_by compare xs)"
  by (induction xs) (auto simp: sort_by_def sorted_insort_by)

lemma sorted_mset_unique:
  assumes "sorted_wrt le xs" "sorted_wrt le ys" "mset xs = mset ys"
    and "\<And>x y. x \<in> set xs \<Longrightarrow> y \<in> set xs \<Longrightarrow> compare x y = Equal \<Longrightarrow> x = y"
  shows "xs = ys"
  using assms
proof (induction xs arbitrary: ys)
  case Nil
  then show ?case by simp
next
  case (Cons x xs)
  then obtain y ys' where ys: "ys = y # ys'"
    by (metis list.exhaust mset_zero_iff_right list.distinct(1) mset.simps(1))
  have sets: "set ys = set (x # xs)" using Cons.prems(3) by (metis set_mset_mset)
  have "x = y"
  proof (rule ccontr)
    assume "x \<noteq> y"
    with sets ys have "x \<in> set ys'" "y \<in> set xs" by auto
    with Cons.prems(1,2) ys have "le x y" "le y x" by auto
    then have "compare x y = Equal" by (rule le_antisym)
    with Cons.prems(4) \<open>y \<in> set xs\<close> \<open>x \<noteq> y\<close> show False by auto
  qed
  moreover have "xs = ys'"
    using Cons.IH [of ys'] Cons.prems ys \<open>x = y\<close> by auto
  ultimately show ?case using ys by simp
qed

lemma sort_by_perm:
  assumes "mset xs = mset ys"
    and "\<And>x y. x \<in> set xs \<Longrightarrow> y \<in> set xs \<Longrightarrow> compare x y = Equal \<Longrightarrow> x = y"
  shows "sort_by compare xs = sort_by compare ys"
  by (rule sorted_mset_unique) (use assms sorted_sort_by in auto)

lemma fold_min_by:
  "fold (\<lambda>y m. if compare m y = Greater then y else m) xs x \<in> insert x (set xs) \<and>
   (\<forall>y \<in> insert x (set xs).
      le (fold (\<lambda>y m. if compare m y = Greater then y else m) xs x) y)"
proof (induction xs arbitrary: x)
  case Nil
  then show ?case by (simp add: refl)
next
  case (Cons z zs)
  define w where "w = (if compare x z = Greater then z else x)"
  define r where "r = fold (\<lambda>y m. if compare m y = Greater then y else m) zs w"
  have w: "le w x" "le w z" "w \<in> {x, z}"
    using refl greater_le by (auto simp: w_def)
  have r: "r \<in> insert w (set zs)" "\<forall>y \<in> insert w (set zs). le r y"
    using Cons.IH [of w] by (simp_all add: r_def)
  then have "le r x" "le r z" using w trans [of r w] by auto
  with r w show ?case by (auto simp: r_def w_def)
qed

lemma min_by_Some:
  "min_by compare xs = Some m \<Longrightarrow> m \<in> set xs \<and> (\<forall>y \<in> set xs. le m y)"
  using fold_min_by by (cases xs) fastforce+

end

interpretation linorder_cmp: comparator "cmp :: 'a::linorder \<Rightarrow> 'a \<Rightarrow> ordering"
  by unfold_locales (auto simp: reverse_cmp)

text \<open>\<open>Ord\<close> of \<open>Option\<close>: \<open>None < Some\<close>.\<close>

fun cmp_option :: "('a::linorder) option \<Rightarrow> 'a option \<Rightarrow> ordering" where
  "cmp_option None None = Equal"
| "cmp_option None (Some _) = Less"
| "cmp_option (Some _) None = Greater"
| "cmp_option (Some x) (Some y) = cmp x y"

interpretation option_cmp: comparator "cmp_option :: 'a::linorder option \<Rightarrow> 'a option \<Rightarrow> ordering"
proof
  fix x y z :: "'a option"
  show "cmp_option x x = Equal" by (cases x) simp_all
  show "cmp_option y x = reverse_ordering (cmp_option x y)" by (cases x; cases y) (simp_all add: reverse_cmp)
  show "cmp_option x y \<noteq> Greater \<Longrightarrow> cmp_option y z \<noteq> Greater \<Longrightarrow> cmp_option x z \<noteq> Greater"
    by (cases x; cases y; cases z) (auto dest: linorder_cmp.trans)
qed

text \<open>Comparators compose: comparing a projection, comparing backwards, and breaking ties.\<close>

lemma comparator_on: "comparator c \<Longrightarrow> comparator (\<lambda>x y. c (f x) (f y))"
  unfolding comparator_def by blast

lemma comparator_flip: "comparator c \<Longrightarrow> comparator (\<lambda>x y. c y x)"
  unfolding comparator_def by blast

lemma comparator_Equal_cong:
  assumes "comparator c" "c x y = Equal"
  shows "c x z = c y z"
proof -
  note cl = comparator.swap [OF assms(1)] comparator.trans [OF assms(1)]
  have yx: "c y x = Equal" using cl(1) [of y x] assms(2) by simp
  show ?thesis
    using cl(1) [of z x] cl(1) [of z y] cl(2) [of x y z] cl(2) [of y x z] cl(2) [of z x y] cl(2) [of z y x]
      assms(2) yx
    by (cases "c x z"; cases "c y z") auto
qed

lemma comparator_then:
  assumes c: "comparator c" and d: "comparator d"
  shows "comparator (\<lambda>x y. then_with (c x y) (d x y))"
proof
  fix x y z
  show "then_with (c x x) (d x x) = Equal"
    by (simp add: comparator.refl [OF c] comparator.refl [OF d])
  show "then_with (c y x) (d y x) = reverse_ordering (then_with (c x y) (d x y))"
    by (simp add: comparator.swap [OF c, of y x] comparator.swap [OF d, of y x] reverse_then_with)
  assume xy: "then_with (c x y) (d x y) \<noteq> Greater" and yz: "then_with (c y z) (d y z) \<noteq> Greater"
  then have le: "c x y \<noteq> Greater" "c y z \<noteq> Greater" by (auto simp: then_with_iff)
  show "then_with (c x z) (d x z) \<noteq> Greater"
  proof (cases "c x z")
    case Less
    then show ?thesis by simp
  next
    case Equal
    then have "c x y = c z y" by (rule comparator_Equal_cong [OF c])
    moreover have "c z y = reverse_ordering (c y z)" by (rule comparator.swap [OF c])
    ultimately have "c x y = Equal \<and> c y z = Equal"
      using le by (cases "c x y"; cases "c y z"; simp)
    with xy yz have "d x y \<noteq> Greater" "d y z \<noteq> Greater" by simp_all
    then have "d x z \<noteq> Greater" by (rule comparator.trans [OF d])
    with Equal show ?thesis by simp
  next
    case Greater
    moreover have "c x z \<noteq> Greater" using le by (rule comparator.trans [OF c])
    ultimately show ?thesis by simp
  qed
qed

lemmas comparator_intros = comparator_then comparator_on comparator_flip linorder_cmp.comparator_axioms

section \<open>Vectors\<close>

text \<open>\<open>if !v.contains(&x) { v.push(x) }\<close>, folded over a list: first appearances, in order.\<close>

definition push_unique :: "'a list \<Rightarrow> 'a \<Rightarrow> 'a list" where
  "push_unique acc x = (if x \<in> set acc then acc else acc @ [x])"

definition push_all_unique :: "'a list \<Rightarrow> 'a list \<Rightarrow> 'a list" where
  "push_all_unique acc xs = foldl push_unique acc xs"

text \<open>\<open>.filter(|x| seen.insert(key(x)))\<close>: the first element of every key, in order.\<close>

fun filter_seen :: "('a \<Rightarrow> 'k) \<Rightarrow> 'k list \<Rightarrow> 'a list \<Rightarrow> 'a list" where
  "filter_seen key seen [] = []"
| "filter_seen key seen (x # xs) =
     (if key x \<in> set seen then filter_seen key seen xs
      else x # filter_seen key (key x # seen) xs)"

text \<open>\<open>Iterator::find_map\<close>.\<close>

fun find_map :: "('a \<Rightarrow> 'b option) \<Rightarrow> 'a list \<Rightarrow> 'b option" where
  "find_map f [] = None"
| "find_map f (x # xs) = (case f x of Some y \<Rightarrow> Some y | None \<Rightarrow> find_map f xs)"

text \<open>\<open>v.sort(); v.dedup();\<close>\<close>

definition sort_dedup :: "'a::linorder list \<Rightarrow> 'a list" where
  "sort_dedup xs = remdups_adj (sort xs)"

text \<open>\<open>slice::join\<close>.\<close>

fun join :: "'a list \<Rightarrow> 'a list list \<Rightarrow> 'a list" where
  "join sep [] = []"
| "join sep [x] = x"
| "join sep (x # y # ys) = x @ sep @ join sep (y # ys)"

lemma push_all_unique_simps [simp]:
  "push_all_unique acc [] = acc"
  "push_all_unique acc (x # xs) = push_all_unique (push_unique acc x) xs"
  by (simp_all add: push_all_unique_def)

lemma set_push_all_unique [rust_vec, simp]:
  "set (push_all_unique acc xs) = set acc \<union> set xs"
  by (induction xs arbitrary: acc) (auto simp: push_unique_def)

lemma distinct_push_all_unique [rust_vec]:
  "distinct acc \<Longrightarrow> distinct (push_all_unique acc xs)"
  by (induction xs arbitrary: acc) (auto simp: push_unique_def)

lemma push_all_unique_append:
  "push_all_unique acc (xs @ ys) = push_all_unique (push_all_unique acc xs) ys"
  by (simp add: push_all_unique_def)

lemma push_all_unique_absorb: "set xs \<subseteq> set acc \<Longrightarrow> push_all_unique acc xs = acc"
  by (induction xs arbitrary: acc) (auto simp: push_unique_def)

lemma push_all_unique_first_appearances: "push_all_unique [] xs = rev (remdups (rev xs))"
proof (induction xs rule: rev_induct)
  case Nil
  then show ?case by simp
next
  case (snoc x xs)
  then show ?case by (simp add: push_all_unique_append push_unique_def)
qed

lemma filter_seen_keys [rust_vec]:
  "distinct (map key (filter_seen key seen xs)) \<and>
   set (map key (filter_seen key seen xs)) = key ` set xs - set seen"
  by (induction xs arbitrary: seen) auto

lemma filter_seen_distinct [rust_vec]:
  "distinct (map key (filter_seen key seen xs))"
  "distinct (filter_seen (\<lambda>x. x) seen xs)"
  using filter_seen_keys [of key seen xs] filter_seen_keys [of "\<lambda>x. x" seen xs] by simp_all

lemma filter_seen_subset [rust_vec]: "set (filter_seen key seen xs) \<subseteq> set xs"
  by (induction xs arbitrary: seen) auto

lemma filter_seen_id:
  "distinct (map key xs) \<Longrightarrow> key ` set xs \<inter> set seen = {} \<Longrightarrow> filter_seen key seen xs = xs"
  by (induction xs arbitrary: seen) auto

lemma filter_seen_idem [rust_vec]:
  "filter_seen key [] (filter_seen key [] xs) = filter_seen key [] xs"
  by (rule filter_seen_id) (use filter_seen_keys [of key "[]" xs] in simp_all)

lemma find_map_None [simp]: "find_map f xs = None \<longleftrightarrow> (\<forall>x \<in> set xs. f x = None)"
  by (induction xs) (auto split: option.splits)

lemma find_map_Some:
  "find_map f xs = Some y \<Longrightarrow>
   \<exists>ys x zs. xs = ys @ x # zs \<and> f x = Some y \<and> (\<forall>z \<in> set ys. f z = None)"
proof (induction xs)
  case Nil
  then show ?case by simp
next
  case (Cons a xs)
  show ?case
  proof (cases "f a")
    case None
    with Cons obtain ys x zs where "xs = ys @ x # zs" "f x = Some y" "\<forall>z \<in> set ys. f z = None"
      by auto
    with None have "a # xs = (a # ys) @ x # zs \<and> f x = Some y \<and> (\<forall>z \<in> set (a # ys). f z = None)"
      by simp
    then show ?thesis by blast
  next
    case (Some b)
    with Cons.prems have "a # xs = [] @ a # xs \<and> f a = Some y \<and> (\<forall>z \<in> set []. f z = None)"
      by simp
    then show ?thesis by blast
  qed
qed

lemma set_sort_dedup [rust_vec, simp]: "set (sort_dedup xs) = set xs"
  by (simp add: sort_dedup_def)

lemma sorted_distinct_remdups_adj: "sorted xs \<Longrightarrow> distinct (remdups_adj xs) \<and> sorted (remdups_adj xs)"
  by (induction xs rule: remdups_adj.induct) (auto simp: less_le)

lemma sort_dedup_distinct [rust_vec]: "distinct (sort_dedup xs)"
  by (simp add: sort_dedup_def sorted_distinct_remdups_adj)

lemma sort_dedup_sorted [rust_vec]: "sorted (sort_dedup xs)"
  by (simp add: sort_dedup_def sorted_distinct_remdups_adj)

lemma sort_dedup_eq_sorted_list_of_set: "sort_dedup xs = sorted_list_of_set (set xs)"
  by (rule sorted_distinct_set_unique) (simp_all add: sort_dedup_distinct sort_dedup_sorted)

lemma sort_dedup_cong: "set xs = set ys \<Longrightarrow> sort_dedup xs = sort_dedup ys"
  by (simp add: sort_dedup_eq_sorted_list_of_set)

section \<open>Byte strings\<close>

definition ascii_upper :: "char \<Rightarrow> bool" where
  "ascii_upper c \<longleftrightarrow> 65 \<le> (of_char c :: nat) \<and> (of_char c :: nat) \<le> 90"

definition to_lower_char :: "char \<Rightarrow> char" where
  "to_lower_char c = (if ascii_upper c then char_of ((of_char c :: nat) + 32) else c)"

text \<open>\<open>str::to_ascii_lowercase\<close>, \<open>str::eq_ignore_ascii_case\<close>.\<close>

definition to_ascii_lowercase :: "string \<Rightarrow> string" where
  "to_ascii_lowercase s = map to_lower_char s"

definition eq_ignore_ascii_case :: "string \<Rightarrow> string \<Rightarrow> bool" where
  "eq_ignore_ascii_case a b \<longleftrightarrow> to_ascii_lowercase a = to_ascii_lowercase b"

text \<open>
  \<open>str::trim\<close> removes the characters with the Unicode property \<open>White_Space\<close> from both ends.
  On UTF-8 bytes: the encodings below. UTF-8 is self-synchronising, so a valid string that
  begins (ends) with the bytes of one of these encodings begins (ends) with that character.
\<close>

definition ws_encodings :: "string list" where
  "ws_encodings =
     [[CHR 0x09], [CHR 0x0A], [CHR 0x0B], [CHR 0x0C], [CHR 0x0D], [CHR 0x20],
      [CHR 0xC2, CHR 0x85], [CHR 0xC2, CHR 0xA0], [CHR 0xE1, CHR 0x9A, CHR 0x80],
      [CHR 0xE2, CHR 0x80, CHR 0x80], [CHR 0xE2, CHR 0x80, CHR 0x81],
      [CHR 0xE2, CHR 0x80, CHR 0x82], [CHR 0xE2, CHR 0x80, CHR 0x83],
      [CHR 0xE2, CHR 0x80, CHR 0x84], [CHR 0xE2, CHR 0x80, CHR 0x85],
      [CHR 0xE2, CHR 0x80, CHR 0x86], [CHR 0xE2, CHR 0x80, CHR 0x87],
      [CHR 0xE2, CHR 0x80, CHR 0x88], [CHR 0xE2, CHR 0x80, CHR 0x89],
      [CHR 0xE2, CHR 0x80, CHR 0x8A], [CHR 0xE2, CHR 0x80, CHR 0xA8],
      [CHR 0xE2, CHR 0x80, CHR 0xA9], [CHR 0xE2, CHR 0x80, CHR 0xAF],
      [CHR 0xE2, CHR 0x81, CHR 0x9F], [CHR 0xE3, CHR 0x80, CHR 0x80]]"

definition leading :: "string list \<Rightarrow> string \<Rightarrow> string option" where
  "leading encs s = find (\<lambda>e. e \<noteq> [] \<and> take (length e) s = e) encs"

lemma leading_shorter: "leading encs s = Some e \<Longrightarrow> e \<noteq> [] \<and> take (length e) s = e"
  unfolding leading_def by (metis (mono_tags, lifting) find_Some_iff)

function strip_leading :: "string list \<Rightarrow> string \<Rightarrow> string" where
  "strip_leading encs s =
     (case leading encs s of None \<Rightarrow> s | Some e \<Rightarrow> strip_leading encs (drop (length e) s))"
  by pat_completeness auto
termination
proof (relation "measure (\<lambda>(encs, s). length s)", goal_cases)
  case (2 encs s e)
  then have "e \<noteq> []" "take (length e) s = e" using leading_shorter by auto
  then have "length e \<noteq> 0" "s \<noteq> []" by auto
  then show ?case by (simp add: diff_less)
qed simp

declare strip_leading.simps [simp del]

definition trim_start :: "string \<Rightarrow> string" where
  "trim_start s = strip_leading ws_encodings s"

definition trim_end :: "string \<Rightarrow> string" where
  "trim_end s = rev (strip_leading (map rev ws_encodings) (rev s))"

definition trim :: "string \<Rightarrow> string" where
  "trim s = trim_end (trim_start s)"

lemma strip_leading_Nil [simp]: "strip_leading encs [] = []"
  by (subst strip_leading.simps) (auto split: option.splits dest: leading_shorter)

lemma strip_leading_id: "leading encs s = None \<Longrightarrow> strip_leading encs s = s"
  by (subst strip_leading.simps) simp

lemma leading_strip_leading: "leading encs (strip_leading encs s) = None"
proof (induction encs s rule: strip_leading.induct)
  case (1 encs s)
  show ?case
  proof (cases "leading encs s")
    case None
    then show ?thesis by (simp add: strip_leading_id)
  next
    case (Some e)
    with 1 show ?thesis by (simp add: strip_leading.simps [of encs s])
  qed
qed

lemma strip_leading_suffix: "\<exists>p. s = p @ strip_leading encs s"
proof (induction encs s rule: strip_leading.induct)
  case (1 encs s)
  show ?case
  proof (cases "leading encs s")
    case None
    then show ?thesis by (simp add: strip_leading_id)
  next
    case (Some e)
    with 1 obtain p where "drop (length e) s = p @ strip_leading encs (drop (length e) s)" by blast
    then have "s = (take (length e) s @ p) @ strip_leading encs (drop (length e) s)"
      by (metis append_assoc append_take_drop_id)
    with Some show ?thesis by (metis option.simps(5) strip_leading.simps)
  qed
qed

lemma leading_None_prefix:
  assumes "leading encs (p @ q) = None"
  shows "leading encs p = None"
proof -
  have "\<not> (e \<noteq> [] \<and> take (length e) p = e)" if "e \<in> set encs" for e
  proof
    assume e: "e \<noteq> [] \<and> take (length e) p = e"
    then have "length e \<le> length p" by (metis length_take min.cobounded1)
    then have "take (length e) (p @ q) = e" using e by simp
    with e that assms show False by (auto simp: leading_def find_None_iff)
  qed
  then show ?thesis by (auto simp: leading_def find_None_iff)
qed

lemma trim_end_prefix: "\<exists>q. s = trim_end s @ q"
proof -
  obtain p where "rev s = p @ strip_leading (map rev ws_encodings) (rev s)"
    using strip_leading_suffix by blast
  then have "s = trim_end s @ rev p" unfolding trim_end_def by (metis rev_append rev_rev_ident)
  then show ?thesis by blast
qed

lemma trim_end_idem: "trim_end (trim_end s) = trim_end s"
  by (simp add: trim_end_def leading_strip_leading strip_leading_id)

lemma trim_start_trim: "trim_start (trim s) = trim s"
proof -
  obtain q where "trim_start s = trim s @ q"
    using trim_end_prefix unfolding trim_def by blast
  then have "leading ws_encodings (trim s) = None"
    using leading_strip_leading [of ws_encodings s] leading_None_prefix
    unfolding trim_start_def by metis
  then show ?thesis by (simp add: trim_start_def strip_leading_id)
qed

lemma trim_idem [simp]: "trim (trim s) = trim s"
  using trim_start_trim trim_end_idem by (metis trim_def)

lemma trim_Nil [simp]: "trim [] = []"
  by (simp add: trim_def trim_start_def trim_end_def)

lemma trim_plain_ends:
  assumes "leading ws_encodings s = None" "leading (map rev ws_encodings) (rev s) = None"
  shows "trim s = s"
  using assms by (simp add: trim_def trim_start_def trim_end_def strip_leading_id)

lemma leading_None_chars:
  assumes "set s \<inter> set (concat encs) = {}"
  shows "leading encs s = None"
proof -
  have "\<not> (e \<noteq> [] \<and> take (length e) s = e)" if "e \<in> set encs" for e
  proof
    assume "e \<noteq> [] \<and> take (length e) s = e"
    then obtain c where "c \<in> set e" "c \<in> set s" by (metis in_set_takeD list.set_sel(1))
    with that assms show False by auto
  qed
  then show ?thesis by (auto simp: leading_def find_None_iff)
qed

lemma trim_no_whitespace: "set s \<inter> set (concat ws_encodings) = {} \<Longrightarrow> trim s = s"
  by (rule trim_plain_ends; rule leading_None_chars) simp_all

lemma to_lower_char_idem [simp]: "to_lower_char (to_lower_char c) = to_lower_char c"
  by (simp add: to_lower_char_def ascii_upper_def)

lemma to_ascii_lowercase_idem [simp]:
  "to_ascii_lowercase (to_ascii_lowercase s) = to_ascii_lowercase s"
  by (simp add: to_ascii_lowercase_def)

lemma to_ascii_lowercase_Nil_iff [simp]: "to_ascii_lowercase s = [] \<longleftrightarrow> s = []"
  by (simp add: to_ascii_lowercase_def)

text \<open>A value between single quotes, as the \<open>'{}'\<close> placeholders of messages print it.\<close>

definition quoted :: "string \<Rightarrow> string" where
  "quoted s = [CHR 0x27] @ s @ [CHR 0x27]"

subsection \<open>Decimal numbers\<close>

definition digit_char :: "nat \<Rightarrow> char" where
  "digit_char d = char_of (48 + d)"

definition is_digit :: "char \<Rightarrow> bool" where
  "is_digit c \<longleftrightarrow> 48 \<le> (of_char c :: nat) \<and> (of_char c :: nat) \<le> 57"

definition digit_value :: "char \<Rightarrow> nat" where
  "digit_value c = of_char c - 48"

text \<open>\<open>Display\<close> for unsigned and signed integers.\<close>

fun show_nat :: "nat \<Rightarrow> string" where
  "show_nat n = (if n < 10 then [digit_char n] else show_nat (n div 10) @ [digit_char (n mod 10)])"

declare show_nat.simps [simp del]

definition show_int :: "int \<Rightarrow> string" where
  "show_int i = (if i < 0 then ''-'' @ show_nat (nat (- i)) else show_nat (nat i))"

text \<open>The value of a digit string, most significant digit first.\<close>

definition digits_value :: "string \<Rightarrow> nat" where
  "digits_value s = foldl (\<lambda>n c. n * 10 + digit_value c) 0 s"

text \<open>
  \<open>str::parse\<close> at an unsigned type: an optional plus sign, then one or more ASCII digits, with
  a value no larger than the type's maximum.
\<close>

definition strip_plus :: "string \<Rightarrow> string" where
  "strip_plus s = (case s of c # cs \<Rightarrow> if c = CHR ''+'' then cs else s | [] \<Rightarrow> [])"

definition parse_uint :: "nat \<Rightarrow> string \<Rightarrow> nat option" where
  "parse_uint bound s =
     (let ds = strip_plus s
      in if ds \<noteq> [] \<and> list_all is_digit ds \<and> digits_value ds \<le> bound
         then Some (digits_value ds) else None)"

abbreviation parse_u32 :: "string \<Rightarrow> nat option" where
  "parse_u32 \<equiv> parse_uint u32_max"

abbreviation parse_u64 :: "string \<Rightarrow> nat option" where
  "parse_u64 \<equiv> parse_uint u64_max"

lemma digit_char_simps [simp]:
  "d < 10 \<Longrightarrow> is_digit (digit_char d)"
  "d < 10 \<Longrightarrow> digit_value (digit_char d) = d"
  by (simp_all add: is_digit_def digit_char_def digit_value_def)

lemma digits_value_snoc [simp]: "digits_value (s @ [c]) = digits_value s * 10 + digit_value c"
  by (simp add: digits_value_def)

lemma show_nat_digits: "list_all is_digit (show_nat n) \<and> digits_value (show_nat n) = n \<and> show_nat n \<noteq> []"
proof (induction n rule: show_nat.induct)
  case (1 n)
  show ?case
  proof (cases "n < 10")
    case True
    then show ?thesis by (simp add: show_nat.simps [of n] digits_value_def)
  next
    case False
    with 1 have "list_all is_digit (show_nat (n div 10))" "digits_value (show_nat (n div 10)) = n div 10"
      by simp_all
    with False show ?thesis by (simp add: show_nat.simps [of n])
  qed
qed

lemma is_digit_plus: "\<not> is_digit (CHR ''+'')"
  by (simp add: is_digit_def)

lemma parse_show_nat [simp]: "n \<le> bound \<Longrightarrow> parse_uint bound (show_nat n) = Some n"
proof -
  assume "n \<le> bound"
  obtain c cs where s: "show_nat n = c # cs" using show_nat_digits [of n] by (cases "show_nat n") auto
  with show_nat_digits [of n] have "is_digit c" by simp
  then have "c \<noteq> CHR ''+''" using is_digit_plus by blast
  with s have "strip_plus (show_nat n) = show_nat n" by (simp add: strip_plus_def)
  with \<open>n \<le> bound\<close> show_nat_digits [of n] show ?thesis by (simp add: parse_uint_def)
qed

lemma parse_uint_bound: "parse_uint bound s = Some n \<Longrightarrow> n \<le> bound"
  by (auto simp: parse_uint_def Let_def split: if_splits)

text \<open>\<open>str::split(',')\<close> (any separator character) and \<open>str::split_once(':')\<close>.\<close>

fun split_on :: "char \<Rightarrow> string \<Rightarrow> string list" where
  "split_on sep [] = [[]]"
| "split_on sep (c # cs) =
     (if c = sep then [] # split_on sep cs
      else case split_on sep cs of [] \<Rightarrow> [[c]] | w # ws \<Rightarrow> (c # w) # ws)"

fun split_once :: "char \<Rightarrow> string \<Rightarrow> (string \<times> string) option" where
  "split_once sep [] = None"
| "split_once sep (c # cs) =
     (if c = sep then Some ([], cs)
      else map_option (\<lambda>(a, b). (c # a, b)) (split_once sep cs))"

lemma split_on_nonempty [simp]: "split_on sep s \<noteq> []"
  by (induction s) (auto split: list.splits)

lemma split_once_Some:
  "split_once sep s = Some (a, b) \<longleftrightarrow> s = a @ sep # b \<and> sep \<notin> set a"
proof (induction s arbitrary: a)
  case Nil
  then show ?case by simp
next
  case (Cons c s)
  then show ?case by (cases a) auto
qed

text \<open>\<open>str::to_ascii_uppercase\<close>, \<open>str::replace(&[char], "")\<close>, \<open>str::starts_with\<close>,
  \<open>str::strip_prefix\<close>, \<open>str::strip_suffix\<close> and \<open>str::split_once\<close> with a string pattern.\<close>

definition ascii_lower :: "char \<Rightarrow> bool" where
  "ascii_lower c \<longleftrightarrow> 97 \<le> (of_char c :: nat) \<and> (of_char c :: nat) \<le> 122"

definition to_upper_char :: "char \<Rightarrow> char" where
  "to_upper_char c = (if ascii_lower c then char_of ((of_char c :: nat) - 32) else c)"

definition to_ascii_uppercase :: "string \<Rightarrow> string" where
  "to_ascii_uppercase s = map to_upper_char s"

definition without_chars :: "char list \<Rightarrow> string \<Rightarrow> string" where
  "without_chars cs s = filter (\<lambda>c. c \<notin> set cs) s"

definition starts_with :: "string \<Rightarrow> string \<Rightarrow> bool" where
  "starts_with s p \<longleftrightarrow> take (length p) s = p"

definition strip_prefix :: "string \<Rightarrow> string \<Rightarrow> string option" where
  "strip_prefix s p = (if starts_with s p then Some (drop (length p) s) else None)"

definition strip_suffix :: "char \<Rightarrow> string \<Rightarrow> string option" where
  "strip_suffix c s = (if s \<noteq> [] \<and> last s = c then Some (butlast s) else None)"

fun split_once_str :: "string \<Rightarrow> string \<Rightarrow> (string \<times> string) option" where
  "split_once_str p s =
     (if starts_with s p then Some ([], drop (length p) s)
      else case s of [] \<Rightarrow> None | c # cs \<Rightarrow> map_option (\<lambda>(a, b). (c # a, b)) (split_once_str p cs))"

declare split_once_str.simps [simp del]

text \<open>\<open>filter(|value| !value.trim().is_empty())\<close>.\<close>

definition filled :: "string option \<Rightarrow> string option" where
  "filled v = (case v of Some s \<Rightarrow> if trim s = [] then None else v | None \<Rightarrow> None)"

definition is_ascii_hexdigit :: "char \<Rightarrow> bool" where
  "is_ascii_hexdigit c \<longleftrightarrow> is_digit c \<or> to_lower_char c \<in> set ''abcdef''"

text \<open>\<open>Option::or\<close>.\<close>

definition or_else :: "'a option \<Rightarrow> 'a option \<Rightarrow> 'a option" where
  "or_else a b = (case a of None \<Rightarrow> b | Some _ \<Rightarrow> a)"

text \<open>\<open>Result::and_then\<close>, the \<open>?\<close> operator.\<close>

definition and_then :: "'e + 'a \<Rightarrow> ('a \<Rightarrow> 'e + 'b) \<Rightarrow> 'e + 'b" where
  "and_then r f = (case r of Inl e \<Rightarrow> Inl e | Inr x \<Rightarrow> f x)"

lemma and_then_simps [simp]: "and_then (Inl e) f = Inl e" "and_then (Inr x) f = f x"
  by (simp_all add: and_then_def)

lemma and_then_Inr_iff: "and_then m f = Inr y \<longleftrightarrow> (\<exists>x. m = Inr x \<and> f x = Inr y)"
  by (cases m) simp_all

lemma and_then_Inl_iff: "and_then m f = Inl e \<longleftrightarrow> m = Inl e \<or> (\<exists>x. m = Inr x \<and> f x = Inl e)"
  by (cases m) simp_all

text \<open>\<open>str::parse::<i64>\<close>.\<close>

definition parse_i64 :: "string \<Rightarrow> int option" where
  "parse_i64 s =
     (case s of
        c # ds \<Rightarrow>
          if c = CHR ''-'' then
            (if ds \<noteq> [] \<and> list_all is_digit ds \<and> digits_value ds \<le> 9223372036854775808
             then Some (- int (digits_value ds)) else None)
          else map_option int (parse_uint 9223372036854775807 s)
      | [] \<Rightarrow> None)"

text \<open>\<open>Iterator::position\<close>.\<close>

fun position :: "('a \<Rightarrow> bool) \<Rightarrow> 'a list \<Rightarrow> nat option" where
  "position P [] = None"
| "position P (x # xs) = (if P x then Some 0 else map_option Suc (position P xs))"

lemma starts_with_iff: "starts_with s p \<longleftrightarrow> (\<exists>t. s = p @ t)"
  unfolding starts_with_def by (metis append_eq_conv_conj append_take_drop_id)

lemma strip_prefix_Some: "strip_prefix s p = Some t \<longleftrightarrow> s = p @ t"
  unfolding strip_prefix_def starts_with_def by (metis append_eq_conv_conj option.distinct(1) option.inject)

lemma split_once_str_Some:
  "split_once_str p s = Some (a, b) \<Longrightarrow> s = a @ p @ b"
proof (induction p s arbitrary: a rule: split_once_str.induct)
  case (1 p s)
  show ?case
  proof (cases "starts_with s p")
    case True
    with 1(2) show ?thesis by (simp add: split_once_str.simps [of p s] starts_with_def) (metis append_take_drop_id)
  next
    case False
    with 1(2) obtain c cs a' where "s = c # cs" "split_once_str p cs = Some (a', b)" "a = c # a'"
      by (auto simp: split_once_str.simps [of p s] split: list.splits)
    with 1(1) False show ?thesis by simp
  qed
qed

lemma position_None [simp]: "position P xs = None \<longleftrightarrow> (\<forall>x \<in> set xs. \<not> P x)"
  by (induction xs) auto

lemma position_Some:
  "position P xs = Some i \<Longrightarrow> i < length xs \<and> P (xs ! i) \<and> (\<forall>j < i. \<not> P (xs ! j))"
proof (induction xs arbitrary: i)
  case (Cons x xs)
  show ?case
  proof (cases "P x")
    case False
    with Cons.prems obtain k where "position P xs = Some k" "i = Suc k" by auto
    with Cons.IH [of k] False show ?thesis by (auto simp: nth_Cons split: nat.split)
  qed (use Cons.prems in auto)
qed simp

end
