(* ===== verification/Time_Interface.thy ===== *)
theory Time_Interface
  imports Prelude
begin

text \<open>
  The interface to the date-time crate \<open>chrono\<close>, which is not part of the repository. A
  \<open>DateTime<Utc>\<close> is the instant it denotes, in nanoseconds since the Unix epoch, and a
  \<open>TimeDelta\<close> (\<open>Duration\<close>) is its length in nanoseconds, so that comparing two instants and
  subtracting them is integer arithmetic. Every operation of the crate that can fail is a
  field of the record \<open>chrono\<close>, an argument of the definitions that call it; \<open>None\<close> is the
  crate's documented panic. The locale \<open>chrono_time\<close> states the documented behaviour and
  proves what its clients use; it is interpreted on \<open>chrono_ns\<close>, plain range-checked integer
  arithmetic.
\<close>

type_synonym datetime = int
type_synonym timedelta = int

abbreviation ns_per_second :: int where
  "ns_per_second \<equiv> 1000000000"

abbreviation ns_per_minute :: int where
  "ns_per_minute \<equiv> 60000000000"

abbreviation ns_per_hour :: int where
  "ns_per_hour \<equiv> 3600000000000"

text \<open>\<open>TimeDelta\<close> holds at most \<open>i64::MAX\<close> milliseconds: the largest whole second count.\<close>

definition delta_max_seconds :: int where
  "delta_max_seconds = 9223372036854775"

record chrono =
  dt_min :: datetime \<comment> \<open>\<open>DateTime::MIN_UTC\<close>\<close>
  dt_max :: datetime \<comment> \<open>\<open>DateTime::MAX_UTC\<close>\<close>
  ch_seconds :: "int \<Rightarrow> timedelta option" \<comment> \<open>\<open>TimeDelta::seconds\<close>\<close>
  ch_minutes :: "int \<Rightarrow> timedelta option" \<comment> \<open>\<open>TimeDelta::minutes\<close>\<close>
  ch_hours :: "int \<Rightarrow> timedelta option" \<comment> \<open>\<open>TimeDelta::hours\<close>\<close>
  ch_add :: "datetime \<Rightarrow> timedelta \<Rightarrow> datetime option" \<comment> \<open>\<open>DateTime + TimeDelta\<close>\<close>
  ch_num_seconds :: "timedelta \<Rightarrow> int" \<comment> \<open>\<open>TimeDelta::num_seconds\<close>\<close>
  ch_num_hours :: "timedelta \<Rightarrow> int" \<comment> \<open>\<open>TimeDelta::num_hours\<close>\<close>
  ch_rfc3339 :: "string \<Rightarrow> datetime option" \<comment> \<open>\<open>DateTime::parse_from_rfc3339(..).ok()\<close>\<close>
  ch_ymd :: "string \<Rightarrow> datetime option"
    \<comment> \<open>\<open>NaiveDate::parse_from_str(.., "%Y-%m-%d").ok()\<close>, at midnight UTC\<close>

definition in_range :: "chrono \<Rightarrow> datetime \<Rightarrow> bool" where
  "in_range ch t \<longleftrightarrow> dt_min ch \<le> t \<and> t \<le> dt_max ch"

locale chrono_time =
  fixes ch :: chrono
  assumes epoch: "in_range ch 0"
    and seconds: "ch_seconds ch s =
      (if \<bar>s\<bar> \<le> delta_max_seconds then Some (s * ns_per_second) else None)"
    and minutes: "ch_minutes ch m =
      (if \<bar>m * 60\<bar> \<le> delta_max_seconds then Some (m * ns_per_minute) else None)"
    and hours: "ch_hours ch h =
      (if \<bar>h * 3600\<bar> \<le> delta_max_seconds then Some (h * ns_per_hour) else None)"
    and add: "ch_add ch t d = (if in_range ch (t + d) then Some (t + d) else None)"
    and num_seconds: "ch_num_seconds ch d = d sdiv ns_per_second"
    and num_hours: "ch_num_hours ch d = d sdiv ns_per_hour"
begin

lemma add_Some [dest]: "ch_add ch t d = Some u \<Longrightarrow> u = t + d \<and> in_range ch u"
  by (simp add: add split: if_splits)

lemma minutes_Some [dest]: "ch_minutes ch m = Some d \<Longrightarrow> d = m * ns_per_minute"
  by (simp add: minutes split: if_splits)

lemma seconds_Some [dest]: "ch_seconds ch s = Some d \<Longrightarrow> d = s * ns_per_second"
  by (simp add: seconds split: if_splits)

lemma num_seconds_nonneg: "0 \<le> d \<Longrightarrow> ch_num_seconds ch d = d div ns_per_second"
  by (simp add: num_seconds signed_divide_int_def sgn_if)

lemma num_hours_nonneg: "0 \<le> d \<Longrightarrow> ch_num_hours ch d = d div ns_per_hour"
  by (simp add: num_hours signed_divide_int_def sgn_if)

lemma num_hours_max0: "max 0 (ch_num_hours ch d) = max 0 d div ns_per_hour"
  by (auto simp: num_hours signed_divide_int_def sgn_if max_def)

end

text \<open>
  The clock used by the concrete instances: exact integer arithmetic between the bounds
  \<open>chrono\<close> documents for \<open>DateTime<Utc>\<close>, and no textual dates.
\<close>

definition chrono_ns :: chrono where
  "chrono_ns =
     (let lo = - 8334601228800 * ns_per_second; hi = 8210266876800 * ns_per_second - 1
      in \<lparr>dt_min = lo, dt_max = hi,
          ch_seconds = (\<lambda>s. if \<bar>s\<bar> \<le> delta_max_seconds then Some (s * ns_per_second) else None),
          ch_minutes = (\<lambda>m. if \<bar>m * 60\<bar> \<le> delta_max_seconds then Some (m * ns_per_minute) else None),
          ch_hours = (\<lambda>h. if \<bar>h * 3600\<bar> \<le> delta_max_seconds then Some (h * ns_per_hour) else None),
          ch_add = (\<lambda>t d. if lo \<le> t + d \<and> t + d \<le> hi then Some (t + d) else None),
          ch_num_seconds = (\<lambda>d. d sdiv ns_per_second),
          ch_num_hours = (\<lambda>d. d sdiv ns_per_hour),
          ch_rfc3339 = (\<lambda>_. None), ch_ymd = (\<lambda>_. None)\<rparr>)"

interpretation ns: chrono_time chrono_ns
  by unfold_locales (simp_all add: chrono_ns_def Let_def in_range_def)

lemmas chrono_ns_simps = chrono_ns_def Let_def delta_max_seconds_def in_range_def

end
