(* ===== verification/Backoff.thy ===== *)
theory Backoff
  imports Time_Interface
begin

text \<open>
  Escalating provider backoff. The ladder, its override and the download-client failure run
  are \<open>scryer-application/src/escalation_backoff.rs\<close>; the in-memory tracker of the indexers
  is \<open>IndexerBackoffTracker\<close> in \<open>scryer-infrastructure-acquisition/src/indexers/search_client.rs\<close>;
  the schedule of the metadata batch is \<open>scryer-application/src/catalog/title_hydration.rs\<close>.
  Each read of the clock is an argument. Metric gauges and log lines are left out: they read
  the state and do not change it.
\<close>

section \<open>The ladder\<close>

record EscalationLadder =
  periods_secs :: "nat list"

definition EscalationLadder_new :: "nat list \<Rightarrow> EscalationLadder" where
  "EscalationLadder_new ps = \<lparr>periods_secs = ps\<rparr>"

definition max_level :: "EscalationLadder \<Rightarrow> nat" where
  "max_level l = length (periods_secs l) - 1"

text \<open>\<open>secs as i64\<close>: the two's-complement reading of a \<open>u64\<close>.\<close>

definition u64_as_i64 :: "nat \<Rightarrow> int" where
  "u64_as_i64 n = (if n < 9223372036854775808 then int n else int n - 18446744073709551616)"

text \<open>Indexing a ladder without rungs panics, and so does a period \<open>TimeDelta\<close> cannot hold.\<close>

definition period :: "chrono \<Rightarrow> EscalationLadder \<Rightarrow> nat \<Rightarrow> timedelta option" where
  "period ch l level =
     (let i = min level (max_level l)
      in if i < length (periods_secs l) then ch_seconds ch (u64_as_i64 (periods_secs l ! i)) else None)"

definition ladder_disabled_until :: "chrono \<Rightarrow> EscalationLadder \<Rightarrow> nat \<Rightarrow> datetime \<Rightarrow> datetime option" where
  "ladder_disabled_until ch l level now = do { d \<leftarrow> period ch l level; ch_add ch now d }"

text \<open>The climbing loop; \<open>at_least\<close> is a \<open>std::time::Duration\<close> in nanoseconds.\<close>

function climb :: "nat list \<Rightarrow> nat \<Rightarrow> nat \<Rightarrow> nat" where
  "climb ps at_least level =
     (if level < length ps - 1 \<and> ps ! level * 1000000000 < at_least
      then climb ps at_least (Suc level) else level)"
  by pat_completeness auto
termination
  by (relation "measure (\<lambda>(ps, at_least, level). length ps - level)") auto

declare climb.simps [simp del]

definition level_covering :: "EscalationLadder \<Rightarrow> nat \<Rightarrow> nat \<Rightarrow> nat option" where
  "level_covering l level at_least =
     (if periods_secs l = [] then None
      else Some (climb (periods_secs l) at_least (min level (max_level l))))"

definition INDEXER_BACKOFF_LADDER :: EscalationLadder where
  "INDEXER_BACKOFF_LADDER = EscalationLadder_new [5 * 60, 10 * 60, 15 * 60, 30 * 60, 60 * 60]"

definition MINIMUM_INDEXER_BACKOFF_RUNG :: nat where
  "MINIMUM_INDEXER_BACKOFF_RUNG = 5"

fun parse_rungs :: "string list \<Rightarrow> nat list option" where
  "parse_rungs [] = Some []"
| "parse_rungs (f # fs) =
     (case parse_u64 (trim f) of
        None \<Rightarrow> None
      | Some seconds \<Rightarrow>
          map_option (\<lambda>rest. max seconds MINIMUM_INDEXER_BACKOFF_RUNG # rest) (parse_rungs fs))"

definition parse_indexer_backoff_ladder :: "string option \<Rightarrow> EscalationLadder option" where
  "parse_indexer_backoff_ladder raw =
     (case map_option trim raw of
        None \<Rightarrow> None
      | Some v \<Rightarrow>
          if v = [] then None
          else case parse_rungs (split_on (CHR '','') v) of
                 None \<Rightarrow> None
               | Some ps \<Rightarrow>
                   if list_ex (\<lambda>(a, b). b \<le> a) (zip ps (tl ps)) then None
                   else Some (EscalationLadder_new ps))"

text \<open>\<open>INDEXER_BACKOFF_LADDER_IN_FORCE\<close>, with the environment variable's value as argument.\<close>

definition indexer_backoff_ladder :: "string option \<Rightarrow> EscalationLadder" where
  "indexer_backoff_ladder env =
     (case parse_indexer_backoff_ladder env of Some l \<Rightarrow> l | None \<Rightarrow> INDEXER_BACKOFF_LADDER)"

definition DOWNLOAD_CLIENT_BACKOFF_LADDER :: EscalationLadder where
  "DOWNLOAD_CLIENT_BACKOFF_LADDER = EscalationLadder_new [0, 60, 5 * 60, 15 * 60, 30 * 60, 60 * 60]"

definition METADATA_GATEWAY_BATCH_BACKOFF_LADDER :: EscalationLadder where
  "METADATA_GATEWAY_BATCH_BACKOFF_LADDER =
     EscalationLadder_new [30, 60, 5 * 60, 15 * 60, 30 * 60, 60 * 60]"

abbreviation DOWNLOAD_CLIENT_ESCALATION_GRACE :: timedelta where
  "DOWNLOAD_CLIENT_ESCALATION_GRACE \<equiv> 5 * ns_per_minute"

section \<open>Download clients\<close>

record DownloadClientStatus =
  initial_failure_at :: "datetime option"
  most_recent_failure_at :: "datetime option"
  escalation_level :: nat
  disabled_until :: "datetime option"

definition DownloadClientStatus_default :: DownloadClientStatus where
  "DownloadClientStatus_default =
     \<lparr>initial_failure_at = None, most_recent_failure_at = None, escalation_level = 0,
      disabled_until = None\<rparr>"

definition is_blocked :: "DownloadClientStatus \<Rightarrow> datetime \<Rightarrow> bool" where
  "is_blocked s now = (case disabled_until s of Some until \<Rightarrow> now < until | None \<Rightarrow> False)"

definition after_failure :: "chrono \<Rightarrow> DownloadClientStatus \<Rightarrow> datetime \<Rightarrow> DownloadClientStatus option" where
  "after_failure ch s now =
     (let ladder = DOWNLOAD_CLIENT_BACKOFF_LADDER
      in do {
        (initial, level) \<leftarrow>
          (if escalation_level s = 0 then Some (now, 1)
           else do {
             let initial = (case initial_failure_at s of Some t \<Rightarrow> t | None \<Rightarrow> now);
             grace_end \<leftarrow> ch_add ch initial DOWNLOAD_CLIENT_ESCALATION_GRACE;
             Some (initial,
                   if grace_end < now then min (escalation_level s + 1) (max_level ladder)
                   else escalation_level s)
           });
        until \<leftarrow> ladder_disabled_until ch ladder level now;
        Some \<lparr>initial_failure_at = Some initial, most_recent_failure_at = Some now,
              escalation_level = level, disabled_until = Some until\<rparr>
      })"

text \<open>
  The stored row of one client (\<open>download_client_status_store.rs\<close>): a failure applies
  \<open>after_failure\<close> to the stored status, an absent row reading as the default; success and
  \<open>clear\<close> delete the row.
\<close>

type_synonym client_status_table = "string \<rightharpoonup> DownloadClientStatus"

definition load_status :: "client_status_table \<Rightarrow> string \<Rightarrow> DownloadClientStatus" where
  "load_status tbl xid = (case tbl xid of Some s \<Rightarrow> s | None \<Rightarrow> DownloadClientStatus_default)"

definition record_client_failure ::
  "chrono \<Rightarrow> client_status_table \<Rightarrow> string \<Rightarrow> datetime \<Rightarrow> (DownloadClientStatus \<times> client_status_table) option"
where
  "record_client_failure ch tbl xid now =
     do { next_status \<leftarrow> after_failure ch (load_status tbl xid) now;
          Some (next_status, tbl(xid \<mapsto> next_status)) }"

definition clear_client_status :: "client_status_table \<Rightarrow> string \<Rightarrow> client_status_table" where
  "clear_client_status tbl xid = tbl(xid := None)"

definition record_client_success :: "client_status_table \<Rightarrow> string \<Rightarrow> client_status_table" where
  "record_client_success tbl xid = clear_client_status tbl xid"

section \<open>The indexer tracker\<close>

record IndexerBackoffState =
  ib_escalation_level :: nat
  ib_disabled_until :: "datetime option"
  ib_indexer_name :: string

definition IndexerBackoffState_default :: IndexerBackoffState where
  "IndexerBackoffState_default =
     \<lparr>ib_escalation_level = 0, ib_disabled_until = None, ib_indexer_name = []\<rparr>"

record IndexerSystemBackoff =
  sb_disabled_until :: datetime
  sb_escalation_level :: nat

type_synonym tracker = "string \<rightharpoonup> IndexerBackoffState"

text \<open>\<open>entry(id).or_insert_with(default)\<close>, then the rename.\<close>

definition tracker_entry :: "tracker \<Rightarrow> string \<Rightarrow> string \<Rightarrow> IndexerBackoffState" where
  "tracker_entry m xid name =
     (let s = (case m xid of Some s \<Rightarrow> s | None \<Rightarrow> IndexerBackoffState_default)
      in if name \<noteq> [] then s\<lparr>ib_indexer_name := name\<rparr> else s)"

definition seed_persisted ::
  "tracker \<Rightarrow> string \<Rightarrow> string \<Rightarrow> IndexerSystemBackoff \<Rightarrow> datetime \<Rightarrow> tracker" where
  "seed_persisted m xid name backoff now =
     (let s = tracker_entry m xid name;
          s = s\<lparr>ib_escalation_level := max (ib_escalation_level s) (sb_escalation_level backoff)\<rparr>
      in m(xid \<mapsto>
           (if now < sb_disabled_until backoff
               \<and> (case ib_disabled_until s of None \<Rightarrow> True | Some cur \<Rightarrow> cur < sb_disabled_until backoff)
            then s\<lparr>ib_disabled_until := Some (sb_disabled_until backoff)\<rparr> else s)))"

text \<open>The part of \<open>record_failure\<close> past the early return: climb the ladder and disable.\<close>

definition escalate_failure ::
  "chrono \<Rightarrow> EscalationLadder \<Rightarrow> tracker \<Rightarrow> string \<Rightarrow> IndexerBackoffState \<Rightarrow> nat option \<Rightarrow> datetime
     \<Rightarrow> (IndexerSystemBackoff \<times> tracker) option" where
  "escalate_failure ch ladder m xid s retry_after now =
     do {
       period_index \<leftarrow> level_covering ladder (ib_escalation_level s)
                        (case retry_after of Some d \<Rightarrow> d | None \<Rightarrow> 0);
       until \<leftarrow> ladder_disabled_until ch ladder period_index now;
       Some (\<lparr>sb_disabled_until = until, sb_escalation_level = period_index + 1\<rparr>,
             m(xid \<mapsto> s\<lparr>ib_escalation_level := period_index + 1, ib_disabled_until := Some until\<rparr>))
     }"

definition tracker_record_failure ::
  "chrono \<Rightarrow> EscalationLadder \<Rightarrow> tracker \<Rightarrow> string \<Rightarrow> string \<Rightarrow> nat option \<Rightarrow> datetime \<Rightarrow> datetime
     \<Rightarrow> (IndexerSystemBackoff \<times> tracker) option" where
  "tracker_record_failure ch ladder m xid name retry_after check_now now =
     (let s = tracker_entry m xid name
      in case ib_disabled_until s of
           Some until \<Rightarrow>
             if check_now < until
             then Some (\<lparr>sb_disabled_until = until, sb_escalation_level = ib_escalation_level s\<rparr>,
                        m(xid \<mapsto> s))
             else escalate_failure ch ladder m xid s retry_after now
         | None \<Rightarrow> escalate_failure ch ladder m xid s retry_after now)"

definition tracker_record_success :: "tracker \<Rightarrow> string \<Rightarrow> bool \<times> tracker" where
  "tracker_record_success m xid =
     (case m xid of
        None \<Rightarrow> (False, m)
      | Some s \<Rightarrow>
          (let s = s\<lparr>ib_escalation_level := ib_escalation_level s - 1\<rparr>
           in (True, m(xid \<mapsto> (if ib_escalation_level s = 0 then s\<lparr>ib_disabled_until := None\<rparr> else s)))))"

definition tracker_clear :: "tracker \<Rightarrow> string \<Rightarrow> bool \<times> tracker" where
  "tracker_clear m xid = (m xid \<noteq> None, m(xid := None))"

definition is_disabled :: "tracker \<Rightarrow> string \<Rightarrow> datetime \<Rightarrow> datetime option" where
  "is_disabled m xid now =
     (case Option.bind (m xid) ib_disabled_until of
        Some until \<Rightarrow> if now < until then Some until else None
      | None \<Rightarrow> None)"

section \<open>The metadata batch schedule\<close>

record MovieSmgIdentityBackfillSchedule =
  next_at :: "datetime option"
  consecutive_failures :: nat

definition is_due :: "MovieSmgIdentityBackfillSchedule \<Rightarrow> datetime \<Rightarrow> bool" where
  "is_due s now = (case next_at s of None \<Rightarrow> True | Some t \<Rightarrow> t \<le> now)"

text \<open>The tick interval is five seconds.\<close>

definition schedule_after_success ::
  "chrono \<Rightarrow> MovieSmgIdentityBackfillSchedule \<Rightarrow> datetime \<Rightarrow> MovieSmgIdentityBackfillSchedule option" where
  "schedule_after_success ch s now =
     do { t \<leftarrow> ch_add ch now (5 * ns_per_second);
          Some (s\<lparr>consecutive_failures := 0, next_at := Some t\<rparr>) }"

text \<open>\<open>retry_after\<close> is what \<open>gateway_retry_after\<close> reads off the error.\<close>

definition schedule_after_failure ::
  "chrono \<Rightarrow> MovieSmgIdentityBackfillSchedule \<Rightarrow> datetime \<Rightarrow> nat option
     \<Rightarrow> (timedelta \<times> MovieSmgIdentityBackfillSchedule) option" where
  "schedule_after_failure ch s now retry_after =
     (let ladder = METADATA_GATEWAY_BATCH_BACKOFF_LADDER
      in do {
        level \<leftarrow> (case retry_after of
                    None \<Rightarrow> Some (consecutive_failures s)
                  | Some d \<Rightarrow> level_covering ladder (consecutive_failures s) d);
        delay \<leftarrow> period ch ladder level;
        t \<leftarrow> ch_add ch now delay;
        Some (delay, s\<lparr>consecutive_failures := level + 1, next_at := Some t\<rparr>)
      })"

section \<open>Facts about the ladder\<close>

text \<open>What every ladder in force satisfies: it has a rung, its rungs ascend, and each is a
  whole number of seconds \<open>TimeDelta\<close> can hold.\<close>

definition ladder_ok :: "EscalationLadder \<Rightarrow> bool" where
  "ladder_ok l \<longleftrightarrow> periods_secs l \<noteq> [] \<and> sorted_wrt (<) (periods_secs l) \<and>
     (\<forall>p \<in> set (periods_secs l). int p \<le> delta_max_seconds)"

definition top_period :: "EscalationLadder \<Rightarrow> int" where
  "top_period l = int (last (periods_secs l)) * ns_per_second"

lemmas ladder_defs = INDEXER_BACKOFF_LADDER_def DOWNLOAD_CLIENT_BACKOFF_LADDER_def
  METADATA_GATEWAY_BATCH_BACKOFF_LADDER_def EscalationLadder_new_def

lemma shipped_ladders_ok:
  "ladder_ok INDEXER_BACKOFF_LADDER" "ladder_ok DOWNLOAD_CLIENT_BACKOFF_LADDER"
  "ladder_ok METADATA_GATEWAY_BATCH_BACKOFF_LADDER"
  by (simp_all add: ladder_ok_def ladder_defs delta_max_seconds_def)

lemma climb_spec:
  "level \<le> length ps - 1 \<Longrightarrow>
   level \<le> climb ps a level \<and> climb ps a level \<le> length ps - 1 \<and>
   (climb ps a level < length ps - 1 \<longrightarrow> a \<le> ps ! climb ps a level * 1000000000) \<and>
   (\<forall>i. level \<le> i \<and> i < climb ps a level \<longrightarrow> ps ! i * 1000000000 < a)"
proof (induction ps a level rule: climb.induct)
  case (1 ps a level)
  show ?case
  proof (cases "level < length ps - 1 \<and> ps ! level * 1000000000 < a")
    case True
    with 1 have IH: "Suc level \<le> climb ps a (Suc level)" "climb ps a (Suc level) \<le> length ps - 1"
      "climb ps a (Suc level) < length ps - 1 \<longrightarrow> a \<le> ps ! climb ps a (Suc level) * 1000000000"
      "\<forall>i. Suc level \<le> i \<and> i < climb ps a (Suc level) \<longrightarrow> ps ! i * 1000000000 < a"
      by auto
    have "climb ps a level = climb ps a (Suc level)" using True by (subst climb.simps) simp
    moreover have "ps ! i * 1000000000 < a" if "level \<le> i" "i < climb ps a (Suc level)" for i
      using that IH(4) True by (cases "i = level") auto
    ultimately show ?thesis using IH by auto
  next
    case False
    then have "climb ps a level = level" by (subst climb.simps) auto
    with False 1(2) show ?thesis by auto
  qed
qed

lemma level_covering_range: "level_covering l level a = Some r \<Longrightarrow> r \<le> max_level l"
  using climb_spec [of "min level (max_level l)" "periods_secs l" a]
  by (auto simp: level_covering_def max_level_def split: if_splits)

lemma level_covering_total: "ladder_ok l \<Longrightarrow> \<exists>r. level_covering l level a = Some r"
  by (simp add: level_covering_def ladder_ok_def)

lemma ladder_rung_le_top:
  assumes "ladder_ok l" "i < length (periods_secs l)"
  shows "periods_secs l ! i \<le> last (periods_secs l)"
proof -
  have "sorted (periods_secs l)"
    using assms(1) by (auto simp: ladder_ok_def intro: strict_sorted_imp_sorted)
  then show ?thesis using assms sorted_nth_mono [of "periods_secs l" i "length (periods_secs l) - 1"]
    by (auto simp: last_conv_nth ladder_ok_def)
qed

context chrono_time
begin

lemma period_ok:
  assumes "ladder_ok l"
  shows "period ch l level = Some (int (periods_secs l ! min level (max_level l)) * ns_per_second)"
    and "periods_secs l ! min level (max_level l) \<le> last (periods_secs l)"
proof -
  let ?i = "min level (max_level l)"
  have i: "?i < length (periods_secs l)" using assms
    by (cases "periods_secs l") (auto simp: ladder_ok_def max_level_def min_def)
  then have "periods_secs l ! ?i \<in> set (periods_secs l)" by simp
  with assms have "int (periods_secs l ! ?i) \<le> delta_max_seconds" by (auto simp: ladder_ok_def)
  then show "period ch l level = Some (int (periods_secs l ! ?i) * ns_per_second)"
    using i by (simp add: period_def u64_as_i64_def seconds Let_def delta_max_seconds_def)
  show "periods_secs l ! ?i \<le> last (periods_secs l)" using ladder_rung_le_top [OF assms i] .
qed

lemma disabled_until_bound:
  assumes "ladder_ok l" "ladder_disabled_until ch l level now = Some until"
  shows "until = now + int (periods_secs l ! min level (max_level l)) * ns_per_second"
    and "until \<le> now + top_period l" and "now \<le> until"
  using assms period_ok [OF assms(1), of level] by (auto simp: ladder_disabled_until_def top_period_def)

end

section \<open>The override\<close>

lemma parse_rungs_ge: "parse_rungs fs = Some ps \<Longrightarrow> length ps = length fs \<and> (\<forall>p \<in> set ps. 5 \<le> p)"
  by (induction fs arbitrary: ps)
    (auto simp: MINIMUM_INDEXER_BACKOFF_RUNG_def split: option.splits)

lemma adjacent_ascending: "\<not> list_ex (\<lambda>(a, b). b \<le> a) (zip ps (tl ps)) \<longleftrightarrow> sorted_wrt (<) (ps :: nat list)"
proof (induction ps rule: induct_list012)
  case (3 x y zs)
  then show ?case by (auto simp: not_le intro: less_trans)
qed simp_all

text \<open>
  The separator of the rendered list never occurs in a number, so splitting undoes joining.
\<close>

lemma split_on_plain: "sep \<notin> set s \<Longrightarrow> split_on sep s = [s]"
  by (induction s) auto

lemma split_on_append: "sep \<notin> set s \<Longrightarrow> split_on sep (s @ sep # t) = s # split_on sep t"
  by (induction s) auto

lemma split_on_join:
  "xs \<noteq> [] \<Longrightarrow> \<forall>x \<in> set xs. sep \<notin> set x \<Longrightarrow> split_on sep (join [sep] xs) = xs"
  by (induction "[sep]" xs rule: join.induct) (auto simp: split_on_plain split_on_append)

lemma leading_ws_first: "c \<notin> hd ` set ws_encodings \<Longrightarrow> leading ws_encodings (c # cs) = None"
  by (auto simp: leading_def find_None_iff ws_encodings_def)

lemma leading_ws_last:
  "c \<notin> last ` set ws_encodings \<Longrightarrow> leading (map rev ws_encodings) (rev (cs @ [c])) = None"
  by (auto simp: leading_def find_None_iff ws_encodings_def)

lemma digit_not_ws: "is_digit c \<Longrightarrow> c \<notin> hd ` set ws_encodings \<and> c \<notin> last ` set ws_encodings"
  by (auto simp: is_digit_def ws_encodings_def)

lemma trim_digit_ends:
  assumes "s \<noteq> []" "is_digit (hd s)" "is_digit (last s)"
  shows "trim s = s"
proof (rule trim_plain_ends)
  show "leading ws_encodings s = None"
    using assms digit_not_ws leading_ws_first by (cases s) auto
  show "leading (map rev ws_encodings) (rev s) = None"
    using assms digit_not_ws leading_ws_last by (cases s rule: rev_cases) auto
qed

lemma show_nat_ends: "show_nat n \<noteq> [] \<and> is_digit (hd (show_nat n)) \<and> is_digit (last (show_nat n))"
  using show_nat_digits [of n] by (auto simp: list_all_iff)

lemma show_nat_no_comma: "CHR '','' \<notin> set (show_nat n)"
  using show_nat_digits [of n] by (auto simp: list_all_iff is_digit_def)

lemma join_ends:
  "xs \<noteq> [] \<Longrightarrow> \<forall>x \<in> set xs. x \<noteq> [] \<Longrightarrow>
   join sep xs \<noteq> [] \<and> hd (join sep xs) = hd (hd xs) \<and> last (join sep xs) = last (last xs)"
  by (induction sep xs rule: join.induct) auto

lemma parse_rungs_show:
  "\<forall>p \<in> set ps. 5 \<le> p \<and> p \<le> u64_max \<Longrightarrow> parse_rungs (map show_nat ps) = Some ps"
  by (induction ps)
    (auto simp: trim_digit_ends show_nat_ends MINIMUM_INDEXER_BACKOFF_RUNG_def)

section \<open>The download-client failure run\<close>

text \<open>
  One client's history: failures at given instants and successes. A step is one call of the
  repository; \<open>client_reach ch s now\<close> says that \<open>s\<close> is the stored status after some history
  whose last event happened no later than \<open>now\<close>, with time never running backwards.
\<close>

inductive client_reach :: "chrono \<Rightarrow> DownloadClientStatus \<Rightarrow> datetime \<Rightarrow> bool" for ch where
  healthy: "client_reach ch DownloadClientStatus_default now"
| wait: "client_reach ch s t \<Longrightarrow> t \<le> now \<Longrightarrow> client_reach ch s now"
| failure: "client_reach ch s now \<Longrightarrow> after_failure ch s now = Some s' \<Longrightarrow> client_reach ch s' now"
| success: "client_reach ch s now \<Longrightarrow> client_reach ch DownloadClientStatus_default now"

text \<open>
  The invariant: a healthy status carries nothing; a failing one knows when the run started
  and when it last failed, sits on a rung between 1 and the top, is disabled for exactly that
  rung from its last failure, and is above rung 1 only if the run outlasted the grace period.
\<close>

definition client_inv :: "DownloadClientStatus \<Rightarrow> datetime \<Rightarrow> bool" where
  "client_inv s now \<longleftrightarrow>
     (if escalation_level s = 0 then s = DownloadClientStatus_default
      else escalation_level s \<le> max_level DOWNLOAD_CLIENT_BACKOFF_LADDER \<and>
           (\<exists>first recent.
              initial_failure_at s = Some first \<and> most_recent_failure_at s = Some recent \<and>
              first \<le> recent \<and> recent \<le> now \<and>
              disabled_until s = Some (recent +
                int (periods_secs DOWNLOAD_CLIENT_BACKOFF_LADDER ! escalation_level s) * ns_per_second) \<and>
              (escalation_level s > 1 \<longrightarrow> first + DOWNLOAD_CLIENT_ESCALATION_GRACE < recent)))"

lemma client_ladder_max [simp]: "max_level DOWNLOAD_CLIENT_BACKOFF_LADDER = 5"
  by (simp add: max_level_def ladder_defs)

context chrono_time
begin

lemma client_disabled_until:
  assumes "ladder_disabled_until ch DOWNLOAD_CLIENT_BACKOFF_LADDER level now = Some u" "level \<le> 5"
  shows "u = now + int (periods_secs DOWNLOAD_CLIENT_BACKOFF_LADDER ! level) * ns_per_second"
  using disabled_until_bound(1) [OF shipped_ladders_ok(2) assms(1)] assms(2) by (simp add: min_absorb1)

lemma after_failure_cases:
  assumes "after_failure ch s now = Some s'"
  obtains (first) "escalation_level s = 0" "escalation_level s' = 1" "initial_failure_at s' = Some now"
  | (again) first where "escalation_level s \<noteq> 0"
      "first = (case initial_failure_at s of Some t \<Rightarrow> t | None \<Rightarrow> now)"
      "initial_failure_at s' = Some first"
      "escalation_level s' = (if first + DOWNLOAD_CLIENT_ESCALATION_GRACE < now
         then min (escalation_level s + 1) 5 else escalation_level s)"
proof (cases "escalation_level s = 0")
  case True
  with assms first show thesis by (auto simp: after_failure_def Let_def bind_eq_Some_conv)
next
  case False
  define t where "t = (case initial_failure_at s of Some t \<Rightarrow> t | None \<Rightarrow> now)"
  from False assms obtain g where "ch_add ch t DOWNLOAD_CLIENT_ESCALATION_GRACE = Some g"
    and s': "initial_failure_at s' = Some t"
      "escalation_level s' = (if g < now then min (escalation_level s + 1) 5 else escalation_level s)"
    by (auto simp: after_failure_def Let_def bind_eq_Some_conv t_def)
  then have "g = t + DOWNLOAD_CLIENT_ESCALATION_GRACE" by blast
  with again [OF False t_def] s' show thesis by simp
qed

lemma after_failure_result:
  assumes "after_failure ch s now = Some s'" "escalation_level s \<le> 5"
  shows "most_recent_failure_at s' = Some now" "1 \<le> escalation_level s'" "escalation_level s' \<le> 5"
    "disabled_until s' = Some (now +
       int (periods_secs DOWNLOAD_CLIENT_BACKOFF_LADDER ! escalation_level s') * ns_per_second)"
proof -
  show "most_recent_failure_at s' = Some now"
    using assms(1) by (auto simp: after_failure_def Let_def bind_eq_Some_conv)
  show lv: "1 \<le> escalation_level s'" "escalation_level s' \<le> 5"
    using assms by (auto elim!: after_failure_cases)
  have "ladder_disabled_until ch DOWNLOAD_CLIENT_BACKOFF_LADDER (escalation_level s') now = disabled_until s'"
    using assms(1) by (auto simp: after_failure_def Let_def bind_eq_Some_conv split: if_splits)
  moreover have "disabled_until s' \<noteq> None"
    using assms(1) by (auto simp: after_failure_def Let_def bind_eq_Some_conv)
  ultimately show "disabled_until s' = Some (now +
       int (periods_secs DOWNLOAD_CLIENT_BACKOFF_LADDER ! escalation_level s') * ns_per_second)"
    using client_disabled_until lv(2) by (cases "disabled_until s'") auto
qed

lemma client_inv_failure:
  assumes "client_inv s now" "after_failure ch s now = Some s'"
  shows "client_inv s' now"
proof -
  have le: "escalation_level s \<le> 5" using assms(1) by (auto simp: client_inv_def split: if_splits)
  note r = after_failure_result [OF assms(2) le]
  from assms(2) show ?thesis
  proof (cases rule: after_failure_cases)
    case first
    then show ?thesis using r by (auto simp: client_inv_def)
  next
    case (again first)
    with assms(1) obtain f0 recent where "initial_failure_at s = Some f0" "f0 \<le> recent" "recent \<le> now"
      "escalation_level s > 1 \<longrightarrow> f0 + DOWNLOAD_CLIENT_ESCALATION_GRACE < recent"
      by (auto simp: client_inv_def)
    with again r show ?thesis by (auto simp: client_inv_def)
  qed
qed

lemma client_inv_mono: "client_inv s t \<Longrightarrow> t \<le> now \<Longrightarrow> client_inv s now"
  by (fastforce simp: client_inv_def split: if_splits)

lemma client_reach_inv: "client_reach ch s now \<Longrightarrow> client_inv s now"
proof (induction rule: client_reach.induct)
  case (healthy now)
  then show ?case by (simp add: client_inv_def DownloadClientStatus_default_def)
next
  case (wait s t now)
  then show ?case using client_inv_mono by blast
next
  case (failure s now s')
  then show ?case using client_inv_failure by blast
next
  case (success s now)
  then show ?case by (simp add: client_inv_def DownloadClientStatus_default_def)
qed

lemma client_period_bounds:
  "1 \<le> n \<Longrightarrow> n \<le> 5 \<Longrightarrow>
   60 \<le> periods_secs DOWNLOAD_CLIENT_BACKOFF_LADDER ! n \<and> periods_secs DOWNLOAD_CLIENT_BACKOFF_LADDER ! n \<le> 3600"
proof -
  assume "1 \<le> n" "n \<le> 5"
  then have "n \<in> {1, 2, 3, 4, 5}" by auto
  then show ?thesis by (auto simp: ladder_defs)
qed

end

text \<open>
  A download client's backoff is bounded and earned: in every status a history of
  failures and successes can produce, a blocked client failed at most one hour ago, and a
  client on any rung above the first is in a failure run that outlasted the five-minute
  grace period.
\<close>

theorem client_backoff_bounded:
  assumes "chrono_time ch" and "client_reach ch s now"
  shows "(is_blocked s now \<longrightarrow>
            (\<exists>recent. most_recent_failure_at s = Some recent \<and> recent \<le> now \<and>
               now < recent + 60 * ns_per_minute)) \<and>
         (escalation_level s > 1 \<longrightarrow>
            (\<exists>first recent. initial_failure_at s = Some first \<and> most_recent_failure_at s = Some recent \<and>
               first + DOWNLOAD_CLIENT_ESCALATION_GRACE < recent))"
proof -
  have inv: "client_inv s now" using chrono_time.client_reach_inv [OF assms] .
  show ?thesis
  proof (cases "escalation_level s = 0")
    case True
    with inv show ?thesis by (simp add: client_inv_def DownloadClientStatus_default_def is_blocked_def)
  next
    case False
    with inv obtain first recent where i: "escalation_level s \<le> 5" "initial_failure_at s = Some first"
      "most_recent_failure_at s = Some recent" "recent \<le> now"
      "disabled_until s = Some (recent +
         int (periods_secs DOWNLOAD_CLIENT_BACKOFF_LADDER ! escalation_level s) * ns_per_second)"
      "escalation_level s > 1 \<longrightarrow> first + DOWNLOAD_CLIENT_ESCALATION_GRACE < recent"
      by (auto simp: client_inv_def)
    have "periods_secs DOWNLOAD_CLIENT_BACKOFF_LADDER ! escalation_level s \<le> 3600"
      using chrono_time.client_period_bounds [OF assms(1)] False i(1) by simp
    then have "int (periods_secs DOWNLOAD_CLIENT_BACKOFF_LADDER ! escalation_level s) * ns_per_second
        \<le> 60 * ns_per_minute" by linarith
    with i show ?thesis by (auto simp: is_blocked_def)
  qed
qed

lemma client_reach_example:
  "client_reach chrono_ns
     \<lparr>initial_failure_at = Some 0, most_recent_failure_at = Some 0, escalation_level = 1,
      disabled_until = Some (60 * ns_per_second)\<rparr> 0"
  by (rule client_reach.failure [OF client_reach.healthy])
    (simp add: after_failure_def DownloadClientStatus_default_def ladder_disabled_until_def
      period_def max_level_def ladder_defs u64_as_i64_def chrono_ns_simps)

theorem client_backoff_bounded_witness:
  "is_blocked \<lparr>initial_failure_at = Some 0, most_recent_failure_at = Some 0, escalation_level = 1,
      disabled_until = Some (60 * ns_per_second)\<rparr> 0 \<and>
   (\<exists>recent. most_recent_failure_at \<lparr>initial_failure_at = Some 0, most_recent_failure_at = Some 0,
      escalation_level = 1, disabled_until = Some (60 * ns_per_second)\<rparr> = Some recent \<and>
      recent \<le> 0 \<and> 0 < recent + 60 * ns_per_minute)"
  using client_backoff_bounded [OF ns.chrono_time_axioms client_reach_example]
  by (simp add: is_blocked_def)

section \<open>The indexer tracker as a state machine\<close>

text \<open>
  The tracker's states under any interleaving of its calls: failures (with any
  \<open>Retry-After\<close>), successes, clears, and seeding with rows an earlier process persisted under
  the same ladder, which carry that process's own bounds.
\<close>

inductive tracker_reach :: "chrono \<Rightarrow> EscalationLadder \<Rightarrow> tracker \<Rightarrow> datetime \<Rightarrow> bool" for ch l where
  new: "tracker_reach ch l Map.empty now"
| wait: "tracker_reach ch l m t \<Longrightarrow> t \<le> now \<Longrightarrow> tracker_reach ch l m now"
| failure: "tracker_reach ch l m t \<Longrightarrow> t \<le> check_now \<Longrightarrow> check_now \<le> now \<Longrightarrow>
    tracker_record_failure ch l m i name retry_after check_now now = Some (b, m') \<Longrightarrow>
    tracker_reach ch l m' now"
| success: "tracker_reach ch l m now \<Longrightarrow> tracker_reach ch l (snd (tracker_record_success m i)) now"
| clear: "tracker_reach ch l m now \<Longrightarrow> tracker_reach ch l (snd (tracker_clear m i)) now"
| seed: "tracker_reach ch l m now \<Longrightarrow> sb_escalation_level b \<le> max_level l + 1 \<Longrightarrow>
    sb_disabled_until b \<le> now + top_period l \<Longrightarrow> tracker_reach ch l (seed_persisted m i name b now) now"

definition entry_inv :: "EscalationLadder \<Rightarrow> datetime \<Rightarrow> IndexerBackoffState \<Rightarrow> bool" where
  "entry_inv l now s \<longleftrightarrow> ib_escalation_level s \<le> max_level l + 1 \<and>
     (\<forall>u. ib_disabled_until s = Some u \<longrightarrow> u \<le> now + top_period l)"

definition tracker_inv :: "EscalationLadder \<Rightarrow> datetime \<Rightarrow> tracker \<Rightarrow> bool" where
  "tracker_inv l now m \<longleftrightarrow> (\<forall>i s. m i = Some s \<longrightarrow> entry_inv l now s)"

lemma tracker_inv_upd: "tracker_inv l now m \<Longrightarrow> entry_inv l now s \<Longrightarrow> tracker_inv l now (m(i \<mapsto> s))"
  by (simp add: tracker_inv_def)

lemma tracker_inv_mono: "tracker_inv l t m \<Longrightarrow> t \<le> now \<Longrightarrow> tracker_inv l now m"
  by (fastforce simp: tracker_inv_def entry_inv_def)

lemma tracker_entry_fields [simp]:
  "ib_disabled_until (tracker_entry m i name) = Option.bind (m i) ib_disabled_until"
  "ib_escalation_level (tracker_entry m i name) = (case m i of Some s \<Rightarrow> ib_escalation_level s | None \<Rightarrow> 0)"
  by (cases "m i"; simp add: tracker_entry_def IndexerBackoffState_default_def Let_def)+

lemma entry_inv_entry: "tracker_inv l now m \<Longrightarrow> entry_inv l now (tracker_entry m i name)"
  by (cases "m i")
    (auto simp: tracker_inv_def entry_inv_def)

context chrono_time
begin

lemma escalate_failure_result:
  assumes "ladder_ok l" "escalate_failure ch l m i s ra now = Some (b, m')"
  obtains r where "level_covering l (ib_escalation_level s) (case ra of Some d \<Rightarrow> d | None \<Rightarrow> 0) = Some r"
    "r \<le> max_level l" "sb_escalation_level b = r + 1"
    "sb_disabled_until b = now + int (periods_secs l ! r) * ns_per_second"
    "sb_disabled_until b \<le> now + top_period l"
    "m' = m(i \<mapsto> s\<lparr>ib_escalation_level := r + 1, ib_disabled_until := Some (sb_disabled_until b)\<rparr>)"
proof -
  from assms(2) obtain r u where r: "level_covering l (ib_escalation_level s)
      (case ra of Some d \<Rightarrow> d | None \<Rightarrow> 0) = Some r"
    and u: "ladder_disabled_until ch l r now = Some u"
    and b: "b = \<lparr>sb_disabled_until = u, sb_escalation_level = r + 1\<rparr>"
      "m' = m(i \<mapsto> s\<lparr>ib_escalation_level := r + 1, ib_disabled_until := Some u\<rparr>)"
    by (auto simp: escalate_failure_def bind_eq_Some_conv)
  have le: "r \<le> max_level l" using level_covering_range [OF r] .
  show thesis
    by (rule that [OF r le]) (use disabled_until_bound [OF assms(1) u] b le in \<open>simp_all add: min_absorb1\<close>)
qed

lemma tracker_failure_inv:
  assumes "ladder_ok l" "tracker_inv l now m"
    "tracker_record_failure ch l m i name ra check_now now = Some (b, m')"
  shows "tracker_inv l now m'"
proof -
  let ?s = "tracker_entry m i name"
  have s: "entry_inv l now ?s" using assms(2) by (rule entry_inv_entry)
  from assms(3) consider "m' = m(i \<mapsto> ?s)" | "escalate_failure ch l m i ?s ra now = Some (b, m')"
    by (auto simp: tracker_record_failure_def Let_def split: option.splits if_splits)
  then show ?thesis
  proof cases
    case 1
    then show ?thesis using tracker_inv_upd [OF assms(2) s] by simp
  next
    case 2
    from escalate_failure_result [OF assms(1) 2] show ?thesis
      using tracker_inv_upd [OF assms(2)] by (fastforce simp: entry_inv_def)
  qed
qed

lemma tracker_seed_inv:
  assumes "tracker_inv l now m" "sb_escalation_level b \<le> max_level l + 1"
    "sb_disabled_until b \<le> now + top_period l"
  shows "tracker_inv l now (seed_persisted m i name b now)"
  unfolding seed_persisted_def Let_def
  by (rule tracker_inv_upd [OF assms(1)])
    (use entry_inv_entry [OF assms(1), of i name] assms(2,3) in \<open>auto simp: entry_inv_def\<close>)

lemma tracker_reach_inv:
  assumes "ladder_ok l"
  shows "tracker_reach ch l m now \<Longrightarrow> tracker_inv l now m"
proof (induction rule: tracker_reach.induct)
  case (new now)
  then show ?case by (simp add: tracker_inv_def)
next
  case (wait m t now)
  then show ?case using tracker_inv_mono by blast
next
  case (failure m t check_now now i name retry_after b m')
  then show ?case using tracker_failure_inv [OF assms] tracker_inv_mono by (meson order_trans)
next
  case (success m now i)
  then show ?case
    by (fastforce simp: tracker_record_success_def tracker_inv_def entry_inv_def Let_def split: option.splits)
next
  case (clear m now i)
  then show ?case by (simp add: tracker_clear_def tracker_inv_def)
next
  case (seed m now b i name)
  then show ?case using tracker_seed_inv by blast
qed

end


text \<open>
  A \<open>Retry-After\<close> is honoured by quantising it: recording a failure of an indexer that is
  not already disabled disables it until some rung of the ladder after now, and that rung
  covers the requested delay unless it is the top one; a failure recorded while the indexer
  is disabled changes neither its level nor its deadline.
\<close>

theorem tracker_failure_quantises:
  assumes "chrono_time ch" and "ladder_ok l"
    and "tracker_record_failure ch l m i name ra check_now now = Some (b, m')"
  shows "case is_disabled m i check_now of
      Some until \<Rightarrow> sb_disabled_until b = until \<and> map_option ib_disabled_until (m' i) = Some (Some until) \<and>
        map_option ib_escalation_level (m' i) = map_option ib_escalation_level (m i)
    | None \<Rightarrow> \<exists>r \<le> max_level l.
        sb_disabled_until b = now + int (periods_secs l ! r) * ns_per_second \<and>
        (r = max_level l \<or> (case ra of Some d \<Rightarrow> int d | None \<Rightarrow> 0) \<le> sb_disabled_until b - now) \<and>
        map_option ib_disabled_until (m' i) = Some (Some (sb_disabled_until b)) \<and>
        map_option ib_escalation_level (m' i) = Some (r + 1)"
proof (cases "is_disabled m i check_now")
  case (Some until)
  then obtain s where "m i = Some s" "ib_disabled_until s = Some until" "check_now < until"
    by (auto simp: is_disabled_def bind_eq_Some_conv split: option.splits if_splits)
  with Some assms(3) show ?thesis
    by (auto simp: tracker_record_failure_def Let_def)
next
  case None
  define s where "s = tracker_entry m i name"
  have "ib_disabled_until s = None \<or> (\<exists>u. ib_disabled_until s = Some u \<and> \<not> check_now < u)"
    using None by (auto simp: is_disabled_def s_def split: option.splits if_splits)
  with assms(3) have e: "escalate_failure ch l m i s ra now = Some (b, m')"
    by (auto simp: tracker_record_failure_def s_def Let_def)
  from chrono_time.escalate_failure_result [OF assms(1,2) e] obtain r where
    r: "level_covering l (ib_escalation_level s) (case ra of Some d \<Rightarrow> d | None \<Rightarrow> 0) = Some r"
      "r \<le> max_level l" "sb_disabled_until b = now + int (periods_secs l ! r) * ns_per_second"
      "m' = m(i \<mapsto> s\<lparr>ib_escalation_level := r + 1, ib_disabled_until := Some (sb_disabled_until b)\<rparr>)"
    by metis
  have "r < max_level l \<longrightarrow> (case ra of Some d \<Rightarrow> d | None \<Rightarrow> 0) \<le> periods_secs l ! r * 1000000000"
    using r(1) climb_spec [of "min (ib_escalation_level s) (max_level l)" "periods_secs l"
        "case ra of Some d \<Rightarrow> d | None \<Rightarrow> 0"]
    by (auto simp: level_covering_def max_level_def split: if_splits)
  then have "r = max_level l \<or> (case ra of Some d \<Rightarrow> int d | None \<Rightarrow> 0) \<le> sb_disabled_until b - now"
    using r(2,3) by (cases ra) (auto simp: le_less)
  with None r show ?thesis by auto
qed

text \<open>
  Concrete runs: an indexer fails at the epoch, is disabled for five minutes, fails again at
  ten minutes asking for twenty, and is disabled for the thirty-minute rung.
\<close>

definition example_tracker :: tracker where
  "example_tracker = [''idx'' \<mapsto>
     \<lparr>ib_escalation_level = 1, ib_disabled_until = Some (5 * ns_per_minute), ib_indexer_name = ''Idx''\<rparr>]"

lemmas tracker_eval = tracker_record_failure_def tracker_entry_def IndexerBackoffState_default_def
  escalate_failure_def level_covering_def max_level_def ladder_disabled_until_def period_def
  u64_as_i64_def ladder_defs

lemma example_tracker_first:
  "tracker_record_failure chrono_ns INDEXER_BACKOFF_LADDER Map.empty ''idx'' ''Idx'' None 0 0 =
   Some (\<lparr>sb_disabled_until = 5 * ns_per_minute, sb_escalation_level = 1\<rparr>, example_tracker)"
  by (simp add: tracker_eval example_tracker_def chrono_ns_simps climb.simps)

lemma example_tracker_second:
  "\<exists>b m'. tracker_record_failure chrono_ns INDEXER_BACKOFF_LADDER example_tracker ''idx'' ''Idx''
     (Some (1200 * 1000000000)) (10 * ns_per_minute) (10 * ns_per_minute) = Some (b, m')"
  by (simp add: tracker_eval example_tracker_def chrono_ns_simps climb.simps)


theorem tracker_failure_quantises_witness:
  "\<exists>b m' r. r \<le> max_level INDEXER_BACKOFF_LADDER \<and>
     tracker_record_failure chrono_ns INDEXER_BACKOFF_LADDER example_tracker ''idx'' ''Idx''
       (Some (1200 * 1000000000)) (10 * ns_per_minute) (10 * ns_per_minute) = Some (b, m') \<and>
     sb_disabled_until b = 10 * ns_per_minute + int (periods_secs INDEXER_BACKOFF_LADDER ! r) * ns_per_second"
proof -
  obtain b m' where f: "tracker_record_failure chrono_ns INDEXER_BACKOFF_LADDER example_tracker ''idx'' ''Idx''
     (Some (1200 * 1000000000)) (10 * ns_per_minute) (10 * ns_per_minute) = Some (b, m')"
    using example_tracker_second by blast
  have "is_disabled example_tracker ''idx'' (10 * ns_per_minute) = None"
    by (simp add: is_disabled_def example_tracker_def)
  with tracker_failure_quantises [OF ns.chrono_time_axioms shipped_ladders_ok(1) f] f
  show ?thesis by auto
qed

section \<open>The properties of the ladder\<close>

text \<open>
  Climbing for a \<open>Retry-After\<close> finds the least sufficient rung: the level returned is at
  or above the clamped starting level, never past the top, covers the delay unless it is the
  top, and every rung it skipped was too short.
\<close>

theorem level_covering_least:
  assumes "level_covering l level at_least = Some r"
  shows "min level (max_level l) \<le> r \<and> r \<le> max_level l \<and>
    (r = max_level l \<or> at_least \<le> periods_secs l ! r * 1000000000) \<and>
    list_all (\<lambda>i. periods_secs l ! i * 1000000000 < at_least) [min level (max_level l)..<r]"
  using assms climb_spec [of "min level (max_level l)" "periods_secs l" at_least]
  by (auto simp: level_covering_def max_level_def list_all_iff split: if_splits)

theorem level_covering_least_witness:
  "level_covering INDEXER_BACKOFF_LADDER 0 (1200 * 1000000000) = Some 3 \<and>
   (1200 * 1000000000 :: nat) \<le> periods_secs INDEXER_BACKOFF_LADDER ! 3 * 1000000000"
proof -
  have "level_covering INDEXER_BACKOFF_LADDER 0 (1200 * 1000000000) = Some 3"
    by (simp add: level_covering_def max_level_def ladder_defs climb.simps)
  with level_covering_least [OF this] show ?thesis by (simp add: max_level_def ladder_defs)
qed

text \<open>
  The override of the indexer ladder is read back exactly: rendering any strictly
  ascending, non-empty list of rungs of at least five seconds, separated by commas, and
  parsing it yields that ladder, and any ladder the parser accepts has those properties.
\<close>

theorem indexer_ladder_override_roundtrip:
  "(ps \<noteq> [] \<and> sorted_wrt (<) ps \<and> list_all (\<lambda>p. 5 \<le> p \<and> p \<le> u64_max) ps \<longrightarrow>
      parse_indexer_backoff_ladder (Some (join '','' (map show_nat ps))) = Some \<lparr>periods_secs = ps\<rparr>) \<and>
   (case parse_indexer_backoff_ladder raw of
      None \<Rightarrow> indexer_backoff_ladder raw = INDEXER_BACKOFF_LADDER
    | Some l \<Rightarrow> indexer_backoff_ladder raw = l \<and> periods_secs l \<noteq> [] \<and>
        sorted_wrt (<) (periods_secs l) \<and> list_all (\<lambda>p. 5 \<le> p) (periods_secs l))"
proof (intro conjI impI)
  assume ps: "ps \<noteq> [] \<and> sorted_wrt (<) ps \<and> list_all (\<lambda>p. 5 \<le> p \<and> p \<le> u64_max) ps"
  let ?s = "join '','' (map show_nat ps)"
  have e: "?s \<noteq> []" "hd ?s = hd (show_nat (hd ps))" "last ?s = last (show_nat (last ps))"
    using ps join_ends [of "map show_nat ps" "'',''"] show_nat_ends by (auto simp: hd_map last_map)
  then have t: "trim ?s = ?s" using show_nat_ends trim_digit_ends by simp
  have "split_on (CHR '','') ?s = map show_nat ps"
    using ps split_on_join [of "map show_nat ps"] show_nat_no_comma by simp
  moreover have "parse_rungs (map show_nat ps) = Some ps"
    using ps parse_rungs_show by (simp add: list_all_iff)
  ultimately show "parse_indexer_backoff_ladder (Some ?s) = Some \<lparr>periods_secs = ps\<rparr>"
    using ps e(1) t adjacent_ascending [of ps]
    by (simp add: parse_indexer_backoff_ladder_def EscalationLadder_new_def)
next
  have "periods_secs l \<noteq> [] \<and> sorted_wrt (<) (periods_secs l) \<and> list_all (\<lambda>p. 5 \<le> p) (periods_secs l)"
    if l: "parse_indexer_backoff_ladder raw = Some l" for l
  proof -
    from l obtain v ps where "parse_rungs (split_on (CHR '','') v) = Some ps"
      "\<not> list_ex (\<lambda>(a, b). b \<le> a) (zip ps (tl ps))" "l = \<lparr>periods_secs = ps\<rparr>"
      by (auto simp: parse_indexer_backoff_ladder_def EscalationLadder_new_def
          split: option.splits if_splits)
    then show ?thesis using parse_rungs_ge adjacent_ascending [of ps] split_on_nonempty
      by (fastforce simp: list_all_iff)
  qed
  then show "case parse_indexer_backoff_ladder raw of
      None \<Rightarrow> indexer_backoff_ladder raw = INDEXER_BACKOFF_LADDER
    | Some l \<Rightarrow> indexer_backoff_ladder raw = l \<and> periods_secs l \<noteq> [] \<and>
        sorted_wrt (<) (periods_secs l) \<and> list_all (\<lambda>p. 5 \<le> p) (periods_secs l)"
    by (auto simp: indexer_backoff_ladder_def split: option.splits)
qed

theorem indexer_ladder_override_roundtrip_witness:
  "parse_indexer_backoff_ladder (Some (join '','' (map show_nat [15, 30, 90]))) = Some \<lparr>periods_secs = [15, 30, 90]\<rparr>"
  using indexer_ladder_override_roundtrip [of "[15, 30, 90]" None] by (simp add: u64_max_def)

end
