(* ===== verification/Domain_Types.thy ===== *)
theory Domain_Types
  imports Prelude
begin

text \<open>
  The enumerations and records the acquisition and import components share, from
  \<open>scryer-domain/src/lib.rs\<close>, \<open>scryer-application/src/contracts.rs\<close> and
  \<open>scryer-application/src/types.rs\<close>: media facets, episode and collection catalog rows with
  their absolute-numbering scale, submission scopes and purposes, file roles, download source
  kinds, import skip reasons and request-rule outcomes. Each label table is one \<open>as_str\<close> and
  one \<open>parse\<close> function; the locale \<open>label_codec\<close> is the contract that what is written can be
  read back, interpreted on every such pair.
\<close>

section \<open>Label tables\<close>

locale label_codec =
  fixes as_str :: "'a \<Rightarrow> string" and parse :: "string \<Rightarrow> 'a option"
  assumes parse_as_str: "parse (as_str x) = Some x"
begin

lemma as_str_inj: "as_str x = as_str y \<Longrightarrow> x = y"
  by (metis option.inject parse_as_str)

lemma reparse: "parse s = Some x \<Longrightarrow> parse (as_str x) = parse s"
  by (simp add: parse_as_str)

lemma normalise_idem:
  "map_option as_str (Option.bind (map_option as_str (parse s)) parse) = map_option as_str (parse s)"
  by (cases "parse s") (simp_all add: parse_as_str)

end

datatype MediaFacet = Movie | Series | Anime

primrec MediaFacet_as_str :: "MediaFacet \<Rightarrow> string" where
  "MediaFacet_as_str Movie = ''movie''"
| "MediaFacet_as_str Series = ''series''"
| "MediaFacet_as_str Anime = ''anime''"

definition MediaFacet_parse :: "string \<Rightarrow> MediaFacet option" where
  "MediaFacet_parse value =
     (let v = to_ascii_lowercase value
      in if v = ''movie'' then Some Movie
         else if v = ''series'' then Some Series
         else if v = ''anime'' then Some Anime
         else None)"

definition default_library_id_for_facet :: "MediaFacet \<Rightarrow> string" where
  "default_library_id_for_facet f = MediaFacet_as_str f @ ''_default_library''"

primrec default_library_slug_for_facet :: "MediaFacet \<Rightarrow> string" where
  "default_library_slug_for_facet Movie = ''movies''"
| "default_library_slug_for_facet Series = ''series''"
| "default_library_slug_for_facet Anime = ''anime''"

datatype CollectionType = CT_Season | CT_Movie | CT_Arc | CT_Specials

primrec CollectionType_as_str :: "CollectionType \<Rightarrow> string" where
  "CollectionType_as_str CT_Season = ''season''"
| "CollectionType_as_str CT_Movie = ''movie''"
| "CollectionType_as_str CT_Arc = ''arc''"
| "CollectionType_as_str CT_Specials = ''specials''"

definition CollectionType_parse :: "string \<Rightarrow> CollectionType option" where
  "CollectionType_parse v =
     (if v = ''season'' then Some CT_Season
      else if v = ''movie'' then Some CT_Movie
      else if v = ''arc'' then Some CT_Arc
      else if v = ''specials'' then Some CT_Specials
      else if v = ''interstitial'' then Some CT_Movie
      else None)"

datatype EpisodeType = Standard | Special | Official | Ova | Ona | Alternate

primrec EpisodeType_as_str :: "EpisodeType \<Rightarrow> string" where
  "EpisodeType_as_str Standard = ''standard''"
| "EpisodeType_as_str Special = ''special''"
| "EpisodeType_as_str Official = ''official''"
| "EpisodeType_as_str Ova = ''ova''"
| "EpisodeType_as_str Ona = ''ona''"
| "EpisodeType_as_str Alternate = ''alternate''"

definition EpisodeType_parse :: "string \<Rightarrow> EpisodeType option" where
  "EpisodeType_parse v =
     (if v = ''standard'' then Some Standard
      else if v = ''special'' then Some Special
      else if v = ''official'' then Some Official
      else if v = ''ova'' then Some Ova
      else if v = ''ona'' then Some Ona
      else if v = ''alternate'' then Some Alternate
      else None)"

datatype DownloadSubmissionPurpose =
  StandardPurpose | AdditionalFile | OperatorQueuedPurpose | ManualReplacement

primrec DownloadSubmissionPurpose_as_str :: "DownloadSubmissionPurpose \<Rightarrow> string" where
  "DownloadSubmissionPurpose_as_str StandardPurpose = ''standard''"
| "DownloadSubmissionPurpose_as_str AdditionalFile = ''additional_file''"
| "DownloadSubmissionPurpose_as_str OperatorQueuedPurpose = ''operator_queued''"
| "DownloadSubmissionPurpose_as_str ManualReplacement = ''manual_replacement''"

definition DownloadSubmissionPurpose_from_label :: "string \<Rightarrow> DownloadSubmissionPurpose" where
  "DownloadSubmissionPurpose_from_label raw =
     (let v = to_ascii_lowercase (trim raw)
      in if v = ''additional_file'' then AdditionalFile
         else if v = ''operator_queued'' then OperatorQueuedPurpose
         else if v = ''manual_replacement'' then ManualReplacement
         else StandardPurpose)"

definition is_additional_file :: "DownloadSubmissionPurpose \<Rightarrow> bool" where
  "is_additional_file p \<longleftrightarrow> p = AdditionalFile"

definition is_manual_replacement :: "DownloadSubmissionPurpose \<Rightarrow> bool" where
  "is_manual_replacement p \<longleftrightarrow> p = ManualReplacement"

definition is_operator_queued :: "DownloadSubmissionPurpose \<Rightarrow> bool" where
  "is_operator_queued p \<longleftrightarrow> p = OperatorQueuedPurpose"

datatype MediaFileRole = Primary | Additional

primrec MediaFileRole_as_str :: "MediaFileRole \<Rightarrow> string" where
  "MediaFileRole_as_str Primary = ''primary''"
| "MediaFileRole_as_str Additional = ''additional''"

definition MediaFileRole_from_label :: "string \<Rightarrow> MediaFileRole" where
  "MediaFileRole_from_label raw =
     (if to_ascii_lowercase (trim raw) = ''additional'' then Additional else Primary)"

definition is_primary :: "MediaFileRole \<Rightarrow> bool" where
  "is_primary r \<longleftrightarrow> r = Primary"

definition is_additional :: "MediaFileRole \<Rightarrow> bool" where
  "is_additional r \<longleftrightarrow> r = Additional"

datatype DownloadSourceKind = NzbFile | NzbUrl | TorrentFile | MagnetUri | HttpResource

primrec DownloadSourceKind_as_str :: "DownloadSourceKind \<Rightarrow> string" where
  "DownloadSourceKind_as_str NzbFile = ''nzb''"
| "DownloadSourceKind_as_str NzbUrl = ''nzb_url''"
| "DownloadSourceKind_as_str TorrentFile = ''torrent_file''"
| "DownloadSourceKind_as_str MagnetUri = ''magnet_uri''"
| "DownloadSourceKind_as_str HttpResource = ''http_resource''"

definition DownloadSourceKind_parse :: "string \<Rightarrow> DownloadSourceKind option" where
  "DownloadSourceKind_parse value =
     (let v = to_ascii_lowercase (trim value)
      in if v \<in> {''nzb'', ''nzb_file''} then Some NzbFile
         else if v = ''nzb_url'' then Some NzbUrl
         else if v \<in> {''torrent'', ''torrent_file'', ''torrent_url'', ''torrent_bytes''}
           then Some TorrentFile
         else if v \<in> {''magnet'', ''magnet_uri''} then Some MagnetUri
         else if v \<in> {''http'', ''http_resource''} then Some HttpResource
         else None)"

primrec protocol_family :: "DownloadSourceKind \<Rightarrow> string" where
  "protocol_family NzbFile = ''usenet''"
| "protocol_family NzbUrl = ''usenet''"
| "protocol_family TorrentFile = ''torrent''"
| "protocol_family MagnetUri = ''torrent''"
| "protocol_family HttpResource = ''http''"

datatype ImportSkipReason =
    AlreadyImported | DuplicateFile | PostDownloadRuleBlocked | PolicyMismatch
  | UnresolvedIdentity | UnparseableEpisode | NoVideoFiles | UnwantedExecutables
  | DownloadInProgress | SourceChanged | SourceUnavailable | SceneSubtitlePending
  | DiskFull | PermissionDenied | PasswordRequired | ArchiveExtractionPluginRequired
  | ArchiveExtractionTimedOut

primrec ImportSkipReason_as_str :: "ImportSkipReason \<Rightarrow> string" where
  "ImportSkipReason_as_str AlreadyImported = ''already_imported''"
| "ImportSkipReason_as_str DuplicateFile = ''duplicate_file''"
| "ImportSkipReason_as_str PostDownloadRuleBlocked = ''post_download_rule_blocked''"
| "ImportSkipReason_as_str PolicyMismatch = ''policy_mismatch''"
| "ImportSkipReason_as_str UnresolvedIdentity = ''unresolved_identity''"
| "ImportSkipReason_as_str UnparseableEpisode = ''unparseable_episode''"
| "ImportSkipReason_as_str NoVideoFiles = ''no_video_files''"
| "ImportSkipReason_as_str UnwantedExecutables = ''unwanted_executables''"
| "ImportSkipReason_as_str DownloadInProgress = ''download_in_progress''"
| "ImportSkipReason_as_str SourceChanged = ''source_changed''"
| "ImportSkipReason_as_str SourceUnavailable = ''source_unavailable''"
| "ImportSkipReason_as_str SceneSubtitlePending = ''scene_subtitle_pending''"
| "ImportSkipReason_as_str DiskFull = ''disk_full''"
| "ImportSkipReason_as_str PermissionDenied = ''permission_denied''"
| "ImportSkipReason_as_str PasswordRequired = ''password_required''"
| "ImportSkipReason_as_str ArchiveExtractionPluginRequired = ''archive_extraction_plugin_required''"
| "ImportSkipReason_as_str ArchiveExtractionTimedOut = ''archive_extraction_timed_out''"

datatype RequestRuleEvaluationMode = Disabled | Enforce

primrec RequestRuleEvaluationMode_as_storage_str :: "RequestRuleEvaluationMode \<Rightarrow> string" where
  "RequestRuleEvaluationMode_as_storage_str Disabled = ''disabled''"
| "RequestRuleEvaluationMode_as_storage_str Enforce = ''enforce''"

definition RequestRuleEvaluationMode_parse_storage ::
  "string \<Rightarrow> RequestRuleEvaluationMode option" where
  "RequestRuleEvaluationMode_parse_storage v =
     (if v = ''disabled'' then Some Disabled else if v = ''enforce'' then Some Enforce else None)"

datatype RequestDecisionOutcome = AutoApprove | ManualReview | Deny

primrec RequestDecisionOutcome_as_storage_str :: "RequestDecisionOutcome \<Rightarrow> string" where
  "RequestDecisionOutcome_as_storage_str AutoApprove = ''auto_approve''"
| "RequestDecisionOutcome_as_storage_str ManualReview = ''manual_review''"
| "RequestDecisionOutcome_as_storage_str Deny = ''deny''"

definition RequestDecisionOutcome_parse_storage :: "string \<Rightarrow> RequestDecisionOutcome option" where
  "RequestDecisionOutcome_parse_storage v =
     (if v = ''auto_approve'' then Some AutoApprove
      else if v = ''manual_review'' then Some ManualReview
      else if v = ''deny'' then Some Deny
      else None)"

section \<open>Catalog rows\<close>

record Collection =
  col_id :: string
  col_title_id :: string
  collection_type :: CollectionType
  collection_index :: string
  col_label :: "string option"
  ordered_path :: "string option"
  narrative_order :: "string option"
  first_episode_number :: "string option"
  last_episode_number :: "string option"
  col_monitored :: bool
  col_created_at :: int

record Episode =
  ep_id :: string
  ep_title_id :: string
  ep_collection_id :: "string option"
  episode_type :: EpisodeType
  episode_number :: "string option"
  season_number :: "string option"
  episode_label :: "string option"
  ep_title :: "string option"
  ep_air_date :: "string option"
  duration_seconds :: "int option"
  has_multi_audio :: bool
  has_subtitle :: bool
  ep_is_filler :: bool
  is_recap :: bool
  absolute_number :: "string option"
  contiguous_absolute_number :: "int option"
  overview :: "string option"
  ep_tvdb_id :: "string option"
  ep_tmdb_id :: "string option"
  image_url :: "string option"
  ep_monitored :: bool
  ep_created_at :: int

datatype AbsoluteScale = Raw | Contiguous

definition AbsoluteScale_for_catalog :: "Episode list \<Rightarrow> AbsoluteScale" where
  "AbsoluteScale_for_catalog episodes =
     (if list_ex (\<lambda>e. case contiguous_absolute_number e of Some n \<Rightarrow> n > 0 | None \<Rightarrow> False) episodes
      then Contiguous else Raw)"

fun episode_absolute :: "AbsoluteScale \<Rightarrow> Episode \<Rightarrow> nat option" where
  "episode_absolute Raw e = Option.bind (absolute_number e) (\<lambda>v. parse_u32 (trim v))"
| "episode_absolute Contiguous e = Option.bind (contiguous_absolute_number e) try_u32"

primrec AbsoluteScale_as_str :: "AbsoluteScale \<Rightarrow> string" where
  "AbsoluteScale_as_str Raw = ''raw''"
| "AbsoluteScale_as_str Contiguous = ''contiguous''"

section \<open>Submission scopes\<close>

datatype SubmissionScope =
    Scope_Episode string
  | Scope_EpisodeSet "string list"
  | Scope_SeriesMovie string
  | Scope_Collection string
  | Scope_Title
  | Scope_Orphan

definition SubmissionScope_from_persisted ::
  "string \<Rightarrow> string option \<Rightarrow> string option \<Rightarrow> string option \<Rightarrow> string list option \<Rightarrow> SubmissionScope"
where
  "SubmissionScope_from_persisted title_id episode_id collection_id series_movie_link_id episode_set_ids =
     (let rest =
        (case episode_id of Some e \<Rightarrow> Scope_Episode e
         | None \<Rightarrow> (case series_movie_link_id of Some l \<Rightarrow> Scope_SeriesMovie l
         | None \<Rightarrow> (case collection_id of Some c \<Rightarrow> Scope_Collection c
         | None \<Rightarrow> if trim title_id = [] then Scope_Orphan else Scope_Title)))
      in case episode_set_ids of
           Some ids \<Rightarrow>
             (let kept = sort_dedup (filter (\<lambda>e. trim e \<noteq> []) ids)
              in if kept \<noteq> [] then Scope_EpisodeSet kept else rest)
         | None \<Rightarrow> rest)"

fun scope_episode_id :: "SubmissionScope \<Rightarrow> string option" where
  "scope_episode_id (Scope_Episode e) = Some e"
| "scope_episode_id _ = None"

fun scope_collection_id :: "SubmissionScope \<Rightarrow> string option" where
  "scope_collection_id (Scope_Collection c) = Some c"
| "scope_collection_id _ = None"

fun scope_series_movie_link_id :: "SubmissionScope \<Rightarrow> string option" where
  "scope_series_movie_link_id (Scope_SeriesMovie l) = Some l"
| "scope_series_movie_link_id _ = None"

fun scope_episode_ids :: "SubmissionScope \<Rightarrow> string list option" where
  "scope_episode_ids (Scope_EpisodeSet ids) = Some ids"
| "scope_episode_ids (Scope_Episode e) = Some [e]"
| "scope_episode_ids _ = None"

text \<open>What a scope stands for once its catalog lookups are done, and whether a submission's
  scope overlaps it (\<open>acquisition/workflow/search.rs\<close>).\<close>

record ScopeMembership =
  member_episode_ids :: "string list"
  member_collection_ids :: "string list"
  member_series_movie_link_id :: "string option"

fun submission_scope_intersects :: "SubmissionScope \<Rightarrow> ScopeMembership \<Rightarrow> bool" where
  "submission_scope_intersects Scope_Orphan t = False"
| "submission_scope_intersects Scope_Title t = True"
| "submission_scope_intersects (Scope_Episode e) t = (e \<in> set (member_episode_ids t))"
| "submission_scope_intersects (Scope_EpisodeSet es) t =
     list_ex (\<lambda>e. e \<in> set (member_episode_ids t)) es"
| "submission_scope_intersects (Scope_SeriesMovie l) t = (member_series_movie_link_id t = Some l)"
| "submission_scope_intersects (Scope_Collection c) t =
     list_ex (\<lambda>i. i = c) (member_collection_ids t)"

section \<open>Every label table reads back what it writes\<close>

lemmas trim_plain = trim_plain_ends

lemmas label_eval = ws_encodings_def leading_def to_ascii_lowercase_def to_lower_char_def ascii_upper_def

interpretation media_facet: label_codec MediaFacet_as_str MediaFacet_parse
proof
  fix x show "MediaFacet_parse (MediaFacet_as_str x) = Some x"
    by (cases x) (simp_all add: MediaFacet_parse_def label_eval)
qed

interpretation collection_type: label_codec CollectionType_as_str CollectionType_parse
proof
  fix x show "CollectionType_parse (CollectionType_as_str x) = Some x"
    by (cases x) (simp_all add: CollectionType_parse_def)
qed

interpretation episode_type: label_codec EpisodeType_as_str EpisodeType_parse
proof
  fix x show "EpisodeType_parse (EpisodeType_as_str x) = Some x"
    by (cases x) (simp_all add: EpisodeType_parse_def)
qed

interpretation submission_purpose: label_codec DownloadSubmissionPurpose_as_str
  "\<lambda>s. Some (DownloadSubmissionPurpose_from_label s)"
proof
  fix x show "Some (DownloadSubmissionPurpose_from_label (DownloadSubmissionPurpose_as_str x)) = Some x"
    by (cases x) (simp_all add: DownloadSubmissionPurpose_from_label_def trim_plain label_eval)
qed

interpretation media_file_role: label_codec MediaFileRole_as_str "\<lambda>s. Some (MediaFileRole_from_label s)"
proof
  fix x show "Some (MediaFileRole_from_label (MediaFileRole_as_str x)) = Some x"
    by (cases x) (simp_all add: MediaFileRole_from_label_def trim_plain label_eval)
qed

interpretation source_kind: label_codec DownloadSourceKind_as_str DownloadSourceKind_parse
proof
  fix x show "DownloadSourceKind_parse (DownloadSourceKind_as_str x) = Some x"
    by (cases x) (simp_all add: DownloadSourceKind_parse_def trim_plain label_eval)
qed

interpretation rule_mode: label_codec RequestRuleEvaluationMode_as_storage_str
  RequestRuleEvaluationMode_parse_storage
proof
  fix x show "RequestRuleEvaluationMode_parse_storage (RequestRuleEvaluationMode_as_storage_str x) = Some x"
    by (cases x) (simp_all add: RequestRuleEvaluationMode_parse_storage_def)
qed

interpretation decision_outcome: label_codec RequestDecisionOutcome_as_storage_str
  RequestDecisionOutcome_parse_storage
proof
  fix x show "RequestDecisionOutcome_parse_storage (RequestDecisionOutcome_as_storage_str x) = Some x"
    by (cases x) (simp_all add: RequestDecisionOutcome_parse_storage_def)
qed

lemma MediaFacet_parse_lower [simp]: "MediaFacet_parse (to_ascii_lowercase s) = MediaFacet_parse s"
  by (simp add: MediaFacet_parse_def)

text \<open>
  A scope survives its persisted columns: writing the scope's accessors and reading the row
  back yields the same scope, for every scope the constructor itself can produce.
\<close>

definition persistable :: "SubmissionScope \<Rightarrow> bool" where
  "persistable s = (case s of Scope_EpisodeSet ids \<Rightarrow>
      ids \<noteq> [] \<and> sorted ids \<and> distinct ids \<and> (\<forall>e \<in> set ids. trim e \<noteq> []) | _ \<Rightarrow> True)"

lemma from_persisted_persistable:
  "persistable (SubmissionScope_from_persisted t e c l ids)"
  by (auto simp: persistable_def SubmissionScope_from_persisted_def Let_def rust_vec
      split: option.splits SubmissionScope.splits if_splits)

lemma sort_dedup_fixpoint: "sorted xs \<Longrightarrow> distinct xs \<Longrightarrow> sort_dedup xs = xs"
  by (simp add: sort_dedup_eq_sorted_list_of_set sorted_list_of_set.idem_if_sorted_distinct)

end
