(* ===== verification/Request_Arbitration.thy ===== *)
theory Request_Arbitration
  imports Domain_Types
begin

text \<open>
  Arbitration of media-request rules
  (\<open>scryer-application/src/request_rules/arbitration.rs\<close>, with the vote types of
  \<open>scryer-rules/src/request.rs\<close>): the votes of the rules that ran and the rules that failed
  go in, one verdict comes out.
\<close>

section \<open>Votes, errors and the verdict\<close>

datatype RequestVote = VoteApprove | VoteDeny | VoteManual | VoteAbstain

record RequestRuleDecision =
  vote :: RequestVote
  reason_codes :: "string list"
  vote_tags :: "string list"
  held :: bool

record ScopedVote =
  sv_rule_set_id :: string
  sv_rule_set_name :: string
  sv_revision_number :: int
  sv_content_hash :: string
  sv_mode :: RequestRuleEvaluationMode
  decision :: RequestRuleDecision

record ScopedError =
  se_rule_set_id :: string
  se_rule_set_name :: string
  se_revision_number :: int
  se_content_hash :: string
  se_mode :: RequestRuleEvaluationMode
  se_message :: string

record ArbitrationReason =
  code :: string
  ar_rule_set_id :: string
  ar_rule_set_name :: string

record Arbitration =
  policy_outcome :: RequestDecisionOutcome
  fallback_reason :: "string option"
  deciding_rule_set_ids :: "string list"
  arb_tags :: "string list"
  reasons :: "ArbitrationReason list"

definition LIBRARY_PERMISSION_DECIDER :: string where
  "LIBRARY_PERMISSION_DECIDER = ''library_permission''"

definition FALLBACK_RULE_MANUAL :: string where
  "FALLBACK_RULE_MANUAL = ''rule_manual''"

definition FALLBACK_HELD :: string where
  "FALLBACK_HELD = ''held''"

definition FALLBACK_ERROR :: string where
  "FALLBACK_ERROR = ''error''"

definition FALLBACK_NO_RULE_MATCHED :: string where
  "FALLBACK_NO_RULE_MATCHED = ''no_rule_matched''"

definition FALLBACK_LIBRARY_PERMISSION :: string where
  "FALLBACK_LIBRARY_PERMISSION = LIBRARY_PERMISSION_DECIDER"

definition legacy_outcome :: "bool \<Rightarrow> RequestDecisionOutcome" where
  "legacy_outcome permission_grants_auto_approve =
     (if permission_grants_auto_approve then AutoApprove else ManualReview)"

section \<open>Arbitration\<close>

definition collect_tags :: "ScopedVote list \<Rightarrow> string list" where
  "collect_tags votes = foldl (\<lambda>tags v. foldl push_unique tags (vote_tags (decision v))) [] votes"

definition rule_set_ids :: "ScopedVote list \<Rightarrow> string list" where
  "rule_set_ids votes = foldl (\<lambda>ids v. push_unique ids (sv_rule_set_id v)) [] votes"

text \<open>One reason is pushed unless a reason with the same code and rule is already there.\<close>

definition push_reason :: "ScopedVote \<Rightarrow> ArbitrationReason list \<Rightarrow> string \<Rightarrow> ArbitrationReason list" where
  "push_reason v rs c =
     (if list_ex (\<lambda>r. code r = c \<and> ar_rule_set_id r = sv_rule_set_id v) rs then rs
      else rs @ [\<lparr>code = c, ar_rule_set_id = sv_rule_set_id v, ar_rule_set_name = sv_rule_set_name v\<rparr>])"

definition reasons_from :: "ScopedVote list \<Rightarrow> ArbitrationReason list" where
  "reasons_from votes = foldl (\<lambda>rs v. foldl (push_reason v) rs (reason_codes (decision v))) [] votes"

definition votes_of :: "RequestVote \<Rightarrow> ScopedVote list \<Rightarrow> ScopedVote list" where
  "votes_of k votes = filter (\<lambda>v. vote (decision v) = k) votes"

definition arbitrate :: "ScopedVote list \<Rightarrow> ScopedError list \<Rightarrow> bool \<Rightarrow> Arbitration" where
  "arbitrate votes errors permission_grants_auto_approve =
     (let tags = collect_tags votes;
          denials = votes_of VoteDeny votes;
          manuals = votes_of VoteManual votes;
          approvals = votes_of VoteApprove votes
      in if denials \<noteq> [] then
           \<lparr>policy_outcome = Deny, fallback_reason = None,
            deciding_rule_set_ids = rule_set_ids denials, arb_tags = tags,
            reasons = reasons_from denials\<rparr>
         else if manuals \<noteq> [] \<or> errors \<noteq> [] then
           \<lparr>policy_outcome = ManualReview,
            fallback_reason =
              Some (if list_ex (\<lambda>v. \<not> held (decision v)) manuals then FALLBACK_RULE_MANUAL
                    else if list_ex (\<lambda>v. held (decision v)) manuals then FALLBACK_HELD
                    else FALLBACK_ERROR),
            deciding_rule_set_ids =
              foldl (\<lambda>ids e. push_unique ids (se_rule_set_id e)) (rule_set_ids manuals) errors,
            arb_tags = tags, reasons = reasons_from manuals\<rparr>
         else if approvals \<noteq> [] then
           \<lparr>policy_outcome = AutoApprove, fallback_reason = None,
            deciding_rule_set_ids = rule_set_ids approvals, arb_tags = tags,
            reasons = reasons_from approvals\<rparr>
         else if permission_grants_auto_approve then
           \<lparr>policy_outcome = AutoApprove, fallback_reason = Some FALLBACK_LIBRARY_PERMISSION,
            deciding_rule_set_ids = [LIBRARY_PERMISSION_DECIDER], arb_tags = tags, reasons = []\<rparr>
         else
           \<lparr>policy_outcome = ManualReview, fallback_reason = Some FALLBACK_NO_RULE_MATCHED,
            deciding_rule_set_ids = [], arb_tags = tags, reasons = []\<rparr>)"

section \<open>The collectors\<close>

lemma rule_set_ids_eq: "rule_set_ids votes = push_all_unique [] (map sv_rule_set_id votes)"
  by (simp add: rule_set_ids_def push_all_unique_def foldl_map)

lemma error_ids_eq:
  "foldl (\<lambda>ids e. push_unique ids (se_rule_set_id e)) acc errors =
   push_all_unique acc (map se_rule_set_id errors)"
  by (simp add: push_all_unique_def foldl_map)

lemma collect_tags_eq: "collect_tags votes = push_all_unique [] (concat (map (\<lambda>v. vote_tags (decision v)) votes))"
proof -
  have "foldl (\<lambda>tags v. foldl push_unique tags (vote_tags (decision v))) acc votes =
      push_all_unique acc (concat (map (\<lambda>v. vote_tags (decision v)) votes))" for acc
    by (induction votes arbitrary: acc) (simp_all add: push_all_unique_append flip: push_all_unique_def)
  then show ?thesis by (simp add: collect_tags_def)
qed

lemma arbitrate_outcome:
  "policy_outcome (arbitrate votes errors p) =
   (if votes_of VoteDeny votes \<noteq> [] then Deny
    else if votes_of VoteManual votes \<noteq> [] \<or> errors \<noteq> [] then ManualReview
    else if votes_of VoteApprove votes \<noteq> [] \<or> p then AutoApprove
    else ManualReview)"
  by (simp add: arbitrate_def Let_def)

lemma votes_of_Nil_iff: "votes_of k votes = [] \<longleftrightarrow> k \<notin> vote ` decision ` set votes"
  by (auto simp: votes_of_def filter_empty_conv)

text \<open>The reasons of a verdict, each rule and code once.\<close>

definition reason_key :: "ArbitrationReason \<Rightarrow> string \<times> string" where
  "reason_key r = (code r, ar_rule_set_id r)"

lemma push_reason_keys:
  "map reason_key (push_reason v rs c) = push_unique (map reason_key rs) (c, sv_rule_set_id v)"
  by (auto simp: push_reason_def push_unique_def list_ex_iff reason_key_def image_iff)

lemma reasons_from_keys:
  "map reason_key (reasons_from votes) =
   push_all_unique [] (concat (map (\<lambda>v. map (\<lambda>c. (c, sv_rule_set_id v)) (reason_codes (decision v))) votes))"
proof -
  have inner: "map reason_key (foldl (push_reason v) rs cs) =
      push_all_unique (map reason_key rs) (map (\<lambda>c. (c, sv_rule_set_id v)) cs)" for v rs cs
    by (induction cs arbitrary: rs) (simp_all add: push_reason_keys)
  have "map reason_key (foldl (\<lambda>rs v. foldl (push_reason v) rs (reason_codes (decision v))) rs votes) =
      push_all_unique (map reason_key rs)
        (concat (map (\<lambda>v. map (\<lambda>c. (c, sv_rule_set_id v)) (reason_codes (decision v))) votes))" for rs
    by (induction votes arbitrary: rs) (simp_all add: inner push_all_unique_append)
  then show ?thesis by (simp add: reasons_from_def)
qed

section \<open>The properties of arbitration\<close>

text \<open>
  The verdict is a safety order: a request is denied exactly when some rule voted to deny
  it, and is approved exactly when no rule denied, no rule asked for or was held for manual
  review, no rule failed, and a rule approved or the requester holds the permission;
  everything else is manual review.
\<close>

theorem arbitrate_safety_order:
  "(policy_outcome (arbitrate votes errors p) = Deny \<longleftrightarrow>
      VoteDeny \<in> vote ` decision ` set votes) \<and>
   (policy_outcome (arbitrate votes errors p) = AutoApprove \<longleftrightarrow>
      VoteDeny \<notin> vote ` decision ` set votes \<and> VoteManual \<notin> vote ` decision ` set votes \<and>
      errors = [] \<and> (VoteApprove \<in> vote ` decision ` set votes \<or> p))"
  by (simp add: arbitrate_outcome votes_of_Nil_iff)

text \<open>
  The verdict explains itself: it carries no fallback reason exactly when a rule's own
  deny or approve vote decided; the deciding ids are, without repetition, the rules that cast
  the winning vote, plus the failed rules under manual review, or the permission alone; and
  the reasons name each rule and code of the winning votes once.
\<close>

theorem arbitrate_explained:
  "let a = arbitrate votes errors p;
       winners = votes_of (case policy_outcome a of Deny \<Rightarrow> VoteDeny | ManualReview \<Rightarrow> VoteManual
                           | AutoApprove \<Rightarrow> VoteApprove) votes
   in (fallback_reason a = None \<longleftrightarrow> policy_outcome a \<noteq> ManualReview \<and> winners \<noteq> []) \<and>
      distinct (deciding_rule_set_ids a) \<and>
      set (deciding_rule_set_ids a) =
        (if fallback_reason a = Some FALLBACK_LIBRARY_PERMISSION then {LIBRARY_PERMISSION_DECIDER}
         else sv_rule_set_id ` set winners \<union>
              (if policy_outcome a = ManualReview then se_rule_set_id ` set errors else {})) \<and>
      distinct (map reason_key (reasons a)) \<and>
      set (map reason_key (reasons a)) =
        (\<Union>v \<in> set winners. (\<lambda>c. (c, sv_rule_set_id v)) ` set (reason_codes (decision v)))"
proof -
  have keys: "distinct (map reason_key (reasons_from vs))"
    "set (map reason_key (reasons_from vs)) =
      (\<Union>v \<in> set vs. (\<lambda>c. (c, sv_rule_set_id v)) ` set (reason_codes (decision v)))" for vs
    unfolding reasons_from_keys by (simp_all add: distinct_push_all_unique)
  have ids: "distinct (rule_set_ids vs)" "set (rule_set_ids vs) = sv_rule_set_id ` set vs" for vs
    unfolding rule_set_ids_eq by (simp_all add: distinct_push_all_unique)
  note labels = FALLBACK_LIBRARY_PERMISSION_def LIBRARY_PERMISSION_DECIDER_def FALLBACK_RULE_MANUAL_def
    FALLBACK_HELD_def FALLBACK_ERROR_def FALLBACK_NO_RULE_MATCHED_def
  consider "votes_of VoteDeny votes \<noteq> []"
    | "votes_of VoteDeny votes = []" "votes_of VoteManual votes \<noteq> [] \<or> errors \<noteq> []"
    | "votes_of VoteDeny votes = []" "votes_of VoteManual votes = []" "errors = []"
    by blast
  then show ?thesis
  proof cases
    case 1
    then show ?thesis using keys ids by (simp add: arbitrate_def Let_def)
  next
    case 2
    then show ?thesis using keys ids
      by (simp add: arbitrate_def Let_def error_ids_eq distinct_push_all_unique labels)
  next
    case 3
    then show ?thesis using keys ids by (simp add: arbitrate_def Let_def labels)
  qed
qed

text \<open>
  The verdict does not depend on the order in which rules were evaluated: permuting the
  votes and the errors changes neither the outcome nor the fallback, and the tags stay the
  same set, each tag of a rule that ran exactly once.
\<close>

theorem arbitrate_order_independent:
  assumes "mset votes = mset votes'" and "mset errors = mset errors'"
  shows "policy_outcome (arbitrate votes errors p) = policy_outcome (arbitrate votes' errors' p) \<and>
    fallback_reason (arbitrate votes errors p) = fallback_reason (arbitrate votes' errors' p) \<and>
    set (arb_tags (arbitrate votes errors p)) = set (arb_tags (arbitrate votes' errors' p)) \<and>
    set (arb_tags (arbitrate votes errors p)) = (\<Union>v \<in> set votes. set (vote_tags (decision v))) \<and>
    distinct (arb_tags (arbitrate votes errors p))"
proof -
  have sets: "set votes = set votes'" "set errors = set errors'" using assms by (metis set_mset_mset)+
  have ms: "mset (votes_of k votes) = mset (votes_of k votes')" for k
    using assms(1) by (simp add: votes_of_def)
  then have nil: "votes_of k votes = [] \<longleftrightarrow> votes_of k votes' = []"
    and s: "set (votes_of k votes) = set (votes_of k votes')" for k
    by (metis mset_zero_iff_right, metis set_mset_mset)
  have "errors = [] \<longleftrightarrow> errors' = []" using assms(2) by auto
  moreover have t: "arb_tags (arbitrate vs es q) = collect_tags vs" for vs es q
    by (simp add: arbitrate_def Let_def)
  ultimately show ?thesis using nil s sets
    by (auto simp: arbitrate_def Let_def list_ex_iff collect_tags_eq distinct_push_all_unique)
qed

definition example_vote :: "RequestVote \<Rightarrow> string \<Rightarrow> ScopedVote" where
  "example_vote k r =
     \<lparr>sv_rule_set_id = r, sv_rule_set_name = r, sv_revision_number = 1, sv_content_hash = [],
      sv_mode = Enforce,
      decision = \<lparr>vote = k, reason_codes = [''c''], vote_tags = [r], held = False\<rparr>\<rparr>"

theorem arbitrate_order_independent_witness:
  "policy_outcome (arbitrate [example_vote VoteApprove ''a'', example_vote VoteDeny ''b''] [] True) =
   policy_outcome (arbitrate [example_vote VoteDeny ''b'', example_vote VoteApprove ''a''] [] True)"
  using arbitrate_order_independent
    [of "[example_vote VoteApprove ''a'', example_vote VoteDeny ''b'']"
        "[example_vote VoteDeny ''b'', example_vote VoteApprove ''a'']" "[]" "[]" True]
  by (simp add: add_mset_commute)

end
