(* ===== verification/Admission.thy ===== *)
theory Admission
  imports Prelude
begin

text \<open>
  The admission gate of \<open>scryer-application/src/acquisition/admission.rs\<close>: one predicate that
  both the grab path and the import path call to decide whether a release may replace what
  occupies a scope. The theory holds its data (scopes, incumbents, queued releases, policies,
  candidate facts, verdicts), the ladder of comparisons (tier, then revision, then score), the
  queue guard, the per-member evaluation of a season pack and \<open>evaluate_admission\<close> itself.

  Scores and revisions are \<open>i32\<close> values, kept as \<open>int\<close>; the one arithmetic operation on them is
  the saturating subtraction of the prelude. \<open>HashSet\<close> values become sets.
\<close>

section \<open>Data\<close>

datatype AdmissionScope = Title | SeriesMovieLink string | Episodes "string list"

record Incumbent =
  inc_tier_index :: "nat option"
  inc_revision :: int
  inc_file_id :: string
  inc_file_path :: string
  inc_release_group :: "string option"
  inc_score :: int
  inc_covers :: "string list"
  inc_created_at :: string

record QueuedRelease =
  missing_history :: bool
  history_cutoff_reached :: bool
  q_release_group :: "string option"
  q_title :: string
  q_covers :: "string list"
  q_tier_index :: "nat option"
  q_revision :: int
  q_score :: int
  q_release_key :: "nat option"

text \<open>
  \<open>release_key\<close> drops the characters that are not alphanumeric, lower-cases the rest and hashes
  what is left. The Unicode tables behind that folding and the unspecified \<open>DefaultHasher\<close> are the
  two parameters.
\<close>

definition release_key :: "(string \<Rightarrow> string) \<Rightarrow> (string \<Rightarrow> nat) \<Rightarrow> string \<Rightarrow> nat option" where
  "release_key alphanumeric_lowercase hasher title =
     (let normalized = alphanumeric_lowercase title
      in if normalized = [] then None else Some (hasher normalized))"

record AdmissionPolicy =
  allow_upgrades :: bool
  min_delta :: int
  cutoff_score :: "int option"
  manual_override :: bool
  applies_to_queue :: bool

definition policy_manual :: AdmissionPolicy where
  "policy_manual = \<lparr>allow_upgrades = True, min_delta = 0, cutoff_score = None,
                    manual_override = True, applies_to_queue = False\<rparr>"

definition not_a_downgrade :: AdmissionPolicy where
  "not_a_downgrade = \<lparr>allow_upgrades = True, min_delta = 0, cutoff_score = None,
                      manual_override = False, applies_to_queue = False\<rparr>"

definition required_delta :: "AdmissionPolicy \<Rightarrow> int" where
  "required_delta policy = min_delta policy"

definition incumbent_at_format_cutoff :: "AdmissionPolicy \<Rightarrow> int \<Rightarrow> bool" where
  "incumbent_at_format_cutoff policy incumbent_score =
     (case cutoff_score policy of None \<Rightarrow> False | Some cutoff \<Rightarrow> cutoff \<le> incumbent_score)"

record CandidateFacts =
  cand_release_group :: "string option"
  ignore_proper_repack :: bool
  cand_tier_index :: "nat option"
  cand_revision :: int
  cand_score :: int
  cand_release_key :: "nat option"

definition CandidateFacts_new :: "nat option \<Rightarrow> int \<Rightarrow> int \<Rightarrow> CandidateFacts" where
  "CandidateFacts_new tier revision score =
     \<lparr>cand_release_group = None, ignore_proper_repack = False, cand_tier_index = tier,
      cand_revision = revision, cand_score = score, cand_release_key = None\<rparr>"

definition with_revision_policy :: "CandidateFacts \<Rightarrow> string option \<Rightarrow> bool \<Rightarrow> CandidateFacts" where
  "with_revision_policy c grp ignore = c\<lparr>cand_release_group := grp, ignore_proper_repack := ignore\<rparr>"

definition group_name :: "string option \<Rightarrow> string option" where
  "group_name grp =
     (case grp of None \<Rightarrow> None | Some g \<Rightarrow> (if trim g = [] then None else Some (trim g)))"

definition is_related :: "CandidateFacts \<Rightarrow> nat option \<Rightarrow> string option \<Rightarrow> bool" where
  "is_related c tier grp =
     (\<not> ignore_proper_repack c \<and> cand_tier_index c = tier \<and>
      (case (group_name (cand_release_group c), group_name grp) of
         (Some left, Some right) \<Rightarrow> eq_ignore_ascii_case left right
       | _ \<Rightarrow> False))"

definition revision_cmp :: "CandidateFacts \<Rightarrow> nat option \<Rightarrow> string option \<Rightarrow> int \<Rightarrow> ordering" where
  "revision_cmp c tier grp revision =
     (if is_related c tier grp then cmp (cand_revision c) revision else Equal)"

definition with_release_title ::
  "(string \<Rightarrow> string) \<Rightarrow> (string \<Rightarrow> nat) \<Rightarrow> CandidateFacts \<Rightarrow> string \<Rightarrow> CandidateFacts" where
  "with_release_title alphanumeric_lowercase hasher c title =
     c\<lparr>cand_release_key := release_key alphanumeric_lowercase hasher title\<rparr>"

definition tier_cmp :: "nat option \<Rightarrow> nat option \<Rightarrow> ordering" where
  "tier_cmp left right =
     (case (left, right) of
        (Some l, Some r) \<Rightarrow> cmp r l
      | (Some _, None) \<Rightarrow> Greater
      | (None, Some _) \<Rightarrow> Less
      | (None, None) \<Rightarrow> Equal)"

definition tier_sort_key :: "nat option \<Rightarrow> nat" where
  "tier_sort_key tier = (case tier of None \<Rightarrow> usize_max | Some t \<Rightarrow> t)"

datatype AdmissionRejectionReason =
    LowerQualityTier
  | BroaderIncumbentSpan
  | LowerRevision (lr_incumbent: int) (lr_candidate: int)
  | UpgradesDisabled
  | SeasonIncomplete
  | NotAnUpgrade (nu_incumbent: int) (nu_candidate: int) (nu_required: int)
  | QueuedEqualOrBetter (qe_title: string) (qe_queued: int) (qe_candidate: int)
  | QueuedSameRelease (qs_title: string)
  | FormatCutoffReached (fc_incumbent: int) (fc_cutoff: int)

record AdmissionRejection =
  ar_reason :: AdmissionRejectionReason
  ar_message :: string
  ar_incumbent_file_id :: string
  ar_incumbent_file_path :: string

datatype AdmissionVerdict =
    Admit (ranked_superseded: "string list") (previous_best_score: int)
  | Reject AdmissionRejection

definition rejection :: "AdmissionVerdict \<Rightarrow> AdmissionRejection option" where
  "rejection v = (case v of Admit _ _ \<Rightarrow> None | Reject r \<Rightarrow> Some r)"

abbreviation is_admitted :: "AdmissionVerdict \<Rightarrow> bool" where
  "is_admitted v \<equiv> rejection v = None"

section \<open>The subject of an admission\<close>

record AdmissionSubject =
  subj_per_member :: bool
  unaired_members :: nat
  subj_scope :: AdmissionScope
  incumbents :: "Incumbent list"
  queued :: "QueuedRelease list"

definition incumbent_order :: "Incumbent \<Rightarrow> Incumbent \<Rightarrow> ordering" where
  "incumbent_order left right =
     then_with (then_with (cmp (inc_score right) (inc_score left))
                          (cmp (inc_created_at right) (inc_created_at left)))
               (cmp (inc_file_id right) (inc_file_id left))"

definition AdmissionSubject_new :: "AdmissionScope \<Rightarrow> (Incumbent \<times> bool) list \<Rightarrow> AdmissionSubject" where
  "AdmissionSubject_new scope rows =
     \<lparr>subj_per_member = False, unaired_members = 0, subj_scope = scope,
      incumbents = sort_by incumbent_order (map fst (filter snd rows)), queued = []\<rparr>"

definition with_queued :: "AdmissionSubject \<Rightarrow> QueuedRelease list \<Rightarrow> AdmissionSubject" where
  "with_queued s q = s\<lparr>queued := q\<rparr>"

definition per_member :: "AdmissionSubject \<Rightarrow> AdmissionSubject" where
  "per_member s = s\<lparr>subj_per_member := True\<rparr>"

definition with_unaired_members :: "AdmissionSubject \<Rightarrow> nat \<Rightarrow> AdmissionSubject" where
  "with_unaired_members s n = s\<lparr>unaired_members := n\<rparr>"

definition is_unoccupied :: "AdmissionSubject \<Rightarrow> bool" where
  "is_unoccupied s = (incumbents s = [])"

definition best_score :: "AdmissionSubject \<Rightarrow> int option" where
  "best_score s =
     (case incumbents s of [] \<Rightarrow> None
      | i # is \<Rightarrow> Some (fold max (map inc_score is) (inc_score i)))"

definition bar_order :: "Incumbent \<Rightarrow> Incumbent \<Rightarrow> ordering" where
  "bar_order left right =
     then_with (tier_cmp (inc_tier_index right) (inc_tier_index left))
               (cmp (inc_score right) (inc_score left))"

definition best_incumbent_record :: "AdmissionSubject \<Rightarrow> Incumbent option" where
  "best_incumbent_record s = min_by bar_order (incumbents s)"

definition best_incumbent :: "AdmissionSubject \<Rightarrow> (nat option \<times> int) option" where
  "best_incumbent s =
     map_option (\<lambda>i. (inc_tier_index i, inc_score i)) (best_incumbent_record s)"

text \<open>\<open>revision_preference\<close>: the loop returns 0 at the first row it cannot rank against.\<close>

fun revision_scan :: "CandidateFacts \<Rightarrow> bool \<Rightarrow> (nat option \<times> string option \<times> int) list \<Rightarrow> int" where
  "revision_scan c improves [] = (if improves then cand_revision c else 0)"
| "revision_scan c improves ((tier, grp, revision) # rest) =
     (if \<not> is_related c tier grp \<or> cand_revision c < revision then 0
      else revision_scan c (improves \<or> revision < cand_revision c) rest)"

definition revision_preference :: "CandidateFacts \<Rightarrow> AdmissionSubject \<Rightarrow> int" where
  "revision_preference c s =
     revision_scan c False
       (map (\<lambda>i. (inc_tier_index i, inc_release_group i, inc_revision i)) (incumbents s) @
        map (\<lambda>q. (q_tier_index q, q_release_group q, q_revision q)) (queued s))"

section \<open>The queue guard\<close>

datatype QueueWin = QW_Tier | QW_Revision | QW_Score

definition queued_candidate_win ::
  "CandidateFacts \<Rightarrow> QueuedRelease \<Rightarrow> AdmissionPolicy \<Rightarrow> QueueWin option" where
  "queued_candidate_win c q policy =
     (let rev = revision_cmp c (q_tier_index q) (q_release_group q) (q_revision q)
      in if history_cutoff_reached q \<and> rev \<noteq> Greater then None
         else (case tier_cmp (cand_tier_index c) (q_tier_index q) of
                 Greater \<Rightarrow> Some QW_Tier
               | Less \<Rightarrow> None
               | Equal \<Rightarrow>
                   (case rev of
                      Greater \<Rightarrow> Some QW_Revision
                    | Less \<Rightarrow> None
                    | Equal \<Rightarrow>
                        (if max (required_delta policy) 1 \<le> saturating_sub_i32 (cand_score c) (q_score q)
                         then Some QW_Score else None))))"

definition queued_blocks_candidate ::
  "QueuedRelease \<Rightarrow> CandidateFacts \<Rightarrow> AdmissionPolicy \<Rightarrow> bool" where
  "queued_blocks_candidate q c policy =
     (applies_to_queue policy \<and> \<not> manual_override policy \<and> queued_candidate_win c q policy = None)"

definition queued_equal_or_better_rejection ::
  "QueuedRelease \<Rightarrow> CandidateFacts \<Rightarrow> AdmissionRejection" where
  "queued_equal_or_better_rejection q c =
     \<lparr>ar_reason = QueuedEqualOrBetter (q_title q) (q_score q) (cand_score c),
      ar_message = q_title q @ '' is already downloading for this scope and is equal or better (score '' @
                   show_int (q_score q) @ '' >= '' @ show_int (cand_score c) @ '')'',
      ar_incumbent_file_id = [], ar_incumbent_file_path = []\<rparr>"

definition queued_same_release_rejection :: "QueuedRelease \<Rightarrow> AdmissionRejection" where
  "queued_same_release_rejection q =
     \<lparr>ar_reason = QueuedSameRelease (q_title q),
      ar_message = q_title q @ '' is already grabbed for this scope; the same release is not fetched twice'',
      ar_incumbent_file_id = [], ar_incumbent_file_path = []\<rparr>"

definition same_release :: "CandidateFacts \<Rightarrow> QueuedRelease \<Rightarrow> bool" where
  "same_release c q = (cand_release_key c \<noteq> None \<and> cand_release_key c = q_release_key q)"

text \<open>The closure \<open>queued_rejection\<close> hands to \<open>find_map\<close>.\<close>

definition queued_row_rejection ::
  "CandidateFacts \<Rightarrow> AdmissionPolicy \<Rightarrow> QueuedRelease \<Rightarrow> AdmissionRejection option" where
  "queued_row_rejection c policy q =
     (if same_release c q then Some (queued_same_release_rejection q)
      else (case queued_candidate_win c q policy of
              Some QW_Revision \<Rightarrow> None
            | Some _ \<Rightarrow>
                (if \<not> allow_upgrades policy
                 then Some \<lparr>ar_reason = UpgradesDisabled,
                            ar_message = q_title q @
                              '' is already downloading for this scope and the quality profile disallows upgrades'',
                            ar_incumbent_file_id = [], ar_incumbent_file_path = []\<rparr>
                 else None)
            | None \<Rightarrow> Some (queued_equal_or_better_rejection q c)))"

definition queued_rejection ::
  "AdmissionSubject \<Rightarrow> CandidateFacts \<Rightarrow> AdmissionPolicy \<Rightarrow> AdmissionRejection option" where
  "queued_rejection s c policy =
     (if \<not> applies_to_queue policy \<or> manual_override policy then None
      else find_map (queued_row_rejection c policy) (queued s))"

section \<open>A season pack: one file per member\<close>

definition incumbent_rejection ::
  "AdmissionRejectionReason \<Rightarrow> string \<Rightarrow> Incumbent \<Rightarrow> AdmissionRejection" where
  "incumbent_rejection reason message i =
     \<lparr>ar_reason = reason, ar_message = message,
      ar_incumbent_file_id = inc_file_id i, ar_incumbent_file_path = inc_file_path i\<rparr>"

definition upgrades_disabled :: "Incumbent \<Rightarrow> AdmissionRejection" where
  "upgrades_disabled i =
     incumbent_rejection UpgradesDisabled
       (''existing file '' @ inc_file_path i @
        '' cannot be replaced because the quality profile disallows upgrades'') i"

text \<open>The ladder of \<open>evaluate_any_member\<close>'s filter closure, once the queue does not cover the member.\<close>

definition member_improves :: "CandidateFacts \<Rightarrow> AdmissionPolicy \<Rightarrow> Incumbent \<Rightarrow> bool" where
  "member_improves c policy i =
     (case tier_cmp (cand_tier_index c) (inc_tier_index i) of
        Less \<Rightarrow> False
      | Greater \<Rightarrow> allow_upgrades policy
      | Equal \<Rightarrow>
          (case revision_cmp c (inc_tier_index i) (inc_release_group i) (inc_revision i) of
             Greater \<Rightarrow> True
           | Less \<Rightarrow> False
           | Equal \<Rightarrow>
               (if \<not> allow_upgrades policy then False
                else \<not> incumbent_at_format_cutoff policy (inc_score i) \<and>
                     required_delta policy \<le> saturating_sub_i32 (cand_score c) (inc_score i))))"

text \<open>The three numbers the match on the scope computes: member count, and the members held by
  an incumbent and by a blocking download.\<close>

definition incumbent_covered_members :: "AdmissionSubject \<Rightarrow> string set" where
  "incumbent_covered_members s =
     (case subj_scope s of
        Episodes ids \<Rightarrow> {e \<in> set (concat (map inc_covers (incumbents s))). e \<in> set ids}
      | _ \<Rightarrow> {})"

definition queued_covered_members ::
  "AdmissionSubject \<Rightarrow> CandidateFacts \<Rightarrow> AdmissionPolicy \<Rightarrow> string set" where
  "queued_covered_members s c policy =
     (case subj_scope s of
        Episodes ids \<Rightarrow>
          {e \<in> set (concat (map q_covers (filter (\<lambda>q. queued_blocks_candidate q c policy) (queued s)))).
             e \<in> set ids}
      | _ \<Rightarrow> {})"

definition member_count :: "AdmissionSubject \<Rightarrow> nat" where
  "member_count s =
     (case subj_scope s of Episodes ids \<Rightarrow> length ids | _ \<Rightarrow> length (incumbents s))"

definition improvable :: "AdmissionSubject \<Rightarrow> CandidateFacts \<Rightarrow> AdmissionPolicy \<Rightarrow> Incumbent list" where
  "improvable s c policy =
     filter (\<lambda>i. let covered = filter (\<lambda>e. e \<in> incumbent_covered_members s) (inc_covers i)
                 in \<not> (covered \<noteq> [] \<and> list_all (\<lambda>e. e \<in> queued_covered_members s c policy) covered) \<and>
                    member_improves c policy i)
            (incumbents s)"

definition superseded_ids :: "Incumbent list \<Rightarrow> string list" where
  "superseded_ids is = map inc_file_id is"

definition previous_best :: "AdmissionSubject \<Rightarrow> int" where
  "previous_best s = (case best_score s of None \<Rightarrow> 0 | Some b \<Rightarrow> b)"

text \<open>\<open>policy.cutoff_score.filter(|cutoff| score >= *cutoff)\<close>.\<close>

definition reached_cutoff :: "AdmissionPolicy \<Rightarrow> int \<Rightarrow> int option" where
  "reached_cutoff policy score =
     (case cutoff_score policy of
        None \<Rightarrow> None
      | Some cutoff \<Rightarrow> (if cutoff \<le> score then Some cutoff else None))"

definition pack_refusal ::
  "AdmissionSubject \<Rightarrow> CandidateFacts \<Rightarrow> AdmissionPolicy \<Rightarrow> Incumbent \<Rightarrow> AdmissionRejection" where
  "pack_refusal s c policy blocker =
     (if list_all (\<lambda>i. tier_cmp (cand_tier_index c) (inc_tier_index i) = Less) (incumbents s) then
        incumbent_rejection LowerQualityTier
          ''every episode in this pack is already held by a better quality file'' blocker
      else if \<not> allow_upgrades policy then
        incumbent_rejection UpgradesDisabled
          ''this pack cannot replace anything because the quality profile disallows upgrades'' blocker
      else (case reached_cutoff policy (inc_score blocker) of
              Some cutoff \<Rightarrow>
                incumbent_rejection (FormatCutoffReached (inc_score blocker) cutoff)
                  (''every episode in this pack has reached the profile'' @ [CHR 0x27] @
                   ''s score cutoff ('' @ show_int (inc_score blocker) @ '' >= '' @ show_int cutoff @ '')'') blocker
            | None \<Rightarrow>
                incumbent_rejection (NotAnUpgrade (inc_score blocker) (cand_score c) (required_delta policy))
                  (''every episode in this pack is already held by an equal or better file (best score '' @
                   show_int (inc_score blocker) @ '' >= '' @ show_int (cand_score c) @ '')'') blocker))"

definition pack_incomplete :: "AdmissionSubject \<Rightarrow> AdmissionRejection" where
  "pack_incomplete s =
     (let text = show_nat (unaired_members s) @
            '' monitored episode(s) in this season have not aired yet, so no pack can be complete''
      in case incumbents s of
           [] \<Rightarrow> \<lparr>ar_reason = SeasonIncomplete, ar_message = text,
                  ar_incumbent_file_id = [], ar_incumbent_file_path = []\<rparr>
         | i # _ \<Rightarrow> incumbent_rejection SeasonIncomplete text i)"

definition evaluate_any_member ::
  "AdmissionSubject \<Rightarrow> CandidateFacts \<Rightarrow> AdmissionPolicy \<Rightarrow> AdmissionVerdict" where
  "evaluate_any_member s c policy =
     (if subj_scope s = Episodes [] then
        Reject \<lparr>ar_reason = SeasonIncomplete,
                ar_message = ''no monitored episodes in this season, so there is nothing a pack could fill'',
                ar_incumbent_file_id = [], ar_incumbent_file_path = []\<rparr>
      else if unaired_members s > 0 then Reject (pack_incomplete s)
      else if manual_override policy then
        Admit (superseded_ids (incumbents s)) (previous_best s)
      else (case (if applies_to_queue policy then find (same_release c) (queued s) else None) of
        Some q \<Rightarrow> Reject (queued_same_release_rejection q)
      | None \<Rightarrow>
          (let members = member_count s;
               covered = incumbent_covered_members s \<union> queued_covered_members s c policy;
               better = improvable s c policy
           in if card covered < members \<or> better \<noteq> [] then
                Admit (superseded_ids better) (previous_best s)
              else (case (if members > 0 \<and> card (queued_covered_members s c policy) = members
                          then find (\<lambda>q. queued_blocks_candidate q c policy) (queued s) else None) of
                Some q \<Rightarrow> Reject (queued_equal_or_better_rejection q c)
              | None \<Rightarrow>
                  (case max_by_key inc_score (incumbents s) of
                     None \<Rightarrow> Admit [] 0
                   | Some blocker \<Rightarrow> Reject (pack_refusal s c policy blocker))))))"

section \<open>The gate\<close>

text \<open>One round of the loop over the incumbents: \<open>None\<close> is \<open>continue\<close> (or the end of the body).\<close>

definition incumbent_refusal ::
  "AdmissionScope \<Rightarrow> CandidateFacts \<Rightarrow> AdmissionPolicy \<Rightarrow> Incumbent \<Rightarrow> AdmissionRejection option" where
  "incumbent_refusal scope c policy i =
     (if (case scope of Episodes ids \<Rightarrow> \<not> set (inc_covers i) \<subseteq> set ids | _ \<Rightarrow> False) then
        Some (incumbent_rejection BroaderIncumbentSpan
          (''existing file '' @ inc_file_path i @
           '' spans a broader episode set and cannot be replaced by this import'') i)
      else if manual_override policy then None
      else (case tier_cmp (cand_tier_index c) (inc_tier_index i) of
        Less \<Rightarrow> Some (incumbent_rejection LowerQualityTier
          (''existing file '' @ inc_file_path i @ '' is a better quality than this candidate'') i)
      | Greater \<Rightarrow> (if \<not> allow_upgrades policy then Some (upgrades_disabled i) else None)
      | Equal \<Rightarrow>
          (case revision_cmp c (inc_tier_index i) (inc_release_group i) (inc_revision i) of
             Greater \<Rightarrow> None
           | Less \<Rightarrow>
               (if \<not> allow_upgrades policy then Some (upgrades_disabled i)
                else Some (incumbent_rejection (LowerRevision (inc_revision i) (cand_revision c))
                  (''existing file '' @ inc_file_path i @ '' is a later revision (PROPER/REPACK '' @
                   show_int (inc_revision i) @ '' > '' @ show_int (cand_revision c) @ '')'') i))
           | Equal \<Rightarrow>
               (if \<not> allow_upgrades policy then Some (upgrades_disabled i)
                else (case reached_cutoff policy (inc_score i) of
                  Some cutoff \<Rightarrow> Some (incumbent_rejection (FormatCutoffReached (inc_score i) cutoff)
                    (''existing file '' @ inc_file_path i @ '' has reached the profile'' @ [CHR 0x27] @
                     ''s score cutoff ('' @ show_int (inc_score i) @ '' >= '' @ show_int cutoff @ '')'') i)
                | None \<Rightarrow>
                    (if saturating_sub_i32 (cand_score c) (inc_score i) < required_delta policy then
                       Some (incumbent_rejection
                         (NotAnUpgrade (inc_score i) (cand_score c) (required_delta policy))
                         (''existing file '' @ inc_file_path i @ '' is equal or better (score '' @
                          show_int (inc_score i) @ '' >= '' @ show_int (cand_score c) @ '')'') i)
                     else None))))))"

definition evaluate_admission ::
  "AdmissionSubject \<Rightarrow> CandidateFacts \<Rightarrow> AdmissionPolicy \<Rightarrow> AdmissionVerdict" where
  "evaluate_admission s c policy =
     (case (if \<not> subj_per_member s then queued_rejection s c policy else None) of
        Some r \<Rightarrow> Reject r
      | None \<Rightarrow>
          (if subj_per_member s then evaluate_any_member s c policy
           else (case find_map (incumbent_refusal (subj_scope s) c policy) (incumbents s) of
                   Some r \<Rightarrow> Reject r
                 | None \<Rightarrow> Admit (superseded_ids (incumbents s)) (previous_best s))))"

section \<open>The orders behind the gate\<close>

lemma tier_cmp_refl [simp]: "tier_cmp t t = Equal"
  by (simp add: tier_cmp_def split: option.split)

lemma tier_cmp_Equal [simp]: "tier_cmp a b = Equal \<longleftrightarrow> a = b"
  by (auto simp: tier_cmp_def split: option.split)

interpretation tier: comparator tier_cmp
proof
  fix x y z
  show "tier_cmp x x = Equal" by simp
  show "tier_cmp y x = reverse_ordering (tier_cmp x y)"
    by (cases x; cases y) (simp_all add: tier_cmp_def reverse_cmp)
  show "tier_cmp x z \<noteq> Greater" if "tier_cmp x y \<noteq> Greater" "tier_cmp y z \<noteq> Greater"
    using that by (cases x; cases y; cases z) (simp_all add: tier_cmp_def)
qed

lemmas descending_by = comparator_flip [OF comparator_on [OF linorder_cmp.comparator_axioms]]

interpretation bar: comparator bar_order
  unfolding bar_order_def
  by (rule comparator_then [OF comparator_flip [OF comparator_on [OF tier.comparator_axioms]] descending_by])

interpretation rows: comparator incumbent_order
  unfolding incumbent_order_def
  by (rule comparator_then [OF comparator_then [OF descending_by descending_by] descending_by])

text \<open>
  The sort key and the comparator agree about every pair of qualities, so no ordering of
  files or releases by tier can disagree with the gate: an index comes before another exactly
  when it is the better tier, and an unlisted quality sorts last.
\<close>

lemma tier_sort_key_agrees:
  assumes "pred_option (\<lambda>t. t < usize_max) a" and "pred_option (\<lambda>t. t < usize_max) b"
  shows "cmp (tier_sort_key a) (tier_sort_key b) = reverse_ordering (tier_cmp a b)"
  using assms
  by (auto simp: tier_sort_key_def tier_cmp_def cmp_def split: option.splits)

section \<open>The ladder\<close>

lemma find_same_release: "find (same_release c) qs = None \<longleftrightarrow> filter (same_release c) qs = []"
  by (auto simp: find_None_iff filter_empty_conv)

lemma reached_cutoff_None: "reached_cutoff policy score = None \<longleftrightarrow> \<not> incumbent_at_format_cutoff policy score"
  by (auto simp: reached_cutoff_def incumbent_at_format_cutoff_def split: option.splits)

definition within_span :: "AdmissionScope \<Rightarrow> Incumbent \<Rightarrow> bool" where
  "within_span scope i = (case scope of Episodes ids \<Rightarrow> set (inc_covers i) \<subseteq> set ids | _ \<Rightarrow> True)"

lemma incumbent_refusal_None:
  "incumbent_refusal scope c policy i = None \<longleftrightarrow>
   within_span scope i \<and> (manual_override policy \<or> member_improves c policy i)"
proof -
  have span: "(case scope of Episodes ids \<Rightarrow> \<not> set (inc_covers i) \<subseteq> set ids | _ \<Rightarrow> False) \<longleftrightarrow> \<not> within_span scope i"
    by (simp add: within_span_def split: AdmissionScope.split)
  show ?thesis
    unfolding incumbent_refusal_def member_improves_def span reached_cutoff_None [symmetric]
    by (simp add: not_less split: ordering.split option.split)
qed

lemma queued_row_rejection_None:
  "queued_row_rejection c policy q = None \<longleftrightarrow>
   \<not> same_release c q \<and>
   (case queued_candidate_win c q policy of
      None \<Rightarrow> False | Some w \<Rightarrow> w = QW_Revision \<or> allow_upgrades policy)"
  by (simp add: queued_row_rejection_def split: option.split QueueWin.split)

text \<open>What the queue asks of a candidate that would become the scope's one file.\<close>

definition beats_queued :: "CandidateFacts \<Rightarrow> AdmissionPolicy \<Rightarrow> QueuedRelease \<Rightarrow> bool" where
  "beats_queued c policy q =
     (\<not> same_release c q \<and>
      (case queued_candidate_win c q policy of
         None \<Rightarrow> False | Some w \<Rightarrow> w = QW_Revision \<or> allow_upgrades policy))"

lemma queued_rejection_None:
  "queued_rejection s c policy = None \<longleftrightarrow>
   (applies_to_queue policy \<and> \<not> manual_override policy \<longrightarrow> list_all (beats_queued c policy) (queued s))"
  by (auto simp: queued_rejection_def queued_row_rejection_None beats_queued_def list_all_iff)

lemma rejection_simps [simp]: "rejection (Admit ids b) = None" "rejection (Reject r) = Some r"
  by (simp_all add: rejection_def)

lemma admit_single:
  assumes "\<not> subj_per_member s"
  shows "is_admitted (evaluate_admission s c policy) \<longleftrightarrow>
    queued_rejection s c policy = None \<and>
    list_all (\<lambda>i. within_span (subj_scope s) i \<and> (manual_override policy \<or> member_improves c policy i))
      (incumbents s)"
proof -
  have "find_map (incumbent_refusal (subj_scope s) c policy) (incumbents s) = None \<longleftrightarrow>
      list_all (\<lambda>i. within_span (subj_scope s) i \<and> (manual_override policy \<or> member_improves c policy i))
        (incumbents s)"
    by (simp add: incumbent_refusal_None list_all_iff)
  then show ?thesis
    using assms by (cases "queued_rejection s c policy";
        cases "find_map (incumbent_refusal (subj_scope s) c policy) (incumbents s)")
      (simp_all add: evaluate_admission_def del: find_map_None)
qed

lemmas ladder_splits = ordering.splits if_splits

text \<open>The verdict of an admitted single-file subject names every incumbent.\<close>

lemma admit_single_superseded:
  assumes "\<not> subj_per_member s" and "is_admitted (evaluate_admission s c policy)"
  shows "evaluate_admission s c policy = Admit (superseded_ids (incumbents s)) (previous_best s)"
  using assms by (auto simp: evaluate_admission_def split: option.splits)

lemma member_improves_no_loss:
  assumes "member_improves c policy i" and "0 \<le> min_delta policy"
  shows "tier_cmp (cand_tier_index c) (inc_tier_index i) = Greater \<or>
    cand_tier_index c = inc_tier_index i \<and>
    (is_related c (inc_tier_index i) (inc_release_group i) \<and> inc_revision i < cand_revision c \<or>
     inc_score i \<le> cand_score c \<and>
     (is_related c (inc_tier_index i) (inc_release_group i) \<longrightarrow> cand_revision c = inc_revision i))"
  using assms saturating_sub_i32_nonneg [of "min_delta policy" "cand_score c" "inc_score i"]
  by (auto simp: member_improves_def revision_cmp_def required_delta_def split: ladder_splits)

text \<open>
  C9. The gate admits a release for a single-file scope exactly when the queue lets it through
  and no incumbent stands against it: the candidate's span contains every episode the incumbent
  covers, and either an operator forced the replacement or the candidate wins the
  tier, revision, score ladder against that incumbent; it then names every incumbent as
  superseded, best first.
\<close>

theorem evaluate_admission_single_iff:
  "if subj_per_member s then evaluate_admission s c policy = evaluate_any_member s c policy
   else if (if applies_to_queue policy \<and> \<not> manual_override policy then list_all (beats_queued c policy) (queued s)
            else True) \<and>
           list_all (\<lambda>i. within_span (subj_scope s) i \<and> (manual_override policy \<or> member_improves c policy i))
             (incumbents s)
     then evaluate_admission s c policy = Admit (map inc_file_id (incumbents s)) (previous_best s)
     else rejection (evaluate_admission s c policy) \<noteq> None"
proof (cases "subj_per_member s")
  case True
  then show ?thesis by (simp add: evaluate_admission_def)
next
  case False
  have "queued_rejection s c policy = None \<longleftrightarrow>
      (if applies_to_queue policy \<and> \<not> manual_override policy then list_all (beats_queued c policy) (queued s)
       else True)"
    by (auto simp: queued_rejection_None)
  with False show ?thesis
    using admit_single [OF False] admit_single_superseded [OF False]
    by (simp add: superseded_ids_def)
qed


definition example_incumbent :: "string \<Rightarrow> nat option \<Rightarrow> int \<Rightarrow> int \<Rightarrow> Incumbent" where
  "example_incumbent name tier revision score =
     \<lparr>inc_tier_index = tier, inc_revision = revision, inc_file_id = name, inc_file_path = name,
      inc_release_group = Some ''GRP'', inc_score = score, inc_covers = [], inc_created_at = []\<rparr>"

lemmas example_eval =
  evaluate_admission_def queued_rejection_def incumbent_refusal_def AdmissionSubject_new_def
  not_a_downgrade_def CandidateFacts_new_def example_incumbent_def tier_cmp_def revision_cmp_def
  is_related_def group_name_def reached_cutoff_def required_delta_def saturating_sub_i32_def
  sat_i32_def sort_by_def cmp_def within_span_def


section \<open>The subject\<close>

lemma incumbent_order_ident:
  "incumbent_order x y = Equal \<Longrightarrow> inc_file_id x = inc_file_id y"
  by (simp add: incumbent_order_def then_with_iff)

text \<open>
  The subject does not depend on the order rows came back from the store: when file ids are
  unique, any two listings of the same rows build the same subject. It holds exactly the primary
  files, and lists them by falling score.
\<close>

theorem AdmissionSubject_new_order_independent:
  assumes "mset rows = mset rows'" and "distinct (map (\<lambda>r. inc_file_id (fst r)) (filter snd rows))"
  shows "AdmissionSubject_new scope rows = AdmissionSubject_new scope rows' \<and>
    mset (incumbents (AdmissionSubject_new scope rows)) = image_mset fst (filter_mset snd (mset rows)) \<and>
    sorted_wrt (\<lambda>a b. inc_score b \<le> inc_score a) (incumbents (AdmissionSubject_new scope rows))"
proof -
  let ?p = "\<lambda>rs. map fst (filter snd rs)"
  have inj: "inj_on inc_file_id (set (?p rows))"
    using assms(2) by (simp add: distinct_map inj_on_def)
  have "sort_by incumbent_order (?p rows) = sort_by incumbent_order (?p rows')"
  proof (rule rows.sort_by_perm)
    show "mset (?p rows) = mset (?p rows')" using assms(1) by simp
    show "x = y" if "x \<in> set (?p rows)" "y \<in> set (?p rows)" "incumbent_order x y = Equal" for x y
      using that incumbent_order_ident inj by (meson inj_onD)
  qed
  moreover have "inc_score b \<le> inc_score a" if "incumbent_order a b \<noteq> Greater" for a b
    using that by (auto simp: incumbent_order_def then_with_iff cmp_def split: if_splits)
  ultimately show ?thesis
    using sorted_wrt_mono_rel [OF _ rows.sorted_sort_by] assms(1)
    by (auto simp: AdmissionSubject_new_def)
qed

theorem AdmissionSubject_new_order_independent_witness:
  "AdmissionSubject_new Title [(example_incumbent ''a'' None 0 1, True), (example_incumbent ''b'' None 0 2, True)] =
   AdmissionSubject_new Title [(example_incumbent ''b'' None 0 2, True), (example_incumbent ''a'' None 0 1, True)]"
  using AdmissionSubject_new_order_independent
    [of "[(example_incumbent ''a'' None 0 1, True), (example_incumbent ''b'' None 0 2, True)]"
        "[(example_incumbent ''b'' None 0 2, True), (example_incumbent ''a'' None 0 1, True)]" Title]
  by (simp add: example_incumbent_def add_mset_commute)

text \<open>
  The bar of a scope is its best file judged the way the gate judges files: no incumbent is of
  a better tier than the record, none of the same tier scores higher, and there is a bar exactly
  when the scope is occupied.
\<close>

theorem best_incumbent_record_is_the_bar:
  "case best_incumbent_record s of
     None \<Rightarrow> is_unoccupied s
   | Some b \<Rightarrow>
       b \<in> set (incumbents s) \<and>
       list_all (\<lambda>i. case tier_cmp (inc_tier_index b) (inc_tier_index i) of
                       Greater \<Rightarrow> True | Less \<Rightarrow> False | Equal \<Rightarrow> inc_score i \<le> inc_score b)
         (incumbents s)"
proof (cases "best_incumbent_record s")
  case None
  then show ?thesis by (simp add: best_incumbent_record_def is_unoccupied_def)
next
  case (Some b)
  then have b: "b \<in> set (incumbents s)" "\<forall>i \<in> set (incumbents s). bar_order b i \<noteq> Greater"
    using bar.min_by_Some unfolding best_incumbent_record_def by blast+
  have "case tier_cmp (inc_tier_index b) (inc_tier_index i) of
      Greater \<Rightarrow> True | Less \<Rightarrow> False | Equal \<Rightarrow> inc_score i \<le> inc_score b"
    if "bar_order b i \<noteq> Greater" for i
  proof -
    have "tier_cmp (inc_tier_index i) (inc_tier_index b) =
        reverse_ordering (tier_cmp (inc_tier_index b) (inc_tier_index i))"
      by (rule tier.swap)
    with that show ?thesis
      by (cases "tier_cmp (inc_tier_index b) (inc_tier_index i)")
        (simp_all add: bar_order_def then_with_iff not_less del: tier_cmp_Equal)
  qed
  with Some b show ?thesis by (simp add: list_all_iff)
qed

section \<open>Grab and import share the gate\<close>

lemma member_improves_import:
  "member_improves c policy i \<Longrightarrow> 0 \<le> min_delta policy \<Longrightarrow> member_improves c not_a_downgrade i"
  using saturating_sub_i32_nonneg [of "min_delta policy" "cand_score c" "inc_score i"]
  by (auto simp: member_improves_def required_delta_def not_a_downgrade_def saturating_sub_i32_zero_iff
      incumbent_at_format_cutoff_def split: ladder_splits)

lemma queued_rejection_import [simp]: "queued_rejection s c not_a_downgrade = None"
  by (simp add: queued_rejection_def not_a_downgrade_def)

text \<open>
  Scryer never queues a download it already knows it will refuse: if a grab policy that asks
  for a non-negative improvement admits a release for a single-file scope, the import policy
  admits the same release over the same files, whatever is in the download queue by then.
\<close>

theorem grab_admits_import_admits:
  assumes "\<not> subj_per_member s" and "is_admitted (evaluate_admission s c policy)"
    and "\<not> manual_override policy" and "0 \<le> min_delta policy"
  shows "is_admitted (evaluate_admission (with_queued s q) c not_a_downgrade)"
proof -
  have "list_all (\<lambda>i. within_span (subj_scope s) i \<and> member_improves c not_a_downgrade i) (incumbents s)"
    using assms(2,3) admit_single [OF assms(1)] member_improves_import [OF _ assms(4)]
    by (simp add: list_all_iff)
  moreover have "\<not> subj_per_member (with_queued s q)" using assms(1) by (simp add: with_queued_def)
  ultimately show ?thesis by (simp add: admit_single list_all_iff with_queued_def)
qed

definition example_grab_policy :: AdmissionPolicy where
  "example_grab_policy = \<lparr>allow_upgrades = True, min_delta = 10, cutoff_score = Some 500,
                          manual_override = False, applies_to_queue = True\<rparr>"

definition example_queued :: "string \<Rightarrow> string list \<Rightarrow> int \<Rightarrow> QueuedRelease" where
  "example_queued title members score =
     \<lparr>missing_history = False, history_cutoff_reached = False, q_release_group = None,
      q_title = title, q_covers = members, q_tier_index = Some 1, q_revision = 0,
      q_score = score, q_release_key = Some 7\<rparr>"

theorem grab_admits_import_admits_witness:
  "let s = AdmissionSubject_new Title [(example_incumbent ''old'' (Some 1) 0 50, True)];
       c = CandidateFacts_new (Some 1) 0 60
   in is_admitted (evaluate_admission s c example_grab_policy) \<and>
      is_admitted (evaluate_admission (with_queued s [example_queued ''other'' [] 90]) c not_a_downgrade)"
  using grab_admits_import_admits
    [of "AdmissionSubject_new Title [(example_incumbent ''old'' (Some 1) 0 50, True)]"
        "CandidateFacts_new (Some 1) 0 60" example_grab_policy "[example_queued ''other'' [] 90]"]
  by (simp add: example_eval example_grab_policy_def)

text \<open>
  A release that is already grabbed for a scope is never fetched twice: with the queue in
  play and no operator behind it, a candidate whose identity equals that of a queued release is
  refused, for one file and for a season pack alike, whatever the scores say.
\<close>

theorem same_release_refused:
  assumes "applies_to_queue policy" and "\<not> manual_override policy"
    and "q \<in> set (queued s)" and "cand_release_key c = Some k" and "q_release_key q = Some k"
  shows "\<not> is_admitted (evaluate_admission s c policy)"
proof (cases "subj_per_member s")
  case True
  have "find (same_release c) (queued s) \<noteq> None"
    using assms by (auto simp: find_None_iff same_release_def)
  with True assms(1,2) show ?thesis
    by (auto simp: evaluate_admission_def evaluate_any_member_def)
next
  case False
  have "\<not> beats_queued c policy q" using assms by (simp add: beats_queued_def same_release_def)
  with assms False show ?thesis
    by (auto simp: admit_single queued_rejection_None list_all_iff)
qed

theorem same_release_refused_witness:
  "\<not> is_admitted (evaluate_admission
       (with_queued (AdmissionSubject_new Title []) [example_queued ''a'' [] 1])
       ((CandidateFacts_new (Some 0) 3 900)\<lparr>cand_release_key := Some 7\<rparr>) example_grab_policy)"
  using same_release_refused
    [of example_grab_policy "example_queued ''a'' [] 1"
        "with_queued (AdmissionSubject_new Title []) [example_queued ''a'' [] 1]"
        "(CandidateFacts_new (Some 0) 3 900)\<lparr>cand_release_key := Some 7\<rparr>" 7]
  by (simp add: example_grab_policy_def example_queued_def with_queued_def)

section \<open>Season packs\<close>

lemma covered_subset:
  "subj_scope s = Episodes ids \<Longrightarrow>
   incumbent_covered_members s \<union> queued_covered_members s c policy \<subseteq> set ids"
  by (auto simp: incumbent_covered_members_def queued_covered_members_def)

lemma missing_member_iff:
  assumes "subj_scope s = Episodes ids" and "distinct ids"
  shows "card (incumbent_covered_members s \<union> queued_covered_members s c policy) < member_count s \<longleftrightarrow>
    \<not> set ids \<subseteq> incumbent_covered_members s \<union> queued_covered_members s c policy"
proof -
  let ?cov = "incumbent_covered_members s \<union> queued_covered_members s c policy"
  have len: "member_count s = card (set ids)"
    using assms by (simp add: member_count_def distinct_card)
  have sub: "?cov \<subseteq> set ids" using assms(1) by (rule covered_subset)
  then have "card ?cov \<le> card (set ids)" by (intro card_mono) auto
  moreover have "card ?cov = card (set ids) \<longleftrightarrow> ?cov = set ids"
    using sub card_subset_eq [of "set ids" ?cov] by auto
  ultimately show ?thesis using sub len by (metis le_neq_implies_less less_irrefl subset_antisym)
qed

lemma all_queued_blocked:
  assumes "subj_scope s = Episodes ids" and "ids \<noteq> []" and "incumbents s = []"
    and "set ids \<subseteq> incumbent_covered_members s \<union> queued_covered_members s c policy"
  shows "find (\<lambda>q. queued_blocks_candidate q c policy) (queued s) \<noteq> None \<and>
    queued_covered_members s c policy = set ids"
proof -
  have "incumbent_covered_members s = {}"
    using assms(1,3) by (simp add: incumbent_covered_members_def)
  with assms(4) covered_subset [OF assms(1)] have eq: "queued_covered_members s c policy = set ids"
    by blast
  obtain e where "e \<in> queued_covered_members s c policy" using assms(2) eq by (cases ids) auto
  then have "\<exists>q \<in> set (queued s). queued_blocks_candidate q c policy"
    using assms(1) by (auto simp: queued_covered_members_def)
  with eq show ?thesis by (auto simp: find_None_iff)
qed

text \<open>
  C10. A season pack nobody forced is admitted exactly when it is worth fetching: the season has
  members, all of them have aired, the pack is not itself already grabbed, and some member is
  held by no file and no blocking download or some held file would be improved. The files it
  reports as displaced are precisely the improvable ones, so a pack over an occupied season is
  never admitted for nothing.
\<close>

theorem pack_admission_iff:
  assumes "subj_per_member s" and "subj_scope s = Episodes ids" and "distinct ids"
    and "\<not> manual_override policy"
  shows "if ids \<noteq> [] \<and> unaired_members s = 0 \<and>
            \<not> (applies_to_queue policy \<and> list_ex (same_release c) (queued s)) \<and>
            (\<not> set ids \<subseteq> incumbent_covered_members s \<union> queued_covered_members s c policy \<or>
             improvable s c policy \<noteq> [])
         then evaluate_admission s c policy =
                Admit (map inc_file_id (improvable s c policy)) (previous_best s)
         else \<not> is_admitted (evaluate_admission s c policy)"
proof -
  have gate: "evaluate_admission s c policy = evaluate_any_member s c policy"
    using assms(1) by (simp add: evaluate_admission_def)
  have len: "member_count s = card (set ids)"
    using assms by (simp add: member_count_def distinct_card)
  have same: "(if applies_to_queue policy then find (same_release c) (queued s) else None) = None \<longleftrightarrow>
      \<not> (applies_to_queue policy \<and> list_ex (same_release c) (queued s))"
    by (auto simp: find_None_iff list_ex_iff)
  consider "ids = []" | "ids \<noteq> []" "unaired_members s > 0"
    | "ids \<noteq> []" "unaired_members s = 0" "applies_to_queue policy \<and> list_ex (same_release c) (queued s)"
    | "ids \<noteq> []" "unaired_members s = 0"
      "(if applies_to_queue policy then find (same_release c) (queued s) else None) = None"
    using same by (metis neq0_conv)
  then show ?thesis
  proof cases
    case 3
    then obtain q where "find (same_release c) (queued s) = Some q"
      by (cases "find (same_release c) (queued s)") (auto simp: find_None_iff list_ex_iff)
    with 3 assms(2,4) show ?thesis by (simp add: gate evaluate_any_member_def)
  next
    case 4
    note miss = missing_member_iff [OF assms(2,3), of c policy]
    show ?thesis
    proof (cases "\<not> set ids \<subseteq> incumbent_covered_members s \<union> queued_covered_members s c policy \<or>
        improvable s c policy \<noteq> []")
      case True
      with 4 assms(2,4) same miss show ?thesis
        by (simp add: gate evaluate_any_member_def superseded_ids_def Let_def)
    next
      case False
      then have blocked: "incumbents s = [] \<Longrightarrow>
          find (\<lambda>q. queued_blocks_candidate q c policy) (queued s) \<noteq> None \<and>
          queued_covered_members s c policy = set ids"
        using all_queued_blocked [OF assms(2) 4(1)] by blast
      have "0 < card (set ids)" using 4(1) by (simp add: card_gt_0_iff)
      with False 4 assms(2,4) same miss blocked show ?thesis
        by (cases "incumbents s")
           (auto simp: gate evaluate_any_member_def Let_def len split: option.split)
    qed
  qed (use assms(2) in \<open>simp_all add: gate evaluate_any_member_def\<close>)
qed

definition example_season :: AdmissionSubject where
  "example_season = per_member (AdmissionSubject_new (Episodes [''e1'', ''e2''])
     [((example_incumbent ''f1'' (Some 1) 0 50)\<lparr>inc_covers := [''e1'']\<rparr>, True)])"

theorem pack_admission_iff_witness:
  "evaluate_admission example_season (CandidateFacts_new (Some 1) 0 40) example_grab_policy = Admit [] 50"
  using pack_admission_iff [of example_season "[''e1'', ''e2'']" example_grab_policy
      "CandidateFacts_new (Some 1) 0 40"]
  by (simp add: example_season_def per_member_def AdmissionSubject_new_def example_grab_policy_def
      incumbent_covered_members_def queued_covered_members_def example_incumbent_def sort_by_def
      improvable_def member_improves_def CandidateFacts_new_def revision_cmp_def is_related_def
      group_name_def required_delta_def saturating_sub_i32_def sat_i32_def previous_best_def best_score_def)

text \<open>
  C12. What a pack promises to displace, its imports will displace: every file id an admitted,
  unforced pack grab reports belongs to an incumbent over which the import gate, asked about that
  incumbent's own episodes alone, admits the same facts.
\<close>

theorem pack_superseded_import_admits:
  assumes "subj_per_member s" and "evaluate_admission s c policy = Admit ids b"
    and "\<not> manual_override policy" and "0 \<le> min_delta policy"
  shows "\<forall>x. x \<in> set ids \<longrightarrow> (\<exists>i. i \<in> set (incumbents s) \<and> inc_file_id i = x \<and>
    evaluate_admission (AdmissionSubject_new (Episodes (inc_covers i)) [(i, True)]) c not_a_downgrade =
      Admit [x] (inc_score i))"
proof (intro allI impI)
  fix x assume x: "x \<in> set ids"
  have "ids = superseded_ids (improvable s c policy) \<or> ids = []"
    using assms(1-3)
    by (auto simp: evaluate_admission_def evaluate_any_member_def Let_def split: if_splits option.splits)
  with x obtain i where i: "i \<in> set (improvable s c policy)" "inc_file_id i = x"
    by (auto simp: superseded_ids_def)
  then have mem: "i \<in> set (incumbents s)" and better: "member_improves c policy i"
    by (auto simp: improvable_def Let_def)
  let ?s = "AdmissionSubject_new (Episodes (inc_covers i)) [(i, True)]"
  have inc: "incumbents ?s = [i]" and single: "\<not> subj_per_member ?s"
    and scope: "subj_scope ?s = Episodes (inc_covers i)"
    by (simp_all add: AdmissionSubject_new_def sort_by_def)
  have "is_admitted (evaluate_admission ?s c not_a_downgrade)"
    unfolding admit_single [OF single] inc scope
    using member_improves_import [OF better assms(4)] by (simp add: within_span_def)
  from admit_single_superseded [OF single this] inc i(2) mem
  show "\<exists>i. i \<in> set (incumbents s) \<and> inc_file_id i = x \<and>
      evaluate_admission (AdmissionSubject_new (Episodes (inc_covers i)) [(i, True)]) c not_a_downgrade =
        Admit [x] (inc_score i)"
    by (auto simp: superseded_ids_def previous_best_def best_score_def)
qed

theorem pack_superseded_import_admits_witness:
  "\<exists>i. i \<in> set (incumbents example_season) \<and> inc_file_id i = ''f1'' \<and>
     evaluate_admission (AdmissionSubject_new (Episodes (inc_covers i)) [(i, True)])
       (CandidateFacts_new (Some 1) 0 60) not_a_downgrade = Admit [''f1''] (inc_score i)"
proof -
  have "evaluate_admission example_season (CandidateFacts_new (Some 1) 0 60) example_grab_policy = Admit [''f1''] 50"
    by (simp add: evaluate_admission_def evaluate_any_member_def member_count_def superseded_ids_def
        example_season_def per_member_def AdmissionSubject_new_def example_grab_policy_def
        incumbent_covered_members_def queued_covered_members_def example_incumbent_def sort_by_def
        improvable_def member_improves_def CandidateFacts_new_def revision_cmp_def is_related_def
        group_name_def required_delta_def saturating_sub_i32_def sat_i32_def previous_best_def best_score_def
        incumbent_at_format_cutoff_def)
  then show ?thesis
    using pack_superseded_import_admits [of example_season "CandidateFacts_new (Some 1) 0 60"
        example_grab_policy "[''f1'']" 50]
    by (simp add: example_season_def per_member_def example_grab_policy_def)
qed

section \<open>Revisions\<close>

lemma revision_scan_eq:
  "revision_scan c improves rows =
   (if list_all (\<lambda>(t, g, r). is_related c t g \<and> r \<le> cand_revision c) rows \<and>
       (improves \<or> list_ex (\<lambda>(t, g, r). r < cand_revision c) rows)
    then cand_revision c else 0)"
  by (induction c improves rows rule: revision_scan.induct) auto

text \<open>
  The revision rank of a search result is its own revision exactly when it is related to
  every file and every download of the scope, is behind none of them and ahead of one, and 0
  otherwise; in particular it is 0 on an unoccupied scope, so unrelated candidates are never
  ranked by revision.
\<close>

theorem revision_preference_spec:
  "revision_preference c s =
   (let rows = map (\<lambda>i. (inc_tier_index i, inc_release_group i, inc_revision i)) (incumbents s) @
               map (\<lambda>q. (q_tier_index q, q_release_group q, q_revision q)) (queued s)
    in if list_all (\<lambda>(t, g, r). revision_cmp c t g r \<noteq> Less \<and> is_related c t g) rows \<and>
          list_ex (\<lambda>(t, g, r). revision_cmp c t g r = Greater) rows
       then cand_revision c else 0)"
proof -
  have all: "list_all (\<lambda>(t, g, r). is_related c t g \<and> r \<le> cand_revision c) rows =
      list_all (\<lambda>(t, g, r). revision_cmp c t g r \<noteq> Less \<and> is_related c t g) rows" for rows
    by (induction rows) (auto simp: revision_cmp_def not_less)
  have ex: "list_ex (\<lambda>(t, g, r). r < cand_revision c) rows =
      list_ex (\<lambda>(t, g, r). revision_cmp c t g r = Greater) rows"
    if "list_all (\<lambda>(t, g, r). revision_cmp c t g r \<noteq> Less \<and> is_related c t g) rows" for rows
    using that by (induction rows) (auto simp: revision_cmp_def)
  show ?thesis
    unfolding revision_preference_def revision_scan_eq Let_def all
    by (rule if_cong) (auto simp only: ex)
qed

text \<open>A file seen again as a candidate, and the relation \<open>the grab of a replaces b\<close>.\<close>

definition as_candidate :: "bool \<Rightarrow> Incumbent \<Rightarrow> CandidateFacts" where
  "as_candidate ignore i =
     with_revision_policy (CandidateFacts_new (inc_tier_index i) (inc_revision i) (inc_score i))
       (inc_release_group i) ignore"

definition replaces :: "bool \<Rightarrow> AdmissionPolicy \<Rightarrow> Incumbent \<Rightarrow> Incumbent \<Rightarrow> bool" where
  "replaces ignore policy a b \<longleftrightarrow>
     is_admitted (evaluate_admission (AdmissionSubject_new Title [(b, True)]) (as_candidate ignore a) policy)"

lemma replaces_iff:
  "replaces ignore policy a b \<longleftrightarrow>
   manual_override policy \<or> member_improves (as_candidate ignore a) policy b"
proof -
  let ?s = "AdmissionSubject_new Title [(b, True)]"
  have s: "\<not> subj_per_member ?s" "incumbents ?s = [b]" "subj_scope ?s = Title"
    "queued_rejection ?s (as_candidate ignore a) policy = None"
    by (simp_all add: AdmissionSubject_new_def sort_by_def queued_rejection_def)
  show ?thesis unfolding replaces_def admit_single [OF s(1)] s(2-4) by (simp add: within_span_def)
qed

lemma replaces_ignore:
  assumes "\<not> manual_override policy" and "1 \<le> min_delta policy"
  shows "replaces True policy a b \<longleftrightarrow>
    allow_upgrades policy \<and>
    (tier_cmp (inc_tier_index a) (inc_tier_index b) = Greater \<or>
     inc_tier_index a = inc_tier_index b \<and> \<not> incumbent_at_format_cutoff policy (inc_score b) \<and>
     min_delta policy \<le> saturating_sub_i32 (inc_score a) (inc_score b))"
proof -
  have "revision_cmp (as_candidate True a) t g r = Equal" for t g r
    by (simp add: revision_cmp_def is_related_def as_candidate_def with_revision_policy_def)
  then show ?thesis using assms(1)
    by (cases "tier_cmp (inc_tier_index a) (inc_tier_index b)")
       (auto simp: replaces_iff member_improves_def as_candidate_def required_delta_def
        with_revision_policy_def CandidateFacts_new_def simp flip: tier_cmp_Equal)
qed

lemma saturating_sub_i32_chain:
  "1 \<le> d \<Longrightarrow> d \<le> saturating_sub_i32 a b \<Longrightarrow> d \<le> saturating_sub_i32 b c \<Longrightarrow> d \<le> saturating_sub_i32 a c"
  by (auto simp: saturating_sub_i32_def sat_i32_def)

lemma tier_Greater_trans:
  "tier_cmp a b = Greater \<Longrightarrow> tier_cmp b c = Greater \<Longrightarrow> tier_cmp a c = Greater"
  by (cases a; cases b; cases c) (simp_all add: tier_cmp_def)

lemma replaces_ignore_trans:
  assumes "\<not> manual_override policy" and "1 \<le> min_delta policy"
    and "replaces True policy a b" and "replaces True policy b c"
  shows "replaces True policy a c"
  using assms(3,4) tier_Greater_trans [of "inc_tier_index a" "inc_tier_index b" "inc_tier_index c"]
    saturating_sub_i32_chain [OF assms(2), of "inc_score a" "inc_score b" "inc_score c"]
  unfolding replaces_ignore [OF assms(1,2)] by auto



lemma example_groups:
  "trim ''GRP'' = ''GRP''" "trim ''ELSE'' = ''ELSE''"
  "eq_ignore_ascii_case ''GRP'' ''GRP''" "\<not> eq_ignore_ascii_case ''GRP'' ''ELSE''"
  "\<not> eq_ignore_ascii_case ''ELSE'' ''GRP''"
  by code_simp+

text \<open>
  Honouring revisions, the relation has a cycle: the revision rung compares releases of one group
  only and outranks the score, so a group's low-scoring PROPER, a middling release of another group
  and the first group's high-scoring original replace each other in turn.
\<close>

theorem honoured_revisions_cycle:
  "let proper = example_incumbent ''proper'' (Some 1) 1 0;
       original = example_incumbent ''original'' (Some 1) 0 40;
       other = (example_incumbent ''other'' (Some 1) 0 20)\<lparr>inc_release_group := Some ''ELSE''\<rparr>
   in replaces False example_grab_policy proper original \<and>
      replaces False example_grab_policy original other \<and>
      replaces False example_grab_policy other proper"
  by (simp add: replaces_iff member_improves_def as_candidate_def with_revision_policy_def Let_def
      CandidateFacts_new_def example_incumbent_def example_grab_policy_def revision_cmp_def
      is_related_def group_name_def example_groups required_delta_def incumbent_at_format_cutoff_def
      saturating_sub_i32_def sat_i32_def cmp_def tier_cmp_def)

end
