(* ===== verification/Release_Model.thy ===== *)
theory Release_Model
  imports Domain_Types
begin

text \<open>
  The data the release parser hands to the rest of the program, from
  \<open>scryer-release-parser/src/model.rs\<close>: the source, video and audio codec enumerations with the
  labels they print and the aliases they read, the episodic metadata and the parsed release. The
  parser itself is not modelled; the components below take its result as data.
\<close>

section \<open>Sources and codecs\<close>

datatype ReleaseSource =
  WebDl | WebRip | BluRay | BrDisk | Dvd | Hdtv | Cam | Telesync | Telecine | DvdScr | Workprint

primrec ReleaseSource_as_str :: "ReleaseSource \<Rightarrow> string" where
  "ReleaseSource_as_str WebDl = ''WEB-DL''"
| "ReleaseSource_as_str WebRip = ''WEBRip''"
| "ReleaseSource_as_str BluRay = ''BluRay''"
| "ReleaseSource_as_str BrDisk = ''BRDISK''"
| "ReleaseSource_as_str Dvd = ''DVD''"
| "ReleaseSource_as_str Hdtv = ''HDTV''"
| "ReleaseSource_as_str Cam = ''CAM''"
| "ReleaseSource_as_str Telesync = ''TELESYNC''"
| "ReleaseSource_as_str Telecine = ''TELECINE''"
| "ReleaseSource_as_str DvdScr = ''DVDSCR''"
| "ReleaseSource_as_str Workprint = ''WORKPRINT''"

definition ReleaseSource_parse :: "string \<Rightarrow> ReleaseSource option" where
  "ReleaseSource_parse raw =
     (let value = without_chars ''-_. '' (to_ascii_uppercase (trim raw))
      in if value \<in> set [''WEBDL'', ''WEB''] then Some WebDl
         else if value \<in> set [''WEBRIP'', ''WEBRI''] then Some WebRip
         else if value \<in> set [''BLURAY'', ''BLU'', ''BD'', ''UHD'', ''BDRIP'', ''BRRIP'', ''BDREMUX'',
                              ''BDRIO'', ''BLURAY3D'', ''BD3D''] then Some BluRay
         else if value \<in> set [''BRDISK'', ''BDMV'', ''BDISO'', ''BD25'', ''BD50'', ''BD66'', ''BD100''] then Some BrDisk
         else if value \<in> set [''DVD'', ''DVDRIP''] then Some Dvd
         else if value \<in> set [''HDTV'', ''RAWHD''] then Some Hdtv
         else if value \<in> set [''CAM'', ''HQCAM'', ''CAMRIP'', ''HDCAM''] then Some Cam
         else if value \<in> set [''TELESYNC'', ''TS''] then Some Telesync
         else if value \<in> set [''TELECINE'', ''TC''] then Some Telecine
         else if value \<in> set [''DVDSCR'', ''DVDSCREENER''] then Some DvdScr
         else if value \<in> set [''WORKPRINT'', ''WP''] then Some Workprint
         else None)"

datatype VideoCodec = H264 | H265 | Av1 | Vp9 | Vc1 | Mpeg2 | Mpeg4 | Xvid | Divx | Vvc

primrec VideoCodec_as_str :: "VideoCodec \<Rightarrow> string" where
  "VideoCodec_as_str H264 = ''H.264''"
| "VideoCodec_as_str H265 = ''H.265''"
| "VideoCodec_as_str Av1 = ''AV1''"
| "VideoCodec_as_str Vp9 = ''VP9''"
| "VideoCodec_as_str Vc1 = ''VC1''"
| "VideoCodec_as_str Mpeg2 = ''MPEG2''"
| "VideoCodec_as_str Mpeg4 = ''MPEG4''"
| "VideoCodec_as_str Xvid = ''XVID''"
| "VideoCodec_as_str Divx = ''DIVX''"
| "VideoCodec_as_str Vvc = ''VVC''"

definition VideoCodec_parse :: "string \<Rightarrow> VideoCodec option" where
  "VideoCodec_parse raw =
     (let value = to_ascii_uppercase (trim raw)
      in if value \<in> set [''AVC'', ''AVC1'', ''H264'', ''H.264'', ''X264''] then Some H264
         else if value \<in> set [''HEVC'', ''HEV1'', ''H265'', ''H.265'', ''HVC1'', ''X265''] then Some H265
         else if value \<in> set [''AV1'', ''AV01''] then Some Av1
         else if value = ''VP9'' then Some Vp9
         else if value \<in> set [''VC1'', ''VC-1''] then Some Vc1
         else if value \<in> set [''MPEG2'', ''MPEG-2''] then Some Mpeg2
         else if value \<in> set [''MPEG4'', ''MPEG-4'', ''MP4V''] then Some Mpeg4
         else if value = ''XVID'' then Some Xvid
         else if value = ''DIVX'' then Some Divx
         else if value \<in> set [''VVC'', ''H266'', ''H.266''] then Some Vvc
         else None)"

datatype AudioCodec =
  Ddp | Eac3 | Ac3 | Aac | TrueHd | DtsMa | DtsX | DtsHd | Dts | Flac | Opus | Vorbis | Mp3 | Pcm

primrec AudioCodec_as_str :: "AudioCodec \<Rightarrow> string" where
  "AudioCodec_as_str Ddp = ''DDP''"
| "AudioCodec_as_str Eac3 = ''EAC3''"
| "AudioCodec_as_str Ac3 = ''AC3''"
| "AudioCodec_as_str Aac = ''AAC''"
| "AudioCodec_as_str TrueHd = ''TRUEHD''"
| "AudioCodec_as_str DtsMa = ''DTSMA''"
| "AudioCodec_as_str DtsX = ''DTSX''"
| "AudioCodec_as_str DtsHd = ''DTSHD''"
| "AudioCodec_as_str Dts = ''DTS''"
| "AudioCodec_as_str Flac = ''FLAC''"
| "AudioCodec_as_str Opus = ''OPUS''"
| "AudioCodec_as_str Vorbis = ''VORBIS''"
| "AudioCodec_as_str Mp3 = ''MP3''"
| "AudioCodec_as_str Pcm = ''PCM''"

definition AudioCodec_parse :: "string \<Rightarrow> AudioCodec option" where
  "AudioCodec_parse raw =
     (let value = to_ascii_uppercase (trim raw)
      in if value \<in> set [''DD+'', ''DD PLUS'', ''DOLBY DIGITAL+'', ''DOLBYDIGITAL+''] then Some Ddp
         else
           (let compact = without_chars ''-_. :+'' value
            in if compact \<in> set [''DDP'', ''DDPLUS'', ''DOLBYDIGITALPLUS''] then Some Ddp
               else if compact \<in> set [''EAC3'', ''EAC'', ''EC3''] then Some Eac3
               else if compact \<in> set [''AC3'', ''DD'', ''DOLBYDIGITAL''] then Some Ac3
               else if compact \<in> set [''AAC'', ''AACLC'', ''HEAAC''] then Some Aac
               else if compact \<in> set [''TRUEHD'', ''DOLBYTRUEHD''] then Some TrueHd
               else if compact \<in> set [''DTSMA'', ''DTSHDMA'', ''DTSHDMASTER'', ''DTSHDMASTERAUDIO''] then Some DtsMa
               else if compact = ''DTSX'' then Some DtsX
               else if compact = ''DTSHD'' then Some DtsHd
               else if compact = ''DTS'' then Some Dts
               else if compact = ''FLAC'' then Some Flac
               else if compact = ''OPUS'' then Some Opus
               else if compact = ''VORBIS'' then Some Vorbis
               else if compact \<in> set [''MP3'', ''MPEG3'', ''MPEGAUDIOLAYER3''] then Some Mp3
               else if compact \<in> set [''PCM'', ''LPCM''] then Some Pcm
               else None))"

section \<open>Parsed releases\<close>

datatype ParsedSpecialKind = Kind_Special | Kind_Ova | Kind_Oad | Kind_Ncop | Kind_Nced | Kind_Extra

datatype ParsedEpisodeReleaseType =
  SingleEpisode | MultiEpisode | SeasonPack | RangePack | Daily | UnknownReleaseType

text \<open>\<open>NaiveDate\<close> values are day numbers.\<close>

record ParsedEpisodeMetadata =
  ep_season :: "nat option"
  ep_season_numbers :: "nat list"
  ep_episode_numbers :: "nat list"
  ep_absolute_episode :: "nat option"
  ep_absolute_episode_numbers :: "nat list"
  ep_special_absolute_episode_numbers :: "nat list"
  ep_air_date :: "int option"
  ep_daily_part :: "nat option"
  ep_full_season :: bool
  ep_is_partial_season :: bool
  ep_is_multi_season :: bool
  ep_is_series_pack :: bool
  ep_season_part :: "nat option"
  ep_is_season_extra :: bool
  ep_is_split_episode :: bool
  ep_is_mini_series :: bool
  ep_special_kind :: "ParsedSpecialKind option"
  ep_release_type :: ParsedEpisodeReleaseType
  ep_raw :: "string option"

definition first :: "'a list \<Rightarrow> 'a option" where
  "first xs = (case xs of [] \<Rightarrow> None | x # _ \<Rightarrow> Some x)"

definition first_episode :: "ParsedEpisodeMetadata \<Rightarrow> nat option" where
  "first_episode e =
     or_else (or_else (first (ep_episode_numbers e)) (first (ep_absolute_episode_numbers e)))
             (first (ep_special_absolute_episode_numbers e))"

datatype ExternalIdSource = Imdb | Tmdb | Tvdb | AniDb | AniDbEpisode | AniList | Mal

primrec ExternalIdSource_as_str :: "ExternalIdSource \<Rightarrow> string" where
  "ExternalIdSource_as_str Imdb = ''imdb''"
| "ExternalIdSource_as_str Tmdb = ''tmdb''"
| "ExternalIdSource_as_str Tvdb = ''tvdb''"
| "ExternalIdSource_as_str AniDb = ''anidb''"
| "ExternalIdSource_as_str AniDbEpisode = ''anidb_episode''"
| "ExternalIdSource_as_str AniList = ''anilist''"
| "ExternalIdSource_as_str Mal = ''mal''"

definition ExternalIdSource_parse :: "string \<Rightarrow> ExternalIdSource option" where
  "ExternalIdSource_parse raw =
     (let compact = without_chars ''-_. '' (to_ascii_lowercase (trim raw))
      in if compact \<in> set [''imdb'', ''imdbid''] then Some Imdb
         else if compact \<in> set [''tmdb'', ''tmdbid''] then Some Tmdb
         else if compact \<in> set [''tvdb'', ''tvdbid''] then Some Tvdb
         else if compact \<in> set [''anidb'', ''anidbid''] then Some AniDb
         else if compact \<in> set [''anidbepisode'', ''anidbepisodeid''] then Some AniDbEpisode
         else if compact \<in> set [''anilist'', ''anilistid''] then Some AniList
         else if compact \<in> set [''mal'', ''malid''] then Some Mal
         else None)"

record ParsedExternalId =
  ext_source :: ExternalIdSource
  ext_value :: string

datatype ParseFamily =
  Family_Movie | StandardEpisode | DailyEpisode | AnimeAbsolute | Family_SeasonPack | EpisodeRangePack
| Family_Special | UnknownFamily

datatype ParseDisposition = Parsed | Ambiguous | Unparseable

text \<open>
  The parse of a release name. The fields no decision of the development reads and that need types
  of their own (frame rate and confidence as floating point numbers, stereoscopy, streaming service,
  the versions of the parser) are left out.
\<close>

record ParsedReleaseMetadata =
  rel_raw_title :: string
  rel_normalized_tokens :: "string list"
  rel_normalized_title :: string
  rel_normalized_title_variants :: "string list"
  rel_release_group :: "string option"
  rel_languages_audio :: "string list"
  rel_languages_subtitles :: "string list"
  rel_external_ids :: "ParsedExternalId list"
  rel_imdb_id :: "string option"
  rel_tmdb_id :: "string option"
  rel_tvdb_id :: "string option"
  rel_year :: "int option"
  rel_quality :: "string option"
  rel_source :: "ReleaseSource option"
  rel_video_codec :: "VideoCodec option"
  rel_video_encoding :: "string option"
  rel_audio :: "AudioCodec option"
  rel_audio_codecs :: "AudioCodec list"
  rel_audio_channels :: "string option"
  rel_is_dual_audio :: bool
  rel_is_atmos :: bool
  rel_is_dolby_vision :: bool
  rel_detected_hdr :: bool
  rel_has_hdr_fallback :: bool
  rel_is_hdr10plus :: bool
  rel_is_hlg :: bool
  rel_is_10bit :: bool
  rel_is_proper_upload :: bool
  rel_is_repack :: bool
  rel_revision :: int
  rel_is_remux :: bool
  rel_is_bd_disk :: bool
  rel_is_ai_enhanced :: bool
  rel_is_hardcoded_subs :: bool
  rel_is_uncensored :: bool
  rel_is_dubs_only :: bool
  rel_edition :: "string option"
  rel_anime_version :: "nat option"
  rel_episode :: "ParsedEpisodeMetadata option"
  rel_ambiguity_margin :: int
  rel_is_ambiguous :: bool
  rel_disposition :: ParseDisposition
  rel_parse_family :: ParseFamily
  rel_missing_fields :: "string list"
  rel_parse_hints :: "string list"

text \<open>\<open>ParsedReleaseMetadata::empty\<close>, on the fields of the record.\<close>

definition ParsedReleaseMetadata_empty :: "string \<Rightarrow> ParsedReleaseMetadata" where
  "ParsedReleaseMetadata_empty raw =
     \<lparr>rel_raw_title = raw, rel_normalized_tokens = [], rel_normalized_title = [],
      rel_normalized_title_variants = [], rel_release_group = None,
      rel_languages_audio = [], rel_languages_subtitles = [], rel_external_ids = [],
      rel_imdb_id = None, rel_tmdb_id = None, rel_tvdb_id = None, rel_year = None, rel_quality = None,
      rel_source = None, rel_video_codec = None, rel_video_encoding = None, rel_audio = None,
      rel_audio_codecs = [], rel_audio_channels = None, rel_is_dual_audio = False,
      rel_is_atmos = False, rel_is_dolby_vision = False, rel_detected_hdr = False,
      rel_has_hdr_fallback = False, rel_is_hdr10plus = False, rel_is_hlg = False, rel_is_10bit = False,
      rel_is_proper_upload = False, rel_is_repack = False,
      rel_revision = 0, rel_is_remux = False, rel_is_bd_disk = False, rel_is_ai_enhanced = False,
      rel_is_hardcoded_subs = False, rel_is_uncensored = False, rel_is_dubs_only = False,
      rel_edition = None, rel_anime_version = None,
      rel_episode = None, rel_ambiguity_margin = 0, rel_is_ambiguous = True,
      rel_disposition = Unparseable, rel_parse_family = UnknownFamily, rel_missing_fields = [],
      rel_parse_hints = [''no_candidate'']\<rparr>"

section \<open>The label tables round-trip\<close>

interpretation release_source: label_codec ReleaseSource_as_str ReleaseSource_parse
proof
  show "ReleaseSource_parse (ReleaseSource_as_str x) = Some x" for x by (cases x; hypsubst; code_simp)
qed

interpretation video_codec: label_codec VideoCodec_as_str VideoCodec_parse
proof
  show "VideoCodec_parse (VideoCodec_as_str x) = Some x" for x by (cases x; hypsubst; code_simp)
qed

interpretation audio_codec: label_codec AudioCodec_as_str AudioCodec_parse
proof
  show "AudioCodec_parse (AudioCodec_as_str x) = Some x" for x by (cases x; hypsubst; code_simp)
qed

interpretation external_id_source: label_codec ExternalIdSource_as_str ExternalIdSource_parse
proof
  show "ExternalIdSource_parse (ExternalIdSource_as_str x) = Some x" for x by (cases x; hypsubst; code_simp)
qed

end
