(* ===== verification/Audio_Requirements.thy ===== *)
theory Audio_Requirements
  imports Release_Model
begin

text \<open>
  Audio-language requirements, from \<open>scryer-application/src/media/audio_requirements.rs\<close>:
  normalising configured requirements, expanding the dynamic \<open>original\<close> selector for a title,
  guessing the audio of a release whose name is silent, and the match between what is required
  and what a release carries. The language tables behind
  \<open>normalize_detected_audio_language_code\<close> are data of the ISO registry; the function is the
  parameter \<open>code_of\<close> of every definition, and what the proofs use of it is that a code it
  returns is read back as itself.
\<close>

type_synonym language_reader = "string \<Rightarrow> string option"

definition DEFAULT_NON_ANIME_AUDIO_LANGUAGE :: string where
  "DEFAULT_NON_ANIME_AUDIO_LANGUAGE = ''eng''"

definition DEFAULT_ANIME_AUDIO_LANGUAGE :: string where
  "DEFAULT_ANIME_AUDIO_LANGUAGE = ''jpn''"

definition ORIGINAL_AUDIO_LANGUAGE_REQUIREMENT :: string where
  "ORIGINAL_AUDIO_LANGUAGE_REQUIREMENT = ''original''"

record TitleAudioLanguageContext =
  original_language :: "string option"
  original_country :: "string option"
  inferred_original_audio_language :: string
  ctx_is_anime :: bool

section \<open>Requirements\<close>

definition normalize_required_audio_languages :: "language_reader \<Rightarrow> string list \<Rightarrow> string list" where
  "normalize_required_audio_languages code_of languages =
     foldl (\<lambda>acc l. case code_of l of Some c \<Rightarrow> push_unique acc c | None \<Rightarrow> acc) [] languages"

definition normalize_required_audio_requirements :: "language_reader \<Rightarrow> string list \<Rightarrow> string list" where
  "normalize_required_audio_requirements code_of requirements =
     foldl (\<lambda>acc r.
              case (if eq_ignore_ascii_case (trim r) ORIGINAL_AUDIO_LANGUAGE_REQUIREMENT
                    then Some ORIGINAL_AUDIO_LANGUAGE_REQUIREMENT else code_of r) of
                Some v \<Rightarrow> push_unique acc v | None \<Rightarrow> acc) [] requirements"

definition resolve_required_audio_requirements ::
  "language_reader \<Rightarrow> string list \<Rightarrow> TitleAudioLanguageContext \<Rightarrow> string list" where
  "resolve_required_audio_requirements code_of requirements ctx =
     normalize_required_audio_languages code_of
       (List.map_filter (\<lambda>r. if eq_ignore_ascii_case r ORIGINAL_AUDIO_LANGUAGE_REQUIREMENT
                             then Some (inferred_original_audio_language ctx) else code_of r) requirements)"

definition is_ascii_alphanumeric :: "char \<Rightarrow> bool" where
  "is_ascii_alphanumeric c \<longleftrightarrow> is_digit c \<or> ascii_upper c \<or> ascii_lower c"

definition country_table :: "(string list \<times> string) list" where
  "country_table =
    [([''AR'', ''ARG'', ''ARGENTINA''], ''AR''), ([''AU'', ''AUS'', ''AUSTRALIA''], ''AU''),
     ([''BE'', ''BEL'', ''BELGIUM''], ''BE''), ([''BR'', ''BRA'', ''BRAZIL''], ''BR''),
     ([''CA'', ''CAN'', ''CANADA''], ''CA''), ([''CH'', ''CHE'', ''SWITZERLAND''], ''CH''),
     ([''CN'', ''CHN'', ''CHINA''], ''CN''), ([''DE'', ''DEU'', ''GERMANY''], ''DE''),
     ([''DK'', ''DNK'', ''DENMARK''], ''DK''), ([''ES'', ''ESP'', ''SPAIN''], ''ES''),
     ([''FI'', ''FIN'', ''FINLAND''], ''FI''), ([''FR'', ''FRA'', ''FRANCE''], ''FR''),
     ([''GB'', ''GBR'', ''UK'', ''UNITEDKINGDOM'', ''GREATBRITAIN''], ''GB''),
     ([''HK'', ''HKG'', ''HONGKONG''], ''HK''), ([''IE'', ''IRL'', ''IRELAND''], ''IE''),
     ([''IN'', ''IND'', ''INDIA''], ''IN''), ([''IT'', ''ITA'', ''ITALY''], ''IT''),
     ([''JP'', ''JPN'', ''JAPAN''], ''JP''), ([''KR'', ''KOR'', ''SOUTHKOREA''], ''KR''),
     ([''MX'', ''MEX'', ''MEXICO''], ''MX''), ([''NL'', ''NLD'', ''NETHERLANDS''], ''NL''),
     ([''NO'', ''NOR'', ''NORWAY''], ''NO''), ([''NZ'', ''NZL'', ''NEWZEALAND''], ''NZ''),
     ([''PH'', ''PHL'', ''PHILIPPINES''], ''PH''), ([''PL'', ''POL'', ''POLAND''], ''PL''),
     ([''PT'', ''PRT'', ''PORTUGAL''], ''PT''), ([''RU'', ''RUS'', ''RUSSIA''], ''RU''),
     ([''SE'', ''SWE'', ''SWEDEN''], ''SE''), ([''TH'', ''THA'', ''THAILAND''], ''TH''),
     ([''TR'', ''TUR'', ''TURKEY''], ''TR''), ([''TW'', ''TWN'', ''TAIWAN''], ''TW''),
     ([''US'', ''USA'', ''UNITEDSTATES'', ''UNITEDSTATESOFAMERICA''], ''US'')]"

definition normalize_title_country_code :: "string \<Rightarrow> string option" where
  "normalize_title_country_code country =
     (let normalized = to_ascii_uppercase (filter is_ascii_alphanumeric (trim country))
      in if normalized = [] then None
         else map_option snd (find (\<lambda>(names, _). normalized \<in> set names) country_table))"

definition inferred_audio_language_for_country :: "string \<Rightarrow> string option" where
  "inferred_audio_language_for_country country =
     (if country \<in> set [''AR'', ''ES'', ''MX''] then Some ''spa''
      else if country \<in> set [''AU'', ''GB'', ''IE'', ''NZ'', ''US''] then Some ''eng''
      else if country \<in> set [''BR'', ''PT''] then Some ''por''
      else if country \<in> set [''CN'', ''HK'', ''TW''] then Some ''zho''
      else map_of [(''DE'', ''deu''), (''DK'', ''dan''), (''FI'', ''fin''), (''FR'', ''fra''),
                   (''IT'', ''ita''), (''JP'', ''jpn''), (''KR'', ''kor''), (''NL'', ''nld''),
                   (''NO'', ''nor''), (''PL'', ''pol''), (''RU'', ''rus''), (''SE'', ''swe''),
                   (''TH'', ''tha''), (''TR'', ''tur'')] country)"

text \<open>
  \<open>tag.get(..6)\<close> is \<open>None\<close> when byte 6 is not a character boundary; a prefix that equals
  \<open>anime-\<close> up to ASCII case consists of six one-byte characters, so then it is one.
\<close>

definition tag_marks_anime :: "string \<Rightarrow> bool" where
  "tag_marks_anime tag0 =
     (let tag = trim tag0
      in eq_ignore_ascii_case tag ''anime'' \<or>
         (6 \<le> length tag \<and> eq_ignore_ascii_case (take 6 tag) ''anime-''))"

definition is_anime_context :: "string option \<Rightarrow> string list \<Rightarrow> bool" where
  "is_anime_context category title_tags =
     ((case category of None \<Rightarrow> False | Some v \<Rightarrow> eq_ignore_ascii_case v ''anime'') \<or>
      list_ex tag_marks_anime title_tags)"

definition title_audio_language_context ::
  "language_reader \<Rightarrow> string option \<Rightarrow> string option \<Rightarrow> string option \<Rightarrow> string list \<Rightarrow>
   TitleAudioLanguageContext" where
  "title_audio_language_context code_of title_language title_country category title_tags =
     (let language = Option.bind title_language code_of;
          country = Option.bind title_country normalize_title_country_code;
          anime = is_anime_context category title_tags
      in \<lparr>original_language = language, original_country = country,
          inferred_original_audio_language =
            (case or_else language (Option.bind country inferred_audio_language_for_country) of
               Some l \<Rightarrow> l
             | None \<Rightarrow> if anime then DEFAULT_ANIME_AUDIO_LANGUAGE else DEFAULT_NON_ANIME_AUDIO_LANGUAGE),
          ctx_is_anime = anime\<rparr>)"

definition release_audio_language_hints_for_title ::
  "language_reader \<Rightarrow> ParsedReleaseMetadata \<Rightarrow> string list option \<Rightarrow> TitleAudioLanguageContext option \<Rightarrow>
   bool \<Rightarrow> string list" where
  "release_audio_language_hints_for_title code_of parsed indexer_languages ctx infer_unlabeled_audio =
     (let named = normalize_required_audio_languages code_of (rel_languages_audio parsed);
          listed = (case indexer_languages of
                      None \<Rightarrow> named
                    | Some ls \<Rightarrow>
                        foldl (\<lambda>acc l. case code_of l of Some c \<Rightarrow> push_unique acc c | None \<Rightarrow> acc) named ls);
          dual = (if rel_is_dual_audio parsed \<and> listed = []
                  then push_unique (push_unique listed ''eng'')
                         (case ctx of Some c \<Rightarrow> inferred_original_audio_language c
                                    | None \<Rightarrow> DEFAULT_ANIME_AUDIO_LANGUAGE)
                  else listed)
      in if dual = [] \<and> \<not> rel_is_dual_audio parsed \<and> infer_unlabeled_audio
         then (case ctx of Some c \<Rightarrow> push_unique dual (inferred_original_audio_language c) | None \<Rightarrow> dual)
         else dual)"

definition missing_required_audio_languages ::
  "language_reader \<Rightarrow> string list \<Rightarrow> string list \<Rightarrow> string list" where
  "missing_required_audio_languages code_of required actual =
     (let actual_languages = normalize_required_audio_languages code_of actual
      in List.map_filter (\<lambda>r. case code_of r of
                                None \<Rightarrow> None
                              | Some c \<Rightarrow> (if c \<in> set actual_languages then None else Some c)) required)"

definition required_audio_languages_match :: "language_reader \<Rightarrow> string list \<Rightarrow> string list \<Rightarrow> bool" where
  "required_audio_languages_match code_of required actual =
     (missing_required_audio_languages code_of required actual = [])"

section \<open>What normalisation yields\<close>

lemma fold_push_codes:
  "foldl (\<lambda>acc l. case f l of Some c \<Rightarrow> push_unique acc c | None \<Rightarrow> acc) acc ls =
   push_all_unique acc (List.map_filter f ls)"
  by (induction ls arbitrary: acc) (simp_all add: map_filter_simps split: option.split)

lemma normalize_required_eq:
  "normalize_required_audio_languages code_of ls = push_all_unique [] (List.map_filter code_of ls)"
  by (simp add: normalize_required_audio_languages_def fold_push_codes)

lemma set_map_filter: "set (List.map_filter f xs) = {y. \<exists>x \<in> set xs. f x = Some y}"
  by (induction xs) (auto simp: map_filter_simps split: option.splits)

lemma set_normalize_required:
  "set (normalize_required_audio_languages code_of ls) = {c. \<exists>l \<in> set ls. code_of l = Some c}"
  by (simp add: normalize_required_eq set_map_filter)

lemma normalize_required_distinct: "distinct (normalize_required_audio_languages code_of ls)"
  by (simp add: normalize_required_eq distinct_push_all_unique)

lemma missing_eq:
  "set (missing_required_audio_languages code_of required actual) =
   {c. (\<exists>r \<in> set required. code_of r = Some c) \<and> \<not> (\<exists>a \<in> set actual. code_of a = Some c)}"
  by (auto simp: missing_required_audio_languages_def set_map_filter set_normalize_required
      split: option.splits if_splits)

lemma audio_match_iff:
  "required_audio_languages_match code_of required actual \<longleftrightarrow>
   set (List.map_filter code_of required) \<subseteq> set (List.map_filter code_of actual)"
proof -
  have "required_audio_languages_match code_of required actual \<longleftrightarrow>
      set (missing_required_audio_languages code_of required actual) = {}"
    by (simp add: required_audio_languages_match_def)
  then show ?thesis by (auto simp: missing_eq set_map_filter)
qed

text \<open>
  A release satisfies the audio requirements exactly when every language code some requirement
  reads as is the code of some audio language it carries; a requirement that names no known
  language asks for nothing, and the missing list names exactly the codes that are absent.
\<close>

theorem required_audio_languages_match_iff:
  "required_audio_languages_match code_of required actual =
     (set (List.map_filter code_of required) \<subseteq> set (List.map_filter code_of actual)) \<and>
   set (missing_required_audio_languages code_of required actual) =
     set (List.map_filter code_of required) - set (List.map_filter code_of actual)"
  by (auto simp: audio_match_iff missing_eq set_map_filter)

text \<open>A release whose name and listing say nothing about audio.\<close>

definition silent :: "language_reader \<Rightarrow> ParsedReleaseMetadata \<Rightarrow> string list option \<Rightarrow> bool" where
  "silent code_of parsed listed =
     (List.map_filter code_of (rel_languages_audio parsed) = [] \<and>
      (case listed of None \<Rightarrow> True | Some ls \<Rightarrow> List.map_filter code_of ls = []))"

lemma hints_silent:
  assumes "silent code_of parsed listed"
  shows "release_audio_language_hints_for_title code_of parsed listed (Some ctx) infer =
    (if rel_is_dual_audio parsed
     then (if inferred_original_audio_language ctx = ''eng'' then [''eng'']
           else [''eng'', inferred_original_audio_language ctx])
     else if infer then [inferred_original_audio_language ctx] else [])"
  using assms
  by (auto simp: release_audio_language_hints_for_title_def silent_def normalize_required_eq
      fold_push_codes push_unique_def Let_def split: option.splits)

lemma resolved_code_set:
  "set (resolve_required_audio_requirements code_of requirements ctx) =
   {c. \<exists>r \<in> set requirements.
      (if eq_ignore_ascii_case r ORIGINAL_AUDIO_LANGUAGE_REQUIREMENT
       then code_of (inferred_original_audio_language ctx) = Some c
       else \<exists>b. code_of r = Some b \<and> code_of b = Some c)}"
  unfolding resolve_required_audio_requirements_def set_normalize_required set_map_filter
  by (fastforce split: if_splits)

text \<open>
  An unlabelled single-audio release is taken to carry the original language of its title: with
  inference on it satisfies every list of requirements that asks for the original language, in
  whatever spelling of the selector, and with inference off it satisfies none that asks for it. The
  language tables are assumed to read a canonical code as itself.
\<close>

theorem unlabelled_release_has_original_audio:
  assumes "silent code_of parsed listed" and "\<not> rel_is_dual_audio parsed"
    and "code_of (inferred_original_audio_language ctx) = Some (inferred_original_audio_language ctx)"
    and "requirements \<noteq> []"
    and "list_all (\<lambda>r. eq_ignore_ascii_case r ORIGINAL_AUDIO_LANGUAGE_REQUIREMENT) requirements"
  shows "required_audio_languages_match code_of
      (resolve_required_audio_requirements code_of requirements ctx)
      (release_audio_language_hints_for_title code_of parsed listed (Some ctx) infer) = infer"
proof -
  let ?o = "inferred_original_audio_language ctx"
  have "set (resolve_required_audio_requirements code_of requirements ctx) = {?o}"
    using assms(3-5) by (cases requirements) (auto simp: resolved_code_set list_all_iff)
  then have "set (List.map_filter code_of (resolve_required_audio_requirements code_of requirements ctx)) = {?o}"
    using assms(3) by (auto simp: set_map_filter)
  moreover have "set (List.map_filter code_of
      (release_audio_language_hints_for_title code_of parsed listed (Some ctx) infer)) = (if infer then {?o} else {})"
    using assms(2,3) by (auto simp: hints_silent [OF assms(1)] set_map_filter)
  ultimately show ?thesis by (simp add: audio_match_iff)
qed

definition example_code_of :: language_reader where
  "example_code_of l = (if l \<in> set [''eng'', ''jpn'', ''English''] then Some (if l = ''jpn'' then l else ''eng'') else None)"

theorem unlabelled_release_has_original_audio_witness:
  "required_audio_languages_match example_code_of
     (resolve_required_audio_requirements example_code_of [''Original'']
        (title_audio_language_context example_code_of (Some ''jpn'') None None []))
     (release_audio_language_hints_for_title example_code_of (ParsedReleaseMetadata_empty ''Show 01'') None
        (Some (title_audio_language_context example_code_of (Some ''jpn'') None None [])) True)"
proof -
  let ?ctx = "title_audio_language_context example_code_of (Some ''jpn'') None None []"
  have "inferred_original_audio_language ?ctx = ''jpn''" "example_code_of ''jpn'' = Some ''jpn''"
    by (simp_all add: title_audio_language_context_def or_else_def Let_def example_code_of_def)
  moreover have "silent example_code_of (ParsedReleaseMetadata_empty ''Show 01'') None"
    by (simp add: silent_def ParsedReleaseMetadata_empty_def map_filter_simps)
  moreover have "list_all (\<lambda>r. eq_ignore_ascii_case r ORIGINAL_AUDIO_LANGUAGE_REQUIREMENT) [''Original'']"
    by code_simp
  ultimately show ?thesis
    using unlabelled_release_has_original_audio
      [of example_code_of "ParsedReleaseMetadata_empty ''Show 01''" None ?ctx "[''Original'']" True]
    by (simp add: ParsedReleaseMetadata_empty_def)
qed

end
