(* ===== verification/Quality_Profile.thy ===== *)
theory Quality_Profile
  imports Audio_Requirements
begin

text \<open>
  Quality profiles, from \<open>scryer-application/src/quality/profile.rs\<close> and
  \<open>scoring_weights.rs\<close>: the criteria and the built-in profiles, the normalisation of a stored
  profile, the position of a quality in a profile's ordering, the scoring log with the fields
  derived from it, the mandatory requirements of a profile and the final score gate. The
  reading of JSON is not modelled: \<open>quality_profile_from_raw\<close> starts from the deserialised raw
  profile. The runtime-derived size bands of the same file are floating-point arithmetic and are
  left out.
\<close>

section \<open>Profiles\<close>

datatype ScoringPersona = Balanced | Audiophile | Efficient | Compatible

record ScoringOverrides =
  allow_x265_non4k :: "bool option"
  block_dv_without_fallback :: "bool option"
  prefer_compact_encodes :: "bool option"
  prefer_lossless_audio :: "bool option"
  block_upscaled :: "bool option"

definition ScoringOverrides_default :: ScoringOverrides where
  "ScoringOverrides_default = \<lparr>allow_x265_non4k = None, block_dv_without_fallback = None,
     prefer_compact_encodes = None, prefer_lossless_audio = None, block_upscaled = None\<rparr>"

record QualityProfileCriteria =
  quality_tiers :: "string list"
  archival_quality :: "string option"
  allow_unknown_quality :: bool
  source_allowlist :: "ReleaseSource list"
  source_blocklist :: "ReleaseSource list"
  video_codec_allowlist :: "VideoCodec list"
  video_codec_blocklist :: "VideoCodec list"
  audio_codec_allowlist :: "AudioCodec list"
  audio_codec_blocklist :: "AudioCodec list"
  atmos_preferred :: bool
  dolby_vision_allowed :: bool
  detected_hdr_allowed :: bool
  prefer_remux :: bool
  allow_bd_disk :: bool
  crit_allow_upgrades :: bool
  crit_ignore_proper_repack :: bool
  prefer_dual_audio :: bool
  required_audio_languages :: "string list"
  scoring_persona :: ScoringPersona
  scoring_overrides :: ScoringOverrides
  cutoff_tier :: "string option"
  min_score_to_grab :: "int option"
  crit_cutoff_score :: "int option"
  facet_persona_overrides :: "string \<rightharpoonup> ScoringPersona"

record QualityProfile =
  profile_id :: string
  profile_name :: string
  criteria :: QualityProfileCriteria

definition resolve_persona :: "QualityProfileCriteria \<Rightarrow> string option \<Rightarrow> ScoringPersona" where
  "resolve_persona c category =
     (case Option.bind category (facet_persona_overrides c) of
        Some persona \<Rightarrow> persona
      | None \<Rightarrow> scoring_persona c)"

text \<open>The four built-in profiles write out the same criteria up to the tiers.\<close>

definition builtin_criteria :: "string list \<Rightarrow> string \<Rightarrow> QualityProfileCriteria" where
  "builtin_criteria tiers archival =
     \<lparr>quality_tiers = tiers, archival_quality = Some archival, allow_unknown_quality = False,
      source_allowlist = [], source_blocklist = [], video_codec_allowlist = [],
      video_codec_blocklist = [], audio_codec_allowlist = [], audio_codec_blocklist = [],
      atmos_preferred = False, dolby_vision_allowed = True, detected_hdr_allowed = True,
      prefer_remux = False, allow_bd_disk = False, crit_allow_upgrades = True,
      crit_ignore_proper_repack = False, prefer_dual_audio = False, required_audio_languages = [],
      scoring_persona = Balanced, scoring_overrides = ScoringOverrides_default,
      cutoff_tier = None, min_score_to_grab = None, crit_cutoff_score = None,
      facet_persona_overrides = Map.empty\<rparr>"

definition builtin_4k_profile :: QualityProfile where
  "builtin_4k_profile =
     \<lparr>profile_id = ''4k'', profile_name = ''4K'',
      criteria = builtin_criteria [''2160P'', ''1080P'', ''720P''] ''2160P''\<rparr>"

definition builtin_8k_profile :: QualityProfile where
  "builtin_8k_profile =
     \<lparr>profile_id = ''8k'', profile_name = ''8K'',
      criteria = builtin_criteria [''4320P'', ''2160P'', ''1080P'', ''720P''] ''4320P''\<rparr>"

definition builtin_1080p_profile :: QualityProfile where
  "builtin_1080p_profile =
     \<lparr>profile_id = ''1080p'', profile_name = ''1080P'',
      criteria = builtin_criteria [''1080P'', ''720P''] ''1080P''\<rparr>"

definition builtin_anime_profile :: QualityProfile where
  "builtin_anime_profile =
     \<lparr>profile_id = ''anime'', profile_name = ''Anime'',
      criteria = builtin_criteria [''1080P'', ''720P'', ''576P''] ''1080P''\<rparr>"

definition builtin_default_quality_profile :: QualityProfile where
  "builtin_default_quality_profile = builtin_1080p_profile"

section \<open>Qualities\<close>

definition normalize_quality_tier :: "string option \<Rightarrow> string option" where
  "normalize_quality_tier raw =
     map_option (\<lambda>value.
       let clean = to_ascii_lowercase (trim value)
       in if clean \<noteq> [] \<and> last clean = CHR ''p'' \<and> length clean > 1
          then butlast clean @ ''P''
          else to_ascii_uppercase clean) raw"

definition split_non_alphanumeric :: "string \<Rightarrow> string list" where
  "split_non_alphanumeric s =
     split_on CHR '' '' (map (\<lambda>c. if is_ascii_alphanumeric c then c else CHR '' '') s)"

definition plausible_lines :: "nat \<Rightarrow> nat option" where
  "plausible_lines lines = (if 100 \<le> lines \<and> lines \<le> 10000 then Some lines else None)"

definition token_lines :: "string \<Rightarrow> nat option" where
  "token_lines token =
     Option.bind (or_else (strip_suffix CHR ''p'' token) (strip_suffix CHR ''i'' token))
       (\<lambda>ds. Option.bind (parse_u32 ds) plausible_lines)"

definition resolution_lines :: "string option \<Rightarrow> nat option" where
  "resolution_lines raw =
     Option.bind raw (\<lambda>r.
       let value = to_ascii_lowercase (trim r)
       in if value = [] then None
          else (case parse_u32 value of
                  Some lines \<Rightarrow> plausible_lines lines
                | None \<Rightarrow>
                    (case List.map_filter token_lines (split_non_alphanumeric value) of
                       [] \<Rightarrow> None
                     | n # ns \<Rightarrow> Some (fold max ns n))))"

definition quality_tier_index :: "QualityProfileCriteria \<Rightarrow> string option \<Rightarrow> nat option" where
  "quality_tier_index c quality =
     Option.bind (normalize_quality_tier quality) (\<lambda>q. position (\<lambda>tier. tier = q) (quality_tiers c))"

definition resolve_profile_id_for_title ::
  "string option \<Rightarrow> string option \<Rightarrow> string option \<Rightarrow> string option \<Rightarrow> string option" where
  "resolve_profile_id_for_title title_profile_id library_profile_id category_profile_id global_profile_id =
     or_else (or_else (or_else title_profile_id library_profile_id) category_profile_id) global_profile_id"

definition quality_meets_or_exceeds_cutoff :: "string \<Rightarrow> string \<Rightarrow> string list \<Rightarrow> bool" where
  "quality_meets_or_exceeds_cutoff current_quality cutoff tiers =
     (if tiers = [] then False
      else (case (normalize_quality_tier (Some current_quality), normalize_quality_tier (Some cutoff)) of
              (Some current, Some target) \<Rightarrow>
                (case position (\<lambda>tier. tier = target) tiers of
                   None \<Rightarrow> False
                 | Some cutoff_pos \<Rightarrow>
                     (case position (\<lambda>tier. tier = current) tiers of
                        Some current_pos \<Rightarrow> current_pos \<le> cutoff_pos
                      | None \<Rightarrow> False))
            | _ \<Rightarrow> False))"

section \<open>Reading a stored profile\<close>

record RawQualityProfileCriteria =
  raw_quality_tiers :: "string list"
  raw_archival_quality :: "string option"
  raw_allow_unknown_quality :: bool
  raw_source_allowlist :: "string list"
  raw_source_blocklist :: "string list"
  raw_video_codec_allowlist :: "string list"
  raw_video_codec_blocklist :: "string list"
  raw_audio_codec_allowlist :: "string list"
  raw_audio_codec_blocklist :: "string list"
  raw_atmos_preferred :: bool
  raw_dolby_vision_allowed :: bool
  raw_detected_hdr_allowed :: bool
  raw_prefer_remux :: bool
  raw_allow_bd_disk :: bool
  raw_allow_upgrades :: bool
  raw_ignore_proper_repack :: bool
  raw_prefer_dual_audio :: bool
  raw_required_audio_languages :: "string list"
  raw_scoring_persona :: ScoringPersona
  raw_scoring_overrides :: ScoringOverrides
  raw_cutoff_tier :: "string option"
  raw_min_score_to_grab :: "int option"
  raw_cutoff_score :: "int option"
  raw_facet_persona_overrides :: "string \<rightharpoonup> ScoringPersona"

record RawQualityProfile =
  raw_id :: string
  raw_name :: string
  raw_criteria :: RawQualityProfileCriteria

definition normalize_list :: "string list \<Rightarrow> string list" where
  "normalize_list values = filter (\<lambda>v. v \<noteq> []) (map (\<lambda>v. to_ascii_uppercase (trim v)) values)"

text \<open>The error of an unknown label: the field it stands in and its trimmed text.\<close>

datatype profile_error = InvalidProfileCodec (pe_field: string) (pe_value: string)

fun read_labels :: "(string \<Rightarrow> 'a option) \<Rightarrow> string \<Rightarrow> string list \<Rightarrow> profile_error + 'a list" where
  "read_labels parse field [] = Inr []"
| "read_labels parse field (v # vs) =
     (case parse (trim v) of
        None \<Rightarrow> Inl (InvalidProfileCodec field (trim v))
      | Some x \<Rightarrow> (case read_labels parse field vs of Inl e \<Rightarrow> Inl e | Inr xs \<Rightarrow> Inr (x # xs)))"

definition normalize_source_list :: "string list \<Rightarrow> string \<Rightarrow> profile_error + ReleaseSource list" where
  "normalize_source_list values field = read_labels ReleaseSource_parse field values"

definition normalize_codec_list :: "string list \<Rightarrow> string \<Rightarrow> profile_error + VideoCodec list" where
  "normalize_codec_list values field = read_labels VideoCodec_parse field values"

definition normalize_audio_codec_list :: "string list \<Rightarrow> string \<Rightarrow> profile_error + AudioCodec list" where
  "normalize_audio_codec_list values field = read_labels AudioCodec_parse field values"

definition resolve_archival_quality :: "string option \<Rightarrow> string list \<Rightarrow> string option" where
  "resolve_archival_quality archival tiers =
     (case Option.bind archival (\<lambda>v. normalize_quality_tier (Some v)) of
        Some normalized \<Rightarrow>
          (if normalized \<noteq> [] then Some normalized
           else or_else (Option.bind (first tiers) (\<lambda>v. normalize_quality_tier (Some v))) (Some ''1080P''))
      | None \<Rightarrow> or_else (Option.bind (first tiers) (\<lambda>v. normalize_quality_tier (Some v))) (Some ''1080P''))"

text \<open>The \<open>?\<close> operators run in field order, so the first bad list is the one reported.\<close>

definition quality_profile_from_raw :: "RawQualityProfile \<Rightarrow> profile_error + QualityProfile" where
  "quality_profile_from_raw raw =
     (let c = raw_criteria raw; tiers = normalize_list (raw_quality_tiers c)
      in and_then (normalize_source_list (raw_source_allowlist c) ''criteria.source_allowlist'') (\<lambda>sa.
         and_then (normalize_source_list (raw_source_blocklist c) ''criteria.source_blocklist'') (\<lambda>sb.
         and_then (normalize_codec_list (raw_video_codec_allowlist c) ''criteria.video_codec_allowlist'') (\<lambda>va.
         and_then (normalize_codec_list (raw_video_codec_blocklist c) ''criteria.video_codec_blocklist'') (\<lambda>vb.
         and_then (normalize_audio_codec_list (raw_audio_codec_allowlist c) ''criteria.audio_codec_allowlist'') (\<lambda>aa.
         and_then (normalize_audio_codec_list (raw_audio_codec_blocklist c) ''criteria.audio_codec_blocklist'') (\<lambda>ab.
           Inr \<lparr>profile_id = raw_id raw, profile_name = raw_name raw,
                criteria =
                  \<lparr>quality_tiers = tiers,
                   archival_quality = resolve_archival_quality (raw_archival_quality c) tiers,
                   allow_unknown_quality = raw_allow_unknown_quality c,
                   source_allowlist = sa, source_blocklist = sb,
                   video_codec_allowlist = va, video_codec_blocklist = vb,
                   audio_codec_allowlist = aa, audio_codec_blocklist = ab,
                   atmos_preferred = raw_atmos_preferred c,
                   dolby_vision_allowed = raw_dolby_vision_allowed c,
                   detected_hdr_allowed = raw_detected_hdr_allowed c,
                   prefer_remux = raw_prefer_remux c, allow_bd_disk = raw_allow_bd_disk c,
                   crit_allow_upgrades = raw_allow_upgrades c,
                   crit_ignore_proper_repack = raw_ignore_proper_repack c,
                   prefer_dual_audio = raw_prefer_dual_audio c,
                   required_audio_languages = normalize_list (raw_required_audio_languages c),
                   scoring_persona = raw_scoring_persona c, scoring_overrides = raw_scoring_overrides c,
                   cutoff_tier = raw_cutoff_tier c, min_score_to_grab = raw_min_score_to_grab c,
                   crit_cutoff_score = raw_cutoff_score c,
                   facet_persona_overrides = raw_facet_persona_overrides c\<rparr>\<rparr>)))))))"

section \<open>The scoring log\<close>

definition BLOCK_SCORE_THRESHOLD :: int where
  "BLOCK_SCORE_THRESHOLD = - 9000"

datatype ScoringEntryKind = ScoreContribution | MandatoryRejection | FinalScoreRejection

primrec ScoringEntryKind_as_str :: "ScoringEntryKind \<Rightarrow> string" where
  "ScoringEntryKind_as_str ScoreContribution = ''score_contribution''"
| "ScoringEntryKind_as_str MandatoryRejection = ''mandatory_rejection''"
| "ScoringEntryKind_as_str FinalScoreRejection = ''final_score_rejection''"

text \<open>The sum is taken in \<open>i128\<close>, where the contributions of any collection that fits in memory
  cannot overflow, and clamped once.\<close>

definition sum_score_deltas :: "int list \<Rightarrow> int" where
  "sum_score_deltas deltas = sat_i32 (sum_list deltas)"

datatype ScoringSource = Builtin | UserRule string string | SystemRule string string

record ScoringEntry =
  se_code :: string
  se_delta :: int
  se_source :: ScoringSource
  se_kind :: ScoringEntryKind

record QualityProfileDecision =
  release_score :: int
  scoring_log :: "ScoringEntry list"
  allowed :: bool
  block_codes :: "string list"
  preference_score :: int
  dec_tier_index :: "nat option"
  size_fit_penalty :: int
  dec_revision_preference :: int

definition QualityProfileDecision_new :: QualityProfileDecision where
  "QualityProfileDecision_new =
     \<lparr>release_score = 0, scoring_log = [], allowed = True, block_codes = [], preference_score = 0,
      dec_tier_index = None, size_fit_penalty = 0, dec_revision_preference = 0\<rparr>"

definition zero_rejection :: "ScoringEntry \<Rightarrow> ScoringEntry" where
  "zero_rejection e = (if se_kind e \<noteq> ScoreContribution then e\<lparr>se_delta := 0\<rparr> else e)"

definition refresh :: "QualityProfileDecision \<Rightarrow> QualityProfileDecision" where
  "refresh d =
     (let entries = map zero_rejection (scoring_log d);
          score = sum_score_deltas (map se_delta entries);
          codes = map se_code (filter (\<lambda>e. se_kind e \<noteq> ScoreContribution) entries)
      in d\<lparr>scoring_log := entries, release_score := score, preference_score := score,
           block_codes := codes, allowed := (codes = [])\<rparr>)"

definition drop_final :: "ScoringEntry list \<Rightarrow> ScoringEntry list" where
  "drop_final entries = filter (\<lambda>e. se_kind e \<noteq> FinalScoreRejection) entries"

definition log_with_source ::
  "string \<Rightarrow> int \<Rightarrow> ScoringSource \<Rightarrow> QualityProfileDecision \<Rightarrow> QualityProfileDecision" where
  "log_with_source code delta source d =
     refresh (d\<lparr>scoring_log := drop_final (scoring_log d) @
       [\<lparr>se_code = code, se_delta = delta, se_source = source, se_kind = ScoreContribution\<rparr>]\<rparr>)"

definition reject :: "string \<Rightarrow> ScoringEntryKind \<Rightarrow> QualityProfileDecision \<Rightarrow> QualityProfileDecision" where
  "reject code kind d =
     refresh (d\<lparr>scoring_log := scoring_log d @
       [\<lparr>se_code = code, se_delta = 0, se_source = Builtin, se_kind = kind\<rparr>]\<rparr>)"

definition reject_requirement :: "string \<Rightarrow> QualityProfileDecision \<Rightarrow> QualityProfileDecision" where
  "reject_requirement code d = reject code MandatoryRejection d"

section \<open>Requirements\<close>

definition normalized_audio_codecs :: "ParsedReleaseMetadata \<Rightarrow> AudioCodec list" where
  "normalized_audio_codecs release =
     (let codecs = push_all_unique [] (rel_audio_codecs release)
      in if codecs = [] then (case rel_audio release of Some c \<Rightarrow> [c] | None \<Rightarrow> []) else codecs)"

definition resolution_bonus :: "QualityProfileCriteria \<Rightarrow> nat \<Rightarrow> int" where
  "resolution_bonus c resolution =
     (let floor = (case List.map_filter (\<lambda>tier. resolution_lines (normalize_quality_tier (Some tier))) (quality_tiers c) of
                     [] \<Rightarrow> resolution
                   | n # ns \<Rightarrow> fold min ns n)
      in int (length (filter (\<lambda>step. step > floor \<and> step \<le> resolution) [480, 576, 720, 1080, 2160, 4320])) * 100)"

definition log_resolution ::
  "QualityProfileCriteria \<Rightarrow> ParsedReleaseMetadata \<Rightarrow> QualityProfileDecision \<Rightarrow> QualityProfileDecision" where
  "log_resolution c release d =
     (case normalize_quality_tier (rel_quality release) of
        None \<Rightarrow> d
      | Some quality \<Rightarrow>
          (if dec_tier_index d = None then d
           else (case resolution_lines (Some quality) of
                   None \<Rightarrow> d
                 | Some resolution \<Rightarrow>
                     (let bonus = resolution_bonus c resolution
                      in if bonus > 0
                         then log_with_source (''quality_resolution_'' @ to_ascii_lowercase quality) bonus Builtin d
                         else d))))"

definition quality_block :: "QualityProfileCriteria \<Rightarrow> ParsedReleaseMetadata \<Rightarrow> string option" where
  "quality_block c release =
     (case normalize_quality_tier (rel_quality release) of
        Some quality \<Rightarrow>
          (if quality_tiers c \<noteq> [] \<and> quality \<notin> set (quality_tiers c)
           then Some ''quality_not_in_profile_tiers'' else None)
      | None \<Rightarrow>
          (if \<not> allow_unknown_quality c then Some ''quality_missing_and_profile_disallows_unknown'' else None))"

definition source_block :: "QualityProfileCriteria \<Rightarrow> ParsedReleaseMetadata \<Rightarrow> string option" where
  "source_block c release =
     (case rel_source release of
        Some source \<Rightarrow>
          (if source \<in> {Cam, Telesync, Telecine, DvdScr, Workprint} \<and>
              \<not> (source_allowlist c \<noteq> [] \<and> source \<in> set (source_allowlist c))
           then Some ''source_low_quality_theatrical''
           else if source \<in> set (source_blocklist c) then Some ''source_in_profile_blocklist''
           else if source_allowlist c \<noteq> [] \<and> source \<notin> set (source_allowlist c)
           then Some ''source_not_in_profile_allowlist''
           else None)
      | None \<Rightarrow>
          (if source_allowlist c \<noteq> [] then Some ''source_missing_and_profile_requires_source'' else None))"

definition video_codec_block :: "QualityProfileCriteria \<Rightarrow> ParsedReleaseMetadata \<Rightarrow> string option" where
  "video_codec_block c release =
     (case rel_video_codec release of
        None \<Rightarrow> None
      | Some codec \<Rightarrow>
          (if codec \<in> set (video_codec_blocklist c) then Some ''video_codec_in_profile_blocklist''
           else if video_codec_allowlist c \<noteq> [] \<and> codec \<notin> set (video_codec_allowlist c)
           then Some ''video_codec_not_in_profile_allowlist''
           else None))"

definition audio_codec_block :: "QualityProfileCriteria \<Rightarrow> ParsedReleaseMetadata \<Rightarrow> string option" where
  "audio_codec_block c release =
     (let codecs = normalized_audio_codecs release
      in if codecs = [] then None
         else if audio_codec_blocklist c \<noteq> [] \<and> list_all (\<lambda>a. a \<in> set (audio_codec_blocklist c)) codecs
         then Some ''audio_codec_in_profile_blocklist''
         else if audio_codec_allowlist c \<noteq> [] \<and> \<not> list_ex (\<lambda>a. a \<in> set (audio_codec_allowlist c)) codecs
         then Some ''audio_codec_not_in_profile_allowlist''
         else None)"

definition block_when :: "bool \<Rightarrow> string \<Rightarrow> string option" where
  "block_when b code = (if b then Some code else None)"

definition reject_opt :: "string option \<Rightarrow> QualityProfileDecision \<Rightarrow> QualityProfileDecision" where
  "reject_opt code d = (case code of None \<Rightarrow> d | Some c \<Rightarrow> reject_requirement c d)"

definition evaluate_profile_requirements ::
  "language_reader \<Rightarrow> QualityProfile \<Rightarrow> ParsedReleaseMetadata \<Rightarrow> bool \<Rightarrow> QualityProfileDecision" where
  "evaluate_profile_requirements code_of profile release has_existing_file =
     (let c = criteria profile;
          d0 = QualityProfileDecision_new\<lparr>dec_tier_index := quality_tier_index c (rel_quality release)\<rparr>;
          d1 = log_resolution c release d0;
          d2 = reject_opt (block_when (\<not> crit_allow_upgrades c \<and> has_existing_file) ''upgrade_blocked_by_profile'') d1;
          d3 = reject_opt (quality_block c release) d2;
          d4 = reject_opt (source_block c release) d3;
          d5 = reject_opt (video_codec_block c release) d4;
          d6 = reject_opt (audio_codec_block c release) d5;
          d7 = reject_opt (block_when (rel_is_dolby_vision release \<and> \<not> dolby_vision_allowed c) ''dolby_vision_not_allowed'') d6;
          d8 = reject_opt (block_when (rel_detected_hdr release \<and> \<not> detected_hdr_allowed c) ''hdr_not_allowed'') d7;
          d9 = reject_opt (block_when (rel_is_bd_disk release \<and> \<not> allow_bd_disk c) ''bd_disk_not_allowed'') d8
      in reject_opt (block_when (required_audio_languages c \<noteq> [] \<and>
           \<not> required_audio_languages_match code_of (required_audio_languages c) (rel_languages_audio release))
           ''required_audio_language_missing'') d9)"

definition policy_entry :: "ScoringEntry \<Rightarrow> bool" where
  "policy_entry e = (\<not> (se_source e = Builtin \<and> starts_with (se_code e) ''quality_resolution_''))"

definition apply_min_score_gate :: "QualityProfile \<Rightarrow> QualityProfileDecision \<Rightarrow> QualityProfileDecision" where
  "apply_min_score_gate profile d =
     (let d1 = refresh (d\<lparr>scoring_log := drop_final (scoring_log d)\<rparr>);
          policy_score = sum_score_deltas (map se_delta (filter policy_entry (scoring_log d1)));
          d2 = (if policy_score \<le> BLOCK_SCORE_THRESHOLD
                then reject ''score_at_or_below_block_threshold'' FinalScoreRejection d1 else d1)
      in case min_score_to_grab (criteria profile) of
           Some min_score \<Rightarrow>
             (if release_score d2 < min_score then reject ''score_below_minimum'' FinalScoreRejection d2 else d2)
         | None \<Rightarrow> d2)"

section \<open>The size basis of a coverage\<close>

record CoverageSizeBasis =
  total_runtime_minutes :: "int option"
  member_runtime_minutes :: "int option"
  csb_member_count :: int

definition CoverageSizeBasis_single :: "int option \<Rightarrow> CoverageSizeBasis" where
  "CoverageSizeBasis_single runtime =
     \<lparr>total_runtime_minutes = runtime, member_runtime_minutes = runtime, csb_member_count = 1\<rparr>"

definition CoverageSizeBasis_aggregate :: "int option \<Rightarrow> int option \<Rightarrow> int \<Rightarrow> CoverageSizeBasis" where
  "CoverageSizeBasis_aggregate whole member n =
     (if n \<le> 1 then CoverageSizeBasis_single (or_else whole member)
      else \<lparr>total_runtime_minutes = whole, member_runtime_minutes = member, csb_member_count = n\<rparr>)"

definition covers_multiple_members :: "CoverageSizeBasis \<Rightarrow> bool" where
  "covers_multiple_members b = (csb_member_count b > 1)"

definition or_runtime :: "CoverageSizeBasis \<Rightarrow> int option \<Rightarrow> CoverageSizeBasis" where
  "or_runtime b runtime =
     b\<lparr>total_runtime_minutes := or_else (total_runtime_minutes b) runtime,
       member_runtime_minutes := or_else (member_runtime_minutes b) runtime\<rparr>"

section \<open>The log determines the decision\<close>

text \<open>The fields \<open>refresh\<close> derives agree with the log.\<close>

definition decision_ok :: "QualityProfileDecision \<Rightarrow> bool" where
  "decision_ok d =
     (list_all (\<lambda>e. se_kind e = ScoreContribution \<or> se_delta e = 0) (scoring_log d) \<and>
      release_score d = sum_score_deltas (map se_delta (scoring_log d)) \<and>
      preference_score d = release_score d \<and>
      block_codes d = map se_code (filter (\<lambda>e. se_kind e \<noteq> ScoreContribution) (scoring_log d)) \<and>
      allowed d = (block_codes d = []))"

lemma decision_ok_new: "decision_ok (QualityProfileDecision_new\<lparr>dec_tier_index := t\<rparr>)"
  by (simp add: decision_ok_def QualityProfileDecision_new_def sum_score_deltas_def sat_i32_def)

lemma decision_ok_refresh: "decision_ok (refresh d)"
  by (auto simp: decision_ok_def refresh_def Let_def list_all_iff zero_rejection_def)

lemma zero_rejection_id: "se_kind e = ScoreContribution \<or> se_delta e = 0 \<Longrightarrow> zero_rejection e = e"
  by (auto simp: zero_rejection_def)

lemma map_zero_rejection:
  "list_all (\<lambda>e. se_kind e = ScoreContribution \<or> se_delta e = 0) es \<Longrightarrow> map zero_rejection es = es"
  by (induction es) (auto simp: zero_rejection_id)

lemma refresh_id: "decision_ok d \<Longrightarrow> refresh d = d"
  by (cases d) (simp add: refresh_def decision_ok_def map_zero_rejection Let_def)

lemma decision_ok_steps:
  "decision_ok (log_with_source code delta source d)"
  "decision_ok (reject code kind d)"
  "decision_ok d \<Longrightarrow> decision_ok (reject_opt c d)"
  "decision_ok d \<Longrightarrow> decision_ok (log_resolution cr release d)"
  by (simp_all add: log_with_source_def reject_def reject_requirement_def reject_opt_def log_resolution_def
      decision_ok_refresh Let_def split: option.split)

lemma decision_ok_gate: "decision_ok (apply_min_score_gate profile d)"
  by (simp add: apply_min_score_gate_def Let_def decision_ok_refresh decision_ok_steps split: option.split)

text \<open>
  A scoring decision always agrees with its log: whether it comes fresh from the profile's
  requirements, from logging a rule's contribution, from a rejection or from the final gate, its
  score is the clamped sum of the contributions alone, the block codes are the rejections in log
  order, and it is allowed exactly when there are none.
\<close>

theorem decisions_agree_with_log:
  "decision_ok (evaluate_profile_requirements code_of profile release existing) \<and>
   decision_ok (log_with_source code delta source d) \<and>
   decision_ok (reject code kind d) \<and>
   decision_ok (apply_min_score_gate profile d)"
  by (simp add: evaluate_profile_requirements_def Let_def decision_ok_steps decision_ok_new decision_ok_gate)

section \<open>What a profile accepts\<close>

lemma reject_fields:
  assumes "decision_ok d"
  shows "allowed (reject code MandatoryRejection d) = False"
    and "release_score (reject code kind d) = release_score d"
    and "dec_tier_index (reject code kind d) = dec_tier_index d"
  using assms
  by (simp_all add: reject_def refresh_def Let_def decision_ok_def map_zero_rejection zero_rejection_def
      sum_score_deltas_def)

lemma reject_opt_fields:
  assumes "decision_ok d"
  shows "allowed (reject_opt c d) = (c = None \<and> allowed d)"
    and "release_score (reject_opt c d) = release_score d"
    and "dec_tier_index (reject_opt c d) = dec_tier_index d"
  by (cases c; simp add: reject_opt_def reject_requirement_def reject_fields [OF assms])+

lemma log_resolution_fields:
  assumes "decision_ok d" and "scoring_log d = []"
  shows "allowed (log_resolution cr release d) = True"
    and "dec_tier_index (log_resolution cr release d) = dec_tier_index d"
    and "0 \<le> release_score (log_resolution cr release d)"
  using assms
  by (auto simp: log_resolution_def log_with_source_def refresh_def Let_def decision_ok_def drop_final_def
      zero_rejection_def sum_score_deltas_def sat_i32_def split: option.splits)

text \<open>The profile's contract, as a predicate on the release.\<close>

definition listed_ok :: "'a list \<Rightarrow> 'a list \<Rightarrow> 'a \<Rightarrow> bool" where
  "listed_ok allow block x = (x \<notin> set block \<and> (allow = [] \<or> x \<in> set allow))"

definition acceptable ::
  "language_reader \<Rightarrow> QualityProfileCriteria \<Rightarrow> ParsedReleaseMetadata \<Rightarrow> bool \<Rightarrow> bool" where
  "acceptable code_of c release existing =
     ((existing \<longrightarrow> crit_allow_upgrades c) \<and>
      (case normalize_quality_tier (rel_quality release) of
         None \<Rightarrow> allow_unknown_quality c
       | Some q \<Rightarrow> quality_tiers c = [] \<or> q \<in> set (quality_tiers c)) \<and>
      (case rel_source release of
         None \<Rightarrow> source_allowlist c = []
       | Some s \<Rightarrow> listed_ok (source_allowlist c) (source_blocklist c) s \<and>
           (s \<in> {Cam, Telesync, Telecine, DvdScr, Workprint} \<longrightarrow> s \<in> set (source_allowlist c))) \<and>
      (case rel_video_codec release of
         None \<Rightarrow> True
       | Some v \<Rightarrow> listed_ok (video_codec_allowlist c) (video_codec_blocklist c) v) \<and>
      (let codecs = set (normalized_audio_codecs release)
       in codecs = {} \<or>
          \<not> codecs \<subseteq> set (audio_codec_blocklist c) \<and>
          (audio_codec_allowlist c = [] \<or> codecs \<inter> set (audio_codec_allowlist c) \<noteq> {})) \<and>
      (rel_is_dolby_vision release \<longrightarrow> dolby_vision_allowed c) \<and>
      (rel_detected_hdr release \<longrightarrow> detected_hdr_allowed c) \<and>
      (rel_is_bd_disk release \<longrightarrow> allow_bd_disk c) \<and>
      required_audio_languages_match code_of (required_audio_languages c) (rel_languages_audio release))"

lemma blocks_None:
  "quality_block c release = None \<longleftrightarrow>
   (case normalize_quality_tier (rel_quality release) of
      None \<Rightarrow> allow_unknown_quality c | Some q \<Rightarrow> quality_tiers c = [] \<or> q \<in> set (quality_tiers c))"
  "source_block c release = None \<longleftrightarrow>
   (case rel_source release of
      None \<Rightarrow> source_allowlist c = []
    | Some s \<Rightarrow> listed_ok (source_allowlist c) (source_blocklist c) s \<and>
        (s \<in> {Cam, Telesync, Telecine, DvdScr, Workprint} \<longrightarrow> s \<in> set (source_allowlist c)))"
  "video_codec_block c release = None \<longleftrightarrow>
   (case rel_video_codec release of
      None \<Rightarrow> True | Some v \<Rightarrow> listed_ok (video_codec_allowlist c) (video_codec_blocklist c) v)"
  by (auto simp: quality_block_def source_block_def video_codec_block_def listed_ok_def
      split: option.split)

lemma audio_codec_block_None:
  "audio_codec_block c release = None \<longleftrightarrow>
   (let codecs = set (normalized_audio_codecs release)
    in codecs = {} \<or>
       \<not> codecs \<subseteq> set (audio_codec_blocklist c) \<and>
       (audio_codec_allowlist c = [] \<or> codecs \<inter> set (audio_codec_allowlist c) \<noteq> {}))"
  by (auto simp: audio_codec_block_def Let_def list_all_iff list_ex_iff)

lemma block_when_None [simp]: "block_when b code = None \<longleftrightarrow> \<not> b"
  by (simp add: block_when_def)

lemma required_Nil_match: "required_audio_languages_match code_of [] actual"
  by (simp add: audio_match_iff map_filter_simps)

text \<open>
  C16. A profile allows a release exactly when the release meets every one of its requirements, each
  list reading as documented: an empty allow list admits anything that is not blocked, theatrical
  sources are refused unless explicitly allowed, a release with several audio tracks is refused
  only when all are blocked or none is allowed, and an unknown quality or a missing source passes
  only where the profile says so. Resolution never costs points and the tier is that of the
  profile's ordering.
\<close>

theorem evaluate_profile_requirements_iff:
  "let d = evaluate_profile_requirements code_of profile release existing
   in allowed d = acceptable code_of (criteria profile) release existing \<and>
      dec_tier_index d = quality_tier_index (criteria profile) (rel_quality release) \<and>
      0 \<le> release_score d"
proof -
  let ?d0 = "QualityProfileDecision_new\<lparr>dec_tier_index := quality_tier_index (criteria profile) (rel_quality release)\<rparr>"
  have ok0: "decision_ok ?d0" and log0: "scoring_log ?d0 = []" and
    t0: "dec_tier_index ?d0 = quality_tier_index (criteria profile) (rel_quality release)"
    by (simp_all add: decision_ok_new) (simp_all add: QualityProfileDecision_new_def)
  note l0 = log_resolution_fields [OF ok0 log0, of "criteria profile" release]
  have nil: "required_audio_languages (criteria profile) = [] \<Longrightarrow>
      required_audio_languages_match code_of (required_audio_languages (criteria profile)) (rel_languages_audio release)"
    by (simp add: required_Nil_match)
  show ?thesis
    unfolding evaluate_profile_requirements_def Let_def
    using nil
    by (auto simp: reject_opt_fields decision_ok_steps ok0 l0 t0 blocks_None audio_codec_block_None
        acceptable_def Let_def)
qed

section \<open>The final score gate\<close>

definition gate_base :: "QualityProfileDecision \<Rightarrow> QualityProfileDecision" where
  "gate_base d = refresh (d\<lparr>scoring_log := drop_final (scoring_log d)\<rparr>)"

definition policy_score :: "QualityProfileDecision \<Rightarrow> int" where
  "policy_score d = sum_score_deltas (map se_delta (filter policy_entry (scoring_log d)))"

lemma decision_ok_gate_base: "decision_ok (gate_base d)"
  by (simp add: gate_base_def decision_ok_refresh)

lemma se_kind_zero [simp]: "se_kind (zero_rejection e) = se_kind e"
  by (simp add: zero_rejection_def)

lemma zero_rejection_idem [simp]: "zero_rejection (zero_rejection e) = zero_rejection e"
  by (simp add: zero_rejection_def)

lemma drop_final_map: "drop_final (map zero_rejection es) = map zero_rejection (drop_final es)"
  by (simp add: drop_final_def filter_map o_def)

lemma drop_final_idem [simp]: "drop_final (drop_final es) = drop_final es"
  by (simp add: drop_final_def)

lemma drop_final_append: "drop_final (xs @ ys) = drop_final xs @ drop_final ys"
  by (simp add: drop_final_def)

lemma refresh_cong:
  "map zero_rejection (scoring_log d) = map zero_rejection (scoring_log d') \<Longrightarrow>
   dec_tier_index d = dec_tier_index d' \<Longrightarrow> size_fit_penalty d = size_fit_penalty d' \<Longrightarrow>
   dec_revision_preference d = dec_revision_preference d' \<Longrightarrow> refresh d = refresh d'"
  by (cases d; cases d') (simp add: refresh_def Let_def)

lemma refresh_keeps:
  "scoring_log (refresh d) = map zero_rejection (scoring_log d)"
  "dec_tier_index (refresh d) = dec_tier_index d"
  "size_fit_penalty (refresh d) = size_fit_penalty d"
  "dec_revision_preference (refresh d) = dec_revision_preference d"
  by (simp_all add: refresh_def Let_def)

lemma drop_final_single: "drop_final [e] = (if se_kind e = FinalScoreRejection then [] else [e])"
  by (simp add: drop_final_def)

lemmas step_keeps = refresh_keeps drop_final_map drop_final_append drop_final_single

lemma gate_eq:
  "apply_min_score_gate profile d =
   (let b = gate_base d;
        b' = (if policy_score b \<le> BLOCK_SCORE_THRESHOLD
              then reject ''score_at_or_below_block_threshold'' FinalScoreRejection b else b)
    in if pred_option (\<lambda>m. release_score b < m) (min_score_to_grab (criteria profile)) \<and>
          min_score_to_grab (criteria profile) \<noteq> None
       then reject ''score_below_minimum'' FinalScoreRejection b' else b')"
  by (auto simp: apply_min_score_gate_def gate_base_def policy_score_def Let_def reject_fields
      decision_ok_refresh split: option.split)

lemma gate_base_reject_final: "gate_base (reject code FinalScoreRejection d) = gate_base d"
  unfolding gate_base_def
  by (rule refresh_cong) (simp_all add: reject_def step_keeps o_def)

lemma gate_base_idem [simp]: "gate_base (gate_base d) = gate_base d"
  unfolding gate_base_def by (rule refresh_cong) (simp_all add: step_keeps o_def)

lemma gate_base_gate: "gate_base (apply_min_score_gate profile d) = gate_base d"
  by (simp add: gate_eq Let_def gate_base_reject_final)

lemma gate_base_log:
  "gate_base (log_with_source code delta source (apply_min_score_gate profile d)) =
   gate_base (log_with_source code delta source d)"
proof -
  have *: "gate_base (log_with_source code delta source d) =
      refresh (d\<lparr>scoring_log := drop_final (scoring_log (gate_base d)) @
        [\<lparr>se_code = code, se_delta = delta, se_source = source, se_kind = ScoreContribution\<rparr>]\<rparr>)" for d
    unfolding gate_base_def log_with_source_def
    by (rule refresh_cong) (simp_all add: step_keeps o_def)
  have "dec_tier_index (apply_min_score_gate profile d) = dec_tier_index d \<and>
      size_fit_penalty (apply_min_score_gate profile d) = size_fit_penalty d \<and>
      dec_revision_preference (apply_min_score_gate profile d) = dec_revision_preference d"
    by (simp add: gate_eq Let_def reject_def gate_base_def refresh_keeps)
  then show ?thesis unfolding * gate_base_gate by (intro refresh_cong) simp_all
qed

lemma gate_fields:
  "release_score (apply_min_score_gate profile d) = release_score (gate_base d)"
  "allowed (apply_min_score_gate profile d) \<longleftrightarrow>
     allowed (gate_base d) \<and> BLOCK_SCORE_THRESHOLD < policy_score (gate_base d) \<and>
     pred_option (\<lambda>m. m \<le> release_score (gate_base d)) (min_score_to_grab (criteria profile))"
proof -
  have r: "release_score (reject code k e) = release_score e"
    and a: "k \<noteq> ScoreContribution \<Longrightarrow> \<not> allowed (reject code k e)" if "decision_ok e" for code k e
    using that by (simp_all add: reject_def refresh_def Let_def decision_ok_def map_zero_rejection
        zero_rejection_def sum_score_deltas_def)
  note ok = decision_ok_gate_base [of d] decision_ok_steps(2)
  show "release_score (apply_min_score_gate profile d) = release_score (gate_base d)"
    by (simp add: gate_eq Let_def r ok)
  show "allowed (apply_min_score_gate profile d) \<longleftrightarrow>
     allowed (gate_base d) \<and> BLOCK_SCORE_THRESHOLD < policy_score (gate_base d) \<and>
     pred_option (\<lambda>m. m \<le> release_score (gate_base d)) (min_score_to_grab (criteria profile))"
    by (cases "min_score_to_grab (criteria profile)") (auto simp: gate_eq Let_def a ok)
qed

definition mandatory_codes :: "QualityProfileDecision \<Rightarrow> string list" where
  "mandatory_codes d = map se_code (filter (\<lambda>e. se_kind e = MandatoryRejection) (scoring_log d))"

definition contributions :: "QualityProfileDecision \<Rightarrow> int list" where
  "contributions d = map se_delta (filter (\<lambda>e. se_kind e = ScoreContribution) (scoring_log d))"

lemma kind_cases: "k \<noteq> FinalScoreRejection \<and> k \<noteq> ScoreContribution \<longleftrightarrow> k = MandatoryRejection"
  by (cases k) auto

lemma gate_base_allowed: "allowed (gate_base d) \<longleftrightarrow> mandatory_codes d = []"
  by (auto simp: gate_base_def refresh_def Let_def mandatory_codes_def drop_final_def filter_empty_conv kind_cases)
    (metis ScoringEntryKind.exhaust)

lemma sum_list_zero_rejection:
  "sum_list (map se_delta (map zero_rejection (drop_final es))) =
   sum_list (map se_delta (filter (\<lambda>e. se_kind e = ScoreContribution) es))"
proof (induction es)
  case (Cons e es)
  then show ?case by (cases "se_kind e") (simp_all add: drop_final_def zero_rejection_def)
qed (simp add: drop_final_def)

lemma gate_base_score: "release_score (gate_base d) = sum_score_deltas (contributions d)"
  using sum_list_zero_rejection [of "scoring_log d"]
  by (simp add: gate_base_def refresh_def Let_def contributions_def sum_score_deltas_def)

text \<open>
  The final gate is a function of the contributions and the mandatory rejections alone. It
  leaves the score at the clamped sum of the contributions and never lifts a mandatory rejection;
  it allows a release exactly when there is none, the policy score is above the block threshold
  and the score reaches the profile's minimum. Applying it again changes nothing, and applying it
  before a later contribution is the same as applying it only after.
\<close>

theorem apply_min_score_gate_spec:
  "let g = apply_min_score_gate profile d
   in release_score g = sum_score_deltas (contributions d) \<and>
      allowed g = (mandatory_codes d = [] \<and> BLOCK_SCORE_THRESHOLD < policy_score (gate_base d) \<and>
                   pred_option (\<lambda>m. m \<le> sum_score_deltas (contributions d)) (min_score_to_grab (criteria profile))) \<and>
      apply_min_score_gate profile g = g \<and>
      apply_min_score_gate profile (log_with_source code delta source g) =
        apply_min_score_gate profile (log_with_source code delta source d)"
proof -
  have same: "apply_min_score_gate profile x = apply_min_score_gate profile y" if "gate_base x = gate_base y" for x y
    using that by (simp add: gate_eq)
  show ?thesis
    unfolding Let_def same [OF gate_base_gate] same [OF gate_base_log]
    by (simp add: gate_fields gate_base_allowed gate_base_score)
qed

text \<open>
  A profile's tier list is stored in upper case, while a quality that ends in the letter p is looked
  up with only that letter in upper case: a tier whose label has letters before the resolution
  cannot be found under its own name.
\<close>

theorem compound_tier_not_found:
  "quality_tier_index (builtin_criteria (normalize_list [''WEB-1080p'', ''720p'']) []) (Some ''WEB-1080p'') = None \<and>
   quality_tier_index (builtin_criteria (normalize_list [''WEB-1080p'', ''720p'']) []) (Some ''720p'') = Some 1"
  by code_simp

section \<open>Stored label lists\<close>

lemma source_parse_trim: "ReleaseSource_parse (trim s) = ReleaseSource_parse s"
  by (simp add: ReleaseSource_parse_def)

lemma video_parse_trim: "VideoCodec_parse (trim s) = VideoCodec_parse s"
  by (simp add: VideoCodec_parse_def)

lemma audio_parse_trim: "AudioCodec_parse (trim s) = AudioCodec_parse s"
  by (simp add: AudioCodec_parse_def)

lemma read_labels_roundtrip:
  "(\<And>x. parse (trim (print x)) = Some x) \<Longrightarrow> read_labels parse field (map print xs) = Inr xs"
  by (induction xs) simp_all

lemma read_labels_Inl:
  "read_labels parse field vs = Inl e \<Longrightarrow>
   \<exists>us v ws. vs = us @ v # ws \<and> e = InvalidProfileCodec field (trim v) \<and> parse (trim v) = None \<and>
     list_all (\<lambda>u. parse (trim u) \<noteq> None) us"
proof (induction vs)
  case (Cons v vs)
  show ?case
  proof (cases "parse (trim v)")
    case None
    with Cons.prems show ?thesis
      by (intro exI [of _ "[]"] exI [of _ v] exI [of _ vs]) auto
  next
    case (Some x)
    with Cons.prems have "read_labels parse field vs = Inl e" by (auto split: sum.splits)
    from Cons.IH [OF this] obtain us u ws
      where "vs = us @ u # ws" "e = InvalidProfileCodec field (trim u)" "parse (trim u) = None"
        "list_all (\<lambda>u. parse (trim u) \<noteq> None) us" by blast
    with Some show ?thesis by (intro exI [of _ "v # us"] exI [of _ u] exI [of _ ws]) simp
  qed
qed simp

text \<open>
  The label lists of a profile survive storage: every list of sources, video codecs or audio
  codecs, written out by its labels and read back, is the list it was; and a list that fails to
  read names its own field and the first entry that is no known label.
\<close>

theorem profile_label_lists_roundtrip:
  "normalize_source_list (map ReleaseSource_as_str sources) f = Inr sources \<and>
   normalize_codec_list (map VideoCodec_as_str videos) f = Inr videos \<and>
   normalize_audio_codec_list (map AudioCodec_as_str audios) f = Inr audios \<and>
   (case normalize_codec_list labels f of
      Inr codecs \<Rightarrow> map VideoCodec_parse labels = map Some codecs
    | Inl e \<Rightarrow> \<exists>us v ws. labels = us @ v # ws \<and> e = InvalidProfileCodec f (trim v) \<and>
        VideoCodec_parse v = None \<and> list_all (\<lambda>u. VideoCodec_parse u \<noteq> None) us)"
proof -
  have ok: "map VideoCodec_parse vs = map Some codecs" if "read_labels VideoCodec_parse f vs = Inr codecs" for vs codecs
    using that
    by (induction vs arbitrary: codecs) (auto simp: video_parse_trim split: option.splits sum.splits)
  have bad: "\<exists>us v ws. labels = us @ v # ws \<and> e = InvalidProfileCodec f (trim v) \<and>
      VideoCodec_parse v = None \<and> list_all (\<lambda>u. VideoCodec_parse u \<noteq> None) us"
    if "read_labels VideoCodec_parse f labels = Inl e" for e
    using read_labels_Inl [OF that] by (simp only: video_parse_trim)
  have lists: "normalize_source_list (map ReleaseSource_as_str sources) f = Inr sources"
    "normalize_codec_list (map VideoCodec_as_str videos) f = Inr videos"
    "normalize_audio_codec_list (map AudioCodec_as_str audios) f = Inr audios"
    by (simp_all add: normalize_source_list_def normalize_codec_list_def normalize_audio_codec_list_def
        read_labels_roundtrip source_parse_trim video_parse_trim audio_parse_trim
        release_source.parse_as_str video_codec.parse_as_str audio_codec.parse_as_str)
  show ?thesis
    unfolding lists
    by (cases "normalize_codec_list labels f") (auto simp only: normalize_codec_list_def sum.case ok intro: bad)
qed

end
