(* ===== verification/Canonical_Scoring.thy ===== *)
theory Canonical_Scoring
  imports Quality_Profile "HOL-Library.Product_Lexorder"
begin

text \<open>
  Canonical scoring, from \<open>scryer-application/src/quality/canonical.rs\<close>: the one term sequence a
  release is scored by, run once over what it announced and once over what its file measured, and
  the truth verdict that compares the two passes. Parameters stand for what lies outside the
  modelled code: the language tables (\<open>code_of\<close>), the floating-point size bands
  (\<open>size_step\<close>), the policy engine (\<open>rule_result\<close>, which sees the same arguments the code
  hands it and whose failure is \<open>None\<close>) and the merge of a probe's findings into a parse
  (\<open>rescore\<close>), the projection of a disc analysis onto one of its titles (\<open>for_title\<close>) and
  the rule document of an analysis (\<open>file_doc_of\<close>). An analysis is known by the disc details it
  carries, if any, and by whether it describes a stream pointer.
\<close>

section \<open>Data\<close>

record ListingFacts =
  indexer_languages :: "string list"

text \<open>Of a disc: its titles, each with whether its probe completed with a finite positive
  duration, and the operator's selection.\<close>

record DiscTitle =
  disc_title_id :: string
  disc_title_aliases :: "string list"
  disc_title_conclusive :: bool

record EpisodeMapping =
  mapping_disc_title_id :: string
  mapping_episode_ids :: "string list"

record DiscDetails =
  disc_titles :: "DiscTitle list"
  selected_title_id :: "string option"
  episode_mappings :: "EpisodeMapping list"

record ('a, 'f) AnalyzedFacts =
  analysis :: 'a
  actual_size_bytes :: int
  rule_file_doc :: "'f option"

record ('a, 'f) ReleaseEvidence =
  ev_parsed :: ParsedReleaseMetadata
  announced_size_bytes :: "int option"
  ev_analyzed :: "('a, 'f) AnalyzedFacts option"
  ev_listing :: "ListingFacts option"

definition evidence_announced :: "ParsedReleaseMetadata \<Rightarrow> int option \<Rightarrow> ('a, 'f) ReleaseEvidence" where
  "evidence_announced parsed bytes =
     \<lparr>ev_parsed = parsed, announced_size_bytes = bytes, ev_analyzed = None, ev_listing = None\<rparr>"

definition with_analysis :: "('a, 'f) ReleaseEvidence \<Rightarrow> ('a, 'f) AnalyzedFacts \<Rightarrow> ('a, 'f) ReleaseEvidence" where
  "with_analysis e a = e\<lparr>ev_analyzed := Some a\<rparr>"

definition with_listing :: "('a, 'f) ReleaseEvidence \<Rightarrow> ListingFacts option \<Rightarrow> ('a, 'f) ReleaseEvidence" where
  "with_listing e l = e\<lparr>ev_listing := l\<rparr>"

record ScoringContext =
  sc_profile :: QualityProfile
  sc_required_audio_languages :: "string list"
  sc_category :: string
  sc_size_basis :: CoverageSizeBasis
  sc_original_language :: "string option"
  sc_original_country :: "string option"
  sc_title_tags :: "string list"

datatype PolicyOrigin = User | System

record RuleEntry =
  re_origin :: PolicyOrigin
  re_rule_set_id :: string
  re_rule_set_name :: string
  re_code :: string
  re_delta :: int

record RuleEvalError =
  rerr_origin :: PolicyOrigin
  rerr_rule_set_id :: string
  rerr_rule_set_name :: string

record RuleResult =
  rule_entries :: "RuleEntry list"
  rule_errors :: "RuleEvalError list"

text \<open>What the code calls of the rest of the program and of its libraries.\<close>

record ('a, 'f) scoring_env =
  code_of :: language_reader
  size_step :: "QualityProfile \<Rightarrow> ParsedReleaseMetadata \<Rightarrow> int option \<Rightarrow> string \<Rightarrow> CoverageSizeBasis \<Rightarrow>
                QualityProfileDecision \<Rightarrow> QualityProfileDecision"
  rule_result :: "ParsedReleaseMetadata \<Rightarrow> QualityProfile \<Rightarrow> int option \<Rightarrow> 'f option \<Rightarrow> ListingFacts option \<Rightarrow>
                  QualityProfileDecision \<Rightarrow> ScoringContext \<Rightarrow> RuleResult option"
  rescore :: "'a \<Rightarrow> ParsedReleaseMetadata \<Rightarrow> ParsedReleaseMetadata"
  disc_details :: "'a \<Rightarrow> DiscDetails option"
  is_stream_pointer :: "'a \<Rightarrow> bool"
  for_title :: "'a \<Rightarrow> DiscTitle \<Rightarrow> 'a"
  file_doc_of :: "'a \<Rightarrow> 'f"

definition is_disc_image :: "('a, 'f) scoring_env \<Rightarrow> 'a \<Rightarrow> bool" where
  "is_disc_image env a = (disc_details env a \<noteq> None)"

datatype TruthVerdict =
    Consistent
  | ReviewRequired "string list"
  | Contradicted "string list"
  | Blocked "string list"
  | Vetoed "string list"

definition is_consistent :: "TruthVerdict \<Rightarrow> bool" where
  "is_consistent v = (v = Consistent)"

primrec verdict_codes :: "TruthVerdict \<Rightarrow> string list" where
  "verdict_codes Consistent = []"
| "verdict_codes (ReviewRequired codes) = codes"
| "verdict_codes (Contradicted codes) = codes"
| "verdict_codes (Blocked codes) = codes"
| "verdict_codes (Vetoed codes) = codes"

record ScoredRelease =
  sr_release_score :: int
  announced_decision :: QualityProfileDecision
  analyzed_decision :: "QualityProfileDecision option"
  truth_variance :: int
  truth_verdict :: TruthVerdict
  parsed_quality :: "string option"
  sr_revision :: int
  sr_total :: int

section \<open>The term pipeline\<close>

definition canonical_parse ::
  "language_reader \<Rightarrow> ParsedReleaseMetadata \<Rightarrow> ListingFacts option \<Rightarrow> ScoringContext \<Rightarrow> ParsedReleaseMetadata" where
  "canonical_parse reader parsed listing ctx =
     (let language_context = title_audio_language_context reader (sc_original_language ctx)
            (sc_original_country ctx) (Some (sc_category ctx)) (sc_title_tags ctx)
      in parsed\<lparr>rel_languages_audio :=
           release_audio_language_hints_for_title reader parsed (map_option indexer_languages listing)
             (Some language_context) (sc_required_audio_languages ctx \<noteq> [])\<rparr>)"

definition rule_source :: "PolicyOrigin \<Rightarrow> string \<Rightarrow> string \<Rightarrow> ScoringSource" where
  "rule_source origin i n = (case origin of User \<Rightarrow> UserRule i n | System \<Rightarrow> SystemRule i n)"

definition append_rule_scores :: "RuleResult option \<Rightarrow> QualityProfileDecision \<Rightarrow> QualityProfileDecision" where
  "append_rule_scores result d =
     (case result of
        None \<Rightarrow> d
      | Some r \<Rightarrow>
          fold (\<lambda>e. log_with_source
                      (case rerr_origin e of User \<Rightarrow> ''user_rule_error'' | System \<Rightarrow> ''system_rule_error'') 0
                      (rule_source (rerr_origin e) (rerr_rule_set_id e) (rerr_rule_set_name e)))
            (rule_errors r)
            (fold (\<lambda>e. log_with_source (re_code e) (re_delta e)
                         (rule_source (re_origin e) (re_rule_set_id e) (re_rule_set_name e)))
               (rule_entries r) d))"

definition run_term_pipeline ::
  "('a, 'f) scoring_env \<Rightarrow> ParsedReleaseMetadata \<Rightarrow> int option \<Rightarrow> 'f option \<Rightarrow> ListingFacts option \<Rightarrow>
   ScoringContext \<Rightarrow> QualityProfileDecision" where
  "run_term_pipeline env parsed0 size_bytes file_doc listing ctx =
     (let parsed = canonical_parse (code_of env) parsed0 listing ctx;
          resolved = (sc_profile ctx)\<lparr>criteria := (criteria (sc_profile ctx))
                       \<lparr>required_audio_languages := sc_required_audio_languages ctx\<rparr>\<rparr>;
          d1 = evaluate_profile_requirements (code_of env) resolved parsed False;
          d2 = size_step env resolved parsed size_bytes (sc_category ctx) (sc_size_basis ctx) d1;
          d3 = append_rule_scores (rule_result env parsed resolved size_bytes file_doc listing d2 ctx) d2
      in apply_min_score_gate resolved d3)"

definition numeric_score :: "QualityProfileDecision \<Rightarrow> int" where
  "numeric_score d =
     sum_score_deltas (map se_delta (filter (\<lambda>e. se_kind e = ScoreContribution) (scoring_log d)))"

section \<open>The truth verdict\<close>

definition TRUTH_VARIANCE_BOUND :: int where
  "TRUTH_VARIANCE_BOUND = 700"

definition POLICY_ONLY_BLOCK_CODES :: "string list" where
  "POLICY_ONLY_BLOCK_CODES = [''upgrade_blocked_by_profile'']"

definition veto_contradicts_an_assertion :: "string \<Rightarrow> ParsedReleaseMetadata \<Rightarrow> bool" where
  "veto_contradicts_an_assertion code announced =
     (if starts_with code ''quality_'' \<or> starts_with code ''size_implausib'' then True
      else if starts_with code ''video_codec_'' then rel_video_codec announced \<noteq> None
      else if starts_with code ''audio_codec_'' then rel_audio announced \<noteq> None \<or> rel_audio_codecs announced \<noteq> []
      else False)"

definition introduced :: "QualityProfileDecision \<Rightarrow> QualityProfileDecision \<Rightarrow> ScoringEntry list" where
  "introduced announced analyzed =
     filter (\<lambda>e. se_kind e = MandatoryRejection \<and> se_code e \<notin> set (block_codes announced) \<and>
                 se_code e \<notin> set POLICY_ONLY_BLOCK_CODES) (scoring_log analyzed)"

definition contradicts_a_claim :: "ParsedReleaseMetadata \<Rightarrow> ScoringEntry \<Rightarrow> bool" where
  "contradicts_a_claim parsed e =
     (se_source e = Builtin \<and> veto_contradicts_an_assertion (se_code e) parsed)"

definition classify_truth ::
  "ParsedReleaseMetadata \<Rightarrow> QualityProfileDecision \<Rightarrow> QualityProfileDecision \<Rightarrow> int \<times> TruthVerdict" where
  "classify_truth announced_parsed announced analyzed =
     (let new = introduced announced analyzed;
          asserted = map se_code (filter (contradicts_a_claim announced_parsed) new);
          undisclosed = map se_code (filter (\<lambda>e. \<not> contradicts_a_claim announced_parsed e) new);
          score_rejections = map se_code (filter (\<lambda>e. se_kind e = FinalScoreRejection) (scoring_log analyzed));
          raw = saturating_sub_i32 (numeric_score analyzed) (numeric_score announced)
      in if new \<noteq> [] then
           (if asserted \<noteq> [] then (0, Blocked (asserted @ undisclosed)) else (0, Vetoed undisclosed))
         else if score_rejections \<noteq> [] \<and> allowed announced then (0, Vetoed score_rejections)
         else (max (- TRUTH_VARIANCE_BOUND) (min raw TRUTH_VARIANCE_BOUND), Consistent))"

text \<open>The products are taken in \<open>i128\<close>.\<close>

definition size_claim_mismatch :: "int option \<Rightarrow> int \<Rightarrow> bool" where
  "size_claim_mismatch announced actual =
     (case announced of
        None \<Rightarrow> False
      | Some a \<Rightarrow> a > 0 \<and> actual > 0 \<and> (actual * 4 < a \<or> a * 4 < actual))"

definition QUALITY_CONTRADICTED_PREFIX :: string where
  "QUALITY_CONTRADICTED_PREFIX = ''quality_contradicted:''"

definition quality_label :: "string option \<Rightarrow> string" where
  "quality_label q = (case q of None \<Rightarrow> ''unknown'' | Some s \<Rightarrow> s)"

definition carry_quality_code :: "string \<Rightarrow> TruthVerdict \<Rightarrow> TruthVerdict" where
  "carry_quality_code code v =
     (case v of
        Blocked codes \<Rightarrow> Blocked (codes @ [code])
      | Vetoed codes \<Rightarrow> Vetoed (codes @ [code])
      | Contradicted codes \<Rightarrow> Contradicted (codes @ [code])
      | ReviewRequired codes \<Rightarrow> ReviewRequired codes
      | Consistent \<Rightarrow> Contradicted [code])"

text \<open>The branch of \<open>score_single_release_with_rules\<close> for a measured file.\<close>

definition judge_analysis ::
  "('a, 'f) scoring_env \<Rightarrow> ('a, 'f) ReleaseEvidence \<Rightarrow> ScoringContext \<Rightarrow> QualityProfileDecision \<Rightarrow>
   ('a, 'f) AnalyzedFacts \<Rightarrow> QualityProfileDecision \<times> string option \<times> int \<times> TruthVerdict" where
  "judge_analysis env evidence ctx comparable facts =
     (let is_disc = is_disc_image env (analysis facts);
          is_pointer = is_stream_pointer env (analysis facts);
          analyzed_parsed = rescore env (analysis facts) (ev_parsed evidence);
          analyzed_pass = run_term_pipeline env analyzed_parsed
            (if \<not> is_disc \<and> \<not> is_pointer then Some (actual_size_bytes facts) else None)
            (rule_file_doc facts) (ev_listing evidence) ctx;
          (variance, verdict) = classify_truth (ev_parsed evidence) comparable analyzed_pass;
          verdict1 = (if verdict = Consistent \<and> \<not> is_pointer \<and> \<not> covers_multiple_members (sc_size_basis ctx) \<and>
                         size_claim_mismatch (announced_size_bytes evidence) (actual_size_bytes facts)
                      then Contradicted [''size_claim_mismatch''] else verdict);
          announced_quality = normalize_quality_tier (rel_quality (ev_parsed evidence));
          landed_quality = normalize_quality_tier (rel_quality analyzed_parsed);
          verdict2 = (if announced_quality \<noteq> landed_quality
                      then carry_quality_code (QUALITY_CONTRADICTED_PREFIX @ quality_label announced_quality @
                             ''->'' @ quality_label landed_quality) verdict1
                      else verdict1)
      in (analyzed_pass, rel_quality analyzed_parsed, variance, verdict2))"

definition revision_rank :: "ParsedReleaseMetadata \<Rightarrow> int" where
  "revision_rank parsed = rel_revision parsed"

definition score_single_release ::
  "('a, 'f) scoring_env \<Rightarrow> ('a, 'f) ReleaseEvidence \<Rightarrow> ScoringContext \<Rightarrow> ScoredRelease" where
  "score_single_release env evidence ctx =
     (let parsed = ev_parsed evidence; listing = ev_listing evidence;
          is_disc = (case ev_analyzed evidence of None \<Rightarrow> False | Some f \<Rightarrow> is_disc_image env (analysis f));
          is_pointer = (case ev_analyzed evidence of None \<Rightarrow> False | Some f \<Rightarrow> is_stream_pointer env (analysis f));
          announced = run_term_pipeline env parsed
            (if is_pointer then None else announced_size_bytes evidence) None listing ctx;
          comparable = (if is_disc then run_term_pipeline env parsed None None listing ctx else announced);
          judged = map_option (judge_analysis env evidence ctx comparable) (ev_analyzed evidence);
          analyzed_pass = map_option fst judged;
          analyzed_quality = Option.bind judged (\<lambda>j. fst (snd j))
      in \<lparr>sr_release_score = preference_score announced, announced_decision = announced,
          analyzed_decision = analyzed_pass,
          truth_variance = (case judged of None \<Rightarrow> 0 | Some j \<Rightarrow> fst (snd (snd j))),
          truth_verdict = (case judged of None \<Rightarrow> Consistent | Some j \<Rightarrow> snd (snd (snd j))),
          parsed_quality = or_else analyzed_quality (rel_quality parsed),
          sr_revision = revision_rank parsed,
          sr_total = numeric_score (case analyzed_pass of None \<Rightarrow> announced | Some d \<Rightarrow> d)\<rparr>)"

section \<open>Disc images\<close>

definition names_title :: "string \<Rightarrow> DiscTitle \<Rightarrow> bool" where
  "names_title i t = (disc_title_id t = i \<or> i \<in> set (disc_title_aliases t))"

definition score_unresolved_disc ::
  "('a, 'f) scoring_env \<Rightarrow> ('a, 'f) ReleaseEvidence \<Rightarrow> ScoringContext \<Rightarrow> string \<Rightarrow> ScoredRelease" where
  "score_unresolved_disc env evidence ctx code =
     (score_single_release env (evidence\<lparr>ev_analyzed := None\<rparr>) ctx)\<lparr>truth_verdict := ReviewRequired [code]\<rparr>"

definition scoped_facts :: "('a, 'f) scoring_env \<Rightarrow> ('a, 'f) AnalyzedFacts \<Rightarrow> DiscTitle \<Rightarrow> ('a, 'f) AnalyzedFacts" where
  "scoped_facts env facts t =
     (let a = for_title env (analysis facts) t
      in \<lparr>analysis = a, actual_size_bytes = actual_size_bytes facts, rule_file_doc = Some (file_doc_of env a)\<rparr>)"

text \<open>The loop over the episode mappings: an early return is the code of the unresolved disc.\<close>

fun score_mappings ::
  "('a, 'f) scoring_env \<Rightarrow> ('a, 'f) ReleaseEvidence \<Rightarrow> ScoringContext \<Rightarrow> ('a, 'f) AnalyzedFacts \<Rightarrow> DiscTitle list \<Rightarrow>
   string list option \<Rightarrow> string list \<Rightarrow> EpisodeMapping list \<Rightarrow> string + ScoredRelease list" where
  "score_mappings env evidence ctx facts titles episode_ids seen [] = Inr []"
| "score_mappings env evidence ctx facts titles episode_ids seen (m # ms) =
     (if (case episode_ids of None \<Rightarrow> False | Some ids \<Rightarrow> \<not> list_ex (\<lambda>i. i \<in> set ids) (mapping_episode_ids m))
      then score_mappings env evidence ctx facts titles episode_ids seen ms
      else (case find (names_title (mapping_disc_title_id m)) titles of
              None \<Rightarrow> Inl ''disc_episode_mapping_unresolved''
            | Some t \<Rightarrow>
                (if length (mapping_episode_ids m) \<noteq> 1 \<or> disc_title_id t \<in> set seen
                 then Inl ''disc_episode_mapping_ambiguous''
                 else if \<not> disc_title_conclusive t then Inl ''disc_mapped_title_inconclusive''
                 else (case score_mappings env evidence ctx facts titles episode_ids (disc_title_id t # seen) ms of
                         Inl code \<Rightarrow> Inl code
                       | Inr scores \<Rightarrow>
                           Inr (score_single_release env (evidence\<lparr>ev_analyzed := Some (scoped_facts env facts t)\<rparr>) ctx
                                # scores)))))"

primrec severity :: "TruthVerdict \<Rightarrow> nat" where
  "severity Consistent = 0"
| "severity (Contradicted _) = 1"
| "severity (Vetoed _) = 2"
| "severity (Blocked _) = 3"
| "severity (ReviewRequired _) = 4"

definition verdict_of_severity :: "nat \<Rightarrow> string list \<Rightarrow> TruthVerdict" where
  "verdict_of_severity n codes =
     (if n = 4 then ReviewRequired codes else if n = 3 then Blocked codes
      else if n = 2 then Vetoed codes else if n = 1 then Contradicted codes else Consistent)"

text \<open>\<open>Reverse(total)\<close> compares as the negated total.\<close>

definition weakness :: "QualityProfileCriteria \<Rightarrow> ScoredRelease \<Rightarrow> nat \<times> int" where
  "weakness c score =
     ((case quality_tier_index c (parsed_quality score) of None \<Rightarrow> usize_max | Some t \<Rightarrow> t), - sr_total score)"

definition weakest_score :: "QualityProfileCriteria \<Rightarrow> ScoredRelease list \<Rightarrow> ScoredRelease option" where
  "weakest_score c scores =
     map_option (\<lambda>w. w\<lparr>truth_verdict :=
         verdict_of_severity (foldr max (map (\<lambda>s. severity (truth_verdict s)) scores) 0)
           (sort_dedup (concat (map (\<lambda>s. verdict_codes (truth_verdict s)) scores)))\<rparr>)
       (max_by_key (weakness c) scores)"

definition score_disc_scope ::
  "('a, 'f) scoring_env \<Rightarrow> ('a, 'f) ReleaseEvidence \<Rightarrow> ScoringContext \<Rightarrow> string list option \<Rightarrow> ScoredRelease" where
  "score_disc_scope env evidence ctx episode_ids =
     (case ev_analyzed evidence of
        None \<Rightarrow> score_single_release env evidence ctx
      | Some facts \<Rightarrow>
          (case disc_details env (analysis facts) of
             None \<Rightarrow> score_single_release env evidence ctx
           | Some disc \<Rightarrow>
               (if (case selected_title_id disc of None \<Rightarrow> False
                    | Some i \<Rightarrow> \<not> list_ex (names_title i) (disc_titles disc))
                then score_unresolved_disc env evidence ctx ''disc_title_override_invalid''
                else if (case episode_ids of None \<Rightarrow> False
                         | Some ids \<Rightarrow> ids = [] \<or>
                             list_ex (\<lambda>i. length (filter (\<lambda>m. i \<in> set (mapping_episode_ids m)) (episode_mappings disc)) \<noteq> 1) ids)
                then score_unresolved_disc env evidence ctx ''disc_episode_mapping_unresolved''
                else (case score_mappings env evidence ctx facts (disc_titles disc) episode_ids [] (episode_mappings disc) of
                        Inl code \<Rightarrow> score_unresolved_disc env evidence ctx code
                      | Inr scores \<Rightarrow>
                          (case weakest_score (criteria (sc_profile ctx)) scores of
                             None \<Rightarrow> score_single_release env evidence ctx
                           | Some w \<Rightarrow> w)))))"

definition score_release ::
  "('a, 'f) scoring_env \<Rightarrow> ('a, 'f) ReleaseEvidence \<Rightarrow> ScoringContext \<Rightarrow> ScoredRelease" where
  "score_release env evidence ctx = score_disc_scope env evidence ctx None"

section \<open>Passes\<close>

lemma decision_ok_pipeline: "decision_ok (run_term_pipeline env parsed bytes doc listing ctx)"
  by (simp add: run_term_pipeline_def Let_def decision_ok_gate)

lemma numeric_score_ok:
  assumes "decision_ok d"
  shows "numeric_score d = release_score d"
proof -
  have "sum_list (map se_delta (filter (\<lambda>e. se_kind e = ScoreContribution) es)) = sum_list (map se_delta es)"
    if "list_all (\<lambda>e. se_kind e = ScoreContribution \<or> se_delta e = 0) es" for es
    using that by (induction es) auto
  from this [of "scoring_log d"] show ?thesis
    using assms unfolding numeric_score_def decision_ok_def sum_score_deltas_def by metis
qed

lemma block_codes_ok: "decision_ok d \<Longrightarrow>
  block_codes d = map se_code (filter (\<lambda>e. se_kind e \<noteq> ScoreContribution) (scoring_log d))"
  by (simp add: decision_ok_def)

lemma introduced_self: "decision_ok d \<Longrightarrow> introduced d d = []"
  by (auto simp: introduced_def filter_empty_conv block_codes_ok)

lemma allowed_no_final:
  "decision_ok d \<Longrightarrow> allowed d \<Longrightarrow> filter (\<lambda>e. se_kind e = FinalScoreRejection) (scoring_log d) = []"
  by (auto simp: decision_ok_def filter_empty_conv)

lemma classify_truth_self: "decision_ok d \<Longrightarrow> classify_truth parsed d d = (0, Consistent)"
  by (auto simp: classify_truth_def Let_def introduced_self allowed_no_final saturating_sub_i32_def
      sat_i32_def TRUTH_VARIANCE_BOUND_def)


section \<open>A file that is what it announced\<close>

lemma judge_honest:
  assumes "rescore env (analysis facts) (ev_parsed evidence) = ev_parsed evidence"
    and "\<not> is_disc_image env (analysis facts)" and "\<not> is_stream_pointer env (analysis facts)"
    and "rule_file_doc facts = None" and "announced_size_bytes evidence = Some (actual_size_bytes facts)"
  shows "judge_analysis env evidence ctx
      (run_term_pipeline env (ev_parsed evidence) (announced_size_bytes evidence) None (ev_listing evidence) ctx) facts =
    (run_term_pipeline env (ev_parsed evidence) (announced_size_bytes evidence) None (ev_listing evidence) ctx,
     rel_quality (ev_parsed evidence), 0, Consistent)"
  using assms
  by (simp add: judge_analysis_def Let_def classify_truth_self decision_ok_pipeline size_claim_mismatch_def)

lemma score_release_plain:
  "(case ev_analyzed evidence of None \<Rightarrow> True | Some f \<Rightarrow> \<not> is_disc_image env (analysis f)) \<Longrightarrow>
   score_release env evidence ctx = score_single_release env evidence ctx"
  by (auto simp: score_release_def score_disc_scope_def is_disc_image_def split: option.splits)

lemma honest_landed:
  assumes "rescore env (analysis facts) parsed = parsed"
    and "\<not> is_disc_image env (analysis facts)" and "\<not> is_stream_pointer env (analysis facts)"
    and "rule_file_doc facts = None"
  shows "let grabbed = score_release env
                (with_listing (evidence_announced parsed (Some (actual_size_bytes facts))) listing) ctx;
             landed = score_release env
                (with_analysis (with_listing (evidence_announced parsed (Some (actual_size_bytes facts))) listing) facts) ctx
         in truth_verdict landed = Consistent \<and> truth_variance landed = 0 \<and>
            sr_total landed = sr_release_score grabbed \<and> sr_total landed = sr_total grabbed \<and>
            sr_revision landed = sr_revision grabbed \<and> parsed_quality landed = parsed_quality grabbed"
proof -
  let ?e = "with_listing (evidence_announced parsed (Some (actual_size_bytes facts))) listing"
  let ?ea = "with_analysis ?e facts"
  let ?run = "run_term_pipeline env parsed (Some (actual_size_bytes facts)) None listing ctx"
  have ev: "ev_parsed ?ea = parsed" "announced_size_bytes ?ea = Some (actual_size_bytes facts)"
    "ev_listing ?ea = listing" "ev_analyzed ?ea = Some facts"
    "ev_parsed ?e = parsed" "announced_size_bytes ?e = Some (actual_size_bytes facts)"
    "ev_listing ?e = listing" "ev_analyzed ?e = None"
    by (simp_all add: with_analysis_def with_listing_def evidence_announced_def)
  have judged: "judge_analysis env ?ea ctx ?run facts = (?run, rel_quality parsed, 0, Consistent)"
    using judge_honest [of env facts ?ea ctx] assms by (simp add: ev)
  have "preference_score ?run = numeric_score ?run"
    using decision_ok_pipeline [of env parsed "Some (actual_size_bytes facts)" None listing ctx]
    by (simp add: numeric_score_ok decision_ok_def)
  moreover have "score_release env ?ea ctx = score_single_release env ?ea ctx"
    "score_release env ?e ctx = score_single_release env ?e ctx"
    by (rule score_release_plain; simp add: ev assms(2))+
  ultimately show ?thesis
    by (cases "rel_quality parsed") (simp_all add: score_single_release_def Let_def ev assms(2,3) judged or_else_def)
qed

text \<open>
  Grab and import agree about a file that is what it announced. If probing it adds nothing to
  the announced parse, no rule reads the file, and it has the announced size, then its verdict is
  consistent, the variance is 0, and its total, its revision and its quality are those the release
  had before a byte of it was downloaded.
\<close>

theorem honest_file_scores_as_announced:
  assumes "rescore env (analysis facts) parsed = parsed"
    and "\<not> is_disc_image env (analysis facts)" and "\<not> is_stream_pointer env (analysis facts)"
    and "rule_file_doc facts = None"
  shows "let grabbed = score_release env
                (with_listing (evidence_announced parsed (Some (actual_size_bytes facts))) listing) ctx;
             landed = score_release env
                (with_analysis (with_listing (evidence_announced parsed (Some (actual_size_bytes facts))) listing) facts) ctx
         in truth_verdict landed = Consistent \<and> truth_variance landed = 0 \<and>
            sr_total landed = sr_release_score grabbed \<and> sr_total landed = sr_total grabbed \<and>
            sr_revision landed = sr_revision grabbed \<and> parsed_quality landed = parsed_quality grabbed"
  using honest_landed [OF assms] .

definition example_env :: "(unit, unit) scoring_env" where
  "example_env = \<lparr>code_of = example_code_of, size_step = (\<lambda>_ _ _ _ _ d. d),
     rule_result = (\<lambda>_ _ _ _ _ _ _. None), rescore = (\<lambda>_ p. p),
     disc_details = (\<lambda>_. None), is_stream_pointer = (\<lambda>_. False), for_title = (\<lambda>a _. a),
     file_doc_of = (\<lambda>_. ())\<rparr>"

definition example_context :: ScoringContext where
  "example_context = \<lparr>sc_profile = builtin_4k_profile, sc_required_audio_languages = [],
     sc_category = ''movie'', sc_size_basis = CoverageSizeBasis_single (Some 120),
     sc_original_language = None, sc_original_country = None, sc_title_tags = []\<rparr>"

theorem honest_file_scores_as_announced_witness:
  "truth_verdict (score_release example_env
     (with_analysis (with_listing (evidence_announced (ParsedReleaseMetadata_empty ''m'') (Some 900)) None)
        \<lparr>analysis = (), actual_size_bytes = 900, rule_file_doc = None\<rparr>) example_context) = Consistent"
  using honest_file_scores_as_announced
    [of example_env "\<lparr>analysis = (), actual_size_bytes = 900, rule_file_doc = None\<rparr>"
        "ParsedReleaseMetadata_empty ''m''" None example_context]
  by (simp add: example_env_def is_disc_image_def Let_def)

section \<open>The weakest title of a disc\<close>

lemma foldr_max_severity:
  "(\<forall>x \<in> set xs. f x \<le> foldr max (map f xs) (0::nat)) \<and>
   (if xs = [] then foldr max (map f xs) 0 = 0 else foldr max (map f xs) 0 \<in> f ` set xs)"
proof (induction xs)
  case (Cons x xs)
  have fold: "foldr max (map f (x # xs)) 0 = max (f x) (foldr max (map f xs) 0)" by simp
  show ?case
  proof (cases "foldr max (map f xs) 0 \<le> f x")
    case True
    with Cons show ?thesis unfolding fold by (auto simp: max_absorb1)
  next
    case False
    then have "max (f x) (foldr max (map f xs) 0) = foldr max (map f xs) 0" by simp
    with False Cons show ?thesis unfolding fold by (cases "xs = []") auto
  qed
qed simp

lemma severity_verdict: "severity (verdict_of_severity (severity v) codes) = severity v"
  by (cases v) (simp_all add: verdict_of_severity_def)

text \<open>
  Every mapped title of a disc must clear the gate: the score of the image carries the gravest
  verdict among its titles with the codes of all of them, and is the score of a title none of
  which is of a worse tier, or of the same tier with a lower total; so a superior title elsewhere
  on the image cannot raise another episode's bar.
\<close>

theorem weakest_score_is_the_floor:
  "case weakest_score c scores of
     None \<Rightarrow> scores = []
   | Some w \<Rightarrow>
       list_all (\<lambda>s. severity (truth_verdict s) \<le> severity (truth_verdict w) \<and>
                     weakness c s \<le> weakness c w) scores \<and>
       severity (truth_verdict w) \<in> severity ` truth_verdict ` set scores \<and>
       sr_total w \<in> sr_total ` set scores"
proof (cases "max_by_key (weakness c) scores")
  case None
  then show ?thesis by (simp add: weakest_score_def)
next
  case (Some m)
  have m: "m \<in> set scores" "\<forall>s \<in> set scores. weakness c s \<le> weakness c m"
    using max_by_key_Some [OF Some] by blast+
  define n where "n = foldr max (map (\<lambda>s. severity (truth_verdict s)) scores) 0"
  have n: "\<forall>s \<in> set scores. severity (truth_verdict s) \<le> n" "n \<in> severity ` truth_verdict ` set scores"
    using foldr_max_severity [of scores "\<lambda>s. severity (truth_verdict s)"] m(1)
    unfolding n_def [symmetric] by (auto simp: image_image split: if_splits)
  then have sev: "severity (verdict_of_severity n codes) = n" for codes
    using severity_verdict by auto
  have "weakness c (m\<lparr>truth_verdict := v\<rparr>) = weakness c m" for v by (simp add: weakness_def)
  with Some m n sev show ?thesis
    by (simp add: weakest_score_def list_all_iff flip: n_def)
qed

end
