(* ===== verification/Import_Decide.thy ===== *)
theory Import_Decide
  imports Admission Canonical_Scoring
begin

text \<open>
  The import decision, from \<open>scryer-application/src/import/decide.rs\<close> and the verdict half of
  \<open>import/post_download_gate.rs\<close>: what a truth verdict means for the import in front of it, the
  shared admission gate under the import policy, the resolution of displaced rows by id, and
  \<open>decide_import\<close> itself, which composes them. The subject of the admission is read from the
  database by the caller and is an argument; so are the JSON reading of the listing snapshot and
  the serialised scoring log. The comparison of two byte counts against the overhead tolerance is
  in \<open>f64\<close> and is the parameter \<open>in_overhead_band\<close>.
\<close>

section \<open>Origins, rejections and dispositions\<close>

datatype ImportOrigin = Automatic | OperatorQueued

datatype RejectionDisposition = Blocklist | Skip | Hold

record ImportedFileRejection =
  ifr_message :: string
  recycle_reason :: string
  skip_reason :: "ImportSkipReason option"
  blocking_rule_codes :: "string list"

definition from_submission_purpose :: "DownloadSubmissionPurpose \<Rightarrow> ImportOrigin" where
  "from_submission_purpose purpose =
     (if is_operator_queued purpose \<or> is_manual_replacement purpose then OperatorQueued else Automatic)"

primrec rejection_disposition :: "ImportOrigin \<Rightarrow> RejectionDisposition" where
  "rejection_disposition Automatic = Blocklist"
| "rejection_disposition OperatorQueued = Hold"

definition held_rejection :: "ImportOrigin \<Rightarrow> ImportedFileRejection \<Rightarrow> ImportedFileRejection" where
  "held_rejection origin r =
     (if origin = OperatorQueued
      then r\<lparr>ifr_message := ''held for manual import because the file failed '' @ recycle_reason r @ '': '' @
               ifr_message r\<rparr>
      else r)"

definition DISC_REVIEW_REQUIRED_CODE :: string where
  "DISC_REVIEW_REQUIRED_CODE = ''disc_review_required''"

definition MEDIA_ANALYSIS_REVIEW_REQUIRED_CODE :: string where
  "MEDIA_ANALYSIS_REVIEW_REQUIRED_CODE = ''media_analysis_review_required''"

definition POST_DOWNLOAD_RULE_ERROR_CODE :: string where
  "POST_DOWNLOAD_RULE_ERROR_CODE = ''post_download_rule_error''"

definition SOURCE_CHANGED_AFTER_PROBE_CODE :: string where
  "SOURCE_CHANGED_AFTER_PROBE_CODE = ''source_changed_after_probe''"

definition IMPORT_SOURCE_CHANGED_AFTER_PROBE_CODE :: string where
  "IMPORT_SOURCE_CHANGED_AFTER_PROBE_CODE = ''import_source_changed_after_probe''"

definition SOURCE_SNAPSHOT_UNAVAILABLE_CODE :: string where
  "SOURCE_SNAPSHOT_UNAVAILABLE_CODE = ''import_source_snapshot_unavailable''"

definition RUNTIME_OUT_OF_BAND_CODE :: string where
  "RUNTIME_OUT_OF_BAND_CODE = ''runtime_out_of_band''"

definition requires_review :: "ImportedFileRejection \<Rightarrow> bool" where
  "requires_review r =
     (recycle_reason r \<in> {RUNTIME_OUT_OF_BAND_CODE, SOURCE_SNAPSHOT_UNAVAILABLE_CODE, DISC_REVIEW_REQUIRED_CODE,
        MEDIA_ANALYSIS_REVIEW_REQUIRED_CODE, POST_DOWNLOAD_RULE_ERROR_CODE} \<or>
      list_ex (\<lambda>code. code = SOURCE_CHANGED_AFTER_PROBE_CODE) (blocking_rule_codes r))"

definition review_hold_skip_reason_for_code :: "string \<Rightarrow> ImportSkipReason" where
  "review_hold_skip_reason_for_code code =
     (if code = POST_DOWNLOAD_RULE_ERROR_CODE then PostDownloadRuleBlocked
      else if code \<in> {SOURCE_CHANGED_AFTER_PROBE_CODE, IMPORT_SOURCE_CHANGED_AFTER_PROBE_CODE} then SourceChanged
      else if code = SOURCE_SNAPSHOT_UNAVAILABLE_CODE then SourceUnavailable
      else PolicyMismatch)"

definition review_hold_skip_reason :: "ImportedFileRejection \<Rightarrow> ImportSkipReason" where
  "review_hold_skip_reason r = review_hold_skip_reason_for_code (recycle_reason r)"

definition prepare_rejection_disposition_for_origin ::
  "ImportedFileRejection \<Rightarrow> ImportOrigin \<Rightarrow> RejectionDisposition" where
  "prepare_rejection_disposition_for_origin r origin =
     (if requires_review r then Hold else rejection_disposition origin)"

section \<open>What a truth verdict costs\<close>

definition TRUTH_BLOCKED_CODE :: string where
  "TRUTH_BLOCKED_CODE = ''truth_blocked''"

definition TRUTH_QUALITY_DOWNGRADE_CODE :: string where
  "TRUTH_QUALITY_DOWNGRADE_CODE = ''truth_quality_downgrade''"

definition TRUTH_VETOED_CODE :: string where
  "TRUTH_VETOED_CODE = ''truth_vetoed''"

datatype TruthVerdictAction =
    Act_Import
  | Act_Hold ImportedFileRejection
  | Act_ImportAndBlocklist string string
  | Act_Reject ImportedFileRejection

definition disc_review_rejection :: "string \<Rightarrow> ImportedFileRejection" where
  "disc_review_rejection message =
     \<lparr>ifr_message = message, recycle_reason = DISC_REVIEW_REQUIRED_CODE, skip_reason = Some PolicyMismatch,
      blocking_rule_codes = [DISC_REVIEW_REQUIRED_CODE]\<rparr>"

definition quality_contradiction :: "string list \<Rightarrow> (string \<times> string) option" where
  "quality_contradiction codes =
     find_map (\<lambda>code. Option.bind (strip_prefix code QUALITY_CONTRADICTED_PREFIX) (split_once_str ''->'')) codes"

definition landed_tier_is_worse :: "QualityProfileCriteria \<Rightarrow> string \<Rightarrow> string \<Rightarrow> bool" where
  "landed_tier_is_worse c announced landed =
     (case (quality_tier_index c (Some announced), quality_tier_index c (Some landed)) of
        (Some a, Some l) \<Rightarrow> l > a
      | (Some _, None) \<Rightarrow> True
      | (None, _) \<Rightarrow> False)"

definition quality_mismatch_hold ::
  "QualityProfileCriteria \<Rightarrow> string \<Rightarrow> string \<Rightarrow> string list \<Rightarrow> TruthVerdictAction" where
  "quality_mismatch_hold c announced landed codes =
     (let requirement =
            (if list_ex (\<lambda>tier. tier = landed) (quality_tiers c)
             then ''the detected quality ranks below the advertised quality''
             else ''the detected quality is not in the profile'' @ [CHR 0x27] @ ''s allowed tiers'')
      in Act_Hold
           \<lparr>ifr_message = ''release advertised '' @ announced @ '' but the file is '' @ landed @ ''; '' @ requirement @
              ''. Current profile preference: '' @ join '' > '' (quality_tiers c) @
              ''. Source preserved for review; retry after correcting the profile or use manual import'',
            recycle_reason = ''quality_mismatch'', skip_reason = Some PolicyMismatch,
            blocking_rule_codes = codes\<rparr>)"

definition quality_downgrade_rejection :: "string \<Rightarrow> string \<Rightarrow> ImportedFileRejection" where
  "quality_downgrade_rejection announced landed =
     \<lparr>ifr_message = ''release advertised '' @ announced @ '' but the file is '' @ landed @
        ''; refusing the import and looking for another release'',
      recycle_reason = TRUTH_QUALITY_DOWNGRADE_CODE, skip_reason = Some PolicyMismatch,
      blocking_rule_codes = [QUALITY_CONTRADICTED_PREFIX @ announced @ ''->'' @ landed]\<rparr>"

definition code_list :: "string list \<Rightarrow> string" where
  "code_list codes =
     (if codes = [] then ''file evidence blocked by the quality profile'' else join '', '' codes)"

definition blocked_rejection :: "string list \<Rightarrow> ImportedFileRejection" where
  "blocked_rejection codes =
     \<lparr>ifr_message = ''the downloaded file contradicts what the release advertised and cannot be imported: '' @
        code_list codes,
      recycle_reason = TRUTH_BLOCKED_CODE, skip_reason = Some PolicyMismatch, blocking_rule_codes = codes\<rparr>"

definition vetoed_rejection :: "string list \<Rightarrow> ImportedFileRejection" where
  "vetoed_rejection codes =
     \<lparr>ifr_message = ''the downloaded file does not meet the completed scoring policy: '' @ code_list codes,
      recycle_reason = TRUTH_VETOED_CODE, skip_reason = Some PolicyMismatch, blocking_rule_codes = codes\<rparr>"

definition resolution_only :: "string list \<Rightarrow> bool" where
  "resolution_only codes =
     list_all (\<lambda>code. code = ''quality_not_in_profile_tiers'' \<or> starts_with code QUALITY_CONTRADICTED_PREFIX) codes"

definition resolve_truth_verdict_action_for_origin ::
  "TruthVerdict \<Rightarrow> QualityProfileCriteria \<Rightarrow> bool \<Rightarrow> ImportOrigin \<Rightarrow> TruthVerdictAction" where
  "resolve_truth_verdict_action_for_origin verdict c scope_is_occupied origin =
     (case verdict of
        Consistent \<Rightarrow> Act_Import
      | ReviewRequired codes \<Rightarrow>
          Act_Hold ((disc_review_rejection
             (''disc playback facts require review; the source image has been preserved: '' @ join '', '' codes))
             \<lparr>blocking_rule_codes := codes\<rparr>)
      | Blocked codes \<Rightarrow>
          (case quality_contradiction codes of
             Some (announced, landed) \<Rightarrow>
               (if resolution_only codes then quality_mismatch_hold c announced landed codes
                else Act_Reject (blocked_rejection codes))
           | None \<Rightarrow> Act_Reject (blocked_rejection codes))
      | Vetoed codes \<Rightarrow>
          (case quality_contradiction codes of
             Some (announced, landed) \<Rightarrow>
               (if landed_tier_is_worse c announced landed
                then Act_Reject (quality_downgrade_rejection announced landed)
                else Act_Reject (vetoed_rejection codes))
           | None \<Rightarrow> Act_Reject (vetoed_rejection codes))
      | Contradicted codes \<Rightarrow>
          (case quality_contradiction codes of
             None \<Rightarrow> Act_Import
           | Some (announced, landed) \<Rightarrow>
               (if \<not> landed_tier_is_worse c announced landed then Act_Import
                else if origin = OperatorQueued \<or> scope_is_occupied
                then quality_mismatch_hold c announced landed codes
                else Act_ImportAndBlocklist TRUTH_QUALITY_DOWNGRADE_CODE
                  (''release advertised '' @ announced @ '' but the file is '' @ landed @
                   ''; imported at its real quality and blocklisted so it is never re-grabbed as an upgrade''))))"

section \<open>What an admission refusal costs\<close>

record BetterLibraryCopy =
  blc_file_id :: string
  blc_path :: string

record ImportAdmissionRefusal =
  ref_rejection :: ImportedFileRejection
  ref_disposition :: RejectionDisposition
  ref_better_library_copy :: "BetterLibraryCopy option"

fun disposition_for :: "AdmissionRejectionReason \<Rightarrow> RejectionDisposition" where
  "disposition_for (NotAnUpgrade _ _ _) = Skip"
| "disposition_for LowerQualityTier = Skip"
| "disposition_for (LowerRevision _ _) = Skip"
| "disposition_for (QueuedEqualOrBetter _ _ _) = Skip"
| "disposition_for (QueuedSameRelease _) = Skip"
| "disposition_for UpgradesDisabled = Hold"
| "disposition_for BroaderIncumbentSpan = Hold"
| "disposition_for (FormatCutoffReached _ _) = Hold"
| "disposition_for SeasonIncomplete = Hold"

definition library_holds_better :: "AdmissionRejectionReason \<Rightarrow> bool" where
  "library_holds_better reason =
     (case reason of
        NotAnUpgrade _ _ _ \<Rightarrow> True
      | LowerQualityTier \<Rightarrow> True
      | LowerRevision _ _ \<Rightarrow> True
      | _ \<Rightarrow> False)"

definition better_library_copy :: "AdmissionRejection \<Rightarrow> BetterLibraryCopy option" where
  "better_library_copy r =
     (if \<not> library_holds_better (ar_reason r) then None
      else (let file_id = trim (ar_incumbent_file_id r); path = trim (ar_incumbent_file_path r)
            in if file_id \<noteq> [] \<and> path \<noteq> [] then Some \<lparr>blc_file_id = file_id, blc_path = path\<rparr> else None))"

definition import_rejection :: "string \<Rightarrow> ImportSkipReason \<Rightarrow> string \<Rightarrow> ImportedFileRejection" where
  "import_rejection recycle skip message =
     \<lparr>ifr_message = message, recycle_reason = recycle, skip_reason = Some skip, blocking_rule_codes = []\<rparr>"

definition admission_rejection_to_import :: "string \<Rightarrow> AdmissionRejection \<Rightarrow> ImportedFileRejection" where
  "admission_rejection_to_import scope_label r =
     (let path = ar_incumbent_file_path r; held = ''existing file '' @ path @ '' for '' @ scope_label
      in case ar_reason r of
           NotAnUpgrade incumbent candidate _ \<Rightarrow>
             import_rejection ''already_imported'' AlreadyImported
               (held @ '' is equal or better (score '' @ show_int incumbent @ '' >= '' @ show_int candidate @ '')'')
         | LowerQualityTier \<Rightarrow>
             import_rejection ''already_imported'' AlreadyImported (held @ '' is a better quality than this import'')
         | LowerRevision incumbent candidate \<Rightarrow>
             import_rejection ''already_imported'' AlreadyImported
               (held @ '' is a later revision (PROPER/REPACK '' @ show_int incumbent @ '' > '' @
                show_int candidate @ '')'')
         | BroaderIncumbentSpan \<Rightarrow>
             import_rejection ''policy_mismatch'' PolicyMismatch
               (''existing file '' @ path @ '' spans a broader episode set and cannot be replaced by this import'')
         | UpgradesDisabled \<Rightarrow>
             import_rejection ''policy_mismatch'' PolicyMismatch
               (held @ '' cannot be replaced because the quality profile disallows upgrades'')
         | QueuedEqualOrBetter _ _ _ \<Rightarrow> import_rejection ''already_imported'' AlreadyImported (ar_message r)
         | QueuedSameRelease _ \<Rightarrow> import_rejection ''already_imported'' AlreadyImported (ar_message r)
         | FormatCutoffReached _ _ \<Rightarrow> import_rejection ''already_imported'' AlreadyImported (ar_message r)
         | SeasonIncomplete \<Rightarrow> import_rejection ''policy_mismatch'' PolicyMismatch (ar_message r))"

definition missing_incumbent_rejection :: "string \<Rightarrow> ImportedFileRejection" where
  "missing_incumbent_rejection scope_label =
     import_rejection ''policy_mismatch'' PolicyMismatch
       (scope_label @ '' is occupied but its media file row could not be resolved; refusing to import over it'')"

section \<open>Displaced rows\<close>

text \<open>Of a media row the decision reads the id; its other columns are carried along.\<close>

record 'c TitleMediaFile =
  tmf_id :: string
  tmf_columns :: 'c

record 'c EpisodeScopedMediaFile =
  media_file :: "'c TitleMediaFile"
  title_role :: MediaFileRole
  esm_episode_ids :: "string list"
  primary_episode_ids :: "string list"

datatype 'c IncumbentRows = TitleRows "'c TitleMediaFile list" | EpisodeRows "'c EpisodeScopedMediaFile list"

text \<open>\<open>SupersededIncumbents\<close> has the same two shapes.\<close>

type_synonym 'c SupersededIncumbents = "'c IncumbentRows"

fun superseded_is_empty :: "'c SupersededIncumbents \<Rightarrow> bool" where
  "superseded_is_empty (TitleRows rows) = (rows = [])"
| "superseded_is_empty (EpisodeRows rows) = (rows = [])"

fun resolve_superseded_rows :: "'c IncumbentRows \<Rightarrow> string list \<Rightarrow> 'c SupersededIncumbents" where
  "resolve_superseded_rows (TitleRows files) ranked =
     TitleRows (List.map_filter (\<lambda>i. find (\<lambda>f. tmf_id f = i) files) ranked)"
| "resolve_superseded_rows (EpisodeRows files) ranked =
     EpisodeRows (List.map_filter (\<lambda>i. find (\<lambda>f. tmf_id (media_file f) = i) files) ranked)"

fun row_ids :: "'c IncumbentRows \<Rightarrow> string list" where
  "row_ids (TitleRows files) = map tmf_id files"
| "row_ids (EpisodeRows files) = map (\<lambda>f. tmf_id (media_file f)) files"

record 'c AdmittedIncumbents =
  adm_superseded :: "'c SupersededIncumbents"
  adm_previous_best_score :: int

definition evaluate_import_admission ::
  "AdmissionSubject \<Rightarrow> CandidateFacts \<Rightarrow> bool \<Rightarrow> 'c IncumbentRows \<Rightarrow> string \<Rightarrow>
   ImportAdmissionRefusal + 'c AdmittedIncumbents" where
  "evaluate_import_admission subject candidate operator_intent rows scope_label =
     (let policy = (if operator_intent then policy_manual else not_a_downgrade)
      in case evaluate_admission subject candidate policy of
           Reject r \<Rightarrow>
             Inl \<lparr>ref_rejection = admission_rejection_to_import scope_label r,
                  ref_disposition = disposition_for (ar_reason r),
                  ref_better_library_copy = better_library_copy r\<rparr>
         | Admit ranked best \<Rightarrow>
             (let superseded = resolve_superseded_rows rows ranked
              in if \<not> is_unoccupied subject \<and> superseded_is_empty superseded
                 then Inl \<lparr>ref_rejection = missing_incumbent_rejection scope_label,
                           ref_disposition = Hold, ref_better_library_copy = None\<rparr>
                 else Inr \<lparr>adm_superseded = superseded, adm_previous_best_score = best\<rparr>))"

section \<open>The decision\<close>

record BlocklistDirective =
  bd_code :: string
  bd_reason :: string

record 'c ImportAdmitPlan =
  plan_score :: int
  plan_scoring_log :: "string option"
  plan_parsed :: ParsedReleaseMetadata
  plan_superseded :: "'c SupersededIncumbents"
  plan_previous_best_score :: int
  blocklist_after_import :: "BlocklistDirective option"

datatype 'c ImportDecisionOutcome =
    ID_Admit "'c ImportAdmitPlan"
  | ID_Reject ImportedFileRejection RejectionDisposition "BetterLibraryCopy option"

record PostDownloadAcquisitionDecision =
  pd_parsed :: ParsedReleaseMetadata
  pd_score :: int
  pd_tier_index :: "nat option"
  pd_revision :: int
  pd_truth_verdict :: TruthVerdict
  pd_scoring_log :: "string option"

text \<open>What the scoring of a landed file calls beyond canonical scoring itself.\<close>

record ('a, 'f) import_env = "('a, 'f) scoring_env" +
  rescore_change_list :: "'a \<Rightarrow> ParsedReleaseMetadata \<Rightarrow> string list"
  serialize_log :: "QualityProfileDecision \<Rightarrow> string list \<Rightarrow> string option"
  in_overhead_band :: "int \<Rightarrow> int \<Rightarrow> bool"

record ('a, 'f) ImportedFileAcceptance =
  acc_analysis :: "'a option"
  acc_rule_file_doc :: "'f option"

definition size_basis_bytes :: "(int \<Rightarrow> int \<Rightarrow> bool) \<Rightarrow> int \<Rightarrow> int option \<Rightarrow> int" where
  "size_basis_bytes band landed announced =
     (case announced of
        None \<Rightarrow> landed
      | Some a \<Rightarrow> (if a > 0 \<and> landed > 0 \<and> band landed a then a else landed))"

definition persisted_announced_size_bytes :: "(int \<Rightarrow> int \<Rightarrow> bool) \<Rightarrow> int \<Rightarrow> int option \<Rightarrow> int option" where
  "persisted_announced_size_bytes band landed announced =
     (case announced of
        None \<Rightarrow> None
      | Some a \<Rightarrow> (if size_basis_bytes band landed (Some a) = a then Some a else None))"

definition compute_post_download_acquisition_decision ::
  "('a, 'f) import_env \<Rightarrow> ScoringContext \<Rightarrow> ParsedReleaseMetadata \<Rightarrow> ('a, 'f) ImportedFileAcceptance \<Rightarrow> int \<Rightarrow>
   string list \<Rightarrow> ListingFacts option \<Rightarrow> PostDownloadAcquisitionDecision" where
  "compute_post_download_acquisition_decision env ctx parsed acceptance bytes prior_changes listing =
     (let rescored = (case acc_analysis acceptance of None \<Rightarrow> parsed | Some a \<Rightarrow> rescore env a parsed);
          changes = (case acc_analysis acceptance of None \<Rightarrow> [] | Some a \<Rightarrow> rescore_change_list env a parsed);
          rescore_changes = push_all_unique prior_changes changes;
          announced = with_listing (evidence_announced parsed (Some bytes)) listing;
          evidence = (case acc_analysis acceptance of
                        None \<Rightarrow> announced
                      | Some a \<Rightarrow> with_analysis announced
                          \<lparr>analysis = a, actual_size_bytes = bytes, rule_file_doc = acc_rule_file_doc acceptance\<rparr>);
          scored = score_release (scoring_env.truncate env) evidence ctx;
          logged = (case analyzed_decision scored of None \<Rightarrow> announced_decision scored | Some d \<Rightarrow> d)
      in \<lparr>pd_parsed = rescored, pd_score = sr_total scored,
          pd_tier_index = quality_tier_index (criteria (sc_profile ctx)) (parsed_quality scored),
          pd_revision = sr_revision scored, pd_truth_verdict = truth_verdict scored,
          pd_scoring_log = serialize_log env logged rescore_changes\<rparr>)"

text \<open>The inputs of a decision; \<open>in_subject\<close> is what the database holds for the scope.\<close>

record ('a, 'f, 'c) ImportDecisionInput =
  in_context :: ScoringContext
  in_subject :: AdmissionSubject
  in_parsed :: ParsedReleaseMetadata
  in_accepted :: "('a, 'f) ImportedFileAcceptance"
  prior_rescore_changes :: "string list"
  landed_size_bytes :: int
  in_announced_size_bytes :: "int option"
  in_listing :: "ListingFacts option"
  in_origin :: ImportOrigin
  operator_intent :: bool
  incumbent_rows :: "'c IncumbentRows"
  scope_label :: string

definition score_landed ::
  "('a, 'f) import_env \<Rightarrow> ('a, 'f, 'c) ImportDecisionInput \<Rightarrow> int \<Rightarrow> PostDownloadAcquisitionDecision" where
  "score_landed env input bytes =
     compute_post_download_acquisition_decision env (in_context input) (in_parsed input) (in_accepted input)
       (size_basis_bytes (in_overhead_band env) bytes (in_announced_size_bytes input))
       (prior_rescore_changes input) (in_listing input)"

definition rescore_landed_size ::
  "('a, 'f) import_env \<Rightarrow> ('a, 'f, 'c) ImportDecisionInput \<Rightarrow> int \<Rightarrow> PostDownloadAcquisitionDecision" where
  "rescore_landed_size env input bytes = score_landed env input bytes"

definition import_candidate :: "ScoringContext \<Rightarrow> PostDownloadAcquisitionDecision \<Rightarrow> CandidateFacts" where
  "import_candidate ctx scored =
     with_revision_policy (CandidateFacts_new (pd_tier_index scored) (pd_revision scored) (pd_score scored))
       (rel_release_group (pd_parsed scored)) (crit_ignore_proper_repack (criteria (sc_profile ctx)))"

text \<open>The second half of \<open>decide_import\<close>, once the verdict lets the file through.\<close>

definition admit_import ::
  "('a, 'f, 'c) ImportDecisionInput \<Rightarrow> PostDownloadAcquisitionDecision \<Rightarrow> BlocklistDirective option \<Rightarrow>
   'c ImportDecisionOutcome" where
  "admit_import input scored directive =
     (case evaluate_import_admission (in_subject input) (import_candidate (in_context input) scored)
             (operator_intent input) (incumbent_rows input) (scope_label input) of
        Inl refusal \<Rightarrow>
          ID_Reject (ref_rejection refusal) (ref_disposition refusal) (ref_better_library_copy refusal)
      | Inr admitted \<Rightarrow>
          ID_Admit \<lparr>plan_score = pd_score scored, plan_scoring_log = pd_scoring_log scored,
                    plan_parsed = pd_parsed scored, plan_superseded = adm_superseded admitted,
                    plan_previous_best_score = adm_previous_best_score admitted,
                    blocklist_after_import = directive\<rparr>)"

definition decide_import ::
  "('a, 'f) import_env \<Rightarrow> ('a, 'f, 'c) ImportDecisionInput \<Rightarrow> 'c ImportDecisionOutcome" where
  "decide_import env input =
     (let scored = score_landed env input (landed_size_bytes input);
          review = (case pd_truth_verdict scored of ReviewRequired _ \<Rightarrow> True | _ \<Rightarrow> False)
      in if \<not> operator_intent input \<or> review
         then (case resolve_truth_verdict_action_for_origin (pd_truth_verdict scored)
                      (criteria (sc_profile (in_context input))) (\<not> is_unoccupied (in_subject input)) (in_origin input) of
                 Act_Import \<Rightarrow> admit_import input scored None
               | Act_Hold r \<Rightarrow> ID_Reject r Hold None
               | Act_ImportAndBlocklist code reason \<Rightarrow>
                   admit_import input scored (Some \<lparr>bd_code = code, bd_reason = reason\<rparr>)
               | Act_Reject r \<Rightarrow>
                   ID_Reject (held_rejection (in_origin input) r) (rejection_disposition (in_origin input)) None)
         else admit_import input scored None)"

section \<open>One notion of quality\<close>

text \<open>
  Every comparison of qualities in the program is the admission gate's: a landed tier is worse
  than the announced one exactly when the gate would call it lower, and a quality meets a cutoff
  exactly when the profile lists the cutoff and the gate would not call the quality lower.
\<close>

theorem quality_comparisons_agree:
  "landed_tier_is_worse c announced landed =
     (tier_cmp (quality_tier_index c (Some landed)) (quality_tier_index c (Some announced)) = Less) \<and>
   quality_meets_or_exceeds_cutoff current cutoff (quality_tiers c) =
     (quality_tier_index c (Some cutoff) \<noteq> None \<and>
      tier_cmp (quality_tier_index c (Some current)) (quality_tier_index c (Some cutoff)) \<noteq> Less)"
proof -
  have "normalize_quality_tier (Some q) \<noteq> None" for q by (simp add: normalize_quality_tier_def)
  then obtain cur cut where n: "normalize_quality_tier (Some current) = Some cur"
    "normalize_quality_tier (Some cutoff) = Some cut" by blast
  have "quality_meets_or_exceeds_cutoff current cutoff (quality_tiers c) =
     (quality_tier_index c (Some cutoff) \<noteq> None \<and>
      tier_cmp (quality_tier_index c (Some current)) (quality_tier_index c (Some cutoff)) \<noteq> Less)"
    by (cases "position (\<lambda>t. t = cur) (quality_tiers c)"; cases "position (\<lambda>t. t = cut) (quality_tiers c)")
       (simp_all add: quality_meets_or_exceeds_cutoff_def quality_tier_index_def n tier_cmp_def not_less
        del: position_None, auto)
  moreover have "landed_tier_is_worse c announced landed =
     (tier_cmp (quality_tier_index c (Some landed)) (quality_tier_index c (Some announced)) = Less)"
    by (cases "quality_tier_index c (Some landed)"; cases "quality_tier_index c (Some announced)")
       (simp_all add: landed_tier_is_worse_def tier_cmp_def)
  ultimately show ?thesis by simp
qed

section \<open>What is burned\<close>

lemma disposition_for_not_Blocklist: "disposition_for reason \<noteq> Blocklist"
  by (cases reason) simp_all

lemma evaluate_import_admission_disposition:
  "evaluate_import_admission s c intent rows label = Inl refusal \<Longrightarrow> ref_disposition refusal \<noteq> Blocklist"
  by (auto simp: evaluate_import_admission_def Let_def disposition_for_not_Blocklist
      split: AdmissionVerdict.splits if_splits)

lemma admit_import_not_Blocklist: "admit_import input scored directive \<noteq> ID_Reject r Blocklist copy"
  using evaluate_import_admission_disposition
  by (fastforce simp: admit_import_def split: sum.splits)

lemma rejection_disposition_Blocklist: "rejection_disposition origin = Blocklist \<longleftrightarrow> origin = Automatic"
  by (cases origin) simp_all


text \<open>
  C14. A file an operator picked by hand is never burned and never silently skipped: whatever stops
  it, the import is held for the operator to decide.
\<close>

theorem operator_import_is_held:
  assumes "operator_intent input" and "decide_import env input = ID_Reject r d copy"
  shows "d = Hold"
proof -
  have manual: "ar_reason rej \<in> {BroaderIncumbentSpan, SeasonIncomplete}"
    if "evaluate_admission s c policy_manual = Reject rej" for s c rej
  proof -
    have "ar_reason x = BroaderIncumbentSpan"
      if "incumbent_refusal scope c policy_manual i = Some x" for x scope i
      using that by (auto simp: incumbent_refusal_def policy_manual_def incumbent_rejection_def
          split: if_splits AdmissionScope.splits)
    then show ?thesis
      using that
      by (auto simp: evaluate_admission_def queued_rejection_def policy_manual_def evaluate_any_member_def
          pack_incomplete_def incumbent_rejection_def Let_def
          split: if_splits option.splits list.splits dest!: find_map_Some)
  qed
  then have held: "disposition_for (ar_reason rej) = Hold"
    if "evaluate_admission s c policy_manual = Reject rej" for s c rej
    using that by fastforce
  have "d' = Hold" if "admit_import input scored dir = ID_Reject r' d' copy'" for scored dir r' d' copy'
    using that assms(1)
    by (auto dest: held simp: admit_import_def evaluate_import_admission_def Let_def
        split: sum.splits AdmissionVerdict.splits if_splits)
  then show ?thesis
    using assms
    by (auto simp: decide_import_def Let_def resolve_truth_verdict_action_for_origin_def
        split: TruthVerdict.splits if_splits)
qed

section \<open>What is displaced\<close>

lemma map_filter_find_ids:
  "map f (List.map_filter (\<lambda>i. find (\<lambda>x. f x = i) xs) is) = filter (\<lambda>i. i \<in> f ` set xs) is"
proof (induction "is")
  case (Cons i "is")
  show ?case
  proof (cases "find (\<lambda>x. f x = i) xs")
    case None
    then have "i \<notin> f ` set xs" by (auto simp: find_None_iff)
    with None Cons show ?thesis by (simp add: map_filter_simps)
  next
    case (Some x)
    then have "f x = i" "x \<in> set xs" by (auto simp: find_Some_iff)
    with Some Cons show ?thesis by (auto simp: map_filter_simps)
  qed
qed (simp add: map_filter_simps)

lemma row_ids_resolve:
  "row_ids (resolve_superseded_rows rows ranked) = filter (\<lambda>i. i \<in> set (row_ids rows)) ranked"
  by (cases rows) (simp_all add: map_filter_find_ids)

lemma superseded_is_empty_iff: "superseded_is_empty s \<longleftrightarrow> row_ids s = []"
  by (cases s) simp_all

lemma evaluate_import_admission_Inr:
  assumes "evaluate_import_admission s c intent rows label = Inr admitted" and "\<not> subj_per_member s"
  shows "row_ids (adm_superseded admitted) =
      filter (\<lambda>i. i \<in> set (row_ids rows)) (map inc_file_id (incumbents s))"
    and "is_unoccupied s \<or> row_ids (adm_superseded admitted) \<noteq> []"
    and "adm_previous_best_score admitted = previous_best s"
proof -
  let ?policy = "if intent then policy_manual else not_a_downgrade"
  obtain ranked best where v: "evaluate_admission s c ?policy = Admit ranked best"
    and adm: "adm_superseded admitted = resolve_superseded_rows rows ranked"
      "adm_previous_best_score admitted = best"
      "is_unoccupied s \<or> \<not> superseded_is_empty (resolve_superseded_rows rows ranked)"
    using assms(1)
    by (auto simp: evaluate_import_admission_def Let_def split: AdmissionVerdict.splits if_splits)
  have "is_admitted (evaluate_admission s c ?policy)" unfolding v by simp
  from admit_single_superseded [OF assms(2) this] have "ranked = map inc_file_id (incumbents s)" "best = previous_best s"
    unfolding v by (simp_all add: superseded_ids_def)
  with adm show "row_ids (adm_superseded admitted) =
      filter (\<lambda>i. i \<in> set (row_ids rows)) (map inc_file_id (incumbents s))"
    "is_unoccupied s \<or> row_ids (adm_superseded admitted) \<noteq> []"
    "adm_previous_best_score admitted = previous_best s"
    by (simp_all add: row_ids_resolve superseded_is_empty_iff)
qed

lemma decide_import_Admit:
  assumes "decide_import env input = ID_Admit plan"
  shows "\<exists>directive. admit_import input (score_landed env input (landed_size_bytes input)) directive = ID_Admit plan"
  using assms by (auto simp: decide_import_def Let_def split: if_splits TruthVerdictAction.splits)

text \<open>
  An admitted import of one file displaces exactly the primary files of its scope, best first,
  as the rows the caller holds for them: it invents no row and drops none it has, and over an
  occupied scope it always displaces at least one, so no second primary file is ever written
  beside an incumbent it could not resolve at all. The plan reports the score of the landed file
  and the bar it cleared.
\<close>

theorem decide_import_displaces_incumbents:
  assumes "decide_import env input = ID_Admit plan" and "\<not> subj_per_member (in_subject input)"
  shows "row_ids (plan_superseded plan) =
      filter (\<lambda>i. i \<in> set (row_ids (incumbent_rows input))) (map inc_file_id (incumbents (in_subject input))) \<and>
    (is_unoccupied (in_subject input) \<or> row_ids (plan_superseded plan) \<noteq> []) \<and>
    plan_score plan = pd_score (score_landed env input (landed_size_bytes input)) \<and>
    plan_previous_best_score plan = previous_best (in_subject input)"
proof -
  let ?scored = "score_landed env input (landed_size_bytes input)"
  obtain directive where "admit_import input ?scored directive = ID_Admit plan"
    using decide_import_Admit [OF assms(1)] by blast
  then obtain admitted where a: "evaluate_import_admission (in_subject input)
      (import_candidate (in_context input) ?scored) (operator_intent input) (incumbent_rows input)
      (scope_label input) = Inr admitted"
    and p: "plan_superseded plan = adm_superseded admitted" "plan_score plan = pd_score ?scored"
      "plan_previous_best_score plan = adm_previous_best_score admitted"
    by (auto simp: admit_import_def split: sum.splits)
  show ?thesis using evaluate_import_admission_Inr [OF a assms(2)] p by simp
qed

definition example_import_env :: "(unit, unit) import_env" where
  "example_import_env =
     \<lparr>code_of = example_code_of, size_step = (\<lambda>_ _ _ _ _ d. d), rule_result = (\<lambda>_ _ _ _ _ _ _. None),
      rescore = (\<lambda>_ p. p), disc_details = (\<lambda>_. None), is_stream_pointer = (\<lambda>_. False),
      for_title = (\<lambda>a _. a), file_doc_of = (\<lambda>_. ()), rescore_change_list = (\<lambda>_ _. []),
      serialize_log = (\<lambda>_ _. None), in_overhead_band = (\<lambda>_ _. True)\<rparr>"

definition example_input :: "AdmissionSubject \<Rightarrow> bool \<Rightarrow> (unit, unit, unit) ImportDecisionInput" where
  "example_input subject intent =
     \<lparr>in_context = example_context, in_subject = subject,
      in_parsed = (ParsedReleaseMetadata_empty ''Movie'')\<lparr>rel_quality := Some ''1080p''\<rparr>,
      in_accepted = \<lparr>acc_analysis = None, acc_rule_file_doc = None\<rparr>, prior_rescore_changes = [],
      landed_size_bytes = 900, in_announced_size_bytes = None, in_listing = None, in_origin = Automatic,
      operator_intent = intent,
      incumbent_rows = TitleRows [\<lparr>tmf_id = ''old'', tmf_columns = ()\<rparr>], scope_label = ''this title''\<rparr>"

lemma example_scored:
  "pd_truth_verdict (score_landed example_import_env (example_input s intent) b) = Consistent"
  by (simp add: score_landed_def compute_post_download_acquisition_decision_def example_input_def Let_def
      score_release_def score_disc_scope_def score_single_release_def with_listing_def evidence_announced_def)

lemma example_decides:
  "decide_import example_import_env (example_input s intent) =
   admit_import (example_input s intent)
     (score_landed example_import_env (example_input s intent) (landed_size_bytes (example_input s intent))) None"
  by (simp add: decide_import_def Let_def example_scored resolve_truth_verdict_action_for_origin_def)

definition example_occupied :: AdmissionSubject where
  "example_occupied = AdmissionSubject_new Title [(example_incumbent ''old'' None 0 50, True)]"

lemma example_occupied_simps:
  "incumbents example_occupied = [example_incumbent ''old'' None 0 50]" "subj_scope example_occupied = Title"
  "\<not> subj_per_member example_occupied" "queued example_occupied = []"
  by (simp_all add: example_occupied_def AdmissionSubject_new_def sort_by_def)

lemma example_forced:
  "\<exists>plan. decide_import example_import_env (example_input example_occupied True) = ID_Admit plan"
proof -
  have "evaluate_admission example_occupied c policy_manual = Admit [''old''] 50" for c
    by (simp add: evaluate_admission_def example_occupied_simps queued_rejection_def policy_manual_def
        incumbent_refusal_def superseded_ids_def previous_best_def best_score_def example_incumbent_def)
  then show ?thesis
    by (simp add: example_decides admit_import_def evaluate_import_admission_def Let_def map_filter_simps)
       (simp add: example_input_def map_filter_simps)
qed

theorem decide_import_displaces_incumbents_witness:
  "\<exists>plan. decide_import example_import_env (example_input example_occupied True) = ID_Admit plan \<and>
     row_ids (plan_superseded plan) = [''old'']"
proof -
  obtain plan where p: "decide_import example_import_env (example_input example_occupied True) = ID_Admit plan"
    using example_forced by blast
  have "\<not> subj_per_member (in_subject (example_input example_occupied True))"
    by (simp add: example_input_def example_occupied_simps)
  from decide_import_displaces_incumbents [OF p this] p show ?thesis
    by (simp add: example_input_def example_occupied_simps example_incumbent_def)
qed

definition example_broad :: AdmissionSubject where
  "example_broad = AdmissionSubject_new (Episodes [''e1''])
     [((example_incumbent ''old'' None 0 50)\<lparr>inc_covers := [''e1'', ''e2'']\<rparr>, True)]"

theorem operator_import_is_held_witness:
  "\<exists>r copy. decide_import example_import_env (example_input example_broad True) = ID_Reject r Hold copy"
proof -
  let ?in = "example_input example_broad True"
  let ?c = "import_candidate (in_context ?in) (score_landed example_import_env ?in (landed_size_bytes ?in))"
  have "\<exists>r. evaluate_admission example_broad ?c policy_manual = Reject r"
    by (simp add: evaluate_admission_def example_broad_def AdmissionSubject_new_def sort_by_def
        queued_rejection_def policy_manual_def incumbent_refusal_def)
  then obtain r0 where "evaluate_admission (in_subject ?in) ?c (if operator_intent ?in then policy_manual else not_a_downgrade) = Reject r0"
    by (auto simp: example_input_def)
  then obtain r d copy where rej: "decide_import example_import_env ?in = ID_Reject r d copy"
    unfolding example_decides admit_import_def evaluate_import_admission_def Let_def by simp
  have "operator_intent (example_input example_broad True)" by (simp add: example_input_def)
  from operator_import_is_held [OF this rej] rej show ?thesis by blast
qed

end
