(* ===== verification/Search_Rank.thy ===== *)
theory Search_Rank
  imports Admission Canonical_Scoring Time_Interface
begin

text \<open>
  Search rank, from \<open>scryer-application/src/acquisition/scoring.rs\<close>: how one set of search
  results is ordered. The head of a rank is read off the scored decision of a result; the rest of
  it is listing facts that live as long as the search. Of a result the code reads the decision, the
  seeder count its plugin reported and the publication date.
\<close>

record RankHead =
  rh_blocked :: bool
  rh_tier_index :: nat
  rh_negated_revision :: int
  rh_negated_score :: int
  rh_size_fit_penalty :: int

definition RankHead_default :: RankHead where
  "RankHead_default = \<lparr>rh_blocked = False, rh_tier_index = 0, rh_negated_revision = 0,
     rh_negated_score = 0, rh_size_fit_penalty = 0\<rparr>"

definition RankHead_from_result :: "QualityProfileDecision option \<Rightarrow> RankHead" where
  "RankHead_from_result decision =
     \<lparr>rh_blocked = (case decision of None \<Rightarrow> False | Some d \<Rightarrow> \<not> allowed d),
      rh_tier_index = tier_sort_key (Option.bind decision dec_tier_index),
      rh_negated_revision = (case decision of None \<Rightarrow> 0 | Some d \<Rightarrow> saturating_neg_i32 (dec_revision_preference d)),
      rh_negated_score = (case decision of None \<Rightarrow> 0 | Some d \<Rightarrow> saturating_neg_i32 (preference_score d)),
      rh_size_fit_penalty = (case decision of None \<Rightarrow> 0 | Some d \<Rightarrow> size_fit_penalty d)\<rparr>"

definition RankHead_key :: "RankHead \<Rightarrow> bool \<times> nat \<times> int \<times> int \<times> int" where
  "RankHead_key h = (rh_blocked h, rh_tier_index h, rh_negated_revision h, rh_negated_score h, rh_size_fit_penalty h)"

definition RankHead_compare ::
  "QualityProfileDecision option \<Rightarrow> QualityProfileDecision option \<Rightarrow> ordering" where
  "RankHead_compare left right =
     cmp (RankHead_key (RankHead_from_result left)) (RankHead_key (RankHead_from_result right))"

record SearchRank =
  rank_head :: RankHead
  non_preferred_protocol :: bool
  rank_coverage_distance :: nat
  rank_episode_number :: nat
  indexer_priority :: int
  negated_seeders :: int
  usenet_age_hours :: int

definition SearchRank_default :: SearchRank where
  "SearchRank_default = \<lparr>rank_head = RankHead_default, non_preferred_protocol = False, rank_coverage_distance = 0,
     rank_episode_number = 0, indexer_priority = 0, negated_seeders = 0, usenet_age_hours = 0\<rparr>"

definition SearchRank_key ::
  "SearchRank \<Rightarrow> (bool \<times> nat \<times> int \<times> int \<times> int) \<times> bool \<times> nat \<times> nat \<times> int \<times> int \<times> int" where
  "SearchRank_key r = (RankHead_key (rank_head r), non_preferred_protocol r, rank_coverage_distance r,
     rank_episode_number r, indexer_priority r, negated_seeders r, usenet_age_hours r)"

definition listing_negated_seeders :: "int option \<Rightarrow> int" where
  "listing_negated_seeders seeders =
     (case seeders of None \<Rightarrow> 0 | Some s \<Rightarrow> (if s > 0 then - s else 0))"

definition listing_age_hours ::
  "chrono \<Rightarrow> string option \<Rightarrow> datetime \<Rightarrow> int" where
  "listing_age_hours ch published_at now =
     (case Option.bind published_at (ch_rfc3339 ch) of
        Some published \<Rightarrow> max (ch_num_hours ch (now - published)) 0
      | None \<Rightarrow> i64_max)"

definition rank_of :: "(string \<rightharpoonup> SearchRank) \<Rightarrow> string \<Rightarrow> SearchRank" where
  "rank_of rank_by_key k = (case rank_by_key k of None \<Rightarrow> SearchRank_default | Some r \<Rightarrow> r)"

definition compare_ranked_results ::
  "(string \<rightharpoonup> SearchRank) \<Rightarrow> ('r \<Rightarrow> string) \<Rightarrow> 'r \<Rightarrow> 'r \<Rightarrow> ordering" where
  "compare_ranked_results rank_by_key key_of left right =
     cmp (SearchRank_key (rank_of rank_by_key (key_of left)))
         (SearchRank_key (rank_of rank_by_key (key_of right)))"

section \<open>The order of results\<close>

interpretation ranked: comparator "compare_ranked_results rank_by_key key_of" for rank_by_key key_of
  unfolding compare_ranked_results_def
  by (rule comparator_on [OF linorder_cmp.comparator_axioms])

interpretation head: comparator RankHead_compare
  unfolding RankHead_compare_def by (rule comparator_on [OF linorder_cmp.comparator_axioms])

lemma cmp_prod: "cmp (a, b) (c, d) = then_with (cmp a c) (cmp b d)"
  by (auto simp: cmp_def less_prod_def less_le_not_le split: if_splits)

lemma blocked_last:
  assumes "compare_ranked_results ranks key_of a b \<noteq> Greater"
  shows "rh_blocked (rank_head (rank_of ranks (key_of a))) \<le> rh_blocked (rank_head (rank_of ranks (key_of b)))"
  using assms
  by (auto simp: compare_ranked_results_def SearchRank_key_def RankHead_key_def cmp_prod then_with_iff)

text \<open>
  Sorting a search never loses, invents or repeats a result, and refused releases come last,
  whatever else they have going for them: in the sorted list no eligible release stands behind a
  blocked one, and no release stands behind one it outranks. A result the search did not rank
  takes the default rank instead of failing the search.
\<close>

theorem ranked_results_sorted:
  "let sorted_results = sort_by (compare_ranked_results ranks key_of) results
   in mset sorted_results = mset results \<and>
      sorted_wrt (\<lambda>a b. compare_ranked_results ranks key_of a b \<noteq> Greater) sorted_results \<and>
      sorted_wrt (\<lambda>a b. rh_blocked (rank_head (rank_of ranks (key_of a))) \<le>
                        rh_blocked (rank_head (rank_of ranks (key_of b)))) sorted_results"
  using ranked.sorted_sort_by [of ranks key_of results]
    sorted_wrt_mono_rel [OF blocked_last ranked.sorted_sort_by [of ranks key_of results]]
  by (simp add: Let_def)

lemma saturating_neg_cmp:
  "is_i32 x \<Longrightarrow> is_i32 y \<Longrightarrow> x \<noteq> - 2147483648 \<Longrightarrow> y \<noteq> - 2147483648 \<Longrightarrow>
   cmp (saturating_neg_i32 x) (saturating_neg_i32 y) = cmp y x"
  by (auto simp: saturating_neg_i32_def sat_i32_def is_i32_def cmp_def)

definition rank_range :: "QualityProfileDecision \<Rightarrow> bool" where
  "rank_range d = (is_i32 (preference_score d) \<and> is_i32 (dec_revision_preference d) \<and>
     preference_score d \<noteq> - 2147483648 \<and> dec_revision_preference d \<noteq> - 2147483648 \<and>
     pred_option (\<lambda>t. t < usize_max) (dec_tier_index d))"

lemma tier_key_cmp:
  "pred_option (\<lambda>t. t < usize_max) a \<Longrightarrow> pred_option (\<lambda>t. t < usize_max) b \<Longrightarrow>
   cmp (tier_sort_key a) (tier_sort_key b) = tier_cmp b a"
  by (auto simp: tier_sort_key_def tier_cmp_def cmp_def split: option.splits)

text \<open>
  The order of results is the order the gate judges by. Among scored results the eligible ones
  come first; among eligible results the better tier in the gate's comparison, then the higher
  revision preference, then the higher score, then the smaller distance from the expected size. The
  scores are assumed away from the one value whose negation saturates.
\<close>

theorem rank_head_follows_gate:
  assumes "rank_range l" and "rank_range r"
  shows "RankHead_compare (Some l) (Some r) =
    then_with (cmp (\<not> allowed l) (\<not> allowed r))
      (then_with (tier_cmp (dec_tier_index r) (dec_tier_index l))
        (then_with (cmp (dec_revision_preference r) (dec_revision_preference l))
          (then_with (cmp (preference_score r) (preference_score l))
            (cmp (size_fit_penalty l) (size_fit_penalty r)))))"
  using assms
  by (simp add: RankHead_compare_def RankHead_key_def RankHead_from_result_def cmp_prod rank_range_def
      saturating_neg_cmp tier_key_cmp)

theorem rank_head_follows_gate_witness:
  "RankHead_compare (Some (QualityProfileDecision_new\<lparr>dec_tier_index := Some 0\<rparr>))
     (Some (QualityProfileDecision_new\<lparr>dec_tier_index := Some 1, preference_score := 500\<rparr>)) = Less"
  using rank_head_follows_gate
    [of "QualityProfileDecision_new\<lparr>dec_tier_index := Some 0\<rparr>"
        "QualityProfileDecision_new\<lparr>dec_tier_index := Some 1, preference_score := 500\<rparr>"]
  by (simp add: rank_range_def QualityProfileDecision_new_def is_i32_def usize_max_def then_with_iff tier_cmp_def)

end
