(* ===== verification/Release_Coverage.thy ===== *)
theory Release_Coverage
  imports Quality_Profile Time_Interface
begin

text \<open>
  What a release covers, from \<open>acquisition/coverage.rs\<close>, and the schedule predicates it needs from
  \<open>acquisition/policy.rs\<close>: the scope a parsed release resolves to against the catalog, when its
  numbering contradicts a wanted episode, when a series pack fills enough of a hole to be worth
  fetching, and the runtime basis its size is judged by. The clock is an argument; every function
  that computes with dates is \<open>None\<close> where the date crate panics. Unchecked \<open>i32\<close> arithmetic wraps,
  as it does in a release build.
\<close>

section \<open>Schedule predicates\<close>

record AcquisitionThresholds =
  same_tier_min_delta :: int

primrec AcquisitionThresholds_for_persona :: "ScoringPersona \<Rightarrow> AcquisitionThresholds" where
  "AcquisitionThresholds_for_persona Audiophile = \<lparr>same_tier_min_delta = 50\<rparr>"
| "AcquisitionThresholds_for_persona Balanced = \<lparr>same_tier_min_delta = 200\<rparr>"
| "AcquisitionThresholds_for_persona Compatible = \<lparr>same_tier_min_delta = 200\<rparr>"
| "AcquisitionThresholds_for_persona Efficient = \<lparr>same_tier_min_delta = 150\<rparr>"

definition parse_schedule_baseline_date :: "chrono \<Rightarrow> string option \<Rightarrow> datetime option" where
  "parse_schedule_baseline_date ch baseline =
     Option.bind baseline (\<lambda>d. or_else (ch_rfc3339 ch d) (ch_ymd ch d))"

definition EPISODE_PRE_AIR_WINDOW_HOURS :: int where
  "EPISODE_PRE_AIR_WINDOW_HOURS = 6"

definition PROPER_MAX_FILE_AGE_DAYS :: int where
  "PROPER_MAX_FILE_AGE_DAYS = 7"

definition SEASON_PACK_AIRED_GRACE_HOURS :: int where
  "SEASON_PACK_AIRED_GRACE_HOURS = 24"

text \<open>\<open>instant + Duration::hours(h)\<close>; the result is \<open>None\<close> where the addition panics.\<close>

definition plus_hours :: "chrono \<Rightarrow> datetime \<Rightarrow> int \<Rightarrow> datetime option" where
  "plus_hours ch t h = Option.bind (ch_hours ch h) (ch_add ch t)"

definition episode_search_window_is_open :: "chrono \<Rightarrow> string option \<Rightarrow> datetime \<Rightarrow> bool option" where
  "episode_search_window_is_open ch baseline now =
     (case parse_schedule_baseline_date ch baseline of
        None \<Rightarrow> Some False
      | Some b \<Rightarrow> map_option (\<lambda>opens. opens \<le> now) (plus_hours ch b (- EPISODE_PRE_AIR_WINDOW_HOURS)))"

text \<open>\<open>now.date_naive().and_hms_opt(0, 0, 0)\<close>: midnight of the UTC day.\<close>

definition utc_midnight :: "datetime \<Rightarrow> datetime" where
  "utc_midnight now = now - now mod (24 * ns_per_hour)"

definition file_predates_proper_window :: "chrono \<Rightarrow> string option \<Rightarrow> datetime \<Rightarrow> bool option" where
  "file_predates_proper_window ch created_at now =
     (case parse_schedule_baseline_date ch created_at of
        None \<Rightarrow> Some False
      | Some created \<Rightarrow>
          map_option (\<lambda>bound. created < bound)
            (plus_hours ch (utc_midnight now) (- (24 * PROPER_MAX_FILE_AGE_DAYS))))"

definition air_date_is_date_only :: "chrono \<Rightarrow> string option \<Rightarrow> bool" where
  "air_date_is_date_only ch air_date =
     (case air_date of
        None \<Rightarrow> False
      | Some v \<Rightarrow> ch_rfc3339 ch (trim v) = None \<and> ch_ymd ch (trim v) \<noteq> None)"

definition episode_is_unaired :: "chrono \<Rightarrow> string option \<Rightarrow> datetime \<Rightarrow> bool option" where
  "episode_is_unaired ch air_date now =
     (case parse_schedule_baseline_date ch air_date of
        None \<Rightarrow> Some False
      | Some air \<Rightarrow>
          Option.bind (if air_date_is_date_only ch air_date then plus_hours ch air 24 else Some air) (\<lambda>air'.
          map_option (\<lambda>bound. bound < air') (plus_hours ch now SEASON_PACK_AIRED_GRACE_HOURS)))"

section \<open>Coverage\<close>

datatype ReleaseCoverage =
    Cov_SingleEpisode string
  | Cov_EpisodeSet "string list"
  | Cov_Collection string
  | Cov_Title
  | Cov_Unknown

text \<open>The columns of a ledger row that say what it stands for.\<close>

datatype AcquisitionScopeStatus = AS_Wanted | AS_Grabbed | AS_Paused | AS_Completed

record AcquisitionScopeState =
  ledger_id :: string
  ledger_title_id :: string
  ledger_status :: AcquisitionScopeStatus
  ledger_grabbed_release :: "string option"
  ledger_episode_id :: "string option"
  ledger_collection_id :: "string option"
  ledger_series_movie_link_id :: "string option"

definition ledger_submission_scope :: "AcquisitionScopeState \<Rightarrow> SubmissionScope" where
  "ledger_submission_scope row =
     (case filled (ledger_episode_id row) of
        Some e \<Rightarrow> Scope_Episode e
      | None \<Rightarrow> (case filled (ledger_series_movie_link_id row) of
        Some l \<Rightarrow> Scope_SeriesMovie l
      | None \<Rightarrow> (case filled (ledger_collection_id row) of
        Some c \<Rightarrow> Scope_Collection c
      | None \<Rightarrow> Scope_Title)))"

fun coverage_submission_scope :: "ReleaseCoverage \<Rightarrow> SubmissionScope" where
  "coverage_submission_scope (Cov_SingleEpisode e) = Scope_Episode e"
| "coverage_submission_scope (Cov_EpisodeSet es) = Scope_EpisodeSet es"
| "coverage_submission_scope (Cov_Collection c) = Scope_Collection c"
| "coverage_submission_scope Cov_Title = Scope_Title"
| "coverage_submission_scope Cov_Unknown = Scope_Title"

fun submission_scope_or :: "ReleaseCoverage \<Rightarrow> SubmissionScope \<Rightarrow> SubmissionScope" where
  "submission_scope_or Cov_Title fallback = fallback"
| "submission_scope_or Cov_Unknown fallback = fallback"
| "submission_scope_or c fallback = coverage_submission_scope c"

fun covers_episode :: "ReleaseCoverage \<Rightarrow> Episode \<Rightarrow> bool" where
  "covers_episode (Cov_SingleEpisode i) e = (i = ep_id e)"
| "covers_episode (Cov_EpisodeSet is) e = list_ex (\<lambda>i. i = ep_id e) is"
| "covers_episode (Cov_Collection c) e = (ep_collection_id e = Some c)"
| "covers_episode Cov_Title e = False"
| "covers_episode Cov_Unknown e = False"

fun coverage_distance :: "ReleaseCoverage \<Rightarrow> Episode option \<Rightarrow> nat" where
  "coverage_distance c None = 0"
| "coverage_distance (Cov_EpisodeSet is) (Some e) = (if list_ex (\<lambda>i. i = ep_id e) is then 1 else 0)"
| "coverage_distance (Cov_Collection c) (Some e) = (if ep_collection_id e = Some c then 2 else 0)"
| "coverage_distance _ (Some e) = 0"

section \<open>Series packs\<close>

text \<open>A filter whose predicate may panic.\<close>

fun filter_panicking :: "('a \<Rightarrow> bool option) \<Rightarrow> 'a list \<Rightarrow> 'a list option" where
  "filter_panicking p [] = Some []"
| "filter_panicking p (x # xs) =
     Option.bind (p x) (\<lambda>keep.
     map_option (\<lambda>rest. if keep then x # rest else rest) (filter_panicking p xs))"

definition is_eligible_series_pack_episode :: "chrono \<Rightarrow> Episode \<Rightarrow> datetime \<Rightarrow> bool option" where
  "is_eligible_series_pack_episode ch e now =
     (if episode_type e = Standard \<and> ep_monitored e
      then map_option Not (episode_is_unaired ch (Episode.ep_air_date e) now)
      else Some False)"

definition episode_season :: "Episode \<Rightarrow> nat option" where
  "episode_season e = Option.bind (season_number e) parse_u32"

definition episode_ordinal :: "Episode \<Rightarrow> nat option" where
  "episode_ordinal e = Option.bind (episode_number e) parse_u32"

definition season_selected :: "nat list \<Rightarrow> Episode \<Rightarrow> bool" where
  "season_selected seasons e \<longleftrightarrow>
     seasons = [] \<or> (case episode_season e of Some s \<Rightarrow> s \<in> set seasons | None \<Rightarrow> False)"

definition eligible_series_pack_episodes :: "chrono \<Rightarrow> datetime \<Rightarrow> Episode list \<Rightarrow> nat list \<Rightarrow> Episode list option" where
  "eligible_series_pack_episodes ch now episodes seasons =
     map_option (filter (season_selected seasons))
       (filter_panicking (\<lambda>e. is_eligible_series_pack_episode ch e now) episodes)"

definition eligible_series_pack_episode_ids :: "chrono \<Rightarrow> datetime \<Rightarrow> Episode list \<Rightarrow> nat list \<Rightarrow> string list option" where
  "eligible_series_pack_episode_ids ch now episodes seasons =
     map_option (map ep_id) (eligible_series_pack_episodes ch now episodes seasons)"

definition eligible_series_pack_season_numbers :: "chrono \<Rightarrow> datetime \<Rightarrow> Episode list \<Rightarrow> nat list option" where
  "eligible_series_pack_season_numbers ch now episodes =
     map_option (\<lambda>es. remdups (List.map_filter episode_season es))
       (filter_panicking (\<lambda>e. is_eligible_series_pack_episode ch e now) episodes)"

definition eligible_series_pack_collection_ids_for_seasons ::
  "chrono \<Rightarrow> datetime \<Rightarrow> Episode list \<Rightarrow> nat list \<Rightarrow> string list option" where
  "eligible_series_pack_collection_ids_for_seasons ch now episodes seasons =
     map_option (\<lambda>es. sort_dedup (List.map_filter ep_collection_id es))
       (eligible_series_pack_episodes ch now episodes seasons)"

definition missing_ratio_qualifies :: "string set \<Rightarrow> string list \<Rightarrow> bool" where
  "missing_ratio_qualifies owned ids \<longleftrightarrow>
     ids \<noteq> [] \<and>
     saturating_mul_usize (length ids) 30 < saturating_mul_usize (length (filter (\<lambda>i. i \<notin> owned) ids)) 100"

definition series_pack_missing_ratio_qualifies_for_seasons ::
  "chrono \<Rightarrow> datetime \<Rightarrow> Episode list \<Rightarrow> string set \<Rightarrow> nat list \<Rightarrow> bool option" where
  "series_pack_missing_ratio_qualifies_for_seasons ch now episodes owned seasons =
     map_option (missing_ratio_qualifies owned) (eligible_series_pack_episode_ids ch now episodes seasons)"

definition parsed_series_pack :: "ParsedReleaseMetadata \<Rightarrow> ParsedEpisodeMetadata option" where
  "parsed_series_pack parsed =
     (case rel_episode parsed of Some e \<Rightarrow> if ep_is_series_pack e then Some e else None | None \<Rightarrow> None)"

definition series_pack_missing_ratio_qualifies ::
  "chrono \<Rightarrow> datetime \<Rightarrow> ParsedReleaseMetadata \<Rightarrow> Episode list \<Rightarrow> string set \<Rightarrow> bool option" where
  "series_pack_missing_ratio_qualifies ch now parsed episodes owned =
     (case parsed_series_pack parsed of
        None \<Rightarrow> Some True
      | Some pack \<Rightarrow>
          series_pack_missing_ratio_qualifies_for_seasons ch now episodes owned (ep_season_numbers pack))"

definition title_series_pack_missing_ratio_qualifies ::
  "chrono \<Rightarrow> datetime \<Rightarrow> Episode list \<Rightarrow> string set \<Rightarrow> bool option" where
  "title_series_pack_missing_ratio_qualifies ch now episodes owned =
     Option.bind (series_pack_missing_ratio_qualifies_for_seasons ch now episodes owned []) (\<lambda>whole.
       if whole then Some True
       else Option.bind (eligible_series_pack_season_numbers ch now episodes) (\<lambda>seasons.
         map_option (\<lambda>hits. hits \<noteq> [])
           (filter_panicking
             (\<lambda>s. series_pack_missing_ratio_qualifies_for_seasons ch now episodes owned [s]) seasons)))"

definition eligible_series_pack_collection_ids :: "chrono \<Rightarrow> datetime \<Rightarrow> Episode list \<Rightarrow> string list option" where
  "eligible_series_pack_collection_ids ch now episodes =
     eligible_series_pack_collection_ids_for_seasons ch now episodes []"

definition series_pack_collection_ids ::
  "chrono \<Rightarrow> datetime \<Rightarrow> ParsedReleaseMetadata \<Rightarrow> Episode list \<Rightarrow> string list option" where
  "series_pack_collection_ids ch now parsed episodes =
     (case parsed_series_pack parsed of
        None \<Rightarrow> Some []
      | Some pack \<Rightarrow> eligible_series_pack_collection_ids_for_seasons ch now episodes (ep_season_numbers pack))"

definition eligible_missing_series_pack_episode_count ::
  "chrono \<Rightarrow> datetime \<Rightarrow> Episode list \<Rightarrow> string set \<Rightarrow> nat option" where
  "eligible_missing_series_pack_episode_count ch now episodes owned =
     map_option (\<lambda>ids. length (filter (\<lambda>i. i \<notin> owned) ids))
       (eligible_series_pack_episode_ids ch now episodes [])"

section \<open>Resolving a parsed release\<close>

definition coverage_from_episode_ids :: "string list \<Rightarrow> ReleaseCoverage option" where
  "coverage_from_episode_ids ids =
     (case sort_dedup (filter (\<lambda>i. trim i \<noteq> []) ids) of
        [] \<Rightarrow> None
      | [i] \<Rightarrow> Some (Cov_SingleEpisode i)
      | many \<Rightarrow> Some (Cov_EpisodeSet many))"

definition collection_id_for_season :: "Collection list \<Rightarrow> nat \<Rightarrow> string option" where
  "collection_id_for_season collections season =
     map_option col_id (find (\<lambda>c. parse_u32 (trim (collection_index c)) = Some season) collections)"

definition has_episode_bounds :: "ParsedEpisodeMetadata \<Rightarrow> bool" where
  "has_episode_bounds p \<longleftrightarrow>
     ep_episode_numbers p \<noteq> [] \<or> ep_absolute_episode_numbers p \<noteq> [] \<or> \<not> Option.is_none (ep_absolute_episode p)"

definition season_pack_coverage ::
  "ParsedEpisodeMetadata \<Rightarrow> Collection list \<Rightarrow> Episode option \<Rightarrow> ReleaseCoverage" where
  "season_pack_coverage p collections requested =
     (let named = Option.bind (ep_season p) (collection_id_for_season collections);
          same_season = Option.bind requested (\<lambda>e.
            if ep_season p \<noteq> None \<and> episode_season e = ep_season p then ep_collection_id e else None);
          wanted = Option.bind requested (\<lambda>e. ep_collection_id e)
      in case or_else named (or_else same_season wanted) of
           Some c \<Rightarrow> Cov_Collection c
         | None \<Rightarrow> Cov_Unknown)"

definition covered_by_number :: "ParsedEpisodeMetadata \<Rightarrow> Episode list \<Rightarrow> Episode list" where
  "covered_by_number p episodes =
     (case ep_season p of
        Some s \<Rightarrow>
          if ep_episode_numbers p = [] then []
          else filter (\<lambda>e. episode_season e = Some s \<and>
                           (case episode_ordinal e of Some n \<Rightarrow> n \<in> set (ep_episode_numbers p) | None \<Rightarrow> False))
                 episodes
      | None \<Rightarrow> [])"

definition covered_by_absolute_numbers :: "ParsedEpisodeMetadata \<Rightarrow> Episode list \<Rightarrow> Episode list" where
  "covered_by_absolute_numbers p episodes =
     (if ep_absolute_episode_numbers p = [] then []
      else filter (\<lambda>e. season_selected (ep_season_numbers p) e \<and>
                       (case episode_absolute (AbsoluteScale_for_catalog episodes) e of
                          Some n \<Rightarrow> n \<in> set (ep_absolute_episode_numbers p) | None \<Rightarrow> False))
             episodes)"

definition covered_by_absolute :: "ParsedEpisodeMetadata \<Rightarrow> Episode list \<Rightarrow> Episode list" where
  "covered_by_absolute p episodes =
     (case ep_absolute_episode p of
        None \<Rightarrow> []
      | Some n \<Rightarrow> filter (\<lambda>e. season_selected (ep_season_numbers p) e \<and>
                             episode_absolute (AbsoluteScale_for_catalog episodes) e = Some n) episodes)"

definition covered_episodes :: "ParsedEpisodeMetadata \<Rightarrow> Episode list \<Rightarrow> Episode list" where
  "covered_episodes p episodes =
     (if covered_by_number p episodes \<noteq> [] then covered_by_number p episodes
      else if covered_by_absolute_numbers p episodes \<noteq> [] then covered_by_absolute_numbers p episodes
      else covered_by_absolute p episodes)"

definition resolve_release_coverage ::
  "chrono \<Rightarrow> datetime \<Rightarrow> ParsedReleaseMetadata \<Rightarrow> Episode list \<Rightarrow> Collection list \<Rightarrow> Episode option \<Rightarrow>
   ReleaseCoverage option" where
  "resolve_release_coverage ch now parsed episodes collections requested =
     (if ''identity:unresolved_pack_scope'' \<in> set (rel_parse_hints parsed) then Some Cov_Unknown
      else case rel_episode parsed of
        None \<Rightarrow> Some Cov_Title
      | Some p \<Rightarrow>
          if ep_is_series_pack p \<and> \<not> has_episode_bounds p then
            map_option (\<lambda>ids. if ids = [] then Cov_Unknown else Cov_EpisodeSet ids)
              (eligible_series_pack_episode_ids ch now episodes (ep_season_numbers p))
          else if ep_release_type p = SeasonPack \<and> \<not> has_episode_bounds p then
            Some (season_pack_coverage p collections requested)
          else
            Some (case coverage_from_episode_ids (map ep_id (covered_episodes p episodes)) of
                    Some c \<Rightarrow> c | None \<Rightarrow> Cov_Unknown))"

section \<open>Contradicted numbering\<close>

definition parsed_numbering_contradicts_episode ::
  "nat option \<Rightarrow> nat option \<Rightarrow> nat option \<Rightarrow> ParsedEpisodeMetadata \<Rightarrow> bool" where
  "parsed_numbering_contradicts_episode season number absolute p =
     (if season = None \<and> number = None \<and> absolute = None then False
      else if (case (season, ep_season p) of (Some expected, Some found) \<Rightarrow> expected \<noteq> found | _ \<Rightarrow> False) then True
      else if (case season of
                 Some expected \<Rightarrow> ep_season_numbers p \<noteq> [] \<and> expected \<notin> set (ep_season_numbers p)
               | None \<Rightarrow> False) then True
      else if (case number of
                 Some expected \<Rightarrow> ep_episode_numbers p \<noteq> [] \<and> expected \<notin> set (ep_episode_numbers p)
               | None \<Rightarrow> False) then True
      else if (case number of Some expected \<Rightarrow> expected \<in> set (ep_episode_numbers p) | None \<Rightarrow> False) then False
      else (case absolute of
              Some expected \<Rightarrow>
                (ep_absolute_episode p \<noteq> None \<or> ep_absolute_episode_numbers p \<noteq> []) \<and>
                ep_absolute_episode p \<noteq> Some expected \<and> expected \<notin> set (ep_absolute_episode_numbers p)
            | None \<Rightarrow> False))"

definition parsed_release_contradicts_requested_episode ::
  "ParsedReleaseMetadata \<Rightarrow> Episode \<Rightarrow> AbsoluteScale \<Rightarrow> bool" where
  "parsed_release_contradicts_requested_episode parsed requested scale =
     (case rel_episode parsed of
        None \<Rightarrow> False
      | Some p \<Rightarrow>
          parsed_numbering_contradicts_episode (episode_season requested) (episode_ordinal requested)
            (episode_absolute scale requested) p)"

section \<open>The runtime basis\<close>

definition UNKNOWN_EPISODE_RUNTIME_MINUTES :: int where
  "UNKNOWN_EPISODE_RUNTIME_MINUTES = 45"

text \<open>\<open>(seconds / 60) as i32\<close>: division rounds towards zero, the cast keeps the low bits.\<close>

definition minutes_of_seconds :: "int \<Rightarrow> int" where
  "minutes_of_seconds seconds = wrap_i32 (seconds sdiv 60)"

definition episode_runtime_minutes :: "Episode list \<Rightarrow> string \<Rightarrow> int option" where
  "episode_runtime_minutes episodes i =
     map_option minutes_of_seconds
       (Option.bind (find (\<lambda>e. ep_id e = i) episodes) duration_seconds)"

definition default_or_unknown :: "int option \<Rightarrow> int" where
  "default_or_unknown d = (case d of Some m \<Rightarrow> m | None \<Rightarrow> UNKNOWN_EPISODE_RUNTIME_MINUTES)"

text \<open>The loop over a span of several episodes: the saturating sum and the number of gaps.\<close>

fun span_totals :: "Episode list \<Rightarrow> string list \<Rightarrow> int \<Rightarrow> int \<Rightarrow> int \<times> int" where
  "span_totals episodes [] whole missing = (whole, missing)"
| "span_totals episodes (i # is) whole missing =
     (case episode_runtime_minutes episodes i of
        Some m \<Rightarrow> span_totals episodes is (saturating_add_i32 whole m) missing
      | None \<Rightarrow> span_totals episodes is whole (wrap_i32 (missing + 1)))"

definition episode_span_runtime_minutes :: "Episode list \<Rightarrow> string list \<Rightarrow> int option \<Rightarrow> int option" where
  "episode_span_runtime_minutes episodes ids dflt =
     (case ids of
        [] \<Rightarrow> None
      | [only] \<Rightarrow> or_else (episode_runtime_minutes episodes only) dflt
      | many \<Rightarrow>
          (let (known, missing) = span_totals episodes many 0 0;
               whole = (if missing > 0
                        then saturating_add_i32 known (saturating_mul_i32 (default_or_unknown dflt) missing)
                        else known)
           in if whole > 0 then Some whole else None))"

definition mean_member_runtime_minutes :: "int \<Rightarrow> int \<Rightarrow> int option \<Rightarrow> int option" where
  "mean_member_runtime_minutes whole n dflt =
     (if n > 1 \<and> whole > 0 then Some (max 1 (whole sdiv n))
      else or_else (if whole > 0 then Some whole else None) dflt)"

definition len_i32 :: "'a list \<Rightarrow> int \<Rightarrow> int" where
  "len_i32 xs fallback = (case try_i32 (int (length xs)) of Some n \<Rightarrow> n | None \<Rightarrow> fallback)"

definition episode_span_size_basis :: "Episode list \<Rightarrow> string list \<Rightarrow> int option \<Rightarrow> CoverageSizeBasis" where
  "episode_span_size_basis episodes ids dflt =
     (let n = len_i32 ids i32_max
      in if n = 0 then CoverageSizeBasis_single None
         else let whole = episode_span_runtime_minutes episodes ids dflt
              in CoverageSizeBasis_aggregate whole
                   (mean_member_runtime_minutes (case whole of Some t \<Rightarrow> t | None \<Rightarrow> 0) n dflt) n)"

text \<open>\<open>Iterator::sum::<i32>\<close>.\<close>

definition sum_i32 :: "int list \<Rightarrow> int" where
  "sum_i32 xs = fold (\<lambda>x acc. wrap_i32 (acc + x)) xs 0"

definition episode_minutes :: "int option \<Rightarrow> Episode \<Rightarrow> int" where
  "episode_minutes dflt e =
     (case duration_seconds e of Some s \<Rightarrow> minutes_of_seconds s | None \<Rightarrow> default_or_unknown dflt)"

fun coverage_size_basis ::
  "ReleaseCoverage \<Rightarrow> ParsedReleaseMetadata \<Rightarrow> Episode list \<Rightarrow> int option \<Rightarrow> CoverageSizeBasis" where
  "coverage_size_basis (Cov_SingleEpisode i) parsed episodes dflt =
     CoverageSizeBasis_single (episode_span_runtime_minutes episodes [i] dflt)"
| "coverage_size_basis (Cov_EpisodeSet is) parsed episodes dflt =
     episode_span_size_basis episodes is dflt"
| "coverage_size_basis (Cov_Collection c) parsed episodes dflt =
     (let season = filter (\<lambda>e. ep_collection_id e = Some c) episodes;
          n = len_i32 season 0
      in if season = [] then CoverageSizeBasis_single dflt
         else if (case rel_episode parsed of Some p \<Rightarrow> ep_is_partial_season p | None \<Rightarrow> False) then
           (let member = default_or_unknown dflt;
                effective = max 1 (max n 2 sdiv 2)
            in CoverageSizeBasis_aggregate (Some (wrap_i32 (member * effective))) (Some member) effective)
         else
           (let whole = sum_i32 (map (episode_minutes dflt) season)
            in CoverageSizeBasis_aggregate (if whole > 0 then Some whole else None)
                 (mean_member_runtime_minutes whole n dflt) n))"
| "coverage_size_basis Cov_Title parsed episodes dflt = CoverageSizeBasis_single dflt"
| "coverage_size_basis Cov_Unknown parsed episodes dflt = CoverageSizeBasis_single dflt"

definition coverage_runtime_minutes ::
  "ReleaseCoverage \<Rightarrow> ParsedReleaseMetadata \<Rightarrow> Episode list \<Rightarrow> int option \<Rightarrow> int option" where
  "coverage_runtime_minutes c parsed episodes dflt =
     total_runtime_minutes (coverage_size_basis c parsed episodes dflt)"

section \<open>Coverage and scopes\<close>

text \<open>What one episode is for the purpose of scope overlap.\<close>

definition episode_membership :: "Episode \<Rightarrow> ScopeMembership" where
  "episode_membership e =
     \<lparr>member_episode_ids = [ep_id e],
      member_collection_ids = (case ep_collection_id e of Some c \<Rightarrow> [c] | None \<Rightarrow> []),
      member_series_movie_link_id = None\<rparr>"


section \<open>Bounded releases\<close>

text \<open>The release names this catalog episode: by season and number, or by the absolute number
  on the title's scale within the seasons it names.\<close>

definition names_episode :: "ParsedEpisodeMetadata \<Rightarrow> AbsoluteScale \<Rightarrow> Episode \<Rightarrow> bool" where
  "names_episode p scale e \<longleftrightarrow>
     (case ep_season p of Some s \<Rightarrow> episode_season e = Some s | None \<Rightarrow> False) \<and>
       (case episode_ordinal e of Some n \<Rightarrow> n \<in> set (ep_episode_numbers p) | None \<Rightarrow> False) \<or>
     season_selected (ep_season_numbers p) e \<and>
       (case episode_absolute scale e of
          Some n \<Rightarrow> n \<in> set (ep_absolute_episode_numbers p) \<or> ep_absolute_episode p = Some n
        | None \<Rightarrow> False)"

lemma covered_by_named:
  "e \<in> set (covered_by_number p episodes) \<Longrightarrow> e \<in> set episodes \<and> names_episode p scale e"
  "e \<in> set (covered_by_absolute_numbers p episodes) \<Longrightarrow>
     e \<in> set episodes \<and> names_episode p (AbsoluteScale_for_catalog episodes) e"
  "e \<in> set (covered_by_absolute p episodes) \<Longrightarrow>
     e \<in> set episodes \<and> names_episode p (AbsoluteScale_for_catalog episodes) e"
  by (auto simp: covered_by_number_def covered_by_absolute_numbers_def covered_by_absolute_def
      names_episode_def split: if_split_asm option.split_asm option.split)

lemma covered_episodes_named:
  "e \<in> set (covered_episodes p episodes) \<Longrightarrow>
   e \<in> set episodes \<and> names_episode p (AbsoluteScale_for_catalog episodes) e"
  by (simp add: covered_episodes_def split: if_split_asm; blast dest: covered_by_named)

lemma coverage_from_ids_members:
  "covers_episode (case coverage_from_episode_ids ids of Some c \<Rightarrow> c | None \<Rightarrow> Cov_Unknown) e \<Longrightarrow> ep_id e \<in> set ids"
  using set_sort_dedup [of "filter (\<lambda>i. trim i \<noteq> []) ids"]
  by (cases "sort_dedup (filter (\<lambda>i. trim i \<noteq> []) ids)"; cases "tl (sort_dedup (filter (\<lambda>i. trim i \<noteq> []) ids))")
     (auto simp: coverage_from_episode_ids_def list_ex_iff)

lemma coverage_from_ids_not_collection:
  "(case coverage_from_episode_ids ids of Some c \<Rightarrow> c | None \<Rightarrow> Cov_Unknown) \<noteq> Cov_Collection c"
  by (auto simp: coverage_from_episode_ids_def split: list.splits option.splits)

text \<open>
  A release that bounds its episodes is never widened: whatever else its name claims, it is not
  taken for a season, and every episode it is said to cover is one of the catalog that the release
  names, by season and number or by absolute number on the title's one scale inside the seasons
  it names.
\<close>

theorem bounded_release_is_not_widened:
  assumes "rel_episode parsed = Some p" and "has_episode_bounds p"
    and "resolve_release_coverage ch now parsed episodes collections requested = Some cov"
    and "covers_episode cov e"
  shows "(\<forall>c. cov \<noteq> Cov_Collection c) \<and>
    list_ex (\<lambda>e'. ep_id e' = ep_id e \<and> names_episode p (AbsoluteScale_for_catalog episodes) e') episodes"
proof -
  let ?ids = "map ep_id (covered_episodes p episodes)"
  have unresolved: "\<not> covers_episode Cov_Unknown e" by simp
  then have cov: "cov = (case coverage_from_episode_ids ?ids of Some c \<Rightarrow> c | None \<Rightarrow> Cov_Unknown)"
    using assms by (auto simp: resolve_release_coverage_def split: if_splits)
  with assms(4) have "ep_id e \<in> set ?ids" using coverage_from_ids_members by blast
  then show ?thesis
    using covered_episodes_named cov coverage_from_ids_not_collection
    by (fastforce simp: list_ex_iff)
qed

definition example_episode :: "string \<Rightarrow> string \<Rightarrow> string \<Rightarrow> Episode" where
  "example_episode i season number =
     \<lparr>ep_id = i, ep_title_id = ''t'', ep_collection_id = Some (''season '' @ season),
      episode_type = Standard, episode_number = Some number, season_number = Some season,
      episode_label = None, ep_title = None, ep_air_date = None, duration_seconds = Some 2700,
      has_multi_audio = False, has_subtitle = False, ep_is_filler = False, is_recap = False,
      absolute_number = None, contiguous_absolute_number = None, overview = None, ep_tvdb_id = None,
      ep_tmdb_id = None, image_url = None, ep_monitored = True, ep_created_at = 0\<rparr>"

definition example_parsed_episode :: ParsedEpisodeMetadata where
  "example_parsed_episode =
     \<lparr>ep_season = Some 1, ep_season_numbers = [1], ep_episode_numbers = [2], ep_absolute_episode = None,
      ep_absolute_episode_numbers = [], ep_special_absolute_episode_numbers = [], ep_air_date = None,
      ep_daily_part = None, ep_full_season = False, ep_is_partial_season = False,
      ep_is_multi_season = False, ep_is_series_pack = True, ep_season_part = None,
      ep_is_season_extra = False, ep_is_split_episode = False, ep_is_mini_series = False,
      ep_special_kind = None, ep_release_type = SeasonPack, ep_raw = None\<rparr>"

definition example_parsed :: ParsedReleaseMetadata where
  "example_parsed = (ParsedReleaseMetadata_empty ''Show.S01E02'')\<lparr>rel_episode := Some example_parsed_episode\<rparr>"

definition example_catalog :: "Episode list" where
  "example_catalog = [example_episode ''a'' ''1'' ''1'', example_episode ''b'' ''1'' ''2'']"

lemma example_resolves:
  "resolve_release_coverage chrono_ns 0 example_parsed example_catalog [] None = Some (Cov_SingleEpisode ''b'')"
proof -
  have "map ep_id (covered_episodes example_parsed_episode example_catalog) = [''b'']"
    by (simp add: covered_episodes_def covered_by_number_def example_parsed_episode_def example_catalog_def
        example_episode_def episode_season_def episode_ordinal_def parse_uint_def strip_plus_def u32_max_def
        digits_value_def is_digit_def digit_value_def)
  moreover have "coverage_from_episode_ids [''b''] = Some (Cov_SingleEpisode ''b'')" by code_simp
  ultimately show ?thesis
    by (simp add: resolve_release_coverage_def example_parsed_def ParsedReleaseMetadata_empty_def
        example_parsed_episode_def has_episode_bounds_def)
qed

theorem bounded_release_is_not_widened_witness:
  "list_ex (\<lambda>e'. ep_id e' = ''b'' \<and> names_episode example_parsed_episode Raw e') example_catalog"
proof -
  let ?e = "example_episode ''b'' ''1'' ''2''"
  have "AbsoluteScale_for_catalog example_catalog = Raw" "has_episode_bounds example_parsed_episode"
    "rel_episode example_parsed = Some example_parsed_episode" "ep_id ?e = ''b''"
    by (simp_all add: AbsoluteScale_for_catalog_def example_catalog_def example_episode_def
        has_episode_bounds_def example_parsed_episode_def example_parsed_def)
  then show ?thesis
    using bounded_release_is_not_widened [OF _ _ example_resolves, of example_parsed_episode ?e] by simp
qed

text \<open>
  A release that names the wanted episode by season and number is never vetoed for its
  numbering, whatever absolute number was also read from its name; and a veto needs an assertion: a
  release whose name asserts no number at all contradicts no episode. The season list a parse
  carries is assumed to include its own season.
\<close>

theorem named_episode_is_not_vetoed:
  assumes "rel_episode parsed = Some p" and "e \<in> set (covered_by_number p episodes)"
    and "list_all (\<lambda>s. s \<in> set (ep_season_numbers p)) (case ep_season p of Some s \<Rightarrow> [s] | None \<Rightarrow> [])"
  shows "\<not> parsed_release_contradicts_requested_episode parsed e scale \<and>
    \<not> parsed_numbering_contradicts_episode season number absolute
        (p\<lparr>ep_season := None, ep_season_numbers := [], ep_episode_numbers := [],
           ep_absolute_episode := None, ep_absolute_episode_numbers := []\<rparr>)"
  using assms
  by (auto simp: parsed_release_contradicts_requested_episode_def parsed_numbering_contradicts_episode_def
      covered_by_number_def split: option.splits if_splits)

theorem named_episode_is_not_vetoed_witness:
  "\<not> parsed_release_contradicts_requested_episode example_parsed (example_episode ''b'' ''1'' ''2'') Contiguous"
proof -
  have "example_episode ''b'' ''1'' ''2'' \<in> set (covered_by_number example_parsed_episode example_catalog)"
    by (simp add: covered_by_number_def example_parsed_episode_def example_catalog_def
        example_episode_def episode_season_def episode_ordinal_def parse_uint_def strip_plus_def u32_max_def
        digits_value_def is_digit_def digit_value_def)
  from named_episode_is_not_vetoed [OF _ this, of example_parsed] show ?thesis
    by (simp add: example_parsed_def example_parsed_episode_def)
qed

section \<open>The series pack threshold\<close>

lemma filter_panicking_Some:
  "filter_panicking p xs = Some ys \<Longrightarrow> ys = filter (\<lambda>x. p x = Some True) xs \<and> list_all (\<lambda>x. p x \<noteq> None) xs"
  by (induction xs arbitrary: ys) (auto simp: bind_eq_Some_conv)

lemma filter_panicking_total:
  "list_all (\<lambda>x. p x \<noteq> None) xs \<Longrightarrow> filter_panicking p xs = Some (filter (\<lambda>x. p x = Some True) xs)"
  by (induction xs) auto

lemma length_filter_by_key:
  assumes "finite S"
  shows "length (filter (\<lambda>x. P x \<and> (case f x of Some s \<Rightarrow> s \<in> S | None \<Rightarrow> False)) xs) =
    (\<Sum>s\<in>S. length (filter (\<lambda>x. P x \<and> f x = Some s) xs))"
proof (induction xs)
  case (Cons x xs)
  have "(\<Sum>s\<in>S. length (filter (\<lambda>x. P x \<and> f x = Some s) (x # xs))) =
      (\<Sum>s\<in>S. (if P x \<and> f x = Some s then 1 else 0) + length (filter (\<lambda>x. P x \<and> f x = Some s) xs))"
    by (intro sum.cong) simp_all
  also have "\<dots> = (\<Sum>s\<in>S. if P x \<and> f x = Some s then 1 else 0) +
      (\<Sum>s\<in>S. length (filter (\<lambda>x. P x \<and> f x = Some s) xs))"
    by (rule sum.distrib)
  also have "(\<Sum>s\<in>S. if P x \<and> f x = Some s then 1 else (0::nat)) =
      (if P x \<and> (case f x of Some s \<Rightarrow> s \<in> S | None \<Rightarrow> False) then 1 else 0)"
    using assms by (cases "f x"; cases "P x") (simp_all add: sum.delta')
  finally show ?case using Cons.IH by simp
qed simp

lemma missing_ratio_exact:
  assumes "100 * length ids \<le> usize_max"
  shows "missing_ratio_qualifies owned ids \<longleftrightarrow> 30 * length ids < 100 * length (filter (\<lambda>i. i \<notin> owned) ids)"
proof -
  define m n where "m = length (filter (\<lambda>i. i \<notin> owned) ids)" and "n = length ids"
  then have "m \<le> n" "100 * n \<le> usize_max" "ids \<noteq> [] \<longleftrightarrow> 0 < n" using assms by simp_all
  then show ?thesis
    unfolding missing_ratio_qualifies_def saturating_mul_usize_def m_def [symmetric] n_def [symmetric]
    by (auto simp: min_def)
qed

text \<open>A weighted average above the threshold has a component above it.\<close>

lemma ratio_has_component:
  fixes t m :: "'a \<Rightarrow> nat"
  assumes "30 * sum t S < 100 * sum m S"
  shows "\<exists>s\<in>S. 30 * t s < 100 * m s"
proof (rule ccontr)
  assume "\<not> ?thesis"
  then have "(\<Sum>s\<in>S. 100 * m s) \<le> (\<Sum>s\<in>S. 30 * t s)" by (intro sum_mono) auto
  with assms show False by (simp add: sum_distrib_left)
qed

text \<open>
  Looking a series pack up only when some single season is missing enough loses nothing: if any
  selection of seasons a pack could cover clears the missing-episode threshold, the title-level
  lookup is made, and the decision does not panic where the pack's own would not. The catalog is
  assumed to be shorter than a hundredth of the address space.
\<close>

theorem pack_lookup_misses_no_pack:
  assumes "series_pack_missing_ratio_qualifies_for_seasons ch now episodes owned seasons = Some True"
    and "100 * length episodes \<le> usize_max"
  shows "title_series_pack_missing_ratio_qualifies ch now episodes owned = Some True"
proof -
  let ?ok = "\<lambda>e. is_eligible_series_pack_episode ch e now"
  obtain es where es: "filter_panicking ?ok episodes = Some es"
    using assms(1) by (auto simp: series_pack_missing_ratio_qualifies_for_seasons_def
        eligible_series_pack_episode_ids_def eligible_series_pack_episodes_def)
  let ?ids = "\<lambda>ss. map ep_id (filter (season_selected ss) es)"
  have q: "series_pack_missing_ratio_qualifies_for_seasons ch now episodes owned ss =
      Some (missing_ratio_qualifies owned (?ids ss))" for ss
    by (simp add: series_pack_missing_ratio_qualifies_for_seasons_def
        eligible_series_pack_episode_ids_def eligible_series_pack_episodes_def es)
  have len: "100 * length (?ids ss) \<le> usize_max" for ss
  proof -
    have "length es \<le> length episodes" using filter_panicking_Some [OF es] by simp
    then have "length (?ids ss) \<le> length episodes"
      using le_trans [OF length_filter_le] by simp
    then show ?thesis using assms(2) by linarith
  qed
  note exact = missing_ratio_exact [OF len, where owned = owned]
  have title: "title_series_pack_missing_ratio_qualifies ch now episodes owned =
      Some (missing_ratio_qualifies owned (?ids []) \<or>
            list_ex (\<lambda>s. missing_ratio_qualifies owned (?ids [s])) (remdups (List.map_filter episode_season es)))"
    by (simp add: title_series_pack_missing_ratio_qualifies_def q eligible_series_pack_season_numbers_def es
        filter_panicking_total list_all_iff filter_empty_conv list_ex_iff)
  show ?thesis
  proof (cases "seasons = []")
    case True
    then show ?thesis using assms(1) q title by simp
  next
    case False
    let ?t = "\<lambda>s. length (filter (\<lambda>e. True \<and> episode_season e = Some s) es)"
    let ?m = "\<lambda>s. length (filter (\<lambda>e. ep_id e \<notin> owned \<and> episode_season e = Some s) es)"
    have sel: "season_selected seasons = (\<lambda>e. case episode_season e of Some s \<Rightarrow> s \<in> set seasons | None \<Rightarrow> False)"
      using False by (auto simp: season_selected_def)
    have "30 * sum ?t (set seasons) < 100 * sum ?m (set seasons)"
      using assms(1) exact [of seasons] length_filter_by_key [of "set seasons" "\<lambda>_. True" episode_season es]
        length_filter_by_key [of "set seasons" "\<lambda>e. ep_id e \<notin> owned" episode_season es]
      by (simp add: q sel filter_map o_def conj_commute)
    then obtain s where s: "30 * ?t s < 100 * ?m s" using ratio_has_component by blast
    have one: "season_selected [s] = (\<lambda>e. episode_season e = Some s)"
      by (auto simp: season_selected_def split: option.splits)
    have "missing_ratio_qualifies owned (?ids [s])"
      using s exact [of "[s]"] by (simp add: one filter_map o_def conj_commute)
    moreover have "filter (\<lambda>e. ep_id e \<notin> owned \<and> episode_season e = Some s) es \<noteq> []"
      using s by (metis list.size(3) mult_0_right not_less_zero)
    then have "s \<in> set (List.map_filter episode_season es)"
      unfolding set_map_filter filter_empty_conv by blast
    ultimately show ?thesis using title by (auto simp: list_ex_iff)
  qed
qed

theorem pack_lookup_misses_no_pack_witness:
  "title_series_pack_missing_ratio_qualifies chrono_ns 0 example_catalog {''a''} = Some True"
proof (rule pack_lookup_misses_no_pack)
  show "series_pack_missing_ratio_qualifies_for_seasons chrono_ns 0 example_catalog {''a''} [1] = Some True"
    by (simp add: series_pack_missing_ratio_qualifies_for_seasons_def eligible_series_pack_episode_ids_def
        eligible_series_pack_episodes_def is_eligible_series_pack_episode_def example_catalog_def
        example_episode_def episode_is_unaired_def parse_schedule_baseline_date_def season_selected_def
        episode_season_def parse_uint_def strip_plus_def u32_max_def digits_value_def is_digit_def
        digit_value_def missing_ratio_qualifies_def saturating_mul_usize_def usize_max_def)
  show "100 * length example_catalog \<le> usize_max" by (simp add: example_catalog_def usize_max_def)
qed

section \<open>One runtime basis\<close>

lemma sum_i32_exact:
  assumes "list_all (\<lambda>x. 0 \<le> x) xs" and "0 \<le> acc" and "acc + sum_list xs \<le> i32_max"
  shows "fold (\<lambda>x a. wrap_i32 (a + x)) xs acc = acc + sum_list xs"
  using assms
proof (induction xs arbitrary: acc)
  case (Cons x xs)
  have "0 \<le> sum_list xs" using Cons.prems(1) by (simp add: list_all_iff sum_list_nonneg)
  with Cons.prems have "is_i32 (acc + x)" by (simp add: is_i32_def i32_max_def)
  with Cons show ?case by (simp add: wrap_i32_id)
qed simp

text \<open>The minutes of the episodes whose runtime is recorded.\<close>

definition known_minutes :: "Episode list \<Rightarrow> int list" where
  "known_minutes es = List.map_filter (\<lambda>e. map_option minutes_of_seconds (duration_seconds e)) es"

definition gaps :: "Episode list \<Rightarrow> nat" where
  "gaps es = length (filter (\<lambda>e. duration_seconds e = None) es)"

lemma known_minutes_simps [simp]:
  "known_minutes [] = []"
  "known_minutes (e # es) =
     (case duration_seconds e of Some s \<Rightarrow> minutes_of_seconds s # known_minutes es | None \<Rightarrow> known_minutes es)"
  by (simp_all add: known_minutes_def map_filter_simps split: option.split)

lemma gaps_simps [simp]:
  "gaps [] = 0" "gaps (e # es) = (if duration_seconds e = None then Suc (gaps es) else gaps es)"
  by (simp_all add: gaps_def)

lemma minutes_split:
  "sum_list (map (episode_minutes dflt) es) = sum_list (known_minutes es) + default_or_unknown dflt * int (gaps es)"
  by (induction es) (simp_all add: episode_minutes_def algebra_simps split: option.split)

lemma runtime_of_listed:
  "distinct (map ep_id episodes) \<Longrightarrow> e \<in> set episodes \<Longrightarrow>
   episode_runtime_minutes episodes (ep_id e) = map_option minutes_of_seconds (duration_seconds e)"
proof (induction episodes)
  case (Cons x xs)
  then show ?case by (cases "ep_id x = ep_id e") (auto simp: episode_runtime_minutes_def)
qed simp

lemma span_totals_exact:
  assumes "distinct (map ep_id episodes)" and "set es \<subseteq> set episodes"
    and "list_all (\<lambda>x. 0 \<le> x) (known_minutes es)"
    and "0 \<le> w" "w + sum_list (known_minutes es) \<le> i32_max" "0 \<le> m" "m + int (length es) \<le> i32_max"
  shows "span_totals episodes (map ep_id es) w m = (w + sum_list (known_minutes es), m + int (gaps es))"
  using assms(2-)
proof (induction es arbitrary: w m)
  case (Cons e es)
  have rt: "episode_runtime_minutes episodes (ep_id e) = map_option minutes_of_seconds (duration_seconds e)"
    using runtime_of_listed [OF assms(1)] Cons.prems(1) by simp
  have nn: "0 \<le> sum_list (known_minutes es)"
    using Cons.prems(2) by (auto simp: list_all_iff intro: sum_list_nonneg split: option.splits)
  show ?case
  proof (cases "duration_seconds e")
    case None
    then have "wrap_i32 (m + 1) = m + 1"
      using Cons.prems by (intro wrap_i32_id) (simp add: is_i32_def i32_max_def)
    with None Cons.prems show ?thesis by (simp add: rt Cons.IH)
  next
    case (Some s)
    then have "saturating_add_i32 w (minutes_of_seconds s) = w + minutes_of_seconds s"
      using Cons.prems nn by (simp add: saturating_add_i32_def sat_i32_def i32_max_def)
    with Some Cons.prems show ?thesis by (simp add: rt Cons.IH)
  qed
qed simp

lemma span_of_several:
  assumes "2 \<le> length ids" and "span_totals episodes ids 0 0 = (known, missing)"
  shows "episode_span_runtime_minutes episodes ids dflt =
    (let whole = (if missing > 0
       then saturating_add_i32 known (saturating_mul_i32 (default_or_unknown dflt) missing) else known)
     in if whole > 0 then Some whole else None)"
proof -
  obtain a b r where "ids = a # b # r" using assms(1) by (auto simp: Suc_le_length_iff numeral_2_eq_2)
  with assms(2) show ?thesis
    by (simp only: episode_span_runtime_minutes_def list.case Let_def split_conv)
qed

lemma span_of_listed:
  assumes "distinct (map ep_id episodes)" and "set es \<subseteq> set episodes" and "2 \<le> length es"
    and "list_all (\<lambda>e. 0 \<le> episode_minutes dflt e) es"
    and "sum_list (map (episode_minutes dflt) es) \<le> i32_max" and "int (length es) \<le> i32_max"
  shows "episode_span_runtime_minutes episodes (map ep_id es) dflt =
    (if 0 < sum_list (map (episode_minutes dflt) es) then Some (sum_list (map (episode_minutes dflt) es)) else None)"
proof -
  let ?k = "sum_list (known_minutes es)" and ?g = "int (gaps es)" and ?d = "default_or_unknown dflt"
  have known: "list_all (\<lambda>x. 0 \<le> x) (known_minutes es)"
    using assms(4) by (induction es) (auto simp: episode_minutes_def split: option.splits)
  then have k: "0 \<le> ?k" by (simp add: list_all_iff sum_list_nonneg)
  have d: "0 \<le> ?d" if "0 < gaps es"
    using that assms(4) by (induction es) (auto simp: episode_minutes_def split: option.splits if_splits)
  then have dg: "0 \<le> ?d * ?g" by (cases "gaps es = 0") simp_all
  have whole: "?k + ?d * ?g \<le> i32_max" using assms(5) by (simp add: minutes_split)
  have totals: "span_totals episodes (map ep_id es) 0 0 = (?k, ?g)"
    using span_totals_exact [OF assms(1,2) known, of 0 0] k dg whole assms(6) by simp
  have "saturating_add_i32 ?k (saturating_mul_i32 ?d ?g) = ?k + ?d * ?g"
    using k dg whole by (simp add: saturating_add_i32_def saturating_mul_i32_def sat_i32_def i32_max_def)
  with span_of_several [OF _ totals, of dflt] assms(3) show ?thesis
    unfolding minutes_split by (simp add: Let_def)
qed

text \<open>
  Grab and import judge a season's size by the same runtime: for a complete season of at least
  two episodes the basis the search lane derives from the season is the basis the import lane
  derives from the files' episodes, in total, member average and member count, as long as the
  minutes are non-negative and their sum fits an \<open>i32\<close>.
\<close>

theorem season_basis_is_span_basis:
  assumes "distinct (map ep_id episodes)"
    and "season = filter (\<lambda>e. ep_collection_id e = Some c) episodes" and "2 \<le> length season"
    and "int (length season) \<le> i32_max"
    and "case rel_episode parsed of Some p \<Rightarrow> \<not> ep_is_partial_season p | None \<Rightarrow> True"
    and "list_all (\<lambda>e. 0 \<le> episode_minutes dflt e) season"
    and "sum_list (map (episode_minutes dflt) season) \<le> i32_max"
  shows "coverage_size_basis (Cov_Collection c) parsed episodes dflt =
    episode_span_size_basis episodes (map ep_id season) dflt"
proof -
  let ?t = "sum_list (map (episode_minutes dflt) season)"
  have span: "episode_span_runtime_minutes episodes (map ep_id season) dflt = (if 0 < ?t then Some ?t else None)"
    using span_of_listed [OF assms(1) _ assms(3,6,7,4)] assms(2) by simp
  have total: "sum_i32 (map (episode_minutes dflt) season) = ?t"
    using sum_i32_exact [of "map (episode_minutes dflt) season" 0] assms(6,7)
    by (simp add: sum_i32_def list_all_iff)
  have "0 \<le> ?t" using assms(6) by (intro sum_list_nonneg) (auto simp: list_all_iff)
  have n: "len_i32 season f = int (length season)" "len_i32 (map ep_id season) f = int (length season)" for f
    using assms(4) by (simp_all add: len_i32_def try_i32_def is_i32_def i32_max_def)
  have "season \<noteq> []" using assms(3) by auto
  then show ?thesis
    using assms(2,5) \<open>0 \<le> ?t\<close> span total n
    by (cases "0 < ?t") (auto simp: episode_span_size_basis_def Let_def split: option.splits)
qed

lemma example_season: "filter (\<lambda>e. ep_collection_id e = Some ''season 1'') example_catalog = example_catalog"
  by (simp add: example_catalog_def example_episode_def)

theorem season_basis_is_span_basis_witness:
  "coverage_size_basis (Cov_Collection ''season 1'') (ParsedReleaseMetadata_empty ''x'') example_catalog None =
   episode_span_size_basis example_catalog [''a'', ''b''] None"
proof -
  have ids: "map ep_id example_catalog = [''a'', ''b'']" by (simp add: example_catalog_def example_episode_def)
  have minutes: "map (episode_minutes None) example_catalog = [45, 45]"
    by (simp add: example_catalog_def example_episode_def episode_minutes_def minutes_of_seconds_def
        signed_divide_int_def wrap_i32_def)
  have nonneg: "list_all (\<lambda>e. 0 \<le> episode_minutes None e) example_catalog"
    using minutes by (simp add: example_catalog_def)
  have len: "length example_catalog = 2" by (simp add: example_catalog_def)
  show ?thesis
    using season_basis_is_span_basis [of example_catalog example_catalog "''season 1''" "ParsedReleaseMetadata_empty ''x''" None]
    by (simp add: ids minutes nonneg len example_season i32_max_def ParsedReleaseMetadata_empty_def)
qed

text \<open>
  A season of one episode is the exception: with no recorded runtime and no title default, the
  search lane assumes forty-five minutes while the span of the same episode has no runtime at all.
\<close>

theorem one_episode_season_basis_differs:
  "let e = (example_episode ''a'' ''1'' ''1'')\<lparr>duration_seconds := None\<rparr>
   in total_runtime_minutes (coverage_size_basis (Cov_Collection ''season 1'') parsed [e] None) =
        (case rel_episode parsed of Some p \<Rightarrow> Some 45 | None \<Rightarrow> Some 45) \<and>
      total_runtime_minutes (episode_span_size_basis [e] [''a''] None) = None"
  by (simp add: example_episode_def len_i32_def try_i32_def is_i32_def i32_max_def episode_span_size_basis_def
      episode_span_runtime_minutes_def episode_runtime_minutes_def or_else_def mean_member_runtime_minutes_def
      CoverageSizeBasis_aggregate_def CoverageSizeBasis_single_def Let_def default_or_unknown_def
      UNKNOWN_EPISODE_RUNTIME_MINUTES_def sum_i32_def episode_minutes_def wrap_i32_def
      signed_divide_int_def split: option.split)

end
