(* ===== verification/Float64.thy ===== *)
theory Float64
  imports Complex_Main
begin

text \<open>
  The values of \<open>f64\<close> as the seeding code uses them: it compares them, takes a maximum and asks
  whether they are finite, and does no arithmetic. A finite value is the rational number it denotes
  (the two zeros are one), so every comparison is exact.
\<close>

datatype f64 = NaN | Infinity | NegInfinity | Finite rat

fun is_finite :: "f64 \<Rightarrow> bool" where
  "is_finite (Finite _) = True"
| "is_finite _ = False"

text \<open>\<open>PartialOrd\<close>: nothing compares with a NaN.\<close>

fun f64_le :: "f64 \<Rightarrow> f64 \<Rightarrow> bool" where
  "f64_le NaN _ = False"
| "f64_le _ NaN = False"
| "f64_le NegInfinity _ = True"
| "f64_le _ Infinity = True"
| "f64_le Infinity _ = False"
| "f64_le _ NegInfinity = False"
| "f64_le (Finite x) (Finite y) = (x \<le> y)"

definition f64_less :: "f64 \<Rightarrow> f64 \<Rightarrow> bool" where
  "f64_less x y \<longleftrightarrow> f64_le x y \<and> \<not> f64_le y x"

text \<open>\<open>f64::max\<close>: a NaN operand is ignored.\<close>

definition f64_max :: "f64 \<Rightarrow> f64 \<Rightarrow> f64" where
  "f64_max x y = (if x = NaN then y else if f64_le x y then y else x)"

text \<open>\<open>filter(|value| value.is_finite() && *value > 0.0)\<close>, the values that are a goal.\<close>

definition finite_positive :: "f64 \<Rightarrow> bool" where
  "finite_positive x \<longleftrightarrow> is_finite x \<and> f64_less (Finite 0) x"

lemma f64_le_refl [simp]: "f64_le x x \<longleftrightarrow> x \<noteq> NaN"
  by (cases x) simp_all

lemma f64_le_NaN [simp]: "\<not> f64_le NaN x" "\<not> f64_le x NaN"
  by (cases x; simp)+

lemma f64_le_trans: "f64_le x y \<Longrightarrow> f64_le y z \<Longrightarrow> f64_le x z"
  by (cases x; cases y; cases z) auto

lemma f64_le_total: "x \<noteq> NaN \<Longrightarrow> y \<noteq> NaN \<Longrightarrow> f64_le x y \<or> f64_le y x"
  by (cases x; cases y) auto

lemma f64_max_upper: "y \<noteq> NaN \<Longrightarrow> f64_le y (f64_max x y)" "x \<noteq> NaN \<Longrightarrow> y \<noteq> NaN \<Longrightarrow> f64_le x (f64_max x y)"
  using f64_le_total [of x y] by (auto simp: f64_max_def)

lemma finite_positive_iff: "finite_positive x \<longleftrightarrow> (\<exists>q. x = Finite q \<and> 0 < q)"
  by (cases x) (auto simp: finite_positive_def f64_less_def)

lemma finite_positive_not_NaN [dest]: "finite_positive x \<Longrightarrow> x \<noteq> NaN \<and> is_finite x"
  by (auto simp: finite_positive_iff)

lemma f64_max_finite_positive:
  "finite_positive y \<Longrightarrow> x \<noteq> Infinity \<Longrightarrow> finite_positive (f64_max x y)"
  by (cases x) (auto simp: finite_positive_iff f64_max_def)

end
