(* ===== verification/Download_Types.thy ===== *)
theory Download_Types
  imports Domain_Types Float64 Time_Interface
begin

text \<open>
  The download vocabulary the acquisition, import and seeding components share, from
  \<open>scryer-domain\<close> (\<open>lib.rs\<close>, \<open>download_identity.rs\<close>) and from \<open>contracts.rs\<close> and
  \<open>download_identity.rs\<close> of the application: canonical download ids and their wire form, the states of a
  queue item and of a tracked download, seeding policy and observation, client job locators and
  persisted submissions. A \<open>Uuid\<close> is its canonical lower-case text, whose order is that of its
  bytes. Of a queue item, a completed download and a submission the records have the fields the
  modelled components read.
\<close>

section \<open>Canonical download ids\<close>

type_synonym DownloadId = string

definition WIRE_PREFIX :: string where
  "WIRE_PREFIX = ''scryer-download:''"

definition hyphenated_char :: "nat \<times> char \<Rightarrow> bool" where
  "hyphenated_char p = (if fst p \<in> {8, 13, 18, 23} then snd p = CHR ''-'' else is_ascii_hexdigit (snd p))"

definition parse_hyphenated :: "string \<Rightarrow> DownloadId option" where
  "parse_hyphenated value =
     (if length value = 36 \<and> list_all hyphenated_char (enumerate 0 value)
      then Some (to_ascii_lowercase value) else None)"

definition DownloadId_parse :: "string \<Rightarrow> DownloadId option" where
  "DownloadId_parse value = parse_hyphenated (trim value)"

definition to_wire :: "DownloadId \<Rightarrow> string" where
  "to_wire i = WIRE_PREFIX @ i"

definition from_wire :: "string \<Rightarrow> DownloadId option" where
  "from_wire value = Option.bind (strip_prefix (trim value) WIRE_PREFIX) parse_hyphenated"

text \<open>The ids there are: the values of the parser.\<close>

definition is_download_id :: "DownloadId \<Rightarrow> bool" where
  "is_download_id i \<longleftrightarrow> parse_hyphenated i = Some i"

lemma hyphenated_char_lower: "hyphenated_char (k, c) \<Longrightarrow> hyphenated_char (k, to_lower_char c)"
  by (auto simp: hyphenated_char_def is_ascii_hexdigit_def is_digit_def to_lower_char_def ascii_upper_def
      split: if_splits)

lemma enumerate_map_snd: "enumerate n (map f xs) = map (\<lambda>(k, x). (k, f x)) (enumerate n xs)"
  by (induction xs arbitrary: n) auto

lemma parse_hyphenated_is_download_id: "parse_hyphenated v = Some i \<Longrightarrow> is_download_id i"
  unfolding is_download_id_def parse_hyphenated_def to_ascii_lowercase_def
  by (auto simp: enumerate_map_snd list_all_iff split: if_splits) (metis hyphenated_char_lower)

lemma from_wire_is_download_id: "from_wire v = Some i \<Longrightarrow> is_download_id i"
  by (auto simp: from_wire_def bind_eq_Some_conv intro: parse_hyphenated_is_download_id)

section \<open>Queue items and tracked states\<close>

datatype DownloadQueueState =
  DQ_Queued | DQ_Downloading | DQ_Verifying | DQ_Repairing | DQ_Extracting | DQ_Paused | DQ_Completed
| DQ_ImportPending | DQ_Warning | DQ_Failed

datatype TrackedDownloadState =
  TD_Downloading | TD_Missing | TD_ImportPending | TD_Importing | TD_Imported | TD_ImportedSeeding
| TD_ImportBlocked | TD_FailedPending | TD_Failed | TD_Ignored

primrec TrackedDownloadState_as_str :: "TrackedDownloadState \<Rightarrow> string" where
  "TrackedDownloadState_as_str TD_Downloading = ''downloading''"
| "TrackedDownloadState_as_str TD_Missing = ''missing''"
| "TrackedDownloadState_as_str TD_ImportPending = ''import_pending''"
| "TrackedDownloadState_as_str TD_Importing = ''importing''"
| "TrackedDownloadState_as_str TD_Imported = ''imported''"
| "TrackedDownloadState_as_str TD_ImportedSeeding = ''imported_seeding''"
| "TrackedDownloadState_as_str TD_ImportBlocked = ''import_blocked''"
| "TrackedDownloadState_as_str TD_FailedPending = ''failed_pending''"
| "TrackedDownloadState_as_str TD_Failed = ''failed''"
| "TrackedDownloadState_as_str TD_Ignored = ''ignored''"

definition TrackedDownloadState_from_str_opt :: "string \<Rightarrow> TrackedDownloadState option" where
  "TrackedDownloadState_from_str_opt s =
     (if s = ''downloading'' then Some TD_Downloading
      else if s = ''missing'' then Some TD_Missing
      else if s = ''import_pending'' then Some TD_ImportPending
      else if s = ''importing'' then Some TD_Importing
      else if s = ''imported'' then Some TD_Imported
      else if s = ''imported_seeding'' then Some TD_ImportedSeeding
      else if s = ''import_blocked'' then Some TD_ImportBlocked
      else if s = ''failed_pending'' then Some TD_FailedPending
      else if s = ''failed'' then Some TD_Failed
      else if s = ''ignored'' then Some TD_Ignored
      else None)"

interpretation tracked_state: label_codec TrackedDownloadState_as_str TrackedDownloadState_from_str_opt
proof
  show "TrackedDownloadState_from_str_opt (TrackedDownloadState_as_str x) = Some x" for x
    by (cases x; hypsubst; code_simp)
qed

definition is_terminal :: "TrackedDownloadState \<Rightarrow> bool" where
  "is_terminal s \<longleftrightarrow> s \<in> {TD_Imported, TD_Failed, TD_Ignored}"

definition is_import_settled :: "TrackedDownloadState \<Rightarrow> bool" where
  "is_import_settled s \<longleftrightarrow> is_terminal s \<or> s = TD_ImportedSeeding"

definition counts_as_imported :: "TrackedDownloadState \<Rightarrow> bool" where
  "counts_as_imported s \<longleftrightarrow> s \<in> {TD_Imported, TD_ImportedSeeding}"

datatype TrackedDownloadStatus = TS_Ok | TS_Warning | TS_Error

datatype TitleMatchType = MT_Submission | MT_ClientParameter | MT_TitleParse | MT_IdOnly | MT_Unmatched

section \<open>Seeding policy\<close>

datatype SeasonPackSeedMode = Inherit | Override

datatype SeedGoalMetAction = RemoveEntry | StopSeeding | Keep

primrec SeedGoalMetAction_as_str :: "SeedGoalMetAction \<Rightarrow> string" where
  "SeedGoalMetAction_as_str RemoveEntry = ''remove_entry''"
| "SeedGoalMetAction_as_str StopSeeding = ''stop_seeding''"
| "SeedGoalMetAction_as_str Keep = ''keep''"

definition SeedGoalMetAction_parse :: "string \<Rightarrow> SeedGoalMetAction option" where
  "SeedGoalMetAction_parse value =
     (let v = trim value
      in if v = ''remove_entry'' then Some RemoveEntry else if v = ''stop_seeding'' then Some StopSeeding
         else if v = ''keep'' then Some Keep else None)"

interpretation seed_goal_met_action: label_codec SeedGoalMetAction_as_str SeedGoalMetAction_parse
proof
  show "SeedGoalMetAction_parse (SeedGoalMetAction_as_str x) = Some x" for x
    by (cases x; hypsubst; code_simp)
qed

datatype PostImportTracking = Park | HandOff

definition is_hand_off :: "PostImportTracking \<Rightarrow> bool" where
  "is_hand_off t \<longleftrightarrow> t = HandOff"

record DownloadSeedingSnapshot =
  ds_can_remove :: "bool option"
  ds_can_move_files :: "bool option"
  ds_seed_ratio :: "f64 option"
  ds_seed_time_seconds :: "int option"
  ds_is_private :: "bool option"
  ds_uploaded_bytes :: "int option"
  ds_completed_at :: "string option"
  ds_seed_goal_ratio :: "f64 option"
  ds_seed_goal_seconds :: "int option"
  ds_never_remove :: bool

definition has_torrent_signal :: "DownloadSeedingSnapshot \<Rightarrow> bool" where
  "has_torrent_signal s \<longleftrightarrow>
     ds_seed_ratio s \<noteq> None \<or> ds_seed_time_seconds s \<noteq> None \<or> ds_is_private s \<noteq> None \<or>
     ds_uploaded_bytes s \<noteq> None \<or> ds_seed_goal_ratio s \<noteq> None \<or> ds_seed_goal_seconds s \<noteq> None \<or>
     ds_never_remove s"

section \<open>Client jobs\<close>

record DownloadQueueItem =
  qi_title_id :: "string option"
  qi_title_name :: string
  qi_facet :: "string option"
  qi_category :: "string option"
  qi_client_id :: string
  qi_client_name :: string
  qi_client_type :: string
  qi_state :: DownloadQueueState
  qi_queued_at :: "string option"
  qi_attention_reason :: "string option"
  qi_attention_reason_code :: "string option"
  qi_item_id :: string
  qi_download_id :: "string option"
  qi_is_scryer_origin :: bool
  qi_seeding :: "DownloadSeedingSnapshot option"

record CompletedDownload =
  cd_client_type :: string
  cd_client_id :: string
  cd_item_id :: string
  cd_download_id :: "string option"
  cd_name :: string
  cd_release_name :: "string option"
  cd_dest_dir :: string
  cd_category :: "string option"
  cd_size_bytes :: "int option"
  cd_completed_at :: "datetime option"
  cd_parameters :: "(string \<times> string) list"

definition normalized_non_empty_owned :: "string option \<Rightarrow> string option" where
  "normalized_non_empty_owned v = filled (map_option trim v)"

record ClientJobLocator =
  loc_client_id :: "string option"
  loc_client_type :: string
  loc_item_id :: string

definition ClientJobLocator_new :: "string option \<Rightarrow> string \<Rightarrow> string \<Rightarrow> ClientJobLocator" where
  "ClientJobLocator_new client_id client_type item_id =
     \<lparr>loc_client_id = normalized_non_empty_owned client_id,
      loc_client_type = to_ascii_lowercase (trim client_type), loc_item_id = trim item_id\<rparr>"

definition locator_for_import_artifact :: "string option \<Rightarrow> string \<Rightarrow> string \<Rightarrow> ClientJobLocator" where
  "locator_for_import_artifact client_id client_type item_id =
     (let l = ClientJobLocator_new client_id client_type item_id
      in l\<lparr>loc_client_id := map_option to_ascii_lowercase (loc_client_id l)\<rparr>)"

record DownloadSubmission =
  sub_download_id :: DownloadId
  sub_title_id :: string
  sub_facet :: string
  sub_client_id :: "string option"
  sub_client_type :: string
  sub_item_id :: string
  sub_source_title :: "string option"
  sub_scope :: SubmissionScope

definition locator_from_submission :: "DownloadSubmission \<Rightarrow> ClientJobLocator" where
  "locator_from_submission s = ClientJobLocator_new (sub_client_id s) (sub_client_type s) (sub_item_id s)"

section \<open>Archive passwords\<close>

datatype DownloadPasswordFailure = Required | PasswordOrCorruption

primrec pw_code :: "DownloadPasswordFailure \<Rightarrow> string" where
  "pw_code Required = ''archive_password_required''"
| "pw_code PasswordOrCorruption = ''archive_password_or_corruption''"

primrec pw_message :: "DownloadPasswordFailure \<Rightarrow> string" where
  "pw_message Required = ''a new archive password is required''"
| "pw_message PasswordOrCorruption = ''the password may be incorrect or the archive may be damaged''"

primrec reason_code :: "DownloadPasswordFailure \<Rightarrow> string" where
  "reason_code Required = ''ARCHIVE_PASSWORD_REQUIRED''"
| "reason_code PasswordOrCorruption = ''ARCHIVE_PASSWORD_OR_CORRUPTION''"

definition from_reason_code :: "string \<Rightarrow> DownloadPasswordFailure option" where
  "from_reason_code code =
     (if code = ''ARCHIVE_PASSWORD_REQUIRED'' then Some Required
      else if code = ''ARCHIVE_PASSWORD_OR_CORRUPTION'' then Some PasswordOrCorruption else None)"

definition from_legacy_reason :: "string \<Rightarrow> DownloadPasswordFailure option" where
  "from_legacy_reason r =
     (if r = ''archive_password_required'' \<or> starts_with r ''ARCHIVE_PASSWORD_REQUIRED:'' then Some Required
      else if r = ''archive_password_or_corruption'' \<or> starts_with r ''ARCHIVE_PASSWORD_OR_CORRUPTION:''
      then Some PasswordOrCorruption else None)"

fun from_stored_reason :: "string option \<Rightarrow> string option \<Rightarrow> DownloadPasswordFailure option" where
  "from_stored_reason (Some code) r = from_reason_code code"
| "from_stored_reason None r = Option.bind r from_legacy_reason"

definition password_failure :: "DownloadQueueItem \<Rightarrow> DownloadPasswordFailure option" where
  "password_failure i =
     (if qi_state i \<noteq> DQ_Failed then None
      else from_stored_reason (qi_attention_reason_code i) (qi_attention_reason i))"

interpretation password_reason: label_codec reason_code from_reason_code
proof
  show "from_reason_code (reason_code x) = Some x" for x
    by (cases x; hypsubst; code_simp)
qed

section \<open>Observed identities\<close>

definition normalize_token :: "string option \<Rightarrow> string option" where
  "normalize_token raw = filled (map_option trim raw)"

definition normalize_lower :: "string option \<Rightarrow> string option" where
  "normalize_lower raw = map_option to_ascii_lowercase (normalize_token raw)"

definition normalize_torrent_info_hash :: "string option \<Rightarrow> string option" where
  "normalize_torrent_info_hash raw =
     Option.bind (normalize_lower raw) (\<lambda>v.
       let h = filter is_ascii_hexdigit (case strip_prefix v ''urn:btih:'' of Some s \<Rightarrow> s | None \<Rightarrow> v)
       in if length h \<in> {40, 64} then Some h else None)"

definition DOWNLOAD_ID_PARAMETER :: string where
  "DOWNLOAD_ID_PARAMETER = ''*scryer_download_id''"

definition observed_identity_parameter :: "(string \<times> string) list \<Rightarrow> string \<Rightarrow> string option" where
  "observed_identity_parameter parameters key =
     Option.bind (List.find (\<lambda>p. fst p = key) parameters) (\<lambda>p. normalize_token (Some (snd p)))"

definition observed_download_identity ::
  "string option \<Rightarrow> (string \<times> string) list \<Rightarrow> string option \<Rightarrow> string option" where
  "observed_download_identity download_id parameters info_hash_hint =
     or_else (normalize_token download_id)
       (or_else (observed_identity_parameter parameters DOWNLOAD_ID_PARAMETER)
          (normalize_torrent_info_hash info_hash_hint))"

section \<open>Release attempts\<close>

fun scope_attempt_key :: "SubmissionScope \<Rightarrow> string" where
  "scope_attempt_key (Scope_Episode e) = ''episode:'' @ trim e"
| "scope_attempt_key (Scope_EpisodeSet es) =
     ''episodes:'' @ join '','' (sort_dedup (filter (\<lambda>e. e \<noteq> []) (map trim es)))"
| "scope_attempt_key (Scope_Collection c) = ''collection:'' @ trim c"
| "scope_attempt_key Scope_Title = ''title''"
| "scope_attempt_key (Scope_SeriesMovie l) = ''series_movie:'' @ l"
| "scope_attempt_key Scope_Orphan = ''orphan''"

definition download_submission_release_attempt_key :: "DownloadSubmission \<Rightarrow> string" where
  "download_submission_release_attempt_key s =
     trim (sub_title_id s) @ [CHR 0x1F] @ to_ascii_lowercase (trim (sub_facet s)) @ [CHR 0x1F] @
     scope_attempt_key (sub_scope s)"

definition coalesce_download_submissions_by_release_attempt :: "DownloadSubmission list \<Rightarrow> DownloadSubmission option" where
  "coalesce_download_submissions_by_release_attempt subs =
     (case subs of
        [] \<Rightarrow> None
      | s # _ \<Rightarrow>
          if list_all (\<lambda>t. download_submission_release_attempt_key t = download_submission_release_attempt_key s) subs
          then Some s else None)"

end
