(* ===== verification/Client_Snapshot.thy ===== *)
theory Client_Snapshot
  imports Release_Coverage Download_Types
begin

text \<open>
  What the acquisition lanes know about the download clients, from
  \<open>acquisition/workflow/client_snapshot.rs\<close>: the snapshot built from the queue and history
  listings of one cycle, the questions asked of it, and whether a submission still holds a claim on
  its scope. A hash set is a set and a hash map a partial map. The two listings, the clock and the
  date parser (\<open>parse_published_at\<close>, three formats of the date crate) are arguments.
\<close>

section \<open>Listings\<close>

record DownloadClientListing =
  li_items :: "DownloadQueueItem list"
  li_unreadable_client_ids :: "string list"
  li_polled_client_count :: nat

definition all_unreadable :: "DownloadClientListing \<Rightarrow> bool" where
  "all_unreadable l \<longleftrightarrow>
     li_polled_client_count l > 0 \<and> length (li_unreadable_client_ids l) \<ge> li_polled_client_count l"

section \<open>The snapshot\<close>

record FailedDownloadSnapshot =
  fd_reason :: string
  fd_item_id :: string
  fd_client_id :: string
  fd_client_name :: "string option"

record DownloadClientSnapshot =
  active_titles :: "string set"
  active_client_ids :: "string set"
  active_raw_item_id_counts :: "string \<rightharpoonup> nat"
  stale_downloading_client_ids :: "string set"
  stale_downloading_raw_item_ids :: "string set"
  completed_client_ids :: "string set"
  completed_raw_item_id_counts :: "string \<rightharpoonup> nat"
  failed_by_download_id :: "string \<rightharpoonup> FailedDownloadSnapshot"
  queue_listing_failed :: bool
  history_listing_failed :: bool
  unreadable_client_ids :: "string set"

definition empty_snapshot :: DownloadClientSnapshot where
  "empty_snapshot =
     \<lparr>active_titles = {}, active_client_ids = {}, active_raw_item_id_counts = Map.empty,
      stale_downloading_client_ids = {}, stale_downloading_raw_item_ids = {},
      completed_client_ids = {}, completed_raw_item_id_counts = Map.empty,
      failed_by_download_id = Map.empty, queue_listing_failed = False, history_listing_failed = False,
      unreadable_client_ids = {}\<rparr>"

definition STALE_INITIAL_CLAIM_SECONDS :: int where
  "STALE_INITIAL_CLAIM_SECONDS = 24 * 60 * 60"

definition download_client_item_identity :: "string option \<Rightarrow> string \<Rightarrow> string" where
  "download_client_item_identity client_id item_id =
     (case normalized_non_empty_owned client_id of
        None \<Rightarrow> item_id
      | Some c \<Rightarrow> c @ '':'' @ item_id)"

definition item_identity :: "DownloadQueueItem \<Rightarrow> string" where
  "item_identity i = download_client_item_identity (Some (qi_client_id i)) (qi_item_id i)"

text \<open>\<open>*counts.entry(key).or_insert(0) += 1\<close>\<close>

definition bump :: "string \<Rightarrow> (string \<rightharpoonup> nat) \<Rightarrow> (string \<rightharpoonup> nat)" where
  "bump k m = m(k \<mapsto> Suc (case m k of Some n \<Rightarrow> n | None \<Rightarrow> 0))"

definition note_unreadable_clients ::
  "DownloadClientListing \<Rightarrow> DownloadClientSnapshot \<Rightarrow> DownloadClientSnapshot" where
  "note_unreadable_clients l s =
     s\<lparr>unreadable_client_ids := unreadable_client_ids s \<union> set (li_unreadable_client_ids l)\<rparr>"

definition listing_blind :: "DownloadClientListing \<Rightarrow> bool" where
  "listing_blind l \<longleftrightarrow> li_unreadable_client_ids l \<noteq> [] \<and> all_unreadable l"

definition note_completed_item :: "DownloadQueueItem \<Rightarrow> DownloadClientSnapshot \<Rightarrow> DownloadClientSnapshot" where
  "note_completed_item i s =
     (if item_identity i \<in> completed_client_ids s then s
      else s\<lparr>completed_client_ids := insert (item_identity i) (completed_client_ids s),
             completed_raw_item_id_counts := bump (qi_item_id i) (completed_raw_item_id_counts s)\<rparr>)"

definition history_item_is_live_claim :: "DownloadQueueState \<Rightarrow> bool" where
  "history_item_is_live_claim st \<longleftrightarrow>
     st \<in> {DQ_Queued, DQ_Downloading, DQ_Paused, DQ_Verifying, DQ_Repairing, DQ_Extracting,
           DQ_ImportPending, DQ_Warning}"

definition note_active_item :: "DownloadQueueItem \<Rightarrow> DownloadClientSnapshot \<Rightarrow> DownloadClientSnapshot" where
  "note_active_item i s =
     s\<lparr>active_titles := insert (to_ascii_lowercase (qi_title_name i)) (active_titles s),
       active_client_ids := insert (item_identity i) (active_client_ids s),
       active_raw_item_id_counts := bump (qi_item_id i) (active_raw_item_id_counts s)\<rparr>"

definition item_is_stale :: "chrono \<Rightarrow> (string \<Rightarrow> datetime option) \<Rightarrow> datetime \<Rightarrow> DownloadQueueItem \<Rightarrow> bool" where
  "item_is_stale ch parse_date now i \<longleftrightarrow>
     qi_state i = DQ_Downloading \<and>
     (case Option.bind (qi_queued_at i) parse_date of
        Some queued \<Rightarrow> STALE_INITIAL_CLAIM_SECONDS \<le> ch_num_seconds ch (now - queued)
      | None \<Rightarrow> False)"

definition note_stale_item :: "DownloadQueueItem \<Rightarrow> DownloadClientSnapshot \<Rightarrow> DownloadClientSnapshot" where
  "note_stale_item i s =
     s\<lparr>stale_downloading_client_ids := insert (item_identity i) (stale_downloading_client_ids s),
       stale_downloading_raw_item_ids := insert (qi_item_id i) (stale_downloading_raw_item_ids s)\<rparr>"

definition queue_step ::
  "chrono \<Rightarrow> (string \<Rightarrow> datetime option) \<Rightarrow> datetime \<Rightarrow> DownloadQueueItem \<Rightarrow> DownloadClientSnapshot \<Rightarrow>
   DownloadClientSnapshot" where
  "queue_step ch parse_date now i s =
     (if qi_state i \<in> {DQ_Queued, DQ_Downloading, DQ_Paused, DQ_Verifying, DQ_Repairing, DQ_Extracting,
                       DQ_ImportPending, DQ_Warning} then
        (let s' = note_active_item i s
         in if item_is_stale ch parse_date now i then note_stale_item i s' else s')
      else if qi_state i = DQ_Completed then note_completed_item i s
      else s)"

definition failed_snapshot :: "DownloadQueueItem \<Rightarrow> FailedDownloadSnapshot" where
  "failed_snapshot i =
     \<lparr>fd_reason = to_ascii_uppercase (case qi_attention_reason i of Some r \<Rightarrow> r | None \<Rightarrow> ''unknown''),
      fd_item_id = qi_item_id i, fd_client_id = qi_client_id i,
      fd_client_name = normalized_non_empty_owned (Some (qi_client_name i))\<rparr>"

definition history_step :: "DownloadQueueItem \<Rightarrow> DownloadClientSnapshot \<Rightarrow> DownloadClientSnapshot" where
  "history_step i s =
     (if qi_state i = DQ_Completed then note_completed_item i s
      else if history_item_is_live_claim (qi_state i) then note_active_item i s
      else if qi_state i = DQ_Failed then
        s\<lparr>failed_by_download_id := (failed_by_download_id s)(item_identity i \<mapsto> failed_snapshot i)\<rparr>
      else s)"

text \<open>The error of a listing that failed is only logged.\<close>

definition read_queue ::
  "chrono \<Rightarrow> (string \<Rightarrow> datetime option) \<Rightarrow> datetime \<Rightarrow> 'e + DownloadClientListing \<Rightarrow> DownloadClientSnapshot \<Rightarrow>
   DownloadClientSnapshot" where
  "read_queue ch parse_date now listing s =
     (case listing of
        Inl _ \<Rightarrow> s\<lparr>queue_listing_failed := True\<rparr>
      | Inr l \<Rightarrow>
          (let s' = note_unreadable_clients l s;
               s'' = (if listing_blind l then s'\<lparr>queue_listing_failed := True\<rparr> else s')
           in fold (queue_step ch parse_date now) (li_items l) s''))"

definition read_history :: "'e + DownloadClientListing \<Rightarrow> DownloadClientSnapshot \<Rightarrow> DownloadClientSnapshot" where
  "read_history listing s =
     (case listing of
        Inl _ \<Rightarrow> s\<lparr>history_listing_failed := True\<rparr>
      | Inr l \<Rightarrow>
          (let s' = note_unreadable_clients l s;
               s'' = (if listing_blind l then s'\<lparr>history_listing_failed := True\<rparr> else s')
           in fold history_step (li_items l) s''))"

definition build_snapshot ::
  "chrono \<Rightarrow> (string \<Rightarrow> datetime option) \<Rightarrow> datetime \<Rightarrow> 'e + DownloadClientListing \<Rightarrow> 'e + DownloadClientListing \<Rightarrow>
   DownloadClientSnapshot" where
  "build_snapshot ch parse_date now queue history =
     read_history history (read_queue ch parse_date now queue empty_snapshot)"

section \<open>Questions\<close>

definition client_unreadable :: "DownloadClientSnapshot \<Rightarrow> string option \<Rightarrow> bool" where
  "client_unreadable s client_id \<longleftrightarrow>
     queue_listing_failed s \<or> history_listing_failed s \<or>
     (case normalized_non_empty_owned client_id of
        Some c \<Rightarrow> c \<in> unreadable_client_ids s
      | None \<Rightarrow> unreadable_client_ids s \<noteq> {})"

definition snapshot_is_active :: "DownloadClientSnapshot \<Rightarrow> string \<Rightarrow> bool" where
  "snapshot_is_active s release_title \<longleftrightarrow>
     queue_listing_failed s \<or> to_ascii_lowercase release_title \<in> active_titles s"

definition failed_item :: "DownloadClientSnapshot \<Rightarrow> string option \<Rightarrow> string \<Rightarrow> FailedDownloadSnapshot option" where
  "failed_item s client_id item_id =
     (if history_listing_failed s then None
      else or_else (failed_by_download_id s (download_client_item_identity client_id item_id))
                   (failed_by_download_id s item_id))"

definition has_active_client_item :: "DownloadClientSnapshot \<Rightarrow> string option \<Rightarrow> string \<Rightarrow> bool" where
  "has_active_client_item s client_id item_id \<longleftrightarrow>
     queue_listing_failed s \<or>
     download_client_item_identity client_id item_id \<in> active_client_ids s \<or>
     active_raw_item_id_counts s item_id = Some 1"

definition active_downloading_is_stale :: "DownloadClientSnapshot \<Rightarrow> string option \<Rightarrow> string \<Rightarrow> bool" where
  "active_downloading_is_stale s client_id item_id \<longleftrightarrow>
     \<not> client_unreadable s client_id \<and>
     (download_client_item_identity client_id item_id \<in> stale_downloading_client_ids s \<or>
      active_raw_item_id_counts s item_id = Some 1 \<and> item_id \<in> stale_downloading_raw_item_ids s)"

definition has_completed_client_item :: "DownloadClientSnapshot \<Rightarrow> string option \<Rightarrow> string \<Rightarrow> bool" where
  "has_completed_client_item s client_id item_id \<longleftrightarrow>
     download_client_item_identity client_id item_id \<in> completed_client_ids s \<or>
     completed_raw_item_id_counts s item_id = Some 1"

section \<open>Claims\<close>

definition submission_is_active :: "DownloadSubmission \<Rightarrow> DownloadClientSnapshot \<Rightarrow> bool" where
  "submission_is_active sub s = has_active_client_item s (sub_client_id sub) (sub_item_id sub)"

fun submission_is_queued :: "TrackedDownloadState option \<Rightarrow> bool \<Rightarrow> bool" where
  "submission_is_queued (Some st) snapshot_active =
     (st \<in> {TD_Downloading, TD_ImportPending, TD_Importing, TD_ImportBlocked})"
| "submission_is_queued None snapshot_active = snapshot_active"

definition submission_is_completed :: "DownloadSubmission \<Rightarrow> DownloadClientSnapshot \<Rightarrow> bool" where
  "submission_is_completed sub s = has_completed_client_item s (sub_client_id sub) (sub_item_id sub)"

definition submission_is_live_claim ::
  "DownloadSubmission \<Rightarrow> TrackedDownloadState option \<Rightarrow> DownloadClientSnapshot \<Rightarrow> bool" where
  "submission_is_live_claim sub tracked s =
     submission_is_queued tracked
       (submission_is_active sub s \<or> submission_is_completed sub s \<or>
        client_unreadable s (sub_client_id sub) \<or> tracked = None)"

text \<open>From \<open>acquisition/coverage.rs\<close>: the eligible episodes some live submission already covers.\<close>

definition in_flight_series_pack_episode_ids ::
  "chrono \<Rightarrow> datetime \<Rightarrow> Episode list \<Rightarrow> DownloadSubmission list \<Rightarrow> (ClientJobLocator \<rightharpoonup> TrackedDownloadState) \<Rightarrow>
   DownloadClientSnapshot \<Rightarrow> string set option" where
  "in_flight_series_pack_episode_ids ch now episodes submissions tracked snapshot =
     map_option
       (\<lambda>es. ep_id ` set (filter (\<lambda>e. list_ex (\<lambda>sub.
            submission_is_live_claim sub (tracked (locator_from_submission sub)) snapshot \<and>
            submission_scope_intersects (sub_scope sub) (episode_membership e)) submissions) es))
       (filter_panicking (\<lambda>e. is_eligible_series_pack_episode ch e now) episodes)"

section \<open>What a built snapshot holds\<close>

abbreviation live_item :: "DownloadQueueItem \<Rightarrow> bool" where
  "live_item i \<equiv> history_item_is_live_claim (qi_state i)"

definition tally :: "(string \<rightharpoonup> nat) \<Rightarrow> string \<Rightarrow> nat" where
  "tally m k = (case m k of Some n \<Rightarrow> n | None \<Rightarrow> 0)"

lemma tally_empty [simp]: "tally Map.empty r = 0"
  by (simp add: tally_def)

lemma tally_bump: "tally (bump k m) r = tally m r + (if r = k then 1 else 0)"
  by (simp add: tally_def bump_def)

lemma queue_step_alt:
  "queue_step ch pd now i s =
     (if live_item i then
        (if item_is_stale ch pd now i then note_stale_item i (note_active_item i s) else note_active_item i s)
      else if qi_state i = DQ_Completed then note_completed_item i s else s)"
  by (simp add: queue_step_def history_item_is_live_claim_def Let_def)

lemma item_is_stale_live: "item_is_stale ch pd now i \<Longrightarrow> live_item i"
  by (simp add: item_is_stale_def history_item_is_live_claim_def)

lemma not_live [simp]: "\<not> history_item_is_live_claim DQ_Completed" "\<not> history_item_is_live_claim DQ_Failed"
  by (simp_all add: history_item_is_live_claim_def)

lemmas note_defs = note_active_item_def note_stale_item_def note_completed_item_def

lemma fold_queue:
  shows "active_titles (fold (queue_step ch pd now) xs s) = active_titles s \<union> (to_ascii_lowercase \<circ> qi_title_name) ` set (filter live_item xs)"
    and "active_client_ids (fold (queue_step ch pd now) xs s) = active_client_ids s \<union> item_identity ` set (filter live_item xs)"
    and "tally (active_raw_item_id_counts (fold (queue_step ch pd now) xs s)) r =
      tally (active_raw_item_id_counts s) r + length (filter (\<lambda>i. live_item i \<and> qi_item_id i = r) xs)"
    and "stale_downloading_client_ids (fold (queue_step ch pd now) xs s) =
      stale_downloading_client_ids s \<union> item_identity ` set (filter (item_is_stale ch pd now) xs)"
    and "completed_client_ids (fold (queue_step ch pd now) xs s) =
      completed_client_ids s \<union> item_identity ` set (filter (\<lambda>i. qi_state i = DQ_Completed) xs)"
    and "failed_by_download_id (fold (queue_step ch pd now) xs s) = failed_by_download_id s"
    and "queue_listing_failed (fold (queue_step ch pd now) xs s) = queue_listing_failed s"
    and "history_listing_failed (fold (queue_step ch pd now) xs s) = history_listing_failed s"
    and "unreadable_client_ids (fold (queue_step ch pd now) xs s) = unreadable_client_ids s"
  by (induction xs arbitrary: s)
     (auto simp: queue_step_alt note_defs tally_bump dest: item_is_stale_live)

lemma fold_history:
  shows "active_titles (fold history_step xs s) = active_titles s \<union> (to_ascii_lowercase \<circ> qi_title_name) ` set (filter live_item xs)"
    and "active_client_ids (fold history_step xs s) = active_client_ids s \<union> item_identity ` set (filter live_item xs)"
    and "tally (active_raw_item_id_counts (fold history_step xs s)) r =
      tally (active_raw_item_id_counts s) r + length (filter (\<lambda>i. live_item i \<and> qi_item_id i = r) xs)"
    and "stale_downloading_client_ids (fold history_step xs s) = stale_downloading_client_ids s"
    and "stale_downloading_raw_item_ids (fold history_step xs s) = stale_downloading_raw_item_ids s"
    and "completed_client_ids (fold history_step xs s) =
      completed_client_ids s \<union> item_identity ` set (filter (\<lambda>i. qi_state i = DQ_Completed) xs)"
    and "queue_listing_failed (fold history_step xs s) = queue_listing_failed s"
    and "history_listing_failed (fold history_step xs s) = history_listing_failed s"
    and "unreadable_client_ids (fold history_step xs s) = unreadable_client_ids s"
  by (induction xs arbitrary: s)
     (auto simp: history_step_def note_defs tally_bump)

lemma fold_history_failed:
  "failed_by_download_id (fold history_step xs s) k =
     (case find (\<lambda>i. qi_state i = DQ_Failed \<and> item_identity i = k) (rev xs) of
        Some i \<Rightarrow> Some (failed_snapshot i)
      | None \<Rightarrow> failed_by_download_id s k)"
proof (induction xs rule: rev_induct)
  case (snoc x xs)
  then show ?case
    by (auto simp: history_step_def note_defs history_item_is_live_claim_def)
qed simp

text \<open>A raw id is counted once per listed live item, so no entry is ever zero.\<close>

lemma fold_counts_positive:
  "active_raw_item_id_counts s r \<noteq> Some 0 \<Longrightarrow>
   active_raw_item_id_counts (fold (queue_step ch pd now) xs s) r \<noteq> Some 0"
  "active_raw_item_id_counts s r \<noteq> Some 0 \<Longrightarrow> active_raw_item_id_counts (fold history_step xs s) r \<noteq> Some 0"
  by (induction xs arbitrary: s) (simp_all add: queue_step_alt history_step_def note_defs bump_def)

lemma tally_one: "m r \<noteq> Some 0 \<Longrightarrow> m r = Some 1 \<longleftrightarrow> tally m r = 1"
  by (cases "m r") (auto simp: tally_def)

definition listed :: "'e + DownloadClientListing \<Rightarrow> DownloadQueueItem list" where
  "listed l = (case l of Inl _ \<Rightarrow> [] | Inr x \<Rightarrow> li_items x)"

definition listing_unobservable :: "'e + DownloadClientListing \<Rightarrow> bool" where
  "listing_unobservable l = (case l of Inl _ \<Rightarrow> True | Inr x \<Rightarrow> listing_blind x)"

lemma in_image_filter: "y \<in> f ` set (filter P xs) \<longleftrightarrow> list_ex (\<lambda>i. P i \<and> f i = y) xs"
  by (auto simp: list_ex_iff)

lemma build_sets:
  shows "active_titles (build_snapshot ch pd now queue history) =
       (to_ascii_lowercase \<circ> qi_title_name) ` set (filter live_item (listed queue @ listed history))"
    and "active_client_ids (build_snapshot ch pd now queue history) =
       item_identity ` set (filter live_item (listed queue @ listed history))"
    and "completed_client_ids (build_snapshot ch pd now queue history) =
       item_identity ` set (filter (\<lambda>i. qi_state i = DQ_Completed) (listed queue @ listed history))"
    and "stale_downloading_client_ids (build_snapshot ch pd now queue history) =
       item_identity ` set (filter (item_is_stale ch pd now) (listed queue))"
    and "queue_listing_failed (build_snapshot ch pd now queue history) =
       listing_unobservable queue"
    and "history_listing_failed (build_snapshot ch pd now queue history) =
       listing_unobservable history"
  by (cases queue; cases history;
      auto simp: build_snapshot_def read_queue_def read_history_def Let_def fold_queue fold_history
        listed_def listing_unobservable_def note_unreadable_clients_def empty_snapshot_def)+

lemma build_counts:
  "active_raw_item_id_counts (build_snapshot ch pd now queue history) r = Some 1 \<longleftrightarrow>
   length (filter (\<lambda>i. live_item i \<and> qi_item_id i = r) (listed queue @ listed history)) = 1"
proof -
  let ?s = "build_snapshot ch pd now queue history"
  have "active_raw_item_id_counts ?s r \<noteq> Some 0"
    by (cases queue; cases history)
       (simp_all add: build_snapshot_def read_queue_def read_history_def Let_def fold_counts_positive
        note_unreadable_clients_def empty_snapshot_def)
  moreover have "tally (active_raw_item_id_counts ?s) r =
      length (filter (\<lambda>i. live_item i \<and> qi_item_id i = r) (listed queue @ listed history))"
    by (cases queue; cases history)
       (simp_all add: build_snapshot_def read_queue_def read_history_def Let_def fold_queue fold_history
        listed_def note_unreadable_clients_def empty_snapshot_def)
  ultimately show ?thesis using tally_one [of "active_raw_item_id_counts ?s" r] by simp
qed

text \<open>
  The snapshot answers for exactly the items the clients listed. A job is active when the queue
  could not be read, or a listed item in a live state has its identity, or exactly one listed live
  item has its bare id; it is completed when a listed item of its identity is, and a title is
  active when the queue could not be read or a live item carries it in whatever case. Every
  listed item that has not failed is one of the two, so work in progress never looks gone.
\<close>

theorem snapshot_answers_for_listed_items:
  "let s = build_snapshot ch pd now queue history; items = listed queue @ listed history
   in has_active_client_item s client item =
        (listing_unobservable queue \<or>
         list_ex (\<lambda>i. live_item i \<and> item_identity i = download_client_item_identity client item) items \<or>
         length (filter (\<lambda>i. live_item i \<and> qi_item_id i = item) items) = 1) \<and>
      snapshot_is_active s title =
        (listing_unobservable queue \<or>
         list_ex (\<lambda>i. live_item i \<and> to_ascii_lowercase (qi_title_name i) = to_ascii_lowercase title) items) \<and>
      list_all (\<lambda>i. qi_state i = DQ_Failed \<or>
                    has_active_client_item s (Some (qi_client_id i)) (qi_item_id i) \<or>
                    has_completed_client_item s (Some (qi_client_id i)) (qi_item_id i)) items"
proof -
  have covered: "live_item i \<or> qi_state i = DQ_Completed \<or> qi_state i = DQ_Failed" for i
    by (cases "qi_state i") (simp_all add: history_item_is_live_claim_def)
  have each: "list_ex (\<lambda>j. live_item j \<and> item_identity j = item_identity i) xs \<or>
      list_ex (\<lambda>j. qi_state j = DQ_Completed \<and> item_identity j = item_identity i) xs"
    if "i \<in> set xs" "qi_state i \<noteq> DQ_Failed" for i xs
    using that covered [of i] unfolding list_ex_iff by blast
  show ?thesis
    unfolding Let_def has_active_client_item_def snapshot_is_active_def has_completed_client_item_def
      build_sets build_counts in_image_filter o_apply list_all_iff item_identity_def [symmetric]
    using each by blast
qed

text \<open>
  C40. A cycle that could not see the clients frees nothing: with an unobservable queue every title
  and every job reads as active and no claim as stale, and with an unobservable history no failure
  is reported; and a claim that is called stale is, in every snapshot, one that is still active.
\<close>

theorem blind_cycle_frees_nothing:
  "let s = build_snapshot ch pd now queue history
   in (if listing_unobservable queue
       then snapshot_is_active s title \<and> has_active_client_item s client item \<and> client_unreadable s client
       else queue_listing_failed s = False) \<and>
      (if listing_unobservable history then failed_item s client item = None \<and> client_unreadable s client
       else history_listing_failed s = False) \<and>
      (if active_downloading_is_stale s client item
       then has_active_client_item s client item \<and> \<not> client_unreadable s client else True)"
  using item_is_stale_live [of ch pd now]
  by (auto simp: Let_def snapshot_is_active_def has_active_client_item_def client_unreadable_def failed_item_def
      active_downloading_is_stale_def build_sets)

text \<open>
  A failure is reported for a job exactly when the history could be read and lists a failed item
  under the job's identity, or under its bare id; the report is the latest such item's, and nothing
  but the client's own \<open>Failed\<close> state produces one: a warned, paused or unpacking download is never
  handed to failure recovery.
\<close>

theorem failure_needs_a_failed_item:
  "failed_item (build_snapshot ch pd now queue history) client item =
     (if listing_unobservable history then None
      else let latest = (\<lambda>k. map_option failed_snapshot
                 (find (\<lambda>i. qi_state i = DQ_Failed \<and> item_identity i = k) (rev (listed history))))
           in or_else (latest (download_client_item_identity client item)) (latest item))"
proof -
  have "failed_by_download_id (build_snapshot ch pd now queue history) k =
      map_option failed_snapshot (find (\<lambda>i. qi_state i = DQ_Failed \<and> item_identity i = k) (rev (listed history)))" for k
    by (cases queue; cases history)
       (auto simp: build_snapshot_def read_queue_def read_history_def Let_def fold_queue fold_history_failed
        listed_def note_unreadable_clients_def empty_snapshot_def split: option.splits)
  then show ?thesis by (simp add: failed_item_def build_sets Let_def)
qed

text \<open>
  A persisted submission keeps its claim until the ledger says otherwise: without a tracked
  state it is always live, and with one it is live exactly while downloading, awaiting import,
  importing or blocked. The snapshot never changes the answer.
\<close>

theorem claims_end_only_in_the_ledger:
  "submission_is_live_claim sub tracked s =
     (case tracked of
        None \<Rightarrow> True
      | Some st \<Rightarrow> \<not> is_import_settled st \<and> st \<noteq> TD_Missing \<and> st \<noteq> TD_FailedPending)"
  by (cases tracked; cases "the tracked")
     (simp_all add: submission_is_live_claim_def is_import_settled_def is_terminal_def)

end
