(* ===== verification/Title_Evidence.thy ===== *)
theory Title_Evidence
  imports Release_Model
begin

text \<open>
  Which title a release names, from \<open>acquisition/release_search.rs\<close>: the lookup keys of a title and
  when a normalised name equals one, the decomposition of a stacked-alias name into several keys,
  the year veto on a match, the comparison of external ids and the disambiguator an ambiguous title
  demands. The two parser-driven passes that propose a match and the spelling index that looks for a
  competing title read the tokens of the release parser and are parameters; so is the part of the
  evidence only they read, the type parameter \<open>'x\<close>.
\<close>

section \<open>Words\<close>

text \<open>\<open>str::split_whitespace\<close>.\<close>

fun word :: "string \<Rightarrow> string" where
  "word [] = []"
| "word (c # cs) = (if leading ws_encodings (c # cs) = None then c # word cs else [])"

lemma word_take: "word s = take (length (word s)) s"
  by (induction s) simp_all

lemma word_Nil: "word s = [] \<Longrightarrow> s \<noteq> [] \<Longrightarrow> leading ws_encodings s \<noteq> None"
  by (cases s) (auto split: if_splits)

function split_whitespace :: "string \<Rightarrow> string list" where
  "split_whitespace s =
     (let t = trim_start s
      in if t = [] then [] else word t # split_whitespace (drop (length (word t)) t))"
  by auto

termination split_whitespace
proof (relation "measure length")
  fix s t :: string
  assume t: "t = trim_start s" "t \<noteq> []"
  obtain p where "s = p @ trim_start s"
    using strip_leading_suffix unfolding trim_start_def by blast
  then have "length t \<le> length s" using t(1) by (metis length_append le_add2)
  moreover have "word t \<noteq> []"
    using word_Nil [of t] t leading_strip_leading [of ws_encodings s] unfolding trim_start_def by metis
  then have "length (drop (length (word t)) t) < length t" using t(2) by simp
  ultimately show "(drop (length (word t)) t, s) \<in> measure length" by simp
qed simp

declare split_whitespace.simps [simp del]

text \<open>\<open>tokens.join(" ")\<close>.\<close>

abbreviation join_words :: "string list \<Rightarrow> string" where
  "join_words \<equiv> join '' ''"

section \<open>The evidence about a title\<close>

record 'x CanonicalTitleEvidence =
  identity_tvdb_id :: "string option"
  identity_tmdb_id :: "string option"
  identity_imdb_id :: "string option"
  lookup_keys :: "string list"
  canonical_key :: string
  ev_year :: "int option"
  episode_release_years :: "int set"
  alias_release_years :: "string \<rightharpoonup> int"
  shared_lookup_keys :: "string list"
  ev_rest :: 'x

record TitleEvidenceMatch =
  matched_key :: string
  year_corroborated :: bool
  id_corroborated :: bool
  requires_external_id :: bool

record CandidateTitleMatch =
  evidence_match :: "TitleEvidenceMatch option"

definition requires_disambiguator :: "'x CanonicalTitleEvidence \<Rightarrow> bool" where
  "requires_disambiguator ev \<longleftrightarrow> shared_lookup_keys ev \<noteq> []"

definition key_is_unique_to_title :: "'x CanonicalTitleEvidence \<Rightarrow> string \<Rightarrow> bool" where
  "key_is_unique_to_title ev key \<longleftrightarrow> \<not> list_ex (\<lambda>shared. shared = key) (shared_lookup_keys ev)"

text \<open>\<open>TitleIdentityAmbiguity::merge\<close>, through \<open>with_ambiguity\<close>.\<close>

definition with_ambiguity :: "'x CanonicalTitleEvidence \<Rightarrow> string list \<Rightarrow> 'x CanonicalTitleEvidence" where
  "with_ambiguity ev keys = ev\<lparr>shared_lookup_keys := push_all_unique (shared_lookup_keys ev) keys\<rparr>"

definition year_elided :: "int \<Rightarrow> string \<Rightarrow> string \<Rightarrow> bool" where
  "year_elided year key normalized \<longleftrightarrow> key = normalized @ '' '' @ show_int year"

definition evidence_key_for_normalized :: "'x CanonicalTitleEvidence \<Rightarrow> string \<Rightarrow> string option" where
  "evidence_key_for_normalized ev normalized =
     find (\<lambda>key. key = normalized \<or>
                 (case ev_year ev of Some y \<Rightarrow> year_elided y key normalized | None \<Rightarrow> False))
       (lookup_keys ev)"

section \<open>Stacked aliases\<close>

definition MAX_STACKED_SEGMENTS :: nat where
  "MAX_STACKED_SEGMENTS = 3"

text \<open>The nested function \<open>covers\<close>: the tokens from \<open>start\<close> on, and the keys used so far. The loop
  tries every end of the next segment and backtracks.\<close>

function covers :: "(string \<Rightarrow> string option) \<Rightarrow> string list \<Rightarrow> string list \<Rightarrow> bool" where
  "covers key_for tokens used =
     (if tokens = [] then 2 \<le> length used
      else if MAX_STACKED_SEGMENTS \<le> length used then False
      else list_ex (\<lambda>n. case key_for (join_words (take n tokens)) of
                          None \<Rightarrow> False
                        | Some key \<Rightarrow> key \<notin> set used \<and> covers key_for (drop n tokens) (used @ [key]))
             [1..<Suc (length tokens)])"
  by auto

termination covers
  by (relation "measure (\<lambda>(_, tokens, _). length tokens)") auto

declare covers.simps [simp del]

definition extraction_decomposes_into_evidence_keys :: "'x CanonicalTitleEvidence \<Rightarrow> string \<Rightarrow> bool" where
  "extraction_decomposes_into_evidence_keys ev extracted =
     (let tokens = split_whitespace extracted
      in tokens \<noteq> [] \<and> covers (evidence_key_for_normalized ev) tokens [])"

text \<open>A partition of the tokens into segments, with the key each segment names.\<close>

definition stacks :: "(string \<Rightarrow> string option) \<Rightarrow> string list \<Rightarrow> string list list \<Rightarrow> string list \<Rightarrow> bool" where
  "stacks key_for tokens segments keys \<longleftrightarrow>
     concat segments = tokens \<and> [] \<notin> set segments \<and>
     map (\<lambda>seg. key_for (join_words seg)) segments = map Some keys"

lemma stacks_Nil: "stacks key_for [] segments keys \<longleftrightarrow> segments = [] \<and> keys = []"
  by (cases segments; cases keys) (auto simp: stacks_def)

lemma stacks_Cons:
  assumes "tokens \<noteq> []"
  shows "stacks key_for tokens segments keys \<longleftrightarrow>
    (\<exists>n key segs ks. n \<in> set [1..<Suc (length tokens)] \<and> key_for (join_words (take n tokens)) = Some key \<and>
       segments = take n tokens # segs \<and> keys = key # ks \<and> stacks key_for (drop n tokens) segs ks)"
proof
  assume s: "stacks key_for tokens segments keys"
  with assms obtain seg segs where segs: "segments = seg # segs" by (cases segments) (auto simp: stacks_def)
  with s obtain key ks where keys: "keys = key # ks" by (cases keys) (auto simp: stacks_def)
  let ?n = "length seg"
  have "take ?n tokens = seg" "drop ?n tokens = concat segs" "?n \<noteq> 0" "?n \<le> length tokens"
    using s segs by (auto simp: stacks_def)
  with s segs keys show "\<exists>n key segs ks. n \<in> set [1..<Suc (length tokens)] \<and>
      key_for (join_words (take n tokens)) = Some key \<and>
      segments = take n tokens # segs \<and> keys = key # ks \<and> stacks key_for (drop n tokens) segs ks"
    by (intro exI [of _ ?n]) (auto simp: stacks_def Suc_le_eq)
qed (auto simp: stacks_def)

lemma case_option_iff: "(case x of None \<Rightarrow> False | Some y \<Rightarrow> P y) \<longleftrightarrow> (\<exists>y. x = Some y \<and> P y)"
  by (simp split: option.split)

lemma covers_iff:
  "covers key_for tokens used \<longleftrightarrow>
   (\<exists>segments keys. stacks key_for tokens segments keys \<and> distinct keys \<and> set keys \<inter> set used = {} \<and>
      2 \<le> length used + length keys \<and> (keys \<noteq> [] \<longrightarrow> length used + length keys \<le> MAX_STACKED_SEGMENTS))"
proof (induction key_for tokens used rule: covers.induct)
  case (1 key_for tokens used)
  show ?case
  proof (cases "tokens = []")
    case True
    then show ?thesis by (simp add: covers.simps [of key_for "[]"] stacks_Nil)
  next
    case False
    show ?thesis
    proof (cases "MAX_STACKED_SEGMENTS \<le> length used")
      case True
      with False have "\<not> covers key_for tokens used" by (simp add: covers.simps [of key_for tokens])
      moreover have "keys \<noteq> [] \<and> \<not> length used + length keys \<le> MAX_STACKED_SEGMENTS"
        if "stacks key_for tokens segments keys" for segments keys
        using that True False stacks_Cons [OF False] by (cases keys) auto
      ultimately show ?thesis by blast
    next
      case few: False
      have "covers key_for tokens used \<longleftrightarrow>
          (\<exists>n \<in> set [1..<Suc (length tokens)]. \<exists>key. key_for (join_words (take n tokens)) = Some key \<and>
             key \<notin> set used \<and> covers key_for (drop n tokens) (used @ [key]))"
        using False few by (simp only: covers.simps [of key_for tokens] if_False list_ex_iff case_option_iff)
      also have "\<dots> \<longleftrightarrow> (\<exists>n \<in> set [1..<Suc (length tokens)]. \<exists>key. key_for (join_words (take n tokens)) = Some key \<and>
             key \<notin> set used \<and> (\<exists>segs ks. stacks key_for (drop n tokens) segs ks \<and> distinct ks \<and>
               set ks \<inter> set (used @ [key]) = {} \<and> 2 \<le> length (used @ [key]) + length ks \<and>
               (ks \<noteq> [] \<longrightarrow> length (used @ [key]) + length ks \<le> MAX_STACKED_SEGMENTS)))"
        using 1 [OF False few] by blast
      also have "\<dots> \<longleftrightarrow> (\<exists>segments keys. stacks key_for tokens segments keys \<and> distinct keys \<and>
          set keys \<inter> set used = {} \<and> 2 \<le> length used + length keys \<and>
          (keys \<noteq> [] \<longrightarrow> length used + length keys \<le> MAX_STACKED_SEGMENTS))"
        (is "?L \<longleftrightarrow> ?R")
      proof
        assume ?L
        then obtain n key segs ks where *: "n \<in> set [1..<Suc (length tokens)]"
          "key_for (join_words (take n tokens)) = Some key" "key \<notin> set used"
          "stacks key_for (drop n tokens) segs ks" "distinct ks" "set ks \<inter> set (used @ [key]) = {}"
          "2 \<le> length (used @ [key]) + length ks"
          "ks \<noteq> [] \<longrightarrow> length (used @ [key]) + length ks \<le> MAX_STACKED_SEGMENTS" by blast
        then have "stacks key_for tokens (take n tokens # segs) (key # ks)"
          unfolding stacks_Cons [OF False] by blast
        moreover have "length used + length (key # ks) \<le> MAX_STACKED_SEGMENTS"
          using * few by (cases ks) auto
        moreover have "distinct (key # ks)" "set (key # ks) \<inter> set used = {}" using * by auto
        ultimately show ?R using *(7) by (intro exI [of _ "take n tokens # segs"] exI [of _ "key # ks"]) simp
      next
        assume ?R
        then obtain segments keys where k: "stacks key_for tokens segments keys" "distinct keys"
          "set keys \<inter> set used = {}" "2 \<le> length used + length keys"
          "keys \<noteq> [] \<longrightarrow> length used + length keys \<le> MAX_STACKED_SEGMENTS" by blast
        from k(1) obtain n key segs ks where *: "n \<in> set [1..<Suc (length tokens)]"
          "key_for (join_words (take n tokens)) = Some key" "keys = key # ks"
          "stacks key_for (drop n tokens) segs ks" unfolding stacks_Cons [OF False] by blast
        have "key \<notin> set used" "distinct ks" "set ks \<inter> set (used @ [key]) = {}"
          "2 \<le> length (used @ [key]) + length ks"
          "ks \<noteq> [] \<longrightarrow> length (used @ [key]) + length ks \<le> MAX_STACKED_SEGMENTS"
          using k *(3) by auto
        with * show ?L by blast
      qed
      finally show ?thesis .
    qed
  qed
qed

text \<open>
  A stacked-alias name anchors a title exactly when its words split, completely and in order,
  into two or three segments that name distinct keys of that title: the backtracking search finds
  such a split whenever there is one, and never accepts a name with a word left over, a key used
  twice, or a single key.
\<close>

theorem stacked_alias_iff:
  "extraction_decomposes_into_evidence_keys ev extracted \<longleftrightarrow>
   (\<exists>segments keys. stacks (evidence_key_for_normalized ev) (split_whitespace extracted) segments keys \<and>
      distinct keys \<and> 2 \<le> length keys \<and> length keys \<le> 3)"
proof (cases "split_whitespace extracted = []")
  case True
  then have "\<not> (stacks key_for (split_whitespace extracted) segments keys \<and> 2 \<le> length keys)"
    for key_for segments keys by (simp add: stacks_Nil)
  with True show ?thesis unfolding extraction_decomposes_into_evidence_keys_def Let_def by blast
next
  case False
  have "2 \<le> length keys \<and> (keys \<noteq> [] \<longrightarrow> length keys \<le> 3) \<longleftrightarrow> 2 \<le> length keys \<and> length keys \<le> 3"
    for keys :: "string list" by auto
  with False show ?thesis
    unfolding extraction_decomposes_into_evidence_keys_def Let_def covers_iff MAX_STACKED_SEGMENTS_def by simp
qed

section \<open>External ids\<close>

record IndexerResponseAttributes =
  resp_tvdb_id :: "string option"
  resp_tmdb_id :: "string option"
  resp_imdb_id :: "string option"
  resp_categories :: "string list"

record ExternalIdConflict =
  conflict_kind :: string
  conflict_expected :: string
  conflict_actual :: string

record ExternalIdComparison =
  ids_compared :: bool
  ids_matched :: bool
  id_conflicts :: "ExternalIdConflict list"

definition non_empty_trimmed :: "string option \<Rightarrow> string option" where
  "non_empty_trimmed v = (case v of Some s \<Rightarrow> if trim s = [] then None else Some (trim s) | None \<Rightarrow> None)"

definition both :: "'a option \<Rightarrow> 'b option \<Rightarrow> ('a \<times> 'b) option" where
  "both a b = Option.bind a (\<lambda>x. map_option (Pair x) b)"

definition numeric_external_id_values :: "string option \<Rightarrow> string option \<Rightarrow> (string \<times> string) option" where
  "numeric_external_id_values response subject = both (non_empty_trimmed response) (non_empty_trimmed subject)"

text \<open>The loop of \<open>normalize_imdb_id\<close> over \<open>match_indices("tt")\<close>.\<close>

function tt_digits :: "string \<Rightarrow> string option" where
  "tt_digits s =
     (case split_once_str ''tt'' s of
        None \<Rightarrow> None
      | Some (_, rest) \<Rightarrow>
          (let digits = takeWhile is_digit rest in if digits \<noteq> [] then Some digits else tt_digits rest))"
  by auto

termination tt_digits
proof (relation "measure length")
  fix s p a b and digits :: string
  assume "split_once_str ''tt'' s = Some p" "(a, b) = p"
  then have "s = a @ ''tt'' @ b" using split_once_str_Some by blast
  then show "(b, s) \<in> measure length" by simp
qed simp

declare tt_digits.simps [simp del]

definition normalize_imdb_id :: "string \<Rightarrow> string option" where
  "normalize_imdb_id raw =
     (let v = trim raw
      in if v = [] then None
         else case tt_digits (to_ascii_lowercase v) of
           Some digits \<Rightarrow> Some (''tt'' @ digits)
         | None \<Rightarrow> if list_all is_digit v then Some (''tt'' @ v) else None)"

definition imdb_external_id_values :: "string option \<Rightarrow> string option \<Rightarrow> (string \<times> string) option" where
  "imdb_external_id_values response subject =
     both (Option.bind response normalize_imdb_id) (Option.bind subject normalize_imdb_id)"

definition compare_kind ::
  "string \<times> (string \<times> string) option \<Rightarrow> ExternalIdComparison \<Rightarrow> ExternalIdComparison" where
  "compare_kind kv c =
     (case kv of
        (kind, None) \<Rightarrow> c
      | (kind, Some (actual, expected)) \<Rightarrow>
          (let c' = c\<lparr>ids_compared := True\<rparr>
           in if actual = expected then c'\<lparr>ids_matched := True\<rparr>
              else c'\<lparr>id_conflicts := id_conflicts c' @
                        [\<lparr>conflict_kind = kind, conflict_expected = expected, conflict_actual = actual\<rparr>]\<rparr>))"

definition comparable_ids ::
  "IndexerResponseAttributes \<Rightarrow> string option \<Rightarrow> string option \<Rightarrow> string option \<Rightarrow>
   (string \<times> (string \<times> string) option) list" where
  "comparable_ids response tvdb tmdb imdb =
     [(''tvdb'', numeric_external_id_values (resp_tvdb_id response) tvdb),
      (''tmdb'', numeric_external_id_values (resp_tmdb_id response) tmdb),
      (''imdb'', imdb_external_id_values (resp_imdb_id response) imdb)]"

definition external_id_comparison ::
  "IndexerResponseAttributes \<Rightarrow> string option \<Rightarrow> string option \<Rightarrow> string option \<Rightarrow> ExternalIdComparison" where
  "external_id_comparison response tvdb tmdb imdb =
     fold compare_kind (comparable_ids response tvdb tmdb imdb)
       \<lparr>ids_compared = False, ids_matched = False, id_conflicts = []\<rparr>"

definition agreement :: "ExternalIdComparison \<Rightarrow> bool option" where
  "agreement c = (if ids_matched c then Some True else if ids_compared c then Some False else None)"

definition external_id_agreement ::
  "IndexerResponseAttributes \<Rightarrow> string option \<Rightarrow> string option \<Rightarrow> string option \<Rightarrow> bool option" where
  "external_id_agreement response tvdb tmdb imdb = agreement (external_id_comparison response tvdb tmdb imdb)"

definition strict_external_id_agreement ::
  "IndexerResponseAttributes \<Rightarrow> string option \<Rightarrow> string option \<Rightarrow> string option \<Rightarrow> bool option" where
  "strict_external_id_agreement response tvdb tmdb imdb =
     (let c = external_id_comparison response tvdb tmdb imdb
      in if id_conflicts c = [] then agreement c else Some False)"

text \<open>The id pairs both sides carry, as (asserted, held).\<close>

definition id_pairs ::
  "IndexerResponseAttributes \<Rightarrow> string option \<Rightarrow> string option \<Rightarrow> string option \<Rightarrow> (string \<times> string) list" where
  "id_pairs response tvdb tmdb imdb = List.map_filter snd (comparable_ids response tvdb tmdb imdb)"

lemma fold_compare_kind:
  "ids_compared (fold compare_kind kvs c) = (ids_compared c \<or> List.map_filter snd kvs \<noteq> [])"
  "ids_matched (fold compare_kind kvs c) = (ids_matched c \<or> list_ex (\<lambda>(a, e). a = e) (List.map_filter snd kvs))"
  "id_conflicts (fold compare_kind kvs c) = [] \<longleftrightarrow>
     id_conflicts c = [] \<and> list_all (\<lambda>(a, e). a = e) (List.map_filter snd kvs)"
  by (induction kvs arbitrary: c)
     (auto simp: compare_kind_def map_filter_simps Let_def split: option.splits prod.splits)

text \<open>
  Ids speak only where both sides carry them. The lenient reading is agreement as soon as one
  pair agrees and disagreement only when pairs exist and none does; the strict reading is agreement
  exactly when pairs exist and all agree. So strict agreement is always agreement, and an indexer
  that asserts nothing comparable neither confirms nor denies.
\<close>

theorem external_ids_agree_iff:
  "let pairs = id_pairs response tvdb tmdb imdb
   in external_id_agreement response tvdb tmdb imdb =
        (if pairs = [] then None else Some (list_ex (\<lambda>(a, e). a = e) pairs)) \<and>
      strict_external_id_agreement response tvdb tmdb imdb =
        (if pairs = [] then None else Some (list_all (\<lambda>(a, e). a = e) pairs))"
proof -
  have "list_ex (\<lambda>(a, e). a = e) ps" if "list_all (\<lambda>(a, e). a = e) ps" "ps \<noteq> []" for ps :: "(string \<times> string) list"
    using that by (cases ps) auto
  then show ?thesis
    by (auto simp: Let_def external_id_agreement_def strict_external_id_agreement_def agreement_def
        external_id_comparison_def id_pairs_def fold_compare_kind)
qed

section \<open>Matching a release\<close>

text \<open>\<open>rsplit_once(' ')\<close>, and a trailing year that is not the whole name.\<close>

definition rsplit_once :: "char \<Rightarrow> string \<Rightarrow> (string \<times> string) option" where
  "rsplit_once sep s = map_option (\<lambda>(a, b). (rev b, rev a)) (split_once sep (rev s))"

definition strip_trailing_year :: "string \<Rightarrow> string" where
  "strip_trailing_year key =
     (case rsplit_once (CHR '' '') key of
        Some (head, tail) \<Rightarrow>
          if length tail = 4 \<and> list_all is_digit tail \<and> (starts_with tail ''19'' \<or> starts_with tail ''20'') \<and>
             head \<noteq> []
          then head else key
      | None \<Rightarrow> key)"

definition from_year_qualified_canonical_key :: "string \<Rightarrow> int option \<Rightarrow> string list" where
  "from_year_qualified_canonical_key key title_year =
     (case title_year of
        None \<Rightarrow> []
      | Some y \<Rightarrow>
          (let stripped = strip_trailing_year key;
               suffix_matches = (case rsplit_once (CHR '' '') key of
                                   Some (_, suffix) \<Rightarrow> suffix = show_int y | None \<Rightarrow> False)
           in if suffix_matches \<and> stripped \<noteq> key \<and> stripped \<noteq> [] then [key] else []))"

text \<open>
  What the matcher takes from the parser: the two passes that propose a match, the ids parsed from
  the release name compared with the title's, and whether the spelling index knows another title
  that claims the spelling of a match.
\<close>

record 'x match_env =
  contextual_match :: "ParsedReleaseMetadata \<Rightarrow> 'x CanonicalTitleEvidence \<Rightarrow> bool \<Rightarrow> TitleEvidenceMatch option"
  relaxed_match :: "ParsedReleaseMetadata \<Rightarrow> 'x CanonicalTitleEvidence \<Rightarrow> bool option \<Rightarrow> TitleEvidenceMatch option"
  parsed_ids :: "ParsedReleaseMetadata \<Rightarrow> 'x CanonicalTitleEvidence \<Rightarrow> bool option"
  spelling_competitor :: "ParsedReleaseMetadata \<Rightarrow> 'x CanonicalTitleEvidence \<Rightarrow> TitleEvidenceMatch \<Rightarrow> bool"
  parse_for_target :: "string \<Rightarrow> 'x CanonicalTitleEvidence \<Rightarrow> ParsedReleaseMetadata"
  parse_neutral :: "string \<Rightarrow> ParsedReleaseMetadata"

definition root_or_episode_year :: "ParsedReleaseMetadata \<Rightarrow> 'x CanonicalTitleEvidence \<Rightarrow> bool" where
  "root_or_episode_year parsed ev \<longleftrightarrow>
     (case rel_year parsed of Some y \<Rightarrow> ev_year ev = Some y \<or> y \<in> episode_release_years ev | None \<Rightarrow> False)"

text \<open>The year veto: \<open>None\<close> is the early return.\<close>

definition year_checked ::
  "ParsedReleaseMetadata \<Rightarrow> 'x CanonicalTitleEvidence \<Rightarrow> TitleEvidenceMatch \<Rightarrow> TitleEvidenceMatch option" where
  "year_checked parsed ev m =
     (case (rel_year parsed, ev_year ev) of
        (Some y, Some expected) \<Rightarrow>
          if y = expected then Some m
          else
            (let alias = (alias_release_years ev (matched_key m) = Some y)
             in if y \<notin> episode_release_years ev \<and> \<not> alias then None
                else if alias then Some (m\<lparr>year_corroborated := True, requires_external_id := False\<rparr>)
                else Some m)
      | _ \<Rightarrow> Some m)"

definition match_parsed_release_with_asserted_ids ::
  "'x match_env \<Rightarrow> ParsedReleaseMetadata \<Rightarrow> 'x CanonicalTitleEvidence \<Rightarrow> bool option \<Rightarrow> TitleEvidenceMatch option" where
  "match_parsed_release_with_asserted_ids me parsed ev asserted =
     Option.bind
       (case contextual_match me parsed ev (root_or_episode_year parsed ev) of
          Some m \<Rightarrow> Some m | None \<Rightarrow> relaxed_match me parsed ev asserted) (\<lambda>m.
     Option.bind (year_checked parsed ev m) (\<lambda>m'.
       if asserted \<noteq> Some True \<and> parsed_ids me parsed ev \<noteq> Some True \<and> spelling_competitor me parsed ev m'
       then None else Some m'))"

definition match_parsed_release_to_title_evidence ::
  "'x match_env \<Rightarrow> ParsedReleaseMetadata \<Rightarrow> 'x CanonicalTitleEvidence \<Rightarrow> TitleEvidenceMatch option" where
  "match_parsed_release_to_title_evidence me parsed ev = match_parsed_release_with_asserted_ids me parsed ev None"

definition candidate_presents_identity_disambiguator ::
  "'x CanonicalTitleEvidence \<Rightarrow> CandidateTitleMatch \<Rightarrow> bool option \<Rightarrow> bool" where
  "candidate_presents_identity_disambiguator ev title_match ids =
     ((case evidence_match title_match of
         Some m \<Rightarrow> year_corroborated m \<or> id_corroborated m \<or> key_is_unique_to_title ev (matched_key m)
       | None \<Rightarrow> False) \<or>
      (case ids of Some b \<Rightarrow> b | None \<Rightarrow> False))"

text \<open>
  No match survives a year that contradicts the title's: whatever the parser proposed and
  whatever ids the indexer asserted, a matched release that names a year names the title's own, the
  air year of the requested episode, or the year of the very alias it matched. And an id the
  indexer asserts can only save a match from a competing spelling, never from the year.
\<close>

theorem matched_release_agrees_on_year:
  "case match_parsed_release_with_asserted_ids me parsed ev asserted of
     None \<Rightarrow> True
   | Some m \<Rightarrow>
       (case (rel_year parsed, ev_year ev) of
          (Some y, Some expected) \<Rightarrow>
            y = expected \<or> y \<in> episode_release_years ev \<or> alias_release_years ev (matched_key m) = Some y
        | _ \<Rightarrow> True)"
  by (auto simp: match_parsed_release_with_asserted_ids_def year_checked_def Let_def bind_eq_Some_conv
      split: option.splits if_splits)

end
