(* ===== verification/Blocklist.thy ===== *)
theory Blocklist
  imports Domain_Types
begin

text \<open>
  The releases blocked for a title: the \<open>blocklist\<close> table with its two partial unique indexes and the
  operations of \<open>BlocklistStore\<close> (\<open>state_store/store.rs\<close>) over it, the two normal forms that key it
  (\<open>helpers.rs\<close>, \<open>torrent.rs\<close>), and the signatures the search loads from it
  (\<open>catalog/release_search.rs\<close>). The table is the list of its rows, oldest insertion first; the random
  row id and the clock are arguments of an insertion. Repository failures are the left of a sum.
\<close>

section \<open>Normal forms\<close>

definition normalize_release_name :: "string option \<Rightarrow> string option" where
  "normalize_release_name raw = map_option to_ascii_lowercase (filled (map_option trim raw))"

definition normalize_info_hash :: "string option \<Rightarrow> string option" where
  "normalize_info_hash raw =
     Option.bind (filled (map_option trim raw)) (\<lambda>v.
       let h = to_ascii_lowercase (filter is_ascii_hexdigit v)
       in if length h \<in> {40, 64} then Some h else None)"

section \<open>The table\<close>

record BlocklistEntry =
  be_id :: string
  be_title_id :: string
  be_release_name :: string
  be_normalized_release_name :: string
  be_indexer_id :: string
  be_info_hash :: "string option"
  be_reason :: "string option"
  be_created_at :: int

record NewBlocklistEntry =
  nb_title_id :: string
  nb_release_name :: string
  nb_indexer_id :: string
  nb_info_hash :: "string option"
  nb_reason :: "string option"

type_synonym blocklist_table = "BlocklistEntry list"

text \<open>
  \<open>ON CONFLICT DO NOTHING\<close>: the primary key, the index over
  \<open>(title_id, indexer_id, normalized_release_name)\<close> of the rows without a hash, and the index over
  \<open>(title_id, info_hash)\<close> of the rows with one.
\<close>

definition rows_conflict :: "BlocklistEntry \<Rightarrow> BlocklistEntry \<Rightarrow> bool" where
  "rows_conflict a b \<longleftrightarrow>
     be_id a = be_id b \<or>
     (be_title_id a = be_title_id b \<and> be_info_hash a = be_info_hash b \<and>
      (be_info_hash a = None \<longrightarrow>
         be_indexer_id a = be_indexer_id b \<and> be_normalized_release_name a = be_normalized_release_name b))"

definition insert_row :: "BlocklistEntry \<Rightarrow> blocklist_table \<Rightarrow> bool \<times> blocklist_table" where
  "insert_row row table =
     (if list_ex (rows_conflict row) table then (False, table) else (True, table @ [row]))"

definition row_of :: "string \<Rightarrow> int \<Rightarrow> NewBlocklistEntry \<Rightarrow> string \<Rightarrow> BlocklistEntry" where
  "row_of i now e name =
     \<lparr>be_id = i, be_title_id = nb_title_id e, be_release_name = trim (nb_release_name e),
      be_normalized_release_name = name, be_indexer_id = trim (nb_indexer_id e),
      be_info_hash = normalize_info_hash (nb_info_hash e), be_reason = nb_reason e, be_created_at = now\<rparr>"

definition block :: "string \<Rightarrow> int \<Rightarrow> NewBlocklistEntry \<Rightarrow> blocklist_table \<Rightarrow> bool \<times> blocklist_table" where
  "block i now e table =
     (case normalize_release_name (Some (nb_release_name e)) of
        None \<Rightarrow> (False, table)
      | Some name \<Rightarrow> insert_row (row_of i now e name) table)"

text \<open>\<open>ORDER BY created_at DESC\<close>; SQL leaves open how rows of one instant are ordered.\<close>

definition newest_first :: "blocklist_table \<Rightarrow> blocklist_table" where
  "newest_first rows = sort_by (\<lambda>a b. cmp (be_created_at b) (be_created_at a)) rows"

definition list_for_title :: "string \<Rightarrow> nat \<Rightarrow> blocklist_table \<Rightarrow> BlocklistEntry list" where
  "list_for_title title limit table = take limit (newest_first (filter (\<lambda>r. be_title_id r = title) table))"

definition list_all_entries :: "nat \<Rightarrow> nat \<Rightarrow> blocklist_table \<Rightarrow> BlocklistEntry list \<times> nat" where
  "list_all_entries limit offset table = (take limit (drop offset (newest_first table)), length table)"

definition store_is_blocked :: "string \<Rightarrow> string \<Rightarrow> string \<Rightarrow> string option \<Rightarrow> blocklist_table \<Rightarrow> bool" where
  "store_is_blocked title indexer name hash table \<longleftrightarrow>
     (case normalize_info_hash hash of
        Some h \<Rightarrow> list_ex (\<lambda>r. be_title_id r = title \<and> be_info_hash r = Some h) table
      | None \<Rightarrow> False) \<or>
     (case normalize_release_name (Some name) of
        Some n \<Rightarrow> list_ex (\<lambda>r. be_title_id r = title \<and> be_normalized_release_name r = n \<and>
                              (be_indexer_id r = [] \<or> be_indexer_id r = trim indexer)) table
      | None \<Rightarrow> False)"

definition get_entry :: "string \<Rightarrow> blocklist_table \<Rightarrow> BlocklistEntry option" where
  "get_entry i table = find (\<lambda>r. be_id r = i) table"

definition remove_entry :: "string \<Rightarrow> blocklist_table \<Rightarrow> blocklist_table" where
  "remove_entry i table = filter (\<lambda>r. be_id r \<noteq> i) table"

definition delete_for_title :: "string \<Rightarrow> blocklist_table \<Rightarrow> blocklist_table" where
  "delete_for_title title table = filter (\<lambda>r. be_title_id r \<noteq> title) table"

definition delete_for_indexer :: "string \<Rightarrow> blocklist_table \<Rightarrow> blocklist_table" where
  "delete_for_indexer indexer table =
     (if trim indexer = [] then table else filter (\<lambda>r. be_indexer_id r \<noteq> trim indexer) table)"

section \<open>The signatures a search loads\<close>

record TitleReleaseBlocklistSignatures =
  release_names :: "(string \<times> string) set"
  info_hashes :: "string set"

definition TITLE_RELEASE_BLOCKLIST_READ_LIMIT :: nat where
  "TITLE_RELEASE_BLOCKLIST_READ_LIMIT = 1000"

definition note_entry :: "BlocklistEntry \<Rightarrow> TitleReleaseBlocklistSignatures \<Rightarrow> TitleReleaseBlocklistSignatures" where
  "note_entry e sigs =
     (let sigs' = (case be_info_hash e of
                     Some h \<Rightarrow> sigs\<lparr>info_hashes := insert h (info_hashes sigs)\<rparr>
                   | None \<Rightarrow> sigs)
      in sigs'\<lparr>release_names := insert (be_indexer_id e, be_normalized_release_name e) (release_names sigs')\<rparr>)"

text \<open>A repository error excludes nothing.\<close>

definition load_title_release_blocklist_signatures ::
  "(string \<Rightarrow> nat \<Rightarrow> 'e + BlocklistEntry list) \<Rightarrow> string \<Rightarrow> TitleReleaseBlocklistSignatures" where
  "load_title_release_blocklist_signatures list_rows title =
     fold note_entry
       (case list_rows title TITLE_RELEASE_BLOCKLIST_READ_LIMIT of Inr es \<Rightarrow> es | Inl _ \<Rightarrow> [])
       \<lparr>release_names = {}, info_hashes = {}\<rparr>"

definition is_release_blocklisted ::
  "string option \<Rightarrow> string \<Rightarrow> string option \<Rightarrow> TitleReleaseBlocklistSignatures \<Rightarrow> bool" where
  "is_release_blocklisted indexer_id release_name hash blocklist \<longleftrightarrow>
     (case normalize_info_hash hash of Some h \<Rightarrow> h \<in> info_hashes blocklist | None \<Rightarrow> False) \<or>
     (case normalize_release_name (Some release_name) of
        None \<Rightarrow> False
      | Some name \<Rightarrow>
          ([], name) \<in> release_names blocklist \<or>
          (case indexer_id of Some i \<Rightarrow> (trim i, name) \<in> release_names blocklist | None \<Rightarrow> False))"

section \<open>Histories of the table\<close>

text \<open>What can happen to the table: its four writers, an insertion with an id no row has.\<close>

inductive table_step :: "blocklist_table \<Rightarrow> blocklist_table \<Rightarrow> bool" where
  step_block: "i \<notin> be_id ` set table \<Longrightarrow> table_step table (snd (block i now e table))"
| step_remove: "table_step table (remove_entry i table)"
| step_delete_for_title: "table_step table (delete_for_title title table)"
| step_delete_for_indexer: "table_step table (delete_for_indexer indexer table)"

inductive table_reachable :: "blocklist_table \<Rightarrow> bool" where
  table_empty: "table_reachable []"
| table_grows: "table_reachable table \<Longrightarrow> table_step table table' \<Longrightarrow> table_reachable table'"

text \<open>The invariant: what the columns hold and what the indexes exclude.\<close>

definition row_ok :: "BlocklistEntry \<Rightarrow> bool" where
  "row_ok r \<longleftrightarrow>
     Some (be_normalized_release_name r) = normalize_release_name (Some (be_release_name r)) \<and>
     be_indexer_id r = trim (be_indexer_id r) \<and>
     normalize_info_hash (be_info_hash r) = be_info_hash r"

fun no_conflicts :: "blocklist_table \<Rightarrow> bool" where
  "no_conflicts [] = True"
| "no_conflicts (r # rs) = (list_all (\<lambda>s. \<not> rows_conflict r s) rs \<and> no_conflicts rs)"

definition table_ok :: "blocklist_table \<Rightarrow> bool" where
  "table_ok table \<longleftrightarrow> list_all row_ok table \<and> no_conflicts table"

section \<open>The keys are canonical\<close>

lemma hexdigit_lower: "is_ascii_hexdigit c \<Longrightarrow> is_ascii_hexdigit (to_lower_char c)"
  by (auto simp: is_ascii_hexdigit_def is_digit_def to_lower_char_def ascii_upper_def)

lemma hexdigit_not_space: "is_ascii_hexdigit c \<Longrightarrow> c \<notin> set (concat ws_encodings)"
  by (auto simp: ws_encodings_def is_ascii_hexdigit_def is_digit_def to_lower_char_def ascii_upper_def)

lemma hex_lower_fixed:
  assumes "list_all is_ascii_hexdigit h"
  shows "trim (to_ascii_lowercase h) = to_ascii_lowercase h"
    and "filter is_ascii_hexdigit (to_ascii_lowercase h) = to_ascii_lowercase h"
proof -
  have "list_all is_ascii_hexdigit (to_ascii_lowercase h)"
    using assms by (auto simp: list_all_iff to_ascii_lowercase_def hexdigit_lower)
  then show "trim (to_ascii_lowercase h) = to_ascii_lowercase h"
    and "filter is_ascii_hexdigit (to_ascii_lowercase h) = to_ascii_lowercase h"
    using hexdigit_not_space by (auto simp: list_all_iff filter_id_conv intro: trim_no_whitespace)
qed

lemma normalize_info_hash_idem [simp]: "normalize_info_hash (normalize_info_hash h) = normalize_info_hash h"
proof (cases "normalize_info_hash h")
  case (Some v)
  then obtain raw where raw: "v = to_ascii_lowercase (filter is_ascii_hexdigit raw)" "length v \<in> {40, 64}"
    by (auto simp: normalize_info_hash_def Let_def bind_eq_Some_conv split: if_splits)
  have all: "list_all is_ascii_hexdigit (filter is_ascii_hexdigit raw)" by (simp add: list_all_iff)
  have "v \<noteq> []" using raw(2) by auto
  then show ?thesis
    using raw(2) hex_lower_fixed [OF all, folded raw(1)] unfolding Some
    by (simp add: normalize_info_hash_def filled_def raw(1) [symmetric]) (simp add: raw(1))
qed (simp add: normalize_info_hash_def filled_def)

lemma normalize_release_name_trim [simp]:
  "normalize_release_name (Some (trim s)) = normalize_release_name (Some s)"
  by (simp add: normalize_release_name_def)

section \<open>The invariant\<close>

lemma rows_conflict_sym: "rows_conflict a b = rows_conflict b a"
  by (auto simp: rows_conflict_def)

lemma no_conflicts_append [simp]:
  "no_conflicts (xs @ [r]) \<longleftrightarrow> no_conflicts xs \<and> \<not> list_ex (rows_conflict r) xs"
  by (induction xs) (auto simp: rows_conflict_sym [of r])

lemma no_conflicts_filter: "no_conflicts xs \<Longrightarrow> no_conflicts (filter P xs)"
  by (induction xs) (auto simp: list_all_iff)

lemma table_ok_filter: "table_ok table \<Longrightarrow> table_ok (filter P table)"
  by (auto simp: table_ok_def list_all_iff no_conflicts_filter)

lemma row_ok_row_of:
  "normalize_release_name (Some (nb_release_name e)) = Some name \<Longrightarrow> row_ok (row_of i now e name)"
  by (simp add: row_ok_def row_of_def)

lemma table_ok_block: "table_ok table \<Longrightarrow> table_ok (snd (block i now e table))"
  by (auto simp: block_def insert_row_def table_ok_def row_ok_row_of split: option.splits)

lemma table_ok_step: "table_step table table' \<Longrightarrow> table_ok table \<Longrightarrow> table_ok table'"
  by (induction rule: table_step.induct)
     (simp_all add: table_ok_block remove_entry_def delete_for_title_def delete_for_indexer_def table_ok_filter)

lemma table_ok_reachable: "table_reachable table \<Longrightarrow> table_ok table"
  by (induction rule: table_reachable.induct) (auto simp: table_ok_def dest: table_ok_step [unfolded table_ok_def])

lemma no_conflicts_distinct:
  assumes "no_conflicts table"
  shows "distinct (map be_id table)"
    and "distinct (map (\<lambda>r. (be_title_id r, be_indexer_id r, be_normalized_release_name r))
                    (filter (\<lambda>r. be_info_hash r = None) table))"
    and "distinct (map (\<lambda>r. (be_title_id r, be_info_hash r)) (filter (\<lambda>r. be_info_hash r \<noteq> None) table))"
  using assms by (induction table) (force simp: list_all_iff rows_conflict_def)+

text \<open>
  Whatever is blocked, cleared or deleted, in any order, no two rows share an id, no two rows
  without a hash stand for one name on one indexer of a title, no two rows carry one hash for a
  title, and every row is keyed by the normal forms a lookup computes.
\<close>

theorem blocklist_rows_are_unique:
  assumes "table_reachable table"
  shows "distinct (map be_id table) \<and>
    distinct (map (\<lambda>r. (be_title_id r, be_indexer_id r, be_normalized_release_name r))
               (filter (\<lambda>r. be_info_hash r = None) table)) \<and>
    distinct (map (\<lambda>r. (be_title_id r, be_info_hash r)) (filter (\<lambda>r. be_info_hash r \<noteq> None) table)) \<and>
    list_all row_ok table"
  using table_ok_reachable [OF assms] no_conflicts_distinct by (simp add: table_ok_def)

definition example_block :: NewBlocklistEntry where
  "example_block =
     \<lparr>nb_title_id = ''t1'', nb_release_name = '' Show.S01E01-GRP '', nb_indexer_id = ''idx'',
      nb_info_hash = Some (replicate 40 (CHR ''A'')), nb_reason = None\<rparr>"

definition example_table :: blocklist_table where
  "example_table = snd (block ''row1'' 5 example_block [])"

lemma example_hash:
  "normalize_info_hash (Some (replicate 40 (CHR ''A''))) = Some (replicate 40 (CHR ''a''))"
proof -
  have "is_ascii_hexdigit (CHR ''A'')" by code_simp
  then have "list_all is_ascii_hexdigit (replicate 40 (CHR ''A''))" by (simp add: list_all_iff)
  moreover have "trim (replicate 40 (CHR ''A'')) = replicate 40 (CHR ''A'')"
    by (rule trim_no_whitespace) (simp add: ws_encodings_def)
  moreover have "to_lower_char (CHR ''A'') = CHR ''a''" by code_simp
  ultimately show ?thesis
    by (simp add: normalize_info_hash_def filled_def Let_def list_all_iff to_ascii_lowercase_def filter_replicate)
qed

lemma example_name:
  "trim '' Show.S01E01-GRP '' = ''Show.S01E01-GRP''"
  "normalize_release_name (Some '' Show.S01E01-GRP '') = Some ''show.s01e01-grp''"
  "normalize_release_name (Some ''Show.S01E01-GRP'') = Some ''show.s01e01-grp''"
  "normalize_release_name (Some ''Renamed'') = Some ''renamed''" "trim ''idx'' = ''idx''" "trim ''other'' = ''other''"
  by code_simp+

lemma example_table_value:
  "example_table =
     [\<lparr>be_id = ''row1'', be_title_id = ''t1'', be_release_name = ''Show.S01E01-GRP'',
       be_normalized_release_name = ''show.s01e01-grp'', be_indexer_id = ''idx'',
       be_info_hash = Some (replicate 40 (CHR ''a'')), be_reason = None, be_created_at = 5\<rparr>]"
  by (simp add: example_table_def block_def example_block_def example_name insert_row_def row_of_def example_hash)

theorem blocklist_rows_are_unique_witness:
  "list_all row_ok example_table \<and> length example_table = 1"
proof -
  have "table_reachable example_table"
    unfolding example_table_def by (rule table_grows [OF table_empty step_block]) simp
  from blocklist_rows_are_unique [OF this] show ?thesis by (simp add: example_table_value)
qed

section \<open>Blocks hold\<close>

text \<open>
  The contract the failure paths rely on: a release that was recorded is found under its own key,
  and no later recording uncovers it.
\<close>

locale block_store =
  fixes record_block :: "'e \<Rightarrow> 's \<Rightarrow> 's" and admissible :: "'e \<Rightarrow> 's \<Rightarrow> bool" and blocks :: "'e \<Rightarrow> 's \<Rightarrow> bool"
  assumes recorded: "admissible e s \<Longrightarrow> blocks e (record_block e s)"
    and kept: "blocks e s \<Longrightarrow> blocks e (record_block e' s)"
begin

lemma kept_all: "blocks e s \<Longrightarrow> blocks e (fold record_block es s)"
  by (induction es arbitrary: s) (simp_all add: kept)

lemma recorded_stays: "admissible e s \<Longrightarrow> blocks e (fold record_block es (record_block e s))"
  by (rule kept_all) (rule recorded)

end

definition record_in_table :: "string \<times> int \<times> NewBlocklistEntry \<Rightarrow> blocklist_table \<Rightarrow> blocklist_table" where
  "record_in_table x table = (case x of (i, now, e) \<Rightarrow> snd (block i now e table))"

definition can_record :: "string \<times> int \<times> NewBlocklistEntry \<Rightarrow> blocklist_table \<Rightarrow> bool" where
  "can_record x table \<longleftrightarrow>
     (case x of (i, now, e) \<Rightarrow> i \<notin> be_id ` set table \<and> normalize_release_name (Some (nb_release_name e)) \<noteq> None)"

definition entry_blocked :: "string \<times> int \<times> NewBlocklistEntry \<Rightarrow> blocklist_table \<Rightarrow> bool" where
  "entry_blocked x table \<longleftrightarrow>
     (case x of (i, now, e) \<Rightarrow>
        store_is_blocked (nb_title_id e) (nb_indexer_id e) (nb_release_name e) (nb_info_hash e) table)"

lemma block_superset: "set table \<subseteq> set (snd (block i now e table))"
  by (auto simp: block_def insert_row_def split: option.splits)

lemma store_is_blocked_mono:
  assumes "set table \<subseteq> set table'" "store_is_blocked t i n h table"
  shows "store_is_blocked t i n h table'"
  using assms by (force simp: store_is_blocked_def list_ex_iff split: option.splits)

lemma block_blocks:
  assumes "i \<notin> be_id ` set table" "normalize_release_name (Some (nb_release_name e)) = Some name"
  shows "store_is_blocked (nb_title_id e) (nb_indexer_id e) (nb_release_name e) (nb_info_hash e) (snd (block i now e table))"
proof (cases "list_ex (rows_conflict (row_of i now e name)) table")
  case True
  then obtain r where r: "r \<in> set table" "rows_conflict (row_of i now e name) r" by (auto simp: list_ex_iff)
  then have "be_id r \<noteq> i" using assms(1) by auto
  with r(2) have "be_title_id r = nb_title_id e" "be_info_hash r = normalize_info_hash (nb_info_hash e)"
    "be_info_hash r = None \<longrightarrow> be_indexer_id r = trim (nb_indexer_id e) \<and> be_normalized_release_name r = name"
    by (auto simp: rows_conflict_def row_of_def)
  with r(1) True assms(2) show ?thesis
    by (auto simp: store_is_blocked_def block_def insert_row_def list_ex_iff split: option.splits)
next
  case False
  with assms(2) show ?thesis by (auto simp: store_is_blocked_def block_def insert_row_def row_of_def)
qed

interpretation block_table: block_store record_in_table can_record entry_blocked
proof
  show "entry_blocked x (record_in_table x s)" if "can_record x s" for x s
    using that block_blocks by (cases x) (auto simp: can_record_def entry_blocked_def record_in_table_def)
  show "entry_blocked x (record_in_table y s)" if "entry_blocked x s" for x y s
    using that store_is_blocked_mono [OF block_superset]
    by (cases x; cases y) (auto simp: entry_blocked_def record_in_table_def)
qed

text \<open>
  C6. A release that was blocked is found blocked, under its own title, indexer, name and hash, and
  stays so however many other releases are blocked after it: also when the row was not written
  because an index already held its key, and also when a later block for the same hash arrives
  under another name.
\<close>

theorem blocked_release_stays_blocked:
  assumes "i \<notin> be_id ` set table" "normalize_release_name (Some (nb_release_name e)) \<noteq> None"
  shows "store_is_blocked (nb_title_id e) (nb_indexer_id e) (nb_release_name e) (nb_info_hash e)
    (fold (\<lambda>(i, now, e) t. snd (block i now e t)) later (snd (block i now e table)))"
proof -
  have eq: "(\<lambda>(i, now, e) t. snd (block i now e t)) = record_in_table"
    by (auto simp: record_in_table_def fun_eq_iff)
  show ?thesis
    using block_table.recorded_stays [of "(i, now, e)" table later] assms
    unfolding eq by (simp add: can_record_def entry_blocked_def) (simp add: record_in_table_def)
qed

theorem blocked_release_stays_blocked_witness:
  "store_is_blocked ''t1'' ''idx'' '' Show.S01E01-GRP '' (Some (replicate 40 (CHR ''A'')))
     (snd (block ''row2'' 6 (example_block\<lparr>nb_release_name := ''Other''\<rparr>) (snd (block ''row1'' 5 example_block []))))"
proof -
  have "normalize_release_name (Some (nb_release_name example_block)) \<noteq> None"
    by (simp add: example_block_def example_name)
  from blocked_release_stays_blocked [OF _ this, of "''row1''" "[]"
      "[(''row2'', 6, example_block\<lparr>nb_release_name := ''Other''\<rparr>)]" 5]
  show ?thesis by (simp add: example_block_def)
qed

section \<open>What a search excludes\<close>

lemma note_entries:
  "release_names (fold note_entry es sigs) =
     release_names sigs \<union> set (map (\<lambda>e. (be_indexer_id e, be_normalized_release_name e)) es)"
  "info_hashes (fold note_entry es sigs) = info_hashes sigs \<union> {h. \<exists>e \<in> set es. be_info_hash e = Some h}"
  by (induction es arbitrary: sigs) (auto simp: note_entry_def Let_def split: option.splits)

lemma loaded_signatures:
  "is_release_blocklisted indexer n h (load_title_release_blocklist_signatures (\<lambda>t k. Inr (rows t k) :: 'e + BlocklistEntry list) title) =
     ((case normalize_info_hash h of
         Some v \<Rightarrow> list_ex (\<lambda>r. be_info_hash r = Some v) (rows title TITLE_RELEASE_BLOCKLIST_READ_LIMIT)
       | None \<Rightarrow> False) \<or>
      (case normalize_release_name (Some n) of
         Some v \<Rightarrow> list_ex (\<lambda>r. be_normalized_release_name r = v \<and>
                        (be_indexer_id r = [] \<or> Some (be_indexer_id r) = map_option trim indexer))
                     (rows title TITLE_RELEASE_BLOCKLIST_READ_LIMIT)
       | None \<Rightarrow> False))"
proof -
  let ?rows = "rows title TITLE_RELEASE_BLOCKLIST_READ_LIMIT"
  let ?sigs = "load_title_release_blocklist_signatures (\<lambda>t k. Inr (rows t k) :: 'e + BlocklistEntry list) title"
  have names: "(i, v) \<in> release_names ?sigs \<longleftrightarrow>
      (\<exists>r \<in> set ?rows. be_normalized_release_name r = v \<and> be_indexer_id r = i)" for i v
    by (auto simp: load_title_release_blocklist_signatures_def note_entries)
  have hashes: "v \<in> info_hashes ?sigs \<longleftrightarrow> (\<exists>r \<in> set ?rows. be_info_hash r = Some v)" for v
    by (simp add: load_title_release_blocklist_signatures_def note_entries)
  show ?thesis
    unfolding is_release_blocklisted_def names hashes list_ex_iff
    by (rule arg_cong2 [where f = "(\<or>)"]; cases "normalize_release_name (Some n)"; cases indexer)
       (simp_all, blast+)
qed

lemma set_newest_first [simp]: "set (newest_first rows) = set rows"
  by (simp add: newest_first_def)

lemma list_for_title_subset: "r \<in> set (list_for_title title limit table) \<Longrightarrow> r \<in> set table \<and> be_title_id r = title"
  unfolding list_for_title_def by (auto dest: in_set_takeD)

lemma list_for_title_all:
  "length (filter (\<lambda>r. be_title_id r = title) table) \<le> limit \<Longrightarrow>
   set (list_for_title title limit table) = {r \<in> set table. be_title_id r = title}"
  by (auto simp: list_for_title_def newest_first_def)

text \<open>
  C7. The search and the store agree on what is blocked. A candidate the search excludes is blocked
  in the table; while a title has no more rows than the search reads, the search excludes exactly
  what is blocked, a candidate with no indexer counting as one from the unnamed indexer; and a
  table that cannot be read excludes nothing.
\<close>

theorem search_excludes_what_is_blocked:
  "let sigs = load_title_release_blocklist_signatures (\<lambda>t k. Inr (list_for_title t k table) :: 'e + BlocklistEntry list) title;
       indexer = (case source of Some i \<Rightarrow> i | None \<Rightarrow> [])
   in (if length (filter (\<lambda>r. be_title_id r = title) table) \<le> TITLE_RELEASE_BLOCKLIST_READ_LIMIT
       then is_release_blocklisted source n h sigs = store_is_blocked title indexer n h table
       else if is_release_blocklisted source n h sigs then store_is_blocked title indexer n h table else True) \<and>
      \<not> is_release_blocklisted source n h (load_title_release_blocklist_signatures (\<lambda>_ _. Inl err) title)"
proof -
  let ?rows = "list_for_title title TITLE_RELEASE_BLOCKLIST_READ_LIMIT table"
  have subset: "set ?rows \<subseteq> {r \<in> set table. be_title_id r = title}"
    using list_for_title_subset by blast
  have all: "set ?rows = {r \<in> set table. be_title_id r = title}"
    if "length (filter (\<lambda>r. be_title_id r = title) table) \<le> TITLE_RELEASE_BLOCKLIST_READ_LIMIT"
    using list_for_title_all [OF that] .
  have none: "\<not> is_release_blocklisted source n h (load_title_release_blocklist_signatures (\<lambda>_ _. Inl err) title)"
    by (auto simp: is_release_blocklisted_def load_title_release_blocklist_signatures_def split: option.splits)
  have trimmed: "Some i = map_option trim source \<or> i = [] \<longleftrightarrow>
      i = [] \<or> i = trim (case source of Some i \<Rightarrow> i | None \<Rightarrow> [])" for i
    by (cases source) auto
  show ?thesis
    unfolding Let_def loaded_signatures list_ex_iff store_is_blocked_def
    using none all subset trimmed by (auto split: option.splits)
qed

text \<open>
  A block recorded through an indexer with the hash of the torrent holds on every indexer, until
  that indexer is deleted: the row goes with it, and the torrent is offered again elsewhere.
\<close>

lemma deleted_indexer_lifts_hash_block:
  "store_is_blocked ''t1'' ''other'' ''Renamed'' (Some (replicate 40 (CHR ''A''))) example_table \<and>
   \<not> store_is_blocked ''t1'' ''other'' ''Renamed'' (Some (replicate 40 (CHR ''A''))) (delete_for_indexer ''idx'' example_table)"
  by (simp add: store_is_blocked_def example_hash example_name example_table_value delete_for_indexer_def)

end
