(* ===== verification/Search_Candidate.thy ===== *)
theory Search_Candidate
  imports Admission Client_Snapshot Title_Evidence Blocklist
begin

text \<open>
  A search result as the automatic decision reads it: the part of \<open>IndexerSearchResult\<close>
  (\<open>types.rs\<close>) that the decision and the submission look at, what is downloaded for it
  (\<open>canonical_download_source\<close>, \<open>extract_magnet_info_hash\<close>), the swarm-health bar (\<open>acquisition/seed_goals.rs\<close>) and the
  recognition of a release that is already on disk (\<open>acquisition/release_search.rs\<close>).

  Strings are UTF-8 byte lists, so a slice of a string can fall inside a character: Rust panics
  there, and a panic is the outer \<open>None\<close> of a result. The URL reader is a parameter.
\<close>

section \<open>Indexer metadata\<close>

text \<open>\<open>serde_json::Value\<close>; a number that is no integer keeps no value.\<close>

datatype Value =
    V_Null | V_Bool bool | V_Int int | V_Float | V_String string | V_Array "Value list"
  | V_Object "(string \<times> Value) list"

fun as_i64 :: "Value \<Rightarrow> int option" where
  "as_i64 (V_Int n) = (if is_i64 n then Some n else None)"
| "as_i64 _ = None"

fun as_json_str :: "Value \<Rightarrow> string option" where
  "as_json_str (V_String s) = Some s"
| "as_json_str _ = None"

type_synonym extra_map = "string \<rightharpoonup> Value"

record IndexerSearchResult =
  sr_indexer_id :: "string option"
  sr_title :: string
  sr_link :: "string option"
  sr_download_url :: "string option"
  sr_source_kind :: "DownloadSourceKind option"
  sr_published_at :: "string option"
  parsed_release_metadata :: "ParsedReleaseMetadata option"
  quality_profile_decision :: "QualityProfileDecision option"
  sr_extra :: extra_map
  response_attributes :: IndexerResponseAttributes
  coverage_scope :: "SubmissionScope option"
  auto_eligible :: "bool option"
  auto_decision_code :: "string option"
  auto_decision_summary :: "string option"
  http_page_url :: "string option" \<comment> \<open>\<open>http.page_url\<close> of an HTTP release\<close>

definition info_hash :: "IndexerSearchResult \<Rightarrow> string option" where
  "info_hash r = Option.bind (sr_extra r ''info_hash'') as_json_str"

section \<open>Magnet links\<close>

definition is_base32 :: "char \<Rightarrow> bool" where
  "is_base32 c \<longleftrightarrow> ascii_upper c \<or> ascii_lower c \<or> c \<in> set ''234567''"

text \<open>\<open>str::is_char_boundary\<close> at an index inside the string.\<close>

definition is_char_boundary :: "string \<Rightarrow> nat \<Rightarrow> bool" where
  "is_char_boundary s i \<longleftrightarrow>
     i = 0 \<or> i = length s \<or>
     (i < length s \<and> ((of_char (s ! i) :: nat) < 128 \<or> 192 \<le> (of_char (s ! i) :: nat)))"

definition torrent_hash :: "string \<Rightarrow> string option" where
  "torrent_hash hash =
     (if length hash = 40 \<and> list_all is_ascii_hexdigit hash \<or> length hash = 32 \<and> list_all is_base32 hash
      then Some (to_ascii_lowercase hash) else None)"

definition multihash :: "string \<Rightarrow> string option option" where
  "multihash hash =
     (if length hash \<noteq> 68 then Some None
      else if \<not> is_char_boundary hash 4 then None
      else if eq_ignore_ascii_case (take 4 hash) ''1220'' \<and> list_all is_ascii_hexdigit (drop 4 hash)
      then Some (Some (to_ascii_lowercase (drop 4 hash)))
      else Some None)"

text \<open>The \<open>find_map\<close> over the query of a magnet link.\<close>

definition xt_hash :: "string \<times> string \<Rightarrow> string option option" where
  "xt_hash kv =
     (if \<not> eq_ignore_ascii_case (fst kv) ''xt'' then Some None
      else case split_once (CHR '':'') (trim (snd kv)) of
        None \<Rightarrow> Some None
      | Some (urn, remainder) \<Rightarrow>
          if \<not> eq_ignore_ascii_case urn ''urn'' then Some None
          else case split_once (CHR '':'') remainder of
            None \<Rightarrow> Some None
          | Some (kind, hash) \<Rightarrow>
              if to_ascii_lowercase kind = ''btih'' then Some (torrent_hash hash)
              else if to_ascii_lowercase kind = ''btmh'' then multihash hash
              else Some None)"

fun find_map_panicking :: "('a \<Rightarrow> 'b option option) \<Rightarrow> 'a list \<Rightarrow> 'b option option" where
  "find_map_panicking f [] = Some None"
| "find_map_panicking f (x # xs) =
     (case f x of
        None \<Rightarrow> None
      | Some (Some y) \<Rightarrow> Some (Some y)
      | Some None \<Rightarrow> find_map_panicking f xs)"

definition query_pairs :: "string \<Rightarrow> (string \<times> string) list" where
  "query_pairs query = List.map_filter (split_once (CHR ''='')) (split_on (CHR ''&'') query)"

definition extract_magnet_info_hash :: "string \<Rightarrow> string option option" where
  "extract_magnet_info_hash value =
     (case split_once (CHR ''?'') (trim value) of
        None \<Rightarrow> Some None
      | Some (scheme, query) \<Rightarrow>
          if \<not> eq_ignore_ascii_case scheme ''magnet:'' then Some None
          else find_map_panicking xt_hash (query_pairs query))"

definition is_valid_magnet_uri :: "string \<Rightarrow> bool option" where
  "is_valid_magnet_uri value = map_option (\<lambda>h. h \<noteq> None) (extract_magnet_info_hash value)"

section \<open>What is downloaded\<close>

text \<open>The URL reader: the path and the decoded query pairs of a valid URL.\<close>

type_synonym url_parser = "string \<Rightarrow> (string \<times> (string \<times> string) list) option"

definition ends_with :: "string \<Rightarrow> string \<Rightarrow> bool" where
  "ends_with s p \<longleftrightarrow> drop (length s - length p) s = p"

definition kind_of_query_pair :: "string \<times> string \<Rightarrow> DownloadSourceKind option" where
  "kind_of_query_pair kv =
     (let key = fst kv; value = trim (snd kv)
      in if key \<in> {''magnet'', ''magnet_uri''} \<and> starts_with value ''magnet:'' then Some MagnetUri
         else if key \<in> {''torrent'', ''torrent_url'', ''file'', ''url''} \<and> ends_with value ''.torrent'' then Some TorrentFile
         else if key \<in> {''nzb'', ''nzb_url'', ''url''} \<and> ends_with value ''.nzb'' then Some NzbUrl
         else None)"

definition infer_from_hint :: "url_parser \<Rightarrow> string option \<Rightarrow> DownloadSourceKind option" where
  "infer_from_hint url value =
     Option.bind value (\<lambda>v.
       let raw = trim v; normalized = to_ascii_lowercase raw
       in if raw = [] then None
          else if starts_with raw ''magnet:'' then Some MagnetUri
          else if ends_with normalized ''.torrent'' then Some TorrentFile
          else if ends_with normalized ''.nzb'' then Some NzbUrl
          else Option.bind (url raw) (\<lambda>(path, pairs).
            let p = to_ascii_lowercase path
            in if ends_with p ''.torrent'' then Some TorrentFile
               else if ends_with p ''.nzb'' then Some NzbUrl
               else find_map kind_of_query_pair pairs))"

text \<open>The two keys under which plugins put a magnet link.\<close>

definition magnet_keys :: "string list" where
  "magnet_keys = [''magnet_uri'', ''magnet_url'']"

definition valid_magnet_at :: "extra_map \<Rightarrow> string \<Rightarrow> string option option" where
  "valid_magnet_at extra key =
     (case Option.bind (extra key) as_json_str of
        None \<Rightarrow> Some None
      | Some value \<Rightarrow> map_option (\<lambda>ok. if ok then Some value else None) (is_valid_magnet_uri value))"

definition infer_from_indexer_result ::
  "url_parser \<Rightarrow> string option \<Rightarrow> string option \<Rightarrow> string option \<Rightarrow> extra_map \<Rightarrow> DownloadSourceKind option option" where
  "infer_from_indexer_result url plugin_type download_url link extra =
     (case Option.bind (Option.bind (extra ''download_type'') as_json_str) DownloadSourceKind_parse of
        Some kind \<Rightarrow> Some (Some kind)
      | None \<Rightarrow>
          Option.bind (find_map_panicking (valid_magnet_at extra) magnet_keys) (\<lambda>magnet.
            Some (if magnet \<noteq> None then Some MagnetUri
                  else if extra ''info_hash'' \<noteq> None then Some TorrentFile
                  else case infer_from_hint url (or_else download_url link) of
                         Some kind \<Rightarrow> Some kind
                       | None \<Rightarrow>
                           (case map_option (\<lambda>v. to_ascii_lowercase (trim v)) plugin_type of
                              None \<Rightarrow> None
                            | Some p \<Rightarrow>
                                if p = ''torrent_indexer'' then Some TorrentFile
                                else if p = ''usenet_indexer'' then Some NzbUrl
                                else if p = ''http_indexer'' then Some HttpResource
                                else None))))"

definition canonical_download_source ::
  "url_parser \<Rightarrow> IndexerSearchResult \<Rightarrow> (string \<times> DownloadSourceKind) option option" where
  "canonical_download_source url r =
     (case filled (map_option trim (http_page_url r)) of
        Some page \<Rightarrow> Some (Some (page, HttpResource))
      | None \<Rightarrow>
          Option.bind
            (if sr_source_kind r \<in> {Some NzbFile, Some NzbUrl} then Some None
             else find_map_panicking (valid_magnet_at (sr_extra r)) magnet_keys) (\<lambda>magnet.
            Some (case magnet of
              Some value \<Rightarrow> Some (trim value, MagnetUri)
            | None \<Rightarrow>
                map_option
                  (\<lambda>value.
                    (value,
                     case sr_source_kind r of
                       Some kind \<Rightarrow>
                         if kind = MagnetUri
                         then (case infer_from_hint url (Some value) of Some k \<Rightarrow> k | None \<Rightarrow> TorrentFile)
                         else kind
                     | None \<Rightarrow> (case infer_from_hint url (Some value) of Some k \<Rightarrow> k | None \<Rightarrow> TorrentFile)))
                  (filled (map_option trim (or_else (sr_download_url r) (sr_link r)))))))"

section \<open>Swarm health\<close>

definition seeders_from_extra :: "extra_map \<Rightarrow> int option" where
  "seeders_from_extra extra = Option.bind (extra ''seeders'') as_i64"

definition meets_minimum_seeders ::
  "DownloadSourceKind option \<Rightarrow> string option \<Rightarrow> int option \<Rightarrow> int \<Rightarrow> bool" where
  "meets_minimum_seeders kind indexer_id seeders threshold =
     (if threshold \<le> 0 then True
      else if kind \<notin> {Some TorrentFile, Some MagnetUri} then True
      else if filled (map_option trim indexer_id) = None then True
      else (case seeders of Some n \<Rightarrow> if 0 \<le> n then threshold \<le> n else True | None \<Rightarrow> True))"

definition candidate_meets_minimum_seeders :: "IndexerSearchResult \<Rightarrow> (string \<rightharpoonup> int) \<Rightarrow> bool" where
  "candidate_meets_minimum_seeders r thresholds =
     meets_minimum_seeders (sr_source_kind r) (sr_indexer_id r) (seeders_from_extra (sr_extra r))
       (case Option.bind (sr_indexer_id r) thresholds of Some n \<Rightarrow> n | None \<Rightarrow> 0)"

section \<open>Download routes\<close>

record DownloadRouteKey =
  route_source_kind :: "DownloadSourceKind option"
  route_indexer_id :: "string option"

definition route_for_candidate :: "IndexerSearchResult \<Rightarrow> DownloadRouteKey option" where
  "route_for_candidate r = Some \<lparr>route_source_kind = sr_source_kind r, route_indexer_id = sr_indexer_id r\<rparr>"

section \<open>Releases on disk\<close>

record MediaFileCutoffSummary =
  mf_id :: string
  mf_file_path :: string
  mf_original_file_path :: "string option"
  mf_scene_name :: "string option"
  mf_grabbed_release_title :: "string option"

text \<open>\<open>Path::file_stem\<close> on Unix: the last component that is no \<open>.\<close>, if it is no \<open>..\<close>, up to its last
  dot unless that is its first character.\<close>

definition file_name :: "string \<Rightarrow> string option" where
  "file_name path =
     (case rev (filter (\<lambda>c. c \<noteq> [] \<and> c \<noteq> ''.'') (split_on (CHR ''/'') path)) of
        [] \<Rightarrow> None
      | c # _ \<Rightarrow> if c = ''..'' then None else Some c)"

definition file_stem :: "string \<Rightarrow> string option" where
  "file_stem path =
     map_option (\<lambda>name. case rsplit_once (CHR ''.'') name of
                          Some (before, _) \<Rightarrow> if before = [] then name else before
                        | None \<Rightarrow> name)
       (file_name path)"

definition normalized_release_identity :: "string \<Rightarrow> string" where
  "normalized_release_identity v = to_ascii_lowercase (trim v)"

definition release_identities :: "MediaFileCutoffSummary \<Rightarrow> string list" where
  "release_identities f =
     map normalized_release_identity
       (List.map_filter id [mf_grabbed_release_title f, mf_scene_name f] @
        List.map_filter file_stem (List.map_filter id [mf_original_file_path f, Some (mf_file_path f)]))"

definition candidate_matches_existing_media_file ::
  "IndexerSearchResult \<Rightarrow> MediaFileCutoffSummary list \<Rightarrow> AdmissionSubject \<Rightarrow> bool" where
  "candidate_matches_existing_media_file r files subject =
     (let title = normalized_release_identity (sr_title r); in_scope = map inc_file_id (incumbents subject)
      in if title = [] then False
         else if in_scope = [] then False
         else list_ex (\<lambda>f. title \<in> set (release_identities f)) (filter (\<lambda>f. mf_id f \<in> set in_scope) files))"

end
