(* ===== verification/Delay_Profiles.thy ===== *)
theory Delay_Profiles
  imports Domain_Types Time_Interface
begin

text \<open>
  Delay profiles (\<open>scryer-application/src/acquisition/delay_profile.rs\<close>): the catalog of
  profiles, its normalisation and validation, the profile that applies to a title, and the
  decision whether a release may be grabbed now or is held. The decision's arithmetic goes
  through the \<open>chrono\<close> argument; \<open>None\<close> is a panic of that crate.
\<close>

section \<open>The catalog\<close>

datatype PreferredProtocol = Usenet | Torrent

primrec PreferredProtocol_as_str :: "PreferredProtocol \<Rightarrow> string" where
  "PreferredProtocol_as_str Usenet = ''usenet''"
| "PreferredProtocol_as_str Torrent = ''torrent''"

definition PreferredProtocol_parse :: "string \<Rightarrow> PreferredProtocol option" where
  "PreferredProtocol_parse value =
     (if trim value = ''usenet'' then Some Usenet
      else if trim value = ''torrent'' then Some Torrent
      else None)"

interpretation preferred_protocol: label_codec PreferredProtocol_as_str PreferredProtocol_parse
proof
  fix x show "PreferredProtocol_parse (PreferredProtocol_as_str x) = Some x"
    by (cases x) (simp_all add: PreferredProtocol_parse_def trim_plain label_eval)
qed

datatype DelayDecisionReason =
  Eligible | PendingDelay | MinimumAge | ReleaseAgeUnknown | ProtocolDisabled

record DelayDecision =
  reason :: DelayDecisionReason
  eligible_at :: "datetime option"
  min_age_hold_minutes :: int
  protocol_hold_minutes :: int
  effective_delay_minutes :: int

definition DelayDecision_default :: DelayDecision where
  "DelayDecision_default =
     \<lparr>reason = Eligible, eligible_at = None, min_age_hold_minutes = 0,
      protocol_hold_minutes = 0, effective_delay_minutes = 0\<rparr>"

definition should_hold :: "DelayDecision \<Rightarrow> bool" where
  "should_hold d \<longleftrightarrow> reason d \<in> {PendingDelay, MinimumAge, ReleaseAgeUnknown}"

definition blocks_grab :: "DelayDecision \<Rightarrow> bool" where
  "blocks_grab d \<longleftrightarrow> reason d \<noteq> Eligible"

record DelayPolicyContext =
  user_invoked :: bool
  candidate_score :: int
  preferred_protocol_same_tier_revision :: bool
  preferred_protocol_highest_quality :: bool
  oldest_overlapping_pending_published_at :: "datetime option"

definition DelayPolicyContext_scored :: "int \<Rightarrow> DelayPolicyContext" where
  "DelayPolicyContext_scored score =
     \<lparr>user_invoked = False, candidate_score = score,
      preferred_protocol_same_tier_revision = False,
      preferred_protocol_highest_quality = False,
      oldest_overlapping_pending_published_at = None\<rparr>"

record DelayProfile =
  dp_id :: string
  dp_name :: string
  usenet_delay_minutes :: int
  torrent_delay_minutes :: int
  dp_preferred_protocol :: PreferredProtocol
  min_age_minutes :: int
  bypass_score_threshold :: "int option"
  enable_usenet :: bool
  enable_torrent :: bool
  bypass_if_highest_quality :: bool
  applies_to_facets :: "string list"
  dp_tags :: "string list"
  dp_library_ids :: "string list"
  dp_priority :: int
  dp_enabled :: bool

definition DelayProfile_default :: DelayProfile where
  "DelayProfile_default =
     \<lparr>dp_id = [], dp_name = [], usenet_delay_minutes = 0, torrent_delay_minutes = 0,
      dp_preferred_protocol = Usenet, min_age_minutes = 0, bypass_score_threshold = None,
      enable_usenet = True, enable_torrent = True, bypass_if_highest_quality = False,
      applies_to_facets = [], dp_tags = [], dp_library_ids = [], dp_priority = 0,
      dp_enabled = True\<rparr>"

definition normalize_delay_profile :: "DelayProfile \<Rightarrow> DelayProfile" where
  "normalize_delay_profile p =
     p\<lparr>dp_id := trim (dp_id p),
       dp_name := trim (dp_name p),
       applies_to_facets :=
         filter_seen (\<lambda>f. f) []
           (List.map_filter (\<lambda>f. map_option MediaFacet_as_str (MediaFacet_parse f))
              (applies_to_facets p)),
       dp_tags :=
         filter_seen to_ascii_lowercase []
           (filter (\<lambda>t. t \<noteq> []) (map trim (dp_tags p))),
       dp_library_ids :=
         filter_seen (\<lambda>l. l) []
           (filter (\<lambda>l. l \<noteq> []) (map trim (dp_library_ids p)))\<rparr>"

text \<open>
  The body of the validation loop, in the order of the source: the error it returns with, or
  \<open>None\<close> when the profile passes. \<open>ids\<close> holds the lower-cased ids of the profiles before it.
\<close>

definition delay_profile_problem :: "string list \<Rightarrow> DelayProfile \<Rightarrow> string option" where
  "delay_profile_problem ids p =
     (let named = ''delay profile '' @ quoted (dp_id p)
      in if trim (dp_id p) = [] then Some ''delay profile id is required''
         else if to_ascii_lowercase (dp_id p) \<in> set ids
           then Some (''duplicate delay profile id '' @ quoted (dp_id p))
         else if trim (dp_name p) = [] then Some (named @ '' must have a name'')
         else if usenet_delay_minutes p < 0 then Some (named @ '' has a negative usenet delay'')
         else if torrent_delay_minutes p < 0 then Some (named @ '' has a negative torrent delay'')
         else if min_age_minutes p < 0 then Some (named @ '' has a negative minimum usenet age'')
         else if \<not> enable_usenet p \<and> \<not> enable_torrent p
           then Some (named @ '' must enable at least one protocol'')
         else if (case bypass_score_threshold p of Some t \<Rightarrow> t < 0 | None \<Rightarrow> False)
           then Some (named @ '' has a negative bypass score threshold'')
         else map_option (\<lambda>f. named @ '' has an invalid facet '' @ quoted f)
                (find (\<lambda>f. MediaFacet_parse f = None) (applies_to_facets p)))"

fun validate_profiles_from :: "string list \<Rightarrow> DelayProfile list \<Rightarrow> string + unit" where
  "validate_profiles_from ids [] = Inr ()"
| "validate_profiles_from ids (p # ps) =
     (case delay_profile_problem ids p of
        Some e \<Rightarrow> Inl e
      | None \<Rightarrow> validate_profiles_from (to_ascii_lowercase (dp_id p) # ids) ps)"

definition validate_delay_profile_catalog :: "DelayProfile list \<Rightarrow> string + unit" where
  "validate_delay_profile_catalog profiles = validate_profiles_from [] profiles"

section \<open>The profile of a title\<close>

definition delay_profile_matches ::
  "string list \<Rightarrow> MediaFacet \<Rightarrow> string \<Rightarrow> DelayProfile \<Rightarrow> bool" where
  "delay_profile_matches title_tags facet library_id p \<longleftrightarrow>
     \<not> (dp_library_ids p \<noteq> [] \<and> \<not> list_ex (\<lambda>i. i = library_id) (dp_library_ids p)) \<and>
     \<not> (applies_to_facets p \<noteq> [] \<and>
        \<not> list_ex (\<lambda>f. f = facet) (List.map_filter MediaFacet_parse (applies_to_facets p))) \<and>
     \<not> (dp_tags p \<noteq> [] \<and>
        \<not> list_ex (\<lambda>pt. list_ex (\<lambda>tt. eq_ignore_ascii_case tt pt) title_tags) (dp_tags p))"

definition resolve_delay_profile ::
  "DelayProfile list \<Rightarrow> string list \<Rightarrow> MediaFacet \<Rightarrow> string \<Rightarrow> DelayProfile option" where
  "resolve_delay_profile profiles title_tags facet library_id =
     (let sorted_profiles = sort_key dp_priority (filter dp_enabled profiles)
      in find (delay_profile_matches title_tags facet library_id) sorted_profiles)"

section \<open>The delay decision\<close>

definition is_usenet_source :: "DownloadSourceKind option \<Rightarrow> bool" where
  "is_usenet_source k \<longleftrightarrow> k = Some NzbFile \<or> k = Some NzbUrl"

definition get_protocol_delay :: "DelayProfile \<Rightarrow> DownloadSourceKind option \<Rightarrow> int" where
  "get_protocol_delay p k =
     (if is_usenet_source k then usenet_delay_minutes p
      else if k = Some HttpResource then 0
      else torrent_delay_minutes p)"

fun is_protocol_enabled :: "DelayProfile \<Rightarrow> DownloadSourceKind option \<Rightarrow> bool" where
  "is_protocol_enabled p (Some NzbFile) = enable_usenet p"
| "is_protocol_enabled p (Some NzbUrl) = enable_usenet p"
| "is_protocol_enabled p (Some TorrentFile) = enable_torrent p"
| "is_protocol_enabled p (Some MagnetUri) = enable_torrent p"
| "is_protocol_enabled p (Some HttpResource) = True"
| "is_protocol_enabled p None = True"

fun is_preferred_protocol :: "DelayProfile \<Rightarrow> DownloadSourceKind option \<Rightarrow> bool" where
  "is_preferred_protocol p (Some NzbFile) = (dp_preferred_protocol p = Usenet)"
| "is_preferred_protocol p (Some NzbUrl) = (dp_preferred_protocol p = Usenet)"
| "is_preferred_protocol p (Some TorrentFile) = (dp_preferred_protocol p = Torrent)"
| "is_preferred_protocol p (Some MagnetUri) = (dp_preferred_protocol p = Torrent)"
| "is_preferred_protocol p (Some HttpResource) = False"
| "is_preferred_protocol p None = False"

text \<open>\<open>instant + chrono::Duration::minutes(m)\<close>; \<open>None\<close> where either panics.\<close>

definition plus_minutes :: "chrono \<Rightarrow> datetime \<Rightarrow> int \<Rightarrow> datetime option" where
  "plus_minutes ch t m = do { d \<leftarrow> ch_minutes ch m; ch_add ch t d }"

definition remaining_minutes :: "chrono \<Rightarrow> datetime \<Rightarrow> datetime \<Rightarrow> int" where
  "remaining_minutes ch eligible now =
     (if eligible \<le> now then 0
      else max 1 (ch_num_seconds ch (eligible - now) + 59) sdiv 60)"

definition should_bypass_protocol_delay ::
  "chrono \<Rightarrow> DelayProfile \<Rightarrow> DownloadSourceKind option \<Rightarrow> DelayPolicyContext \<Rightarrow> datetime \<Rightarrow> bool option"
where
  "should_bypass_protocol_delay ch p k context now =
     (let delay = max 0 (get_protocol_delay p k)
      in if user_invoked context then Some True
         else if delay = 0 then Some True
         else if is_preferred_protocol p k
              \<and> (preferred_protocol_same_tier_revision context
                 \<or> (bypass_if_highest_quality p \<and> preferred_protocol_highest_quality context)
                 \<or> (case bypass_score_threshold p of
                      Some threshold \<Rightarrow> threshold \<le> candidate_score context | None \<Rightarrow> False))
           then Some True
         else case oldest_overlapping_pending_published_at context of
                None \<Rightarrow> Some False
              | Some published \<Rightarrow> do { u \<leftarrow> plus_minutes ch published delay; Some (u < now) })"

definition should_bypass_delay ::
  "chrono \<Rightarrow> DelayProfile \<Rightarrow> DownloadSourceKind option \<Rightarrow> int \<Rightarrow> datetime \<Rightarrow> bool option" where
  "should_bypass_delay ch p k score utc_now =
     should_bypass_protocol_delay ch p k (DelayPolicyContext_scored score) utc_now"

definition min_age_delay :: "DelayProfile \<Rightarrow> DownloadSourceKind option \<Rightarrow> int" where
  "min_age_delay p k = (if is_usenet_source k then max 0 (min_age_minutes p) else 0)"

definition release_age_unknown_escalation_deadline ::
  "chrono \<Rightarrow> DelayProfile \<Rightarrow> DownloadSourceKind option \<Rightarrow> datetime \<Rightarrow> datetime option" where
  "release_age_unknown_escalation_deadline ch p k first_seen_at =
     plus_minutes ch first_seen_at (max (max (get_protocol_delay p k) 0) (min_age_delay p k))"

definition latest_deadline :: "datetime option \<Rightarrow> datetime option \<Rightarrow> datetime option" where
  "latest_deadline minimum_age protocol_delay =
     (case (minimum_age, protocol_delay) of
        (Some a, Some b) \<Rightarrow> Some (max a b)
      | (Some a, None) \<Rightarrow> Some a
      | (None, Some b) \<Rightarrow> Some b
      | (None, None) \<Rightarrow> None)"

definition hold_reason :: "int \<Rightarrow> int \<Rightarrow> DelayDecisionReason" where
  "hold_reason min_age_hold protocol_hold =
     (if protocol_hold > min_age_hold then PendingDelay
      else if min_age_hold > 0 then MinimumAge
      else if protocol_hold > 0 then PendingDelay
      else Eligible)"

text \<open>\<open>cond.then(|| published_at + Duration::minutes(m))\<close>.\<close>

definition deadline_if :: "chrono \<Rightarrow> bool \<Rightarrow> datetime \<Rightarrow> int \<Rightarrow> datetime option option" where
  "deadline_if ch cond published m =
     (if cond then map_option Some (plus_minutes ch published m) else Some None)"

definition evaluate_delay_decision_with_context ::
  "chrono \<Rightarrow> DelayProfile \<Rightarrow> DownloadSourceKind option \<Rightarrow> datetime option \<Rightarrow> DelayPolicyContext
     \<Rightarrow> datetime \<Rightarrow> DelayDecision option" where
  "evaluate_delay_decision_with_context ch p k published_at context now =
     (if \<not> is_protocol_enabled p k
      then Some (DelayDecision_default\<lparr>reason := ProtocolDisabled\<rparr>)
      else do {
        let protocol_delay = max 0 (get_protocol_delay p k);
        let min_age = min_age_delay p k;
        bypass \<leftarrow> should_bypass_protocol_delay ch p k context now;
        let normal_delay_applies = protocol_delay > 0 \<and> \<not> bypass;
        case published_at of
          None \<Rightarrow>
            Some (if min_age > 0 \<or> normal_delay_applies
                  then DelayDecision_default\<lparr>reason := ReleaseAgeUnknown\<rparr>
                  else DelayDecision_default)
        | Some published \<Rightarrow> do {
            min_age_eligible_at \<leftarrow> deadline_if ch (min_age > 0) published min_age;
            protocol_eligible_at \<leftarrow> deadline_if ch normal_delay_applies published protocol_delay;
            let eligible = latest_deadline min_age_eligible_at protocol_eligible_at;
            let min_age_hold =
              (case min_age_eligible_at of Some e \<Rightarrow> remaining_minutes ch e now | None \<Rightarrow> 0);
            let protocol_hold =
              (case protocol_eligible_at of Some e \<Rightarrow> remaining_minutes ch e now | None \<Rightarrow> 0);
            Some \<lparr>reason = hold_reason min_age_hold protocol_hold,
                  eligible_at = eligible,
                  min_age_hold_minutes = min_age_hold,
                  protocol_hold_minutes = protocol_hold,
                  effective_delay_minutes = max min_age_hold protocol_hold\<rparr>
          }
      })"

definition evaluate_delay_decision ::
  "chrono \<Rightarrow> DelayProfile \<Rightarrow> DownloadSourceKind option \<Rightarrow> datetime option \<Rightarrow> int \<Rightarrow> datetime
     \<Rightarrow> DelayDecision option" where
  "evaluate_delay_decision ch p k published_at score now =
     evaluate_delay_decision_with_context ch p k published_at (DelayPolicyContext_scored score) now"

text \<open>\<open>Option::map\<close> with a closure that may panic: the outer \<open>None\<close> is the panic.\<close>

definition map_panicking :: "('a \<Rightarrow> 'b option) \<Rightarrow> 'a option \<Rightarrow> 'b option option" where
  "map_panicking f x = (case x of None \<Rightarrow> Some None | Some a \<Rightarrow> map_option Some (f a))"

definition grab_time_delay_decision_with_context ::
  "chrono \<Rightarrow> DelayProfile list \<Rightarrow> string list \<Rightarrow> MediaFacet \<Rightarrow> string \<Rightarrow> DownloadSourceKind option
     \<Rightarrow> datetime option \<Rightarrow> DelayPolicyContext \<Rightarrow> datetime \<Rightarrow> DelayDecision option option" where
  "grab_time_delay_decision_with_context ch profiles title_tags facet library_id k published_at context now =
     map_panicking (\<lambda>p. evaluate_delay_decision_with_context ch p k published_at context now)
       (resolve_delay_profile profiles title_tags facet library_id)"

definition resolve_delay_decision ::
  "chrono \<Rightarrow> DelayProfile list \<Rightarrow> string list \<Rightarrow> MediaFacet \<Rightarrow> string \<Rightarrow> DownloadSourceKind option
     \<Rightarrow> datetime option \<Rightarrow> int \<Rightarrow> datetime \<Rightarrow> DelayDecision option option" where
  "resolve_delay_decision ch profiles title_tags facet library_id k published_at score now =
     map_panicking
       (\<lambda>p. evaluate_delay_decision_with_context ch p k published_at
              (DelayPolicyContext_scored score) now)
       (resolve_delay_profile profiles title_tags facet library_id)"

definition grab_time_delay_decision ::
  "chrono \<Rightarrow> DelayProfile list \<Rightarrow> string list \<Rightarrow> MediaFacet \<Rightarrow> string \<Rightarrow> DownloadSourceKind option
     \<Rightarrow> datetime option \<Rightarrow> int \<Rightarrow> datetime option \<Rightarrow> datetime \<Rightarrow> DelayDecision option option" where
  "grab_time_delay_decision ch profiles title_tags facet library_id k published_at score
     delay_started_at now =
     grab_time_delay_decision_with_context ch profiles title_tags facet library_id k published_at
       (DelayPolicyContext_scored score) now"

section \<open>Properties of the catalog\<close>

lemma find_conv_filter: "find P xs = (case filter P xs of [] \<Rightarrow> None | x # _ \<Rightarrow> Some x)"
  by (induction xs) auto

lemma map_filter_as_filter_map:
  "List.map_filter f xs = map (\<lambda>x. the (f x)) (filter (\<lambda>x. f x \<noteq> None) xs)"
  by (induction xs) (auto simp: List.map_filter_simps split: option.splits)

lemma map_filter_fixpoint:
  "(\<And>x. x \<in> set xs \<Longrightarrow> f x = Some x) \<Longrightarrow> List.map_filter f xs = xs"
  by (induction xs) (simp_all add: List.map_filter_simps)

lemma normalized_strings_idem:
  "filter_seen key [] (filter (\<lambda>t. t \<noteq> []) (map trim
     (filter_seen key [] (filter (\<lambda>t. t \<noteq> []) (map trim ts))))) =
   filter_seen key [] (filter (\<lambda>t. t \<noteq> []) (map trim ts))" (is "_ = ?n")
proof -
  have n: "trim t = t \<and> t \<noteq> []" if "t \<in> set ?n" for t
  proof -
    have "t \<in> set (filter (\<lambda>t. t \<noteq> []) (map trim ts))"
      using that by (rule subsetD [OF filter_seen_subset])
    then show ?thesis by auto
  qed
  have "map trim ?n = ?n" by (rule map_idI) (use n in blast)
  moreover have "filter (\<lambda>t. t \<noteq> []) ?n = ?n" by (rule filter_True) (use n in blast)
  ultimately show ?thesis by (simp add: filter_seen_idem)
qed

lemma normalized_facet:
  assumes "f \<in> set (filter_seen (\<lambda>f. f) []
     (List.map_filter (\<lambda>f. map_option MediaFacet_as_str (MediaFacet_parse f)) fs))"
  shows "map_option MediaFacet_as_str (MediaFacet_parse f) = Some f"
proof -
  have "f \<in> set (List.map_filter (\<lambda>f. map_option MediaFacet_as_str (MediaFacet_parse f)) fs)"
    using assms by (rule subsetD [OF filter_seen_subset])
  then obtain x where "f = MediaFacet_as_str x"
    by (auto simp: map_filter_as_filter_map)
  then show ?thesis by (simp add: media_facet.parse_as_str)
qed

lemma normalized_facets_idem:
  defines "canon \<equiv> \<lambda>f. map_option MediaFacet_as_str (MediaFacet_parse f)"
  shows "filter_seen (\<lambda>f. f) [] (List.map_filter canon (filter_seen (\<lambda>f. f) [] (List.map_filter canon fs)))
    = filter_seen (\<lambda>f. f) [] (List.map_filter canon fs)"
proof -
  have "List.map_filter canon (filter_seen (\<lambda>f. f) [] (List.map_filter canon fs)) =
      filter_seen (\<lambda>f. f) [] (List.map_filter canon fs)"
    by (rule map_filter_fixpoint) (use normalized_facet in \<open>auto simp: canon_def\<close>)
  then show ?thesis by (simp add: filter_seen_idem)
qed

lemma validate_profiles_from_ok:
  "validate_profiles_from ids ps = Inr () \<longleftrightarrow>
   (\<forall>p \<in> set ps. delay_profile_problem [] p = None) \<and>
   distinct (map (\<lambda>p. to_ascii_lowercase (dp_id p)) ps) \<and>
   (\<lambda>p. to_ascii_lowercase (dp_id p)) ` set ps \<inter> set ids = {}"
proof (induction ps arbitrary: ids)
  case Nil
  then show ?case by simp
next
  case (Cons p ps)
  have "delay_profile_problem ids p = None \<longleftrightarrow>
      delay_profile_problem [] p = None \<and> to_ascii_lowercase (dp_id p) \<notin> set ids"
    by (auto simp: delay_profile_problem_def Let_def)
  with Cons show ?case by (auto split: option.splits)
qed

lemma delay_profile_problem_None:
  "delay_profile_problem [] p = None \<longleftrightarrow>
   trim (dp_id p) \<noteq> [] \<and> trim (dp_name p) \<noteq> [] \<and>
   0 \<le> usenet_delay_minutes p \<and> 0 \<le> torrent_delay_minutes p \<and> 0 \<le> min_age_minutes p \<and>
   (enable_usenet p \<or> enable_torrent p) \<and>
   (\<forall>t. bypass_score_threshold p = Some t \<longrightarrow> 0 \<le> t) \<and>
   (\<forall>f \<in> set (applies_to_facets p). MediaFacet_parse f \<noteq> None)"
  by (auto simp: delay_profile_problem_def Let_def find_None_iff split: option.splits)

lemma filter_sort_head:
  assumes "sort_key f xs = y # ys"
  shows "y \<in> set xs \<and> (\<forall>x \<in> set xs. f y \<le> f x) \<and> hd (filter (\<lambda>x. f x = f y) xs) = y"
proof -
  have sorted: "sorted (map f (y # ys))" using assms by (metis sorted_sort_key)
  have sets: "set (y # ys) = set xs" using assms by (metis set_sort)
  have "filter (\<lambda>x. f x = f y) (y # ys) = filter (\<lambda>x. f x = f y) xs"
    using assms sort_key_stable [of f "f y" xs] by metis
  then have "hd (filter (\<lambda>x. f x = f y) xs) = y"
    by (metis (mono_tags, lifting) filter.simps(2) list.sel(1))
  with sorted sets show ?thesis by auto
qed

lemma resolve_delay_profile_head:
  "resolve_delay_profile profiles tags facet lib =
   (case sort_key dp_priority
           (filter (\<lambda>p. dp_enabled p \<and> delay_profile_matches tags facet lib p) profiles) of
      [] \<Rightarrow> None | p # _ \<Rightarrow> Some p)"
proof -
  have "filter (delay_profile_matches tags facet lib) (sort_key dp_priority (filter dp_enabled profiles))
    = sort_key dp_priority (filter (\<lambda>p. dp_enabled p \<and> delay_profile_matches tags facet lib p) profiles)"
    by (simp add: filter_sort conj_commute)
  then show ?thesis by (simp add: resolve_delay_profile_def find_conv_filter)
qed

section \<open>Properties of the decision\<close>

text \<open>
  What the two deadlines of the code amount to: one required delay, the larger of the
  minimum age and the protocol delay that was not bypassed.
\<close>

definition required_delay_minutes :: "DelayProfile \<Rightarrow> DownloadSourceKind option \<Rightarrow> bool \<Rightarrow> int" where
  "required_delay_minutes p k bypass =
     max (min_age_delay p k) (if bypass then 0 else max 0 (get_protocol_delay p k))"

lemma min_age_delay_nonneg [simp]: "0 \<le> min_age_delay p k"
  by (simp add: min_age_delay_def)

lemma hold_reason_Eligible: "0 \<le> a \<Longrightarrow> 0 \<le> b \<Longrightarrow> hold_reason a b = Eligible \<longleftrightarrow> max a b = 0"
  by (auto simp: hold_reason_def)

context chrono_time
begin

lemma plus_minutes_Some: "plus_minutes ch t m = Some u \<Longrightarrow> u = t + m * ns_per_minute"
  by (auto simp: plus_minutes_def bind_eq_Some_conv)

lemma remaining_minutes_eq:
  "remaining_minutes ch e now = (if e \<le> now then 0 else ((e - now) div ns_per_second + 59) div 60)"
proof (cases "e \<le> now")
  case False
  then have "0 \<le> (e - now) div ns_per_second" by (simp add: pos_imp_zdiv_nonneg_iff)
  with False show ?thesis
    by (simp add: remaining_minutes_def num_seconds_nonneg signed_divide_int_def sgn_if max_def)
qed (simp add: remaining_minutes_def)

lemma remaining_minutes_nonneg [simp]: "0 \<le> remaining_minutes ch e now"
  by (simp add: remaining_minutes_eq pos_imp_zdiv_nonneg_iff)

lemma remaining_minutes_zero: "remaining_minutes ch e now = 0 \<longleftrightarrow> e < now + ns_per_second"
proof (cases "e \<le> now")
  case True
  then show ?thesis by (simp add: remaining_minutes_eq)
next
  case False
  define q where "q = (e - now) div ns_per_second"
  have q: "0 \<le> q" "q = 0 \<longleftrightarrow> e - now < ns_per_second"
    using False by (auto simp: q_def pos_imp_zdiv_nonneg_iff zdiv_eq_0_iff)
  then have "(q + 59) div 60 = 0 \<longleftrightarrow> q = 0" by (auto simp: zdiv_eq_0_iff)
  with False q show ?thesis by (auto simp: remaining_minutes_eq q_def)
qed

lemma remaining_minutes_mono: "e \<le> f \<Longrightarrow> remaining_minutes ch e now \<le> remaining_minutes ch f now"
  unfolding remaining_minutes_eq by (auto intro!: zdiv_mono1 simp: pos_imp_zdiv_nonneg_iff)

lemma remaining_minutes_max:
  "max (remaining_minutes ch e now) (remaining_minutes ch f now) = remaining_minutes ch (max e f) now"
  by (metis linear max.absorb1 max.absorb2 remaining_minutes_mono)

lemma deadline_if_Some:
  "deadline_if ch c t m = Some e \<Longrightarrow> e = (if c then Some (t + m * ns_per_minute) else None)"
  by (auto simp: deadline_if_def dest: plus_minutes_Some split: if_splits)

lemma bypass_mono:
  assumes "should_bypass_protocol_delay ch p k c now = Some b" "now \<le> later"
  shows "\<exists>b'. should_bypass_protocol_delay ch p k c later = Some b' \<and> (b \<longrightarrow> b')"
  using assms
  by (fastforce simp: should_bypass_protocol_delay_def Let_def bind_eq_Some_conv split: option.splits if_splits)

lemma decision_spec:
  assumes "is_protocol_enabled p k"
    and "should_bypass_protocol_delay ch p k c now = Some bypass"
    and "evaluate_delay_decision_with_context ch p k (Some t) c now = Some d"
  shows "eligible_at d = (if required_delay_minutes p k bypass = 0 then None
           else Some (t + required_delay_minutes p k bypass * ns_per_minute))"
    and "effective_delay_minutes d = (case eligible_at d of None \<Rightarrow> 0 | Some e \<Rightarrow> remaining_minutes ch e now)"
    and "reason d = Eligible \<longleftrightarrow> effective_delay_minutes d = 0"
proof -
  define a where "a = min_age_delay p k"
  define b where "b = max 0 (get_protocol_delay p k)"
  have nn: "0 \<le> a" "0 \<le> b" by (simp_all add: a_def b_def)
  have req: "required_delay_minutes p k bypass = max a (if bypass then 0 else b)"
    by (simp add: required_delay_minutes_def a_def b_def)
  obtain x y where x: "deadline_if ch (a > 0) t a = Some x"
    and y: "deadline_if ch (b > 0 \<and> \<not> bypass) t b = Some y"
    and d: "d = \<lparr>reason = hold_reason (case x of Some e \<Rightarrow> remaining_minutes ch e now | None \<Rightarrow> 0)
                    (case y of Some e \<Rightarrow> remaining_minutes ch e now | None \<Rightarrow> 0),
                eligible_at = latest_deadline x y,
                min_age_hold_minutes = (case x of Some e \<Rightarrow> remaining_minutes ch e now | None \<Rightarrow> 0),
                protocol_hold_minutes = (case y of Some e \<Rightarrow> remaining_minutes ch e now | None \<Rightarrow> 0),
                effective_delay_minutes = max (case x of Some e \<Rightarrow> remaining_minutes ch e now | None \<Rightarrow> 0)
                    (case y of Some e \<Rightarrow> remaining_minutes ch e now | None \<Rightarrow> 0)\<rparr>"
    using assms by (auto simp: evaluate_delay_decision_with_context_def Let_def bind_eq_Some_conv a_def b_def)
  have x': "x = (if a > 0 then Some (t + a * ns_per_minute) else None)"
    and y': "y = (if b > 0 \<and> \<not> bypass then Some (t + b * ns_per_minute) else None)"
    using x y by (auto dest: deadline_if_Some)
  have mx: "max (t + a * ns_per_minute) (t + b * ns_per_minute) = t + max a b * ns_per_minute"
    by (auto simp: max_def)
  show el: "eligible_at d = (if required_delay_minutes p k bypass = 0 then None
           else Some (t + required_delay_minutes p k bypass * ns_per_minute))"
    using nn mx by (auto simp: d x' y' req latest_deadline_def max_def)
  show ef: "effective_delay_minutes d = (case eligible_at d of None \<Rightarrow> 0 | Some e \<Rightarrow> remaining_minutes ch e now)"
    by (auto simp: d latest_deadline_def remaining_minutes_max split: option.splits)
  show "reason d = Eligible \<longleftrightarrow> effective_delay_minutes d = 0"
    unfolding d by (auto simp: hold_reason_Eligible split: option.splits)
qed

lemma decision_blocks_iff:
  assumes "is_protocol_enabled p k"
    and "should_bypass_protocol_delay ch p k c now = Some bypass"
    and "evaluate_delay_decision_with_context ch p k (Some t) c now = Some d"
  shows "blocks_grab d \<longleftrightarrow> 0 < required_delay_minutes p k bypass \<and>
      now + ns_per_second \<le> t + required_delay_minutes p k bypass * ns_per_minute"
proof -
  have "0 \<le> required_delay_minutes p k bypass"
    by (simp add: required_delay_minutes_def le_max_iff_disj)
  then show ?thesis
    using decision_spec [OF assms] by (auto simp: blocks_grab_def remaining_minutes_zero)
qed

lemma evaluate_total:
  assumes "is_protocol_enabled p k" "should_bypass_protocol_delay ch p k c now = Some bypass"
    and "min_age_delay p k > 0 \<Longrightarrow> plus_minutes ch t (min_age_delay p k) \<noteq> None"
    and "max 0 (get_protocol_delay p k) > 0 \<Longrightarrow> \<not> bypass \<Longrightarrow>
         plus_minutes ch t (max 0 (get_protocol_delay p k)) \<noteq> None"
  shows "evaluate_delay_decision_with_context ch p k (Some t) c now \<noteq> None"
  using assms
  by (auto simp: evaluate_delay_decision_with_context_def Let_def deadline_if_def bind_eq_None_conv)

lemma evaluate_deadlines:
  assumes "is_protocol_enabled p k" "should_bypass_protocol_delay ch p k c now = Some bypass"
    and "evaluate_delay_decision_with_context ch p k (Some t) c now \<noteq> None"
  shows "min_age_delay p k > 0 \<Longrightarrow> plus_minutes ch t (min_age_delay p k) \<noteq> None"
    and "max 0 (get_protocol_delay p k) > 0 \<Longrightarrow> \<not> bypass \<Longrightarrow>
         plus_minutes ch t (max 0 (get_protocol_delay p k)) \<noteq> None"
  using assms
  by (auto simp: evaluate_delay_decision_with_context_def Let_def deadline_if_def bind_eq_None_conv
      split: if_splits)

lemma eligible_stays:
  assumes "is_protocol_enabled p k"
    and "should_bypass_protocol_delay ch p k c now = Some b"
    and "evaluate_delay_decision_with_context ch p k (Some t) c now = Some d"
    and "\<not> blocks_grab d" "now \<le> later"
  shows "\<exists>d'. evaluate_delay_decision_with_context ch p k (Some t) c later = Some d' \<and> \<not> blocks_grab d'"
proof -
  obtain b' where b': "should_bypass_protocol_delay ch p k c later = Some b'" "b \<longrightarrow> b'"
    using bypass_mono assms(2,5) by blast
  have ok: "evaluate_delay_decision_with_context ch p k (Some t) c later \<noteq> None"
    by (rule evaluate_total [OF assms(1) b'(1)])
      (use evaluate_deadlines [OF assms(1,2)] assms(3) b'(2) in auto)
  then obtain d' where d': "evaluate_delay_decision_with_context ch p k (Some t) c later = Some d'"
    by blast
  have "required_delay_minutes p k b' \<le> required_delay_minutes p k b"
    using b'(2) by (auto simp: required_delay_minutes_def)
  then have "t + required_delay_minutes p k b' * ns_per_minute
      \<le> t + required_delay_minutes p k b * ns_per_minute" by simp
  with decision_blocks_iff [OF assms(1,2,3)] decision_blocks_iff [OF assms(1) b'(1) d'] assms(4,5)
  show ?thesis using d' \<open>required_delay_minutes p k b' \<le> required_delay_minutes p k b\<close> by auto
qed

lemma evaluate_unpublished:
  assumes "is_protocol_enabled p k"
    and "should_bypass_protocol_delay ch p k c now = Some b"
  shows "evaluate_delay_decision_with_context ch p k None c now =
    Some (if 0 < required_delay_minutes p k b
          then DelayDecision_default\<lparr>reason := ReleaseAgeUnknown\<rparr> else DelayDecision_default)"
  using assms
  by (auto simp: evaluate_delay_decision_with_context_def Let_def required_delay_minutes_def min_age_delay_def)

lemma plus_minutes_i32:
  assumes "0 \<le> m" "is_i32 m" "dt_min ch \<le> t" "t + i32_max * ns_per_minute \<le> dt_max ch"
  shows "plus_minutes ch t m \<noteq> None"
proof -
  have "m * ns_per_minute \<le> i32_max * ns_per_minute" using assms(2) by (simp add: is_i32_def i32_max_def)
  moreover have "\<bar>m * 60\<bar> \<le> delta_max_seconds"
    using assms(1,2) by (simp add: is_i32_def delta_max_seconds_def)
  ultimately show ?thesis using assms by (simp add: plus_minutes_def minutes add in_range_def)
qed

end

section \<open>The properties of delay profiles\<close>

text \<open>
  Normalising a delay profile is idempotent, and afterwards every facet is one of the
  three canonical labels, no tag repeats up to ASCII case, and no tag or library id is blank.
\<close>

theorem normalize_delay_profile_canonical:
  "normalize_delay_profile (normalize_delay_profile p) = normalize_delay_profile p \<and>
   set (applies_to_facets (normalize_delay_profile p)) \<subseteq> range MediaFacet_as_str \<and>
   distinct (applies_to_facets (normalize_delay_profile p)) \<and>
   distinct (map to_ascii_lowercase (dp_tags (normalize_delay_profile p))) \<and>
   [] \<notin> set (dp_tags (normalize_delay_profile p)) \<and>
   distinct (dp_library_ids (normalize_delay_profile p)) \<and>
   [] \<notin> set (dp_library_ids (normalize_delay_profile p))"
proof -
  let ?q = "normalize_delay_profile p"
  have "normalize_delay_profile ?q = ?q"
    unfolding normalize_delay_profile_def
    by (simp add: normalized_strings_idem normalized_facets_idem)
  moreover have "set (applies_to_facets ?q) \<subseteq> range MediaFacet_as_str"
    using normalized_facet [of _ "applies_to_facets p"]
    by (fastforce simp: normalize_delay_profile_def)
  moreover have "[] \<notin> set (dp_tags ?q)" "[] \<notin> set (dp_library_ids ?q)"
    using filter_seen_subset by (fastforce simp: normalize_delay_profile_def)+
  ultimately show ?thesis
    by (simp add: normalize_delay_profile_def filter_seen_distinct)
qed

text \<open>
  The catalog validator accepts exactly the catalogs whose profiles all have an id, a
  name, non-negative delays, minimum age and score threshold, at least one enabled protocol
  and only known facets, and whose ids are distinct up to ASCII case.
\<close>

theorem validate_delay_profile_catalog_iff:
  "validate_delay_profile_catalog ps = Inr () \<longleftrightarrow>
   list_all (\<lambda>p.
      trim (dp_id p) \<noteq> [] \<and> trim (dp_name p) \<noteq> [] \<and>
      0 \<le> usenet_delay_minutes p \<and> 0 \<le> torrent_delay_minutes p \<and> 0 \<le> min_age_minutes p \<and>
      (enable_usenet p \<or> enable_torrent p) \<and>
      (case bypass_score_threshold p of Some t \<Rightarrow> 0 \<le> t | None \<Rightarrow> True) \<and>
      list_all (\<lambda>f. MediaFacet_parse f \<noteq> None) (applies_to_facets p)) ps \<and>
   distinct (map (\<lambda>p. to_ascii_lowercase (dp_id p)) ps)"
  by (auto simp: validate_delay_profile_catalog_def validate_profiles_from_ok list_all_iff
      delay_profile_problem_None split: option.splits)

text \<open>
  The profile chosen for a title is an enabled profile whose library, facet and tag
  filters all match, no other such profile has a smaller priority, and among those of equal
  priority it is the first in the catalog; no profile is chosen only when none matches.
\<close>

theorem resolve_delay_profile_best:
  "case resolve_delay_profile profiles tags facet lib of
     None \<Rightarrow> filter (\<lambda>q. dp_enabled q \<and> delay_profile_matches tags facet lib q) profiles = []
   | Some p \<Rightarrow>
       p \<in> set profiles \<and> dp_enabled p \<and> delay_profile_matches tags facet lib p \<and>
       list_all (\<lambda>q. dp_priority p \<le> dp_priority q)
         (filter (\<lambda>q. dp_enabled q \<and> delay_profile_matches tags facet lib q) profiles) \<and>
       find (\<lambda>q. dp_enabled q \<and> delay_profile_matches tags facet lib q
              \<and> dp_priority q = dp_priority p) profiles = Some p"
proof (cases "sort_key dp_priority
    (filter (\<lambda>q. dp_enabled q \<and> delay_profile_matches tags facet lib q) profiles)")
  case Nil
  then have "filter (\<lambda>q. dp_enabled q \<and> delay_profile_matches tags facet lib q) profiles = []"
    by (metis length_0_conv length_sort)
  with Nil show ?thesis by (simp add: resolve_delay_profile_head)
next
  case (Cons p ps)
  let ?Q = "\<lambda>q. dp_enabled q \<and> delay_profile_matches tags facet lib q"
  have h: "p \<in> set (filter ?Q profiles)" "\<forall>q \<in> set (filter ?Q profiles). dp_priority p \<le> dp_priority q"
    "hd (filter (\<lambda>x. dp_priority x = dp_priority p) (filter ?Q profiles)) = p"
    using filter_sort_head [OF Cons] by auto
  have f: "filter (\<lambda>x. dp_priority x = dp_priority p) (filter ?Q profiles) =
      filter (\<lambda>q. dp_enabled q \<and> delay_profile_matches tags facet lib q \<and> dp_priority q = dp_priority p) profiles"
    by (simp add: conj_ac)
  have "p \<in> set (filter (\<lambda>x. dp_priority x = dp_priority p) (filter ?Q profiles))" using h(1) by simp
  then have "find (\<lambda>q. dp_enabled q \<and> delay_profile_matches tags facet lib q
      \<and> dp_priority q = dp_priority p) profiles = Some p"
    using h(3) unfolding find_conv_filter f [symmetric]
    by (metis (no_types, lifting) f empty_iff empty_set list.exhaust list.sel(1) list.simps(5))
  with Cons h show ?thesis by (auto simp: resolve_delay_profile_head list_all_iff)
qed

text \<open>
  The delay decision is one deadline: for a release with a known publication time on an
  enabled protocol, the grab is blocked exactly while a second or more is left until the
  publication time plus the larger of the minimum age and the unbypassed protocol delay, and
  the reported deadline is that instant.
\<close>

theorem delay_decision_is_one_deadline:
  assumes "chrono_time ch"
    and "is_protocol_enabled p k"
    and "should_bypass_protocol_delay ch p k c now = Some bypass"
    and "evaluate_delay_decision_with_context ch p k (Some t) c now = Some d"
  shows "(blocks_grab d \<longleftrightarrow> 0 < required_delay_minutes p k bypass \<and>
            now + ns_per_second \<le> t + required_delay_minutes p k bypass * ns_per_minute) \<and>
         (0 < required_delay_minutes p k bypass \<longrightarrow>
            eligible_at d = Some (t + required_delay_minutes p k bypass * ns_per_minute))"
  using chrono_time.decision_blocks_iff [OF assms] chrono_time.decision_spec(1) [OF assms] by auto

lemmas delay_eval =
  evaluate_delay_decision_with_context_def should_bypass_protocol_delay_def get_protocol_delay_def
  is_usenet_source_def min_age_delay_def deadline_if_def plus_minutes_def latest_deadline_def
  remaining_minutes_def hold_reason_def required_delay_minutes_def blocks_grab_def
  DelayProfile_default_def DelayDecision_default_def DelayPolicyContext_scored_def chrono_ns_simps

theorem delay_decision_is_one_deadline_witness:
  "blocks_grab (the (evaluate_delay_decision_with_context chrono_ns
     (DelayProfile_default\<lparr>torrent_delay_minutes := 30\<rparr>) (Some MagnetUri) (Some 0)
     (DelayPolicyContext_scored 7) (10 * ns_per_minute)))"
proof -
  let ?p = "DelayProfile_default\<lparr>torrent_delay_minutes := 30\<rparr>"
  have en: "is_protocol_enabled ?p (Some MagnetUri)" by (simp add: DelayProfile_default_def)
  have by_pass: "should_bypass_protocol_delay chrono_ns ?p (Some MagnetUri)
      (DelayPolicyContext_scored 7) (10 * ns_per_minute) = Some False"
    by (simp add: delay_eval)
  have "\<exists>d. evaluate_delay_decision_with_context chrono_ns ?p (Some MagnetUri) (Some 0)
      (DelayPolicyContext_scored 7) (10 * ns_per_minute) = Some d"
    by (simp add: delay_eval)
  then obtain d where d: "evaluate_delay_decision_with_context chrono_ns ?p (Some MagnetUri) (Some 0)
      (DelayPolicyContext_scored 7) (10 * ns_per_minute) = Some d" ..
  show ?thesis
    using delay_decision_is_one_deadline [OF ns.chrono_time_axioms en by_pass d] d
    by (simp add: delay_eval)
qed

text \<open>
  C17. Time only helps: a release that may be grabbed now, with the delay evaluated on the
  same facts at any later instant, may still be grabbed then, and that evaluation cannot
  panic.
\<close>

theorem delay_eligibility_is_stable:
  assumes "chrono_time ch"
    and "evaluate_delay_decision_with_context ch p k published c now = Some d"
    and "\<not> blocks_grab d" and "now \<le> later"
  shows "\<exists>d'. evaluate_delay_decision_with_context ch p k published c later = Some d' \<and> \<not> blocks_grab d'"
proof -
  have en: "is_protocol_enabled p k"
    by (rule ccontr)
      (use assms(2,3) in \<open>auto simp: evaluate_delay_decision_with_context_def blocks_grab_def\<close>)
  with assms(2) obtain b where b: "should_bypass_protocol_delay ch p k c now = Some b"
    by (auto simp: evaluate_delay_decision_with_context_def Let_def bind_eq_Some_conv)
  show ?thesis
  proof (cases published)
    case None
    obtain b' where b': "should_bypass_protocol_delay ch p k c later = Some b'" "b \<longrightarrow> b'"
      using chrono_time.bypass_mono [OF assms(1) b assms(4)] by blast
    then have "required_delay_minutes p k b' \<le> required_delay_minutes p k b"
      by (auto simp: required_delay_minutes_def)
    with assms(2,3) None show ?thesis
      using chrono_time.evaluate_unpublished [OF assms(1) en b]
        chrono_time.evaluate_unpublished [OF assms(1) en b'(1)]
      by (auto simp: blocks_grab_def DelayDecision_default_def split: if_splits)
  next
    case (Some t)
    with chrono_time.eligible_stays [OF assms(1) en b] assms(2,3,4) show ?thesis by blast
  qed
qed

theorem delay_eligibility_is_stable_witness:
  "\<exists>d'. evaluate_delay_decision_with_context chrono_ns
     (DelayProfile_default\<lparr>torrent_delay_minutes := 30\<rparr>) (Some MagnetUri) (Some 0)
     (DelayPolicyContext_scored 7) (90 * ns_per_minute) = Some d' \<and> \<not> blocks_grab d'"
proof -
  let ?p = "DelayProfile_default\<lparr>torrent_delay_minutes := 30\<rparr>"
  have "\<exists>d. evaluate_delay_decision_with_context chrono_ns ?p (Some MagnetUri) (Some 0)
      (DelayPolicyContext_scored 7) (40 * ns_per_minute) = Some d \<and> \<not> blocks_grab d"
    by (simp add: delay_eval)
  then obtain d where d: "evaluate_delay_decision_with_context chrono_ns ?p (Some MagnetUri) (Some 0)
      (DelayPolicyContext_scored 7) (40 * ns_per_minute) = Some d" "\<not> blocks_grab d" by blast
  show ?thesis
    by (rule delay_eligibility_is_stable [OF ns.chrono_time_axioms d]) simp
qed

text \<open>
  The decision never panics on the profiles the API can store: with non-negative delays
  and minimum age that fit an \<open>i32\<close>, and publication times at least \<open>i32::MAX\<close> minutes
  before the end of the representable calendar, every evaluation returns a decision.
\<close>

theorem delay_decision_total:
  assumes "chrono_time ch"
    and "0 \<le> usenet_delay_minutes p" "is_i32 (usenet_delay_minutes p)"
    and "0 \<le> torrent_delay_minutes p" "is_i32 (torrent_delay_minutes p)"
    and "0 \<le> min_age_minutes p" "is_i32 (min_age_minutes p)"
    and "\<And>t. published = Some t \<or> oldest_overlapping_pending_published_at c = Some t \<Longrightarrow>
           dt_min ch \<le> t \<and> t + i32_max * ns_per_minute \<le> dt_max ch"
  shows "\<exists>d. evaluate_delay_decision_with_context ch p k published c now = Some d"
proof (cases "is_protocol_enabled p k")
  case False
  then show ?thesis by (simp add: evaluate_delay_decision_with_context_def)
next
  case True
  have delay: "0 \<le> max 0 (get_protocol_delay p k)" "is_i32 (max 0 (get_protocol_delay p k))"
    and age: "is_i32 (min_age_delay p k)"
    using assms(2-7) by (auto simp: get_protocol_delay_def min_age_delay_def is_i32_def)
  note plus = chrono_time.plus_minutes_i32 [OF assms(1)]
  have "plus_minutes ch t (max 0 (get_protocol_delay p k)) \<noteq> None"
    if "oldest_overlapping_pending_published_at c = Some t" for t
    using plus [OF delay] assms(8) that by blast
  then have "should_bypass_protocol_delay ch p k c now \<noteq> None"
    by (auto simp: should_bypass_protocol_delay_def Let_def bind_eq_None_conv
        simp del: max.absorb1 max.absorb2 split: option.splits)
  then obtain b where b: "should_bypass_protocol_delay ch p k c now = Some b" by blast
  show ?thesis
  proof (cases published)
    case None
    then show ?thesis using chrono_time.evaluate_unpublished [OF assms(1) True b] by simp
  next
    case (Some t)
    then have "evaluate_delay_decision_with_context ch p k (Some t) c now \<noteq> None"
      by (intro chrono_time.evaluate_total [OF assms(1) True b] plus delay age assms(8)[THEN conjunct1]
          assms(8)[THEN conjunct2]) simp_all
    with Some show ?thesis by blast
  qed
qed

theorem delay_decision_total_witness:
  "\<exists>d. evaluate_delay_decision_with_context chrono_ns
     (DelayProfile_default\<lparr>usenet_delay_minutes := 45, min_age_minutes := 2147483647\<rparr>)
     (Some NzbUrl) (Some 0) (DelayPolicyContext_scored 0) 5 = Some d"
  by (rule delay_decision_total [OF ns.chrono_time_axioms])
    (simp_all add: DelayProfile_default_def DelayPolicyContext_scored_def is_i32_def i32_max_def
      chrono_ns_def Let_def)

end
