(* ===== verification/Indexer_Category.thy ===== *)
theory Indexer_Category
  imports Domain_Types
begin

text \<open>
  The category an indexer files a release under, as evidence about what it is
  (\<open>indexer_category.rs\<close>): the coarse families category labels and newznab ids map onto, and the
  asymmetric rule for when a set of categories contradicts the facet that was searched. Reading the
  category out of an NZB document is left to the XML crate and not modelled.
\<close>

section \<open>Families\<close>

datatype IndexerCategoryFamily = Fam_Anime | Fam_Movies | Fam_Tv

primrec IndexerCategoryFamily_as_str :: "IndexerCategoryFamily \<Rightarrow> string" where
  "IndexerCategoryFamily_as_str Fam_Anime = ''anime''"
| "IndexerCategoryFamily_as_str Fam_Movies = ''movies''"
| "IndexerCategoryFamily_as_str Fam_Tv = ''tv''"

text \<open>\<open>str::split\<close> on a set of characters, and \<open>str::contains\<close>.\<close>

fun split_any :: "char set \<Rightarrow> string \<Rightarrow> string list" where
  "split_any seps [] = [[]]"
| "split_any seps (c # cs) =
     (if c \<in> seps then [] # split_any seps cs
      else (case split_any seps cs of [] \<Rightarrow> [[c]] | w # ws \<Rightarrow> (c # w) # ws))"

definition contains_str :: "string \<Rightarrow> string \<Rightarrow> bool" where
  "contains_str s needle \<longleftrightarrow> split_once_str needle s \<noteq> None"

definition newznab_id_family :: "nat \<Rightarrow> IndexerCategoryFamily option" where
  "newznab_id_family i =
     (if i = 5070 then Some Fam_Anime
      else if 2000 \<le> i \<and> i \<le> 2999 then Some Fam_Movies
      else if 5000 \<le> i \<and> i \<le> 5999 then Some Fam_Tv
      else None)"

definition category_segment_family :: "string \<Rightarrow> IndexerCategoryFamily option" where
  "category_segment_family raw =
     (let segment = trim raw
      in if segment = [] then None
         else case parse_u32 segment of
           Some i \<Rightarrow> newznab_id_family i
         | None \<Rightarrow>
             (let lowered = to_ascii_lowercase segment
              in if contains_str lowered ''anime'' then Some Fam_Anime
                 else if contains_str lowered ''movie'' then Some Fam_Movies
                 else if contains_str lowered ''series'' \<or> contains_str lowered ''tv'' then Some Fam_Tv
                 else None))"

text \<open>The loop over the segments of one label: an anime segment returns at once, otherwise the first
  mapped segment stands.\<close>

fun label_family :: "IndexerCategoryFamily option \<Rightarrow> string list \<Rightarrow> IndexerCategoryFamily option" where
  "label_family family [] = family"
| "label_family family (segment # rest) =
     (case category_segment_family segment of
        None \<Rightarrow> label_family family rest
      | Some Fam_Anime \<Rightarrow> Some Fam_Anime
      | Some f \<Rightarrow> label_family (case family of None \<Rightarrow> Some f | Some g \<Rightarrow> Some g) rest)"

definition indexer_category_family :: "string \<Rightarrow> IndexerCategoryFamily option" where
  "indexer_category_family raw = label_family None (split_any {CHR ''>'', CHR ''/''} raw)"

definition indexer_category_label_families :: "string \<Rightarrow> IndexerCategoryFamily list" where
  "indexer_category_label_families raw =
     List.map_filter indexer_category_family (split_any {CHR '','', CHR ''|''} raw)"

section \<open>The veto\<close>

fun indexer_category_contradicts_facet :: "IndexerCategoryFamily \<Rightarrow> MediaFacet \<Rightarrow> bool" where
  "indexer_category_contradicts_facet Fam_Anime Series = True"
| "indexer_category_contradicts_facet Fam_Anime Anime = False"
| "indexer_category_contradicts_facet Fam_Anime Movie = False"
| "indexer_category_contradicts_facet Fam_Movies Series = True"
| "indexer_category_contradicts_facet Fam_Movies Anime = True"
| "indexer_category_contradicts_facet Fam_Movies Movie = False"
| "indexer_category_contradicts_facet Fam_Tv Movie = True"
| "indexer_category_contradicts_facet Fam_Tv Series = False"
| "indexer_category_contradicts_facet Fam_Tv Anime = False"

text \<open>The inner loop: \<open>None\<close> is the early return of \<open>false\<close>.\<close>

fun scan_families :: "MediaFacet \<Rightarrow> bool \<Rightarrow> IndexerCategoryFamily list \<Rightarrow> bool option" where
  "scan_families facet saw [] = Some saw"
| "scan_families facet saw (f # fs) =
     (if \<not> indexer_category_contradicts_facet f facet then None else scan_families facet True fs)"

fun scan_categories :: "MediaFacet \<Rightarrow> bool \<Rightarrow> string list \<Rightarrow> bool" where
  "scan_categories facet saw [] = saw"
| "scan_categories facet saw (c # cs) =
     (case scan_families facet saw (indexer_category_label_families c) of
        None \<Rightarrow> False
      | Some saw' \<Rightarrow> scan_categories facet saw' cs)"

definition indexer_categories_contradict_facet :: "string list \<Rightarrow> MediaFacet \<Rightarrow> bool" where
  "indexer_categories_contradict_facet categories facet = scan_categories facet False categories"

section \<open>When a set of categories vetoes\<close>

definition asserted_families :: "string list \<Rightarrow> IndexerCategoryFamily list" where
  "asserted_families categories = concat (map indexer_category_label_families categories)"

lemma scan_families_eq:
  "scan_families facet saw fs =
     (if list_all (\<lambda>f. indexer_category_contradicts_facet f facet) fs then Some (saw \<or> fs \<noteq> []) else None)"
  by (induction fs arbitrary: saw) auto

lemma scan_categories_eq:
  "scan_categories facet saw cs \<longleftrightarrow>
   list_all (\<lambda>f. indexer_category_contradicts_facet f facet) (asserted_families cs) \<and>
   (saw \<or> asserted_families cs \<noteq> [])"
  by (induction cs arbitrary: saw) (auto simp: asserted_families_def scan_families_eq)

lemma contradicting_families:
  "list_all (\<lambda>f. indexer_category_contradicts_facet f facet) fs \<longleftrightarrow>
   (case facet of Series \<Rightarrow> Fam_Tv \<notin> set fs | Anime \<Rightarrow> set fs \<subseteq> {Fam_Movies} | Movie \<Rightarrow> set fs \<subseteq> {Fam_Tv})"
proof -
  have "indexer_category_contradicts_facet f facet =
      (case facet of Series \<Rightarrow> f \<noteq> Fam_Tv | Anime \<Rightarrow> f = Fam_Movies | Movie \<Rightarrow> f = Fam_Tv)" for f
    by (cases f; cases facet) simp_all
  then show ?thesis by (auto simp: list_all_iff split: MediaFacet.split)
qed

text \<open>
  Categories veto a release only unanimously: some category must map to a family, and every one
  that does must contradict the facet that was searched. So a series search loses a release only
  when none of its categories is plain television, an anime search only when all are movie
  categories, and a movie search only when all are television and none is anime; unmapped labels
  never veto, and the order of the categories does not matter.
\<close>

theorem categories_veto_unanimously:
  "indexer_categories_contradict_facet categories facet =
     (asserted_families categories \<noteq> [] \<and>
      (case facet of
         Series \<Rightarrow> Fam_Tv \<notin> set (asserted_families categories)
       | Anime \<Rightarrow> set (asserted_families categories) \<subseteq> {Fam_Movies}
       | Movie \<Rightarrow> set (asserted_families categories) \<subseteq> {Fam_Tv}))"
  unfolding indexer_categories_contradict_facet_def scan_categories_eq contradicting_families by auto

end
