(* ===== verification/Auto_Decision.thy ===== *)
theory Auto_Decision
  imports Search_Candidate Delay_Profiles Indexer_Category Canonical_Scoring
begin

text \<open>
  The automatic decision on one search result (\<open>acquisition/release_search.rs\<close>): the decision codes
  and their tables, every gate, and \<open>evaluate_auto_candidate\<close>, which runs the gates in their order
  and ends in the admission gate and the delay profile. The route-aware re-reading of an annotated
  decision is from \<open>acquisition/workflow/decisions.rs\<close>.

  The parser passes of \<^typ>\<open>'x match_env\<close>, the date crate, the date reader and the two functions behind
  the release key are the environment. Where the date crate panics the decision is \<open>None\<close>.
\<close>

section \<open>Decision codes\<close>

datatype ReleaseAutoDecisionCode =
    AD_Eligible | AD_ParseAmbiguous | AD_ParseUnparseable | AD_NumberingPackUnresolved
    | AD_TitleMismatch | AD_EpisodeMismatch | AD_EpisodeNotMonitored | AD_AcquisitionPaused
    | AD_AcquisitionStateUnavailable | AD_CategoryMismatch | AD_AmbiguousIdentity
    | AD_QualityBlocked | AD_NegativeScore | AD_UpgradeRejected | AD_CutoffReached
    | AD_ProperForOldFile | AD_AlreadyActive | AD_QueuedBetterOrEqual | AD_DbBlocklisted
    | AD_PendingDelay | AD_MinimumAge | AD_ReleaseAgeUnknown | AD_ProtocolDisabled
    | AD_DownloadClientUnavailable | AD_RepackGroupMismatch | AD_MinimumSeeders
    | AD_MovieAvailabilityBlocked | AD_PackBelowMissingThreshold | AD_SubtitlesOnly
    | AD_AnimeNumberingAmbiguous | AD_EpisodicReleaseForMovie | AD_TitleYearMismatch
    | AD_PackForSingleEpisode

primrec ReleaseAutoDecisionCode_as_str :: "ReleaseAutoDecisionCode \<Rightarrow> string" where
  "ReleaseAutoDecisionCode_as_str AD_Eligible = ''eligible''"
| "ReleaseAutoDecisionCode_as_str AD_ParseAmbiguous = ''parse_ambiguous''"
| "ReleaseAutoDecisionCode_as_str AD_ParseUnparseable = ''parse_unparseable''"
| "ReleaseAutoDecisionCode_as_str AD_NumberingPackUnresolved = ''numbering_pack_unresolved''"
| "ReleaseAutoDecisionCode_as_str AD_TitleMismatch = ''title_mismatch''"
| "ReleaseAutoDecisionCode_as_str AD_EpisodeMismatch = ''episode_mismatch''"
| "ReleaseAutoDecisionCode_as_str AD_EpisodeNotMonitored = ''episode_not_monitored''"
| "ReleaseAutoDecisionCode_as_str AD_AcquisitionPaused = ''acquisition_paused''"
| "ReleaseAutoDecisionCode_as_str AD_AcquisitionStateUnavailable = ''acquisition_state_unavailable''"
| "ReleaseAutoDecisionCode_as_str AD_CategoryMismatch = ''category_mismatch''"
| "ReleaseAutoDecisionCode_as_str AD_AmbiguousIdentity = ''ambiguous_identity''"
| "ReleaseAutoDecisionCode_as_str AD_QualityBlocked = ''quality_blocked''"
| "ReleaseAutoDecisionCode_as_str AD_NegativeScore = ''negative_score''"
| "ReleaseAutoDecisionCode_as_str AD_UpgradeRejected = ''upgrade_rejected''"
| "ReleaseAutoDecisionCode_as_str AD_CutoffReached = ''cutoff_reached''"
| "ReleaseAutoDecisionCode_as_str AD_ProperForOldFile = ''proper_for_old_file''"
| "ReleaseAutoDecisionCode_as_str AD_AlreadyActive = ''already_active''"
| "ReleaseAutoDecisionCode_as_str AD_QueuedBetterOrEqual = ''queued_better_or_equal''"
| "ReleaseAutoDecisionCode_as_str AD_DbBlocklisted = ''db_blocklisted''"
| "ReleaseAutoDecisionCode_as_str AD_PendingDelay = ''pending_delay''"
| "ReleaseAutoDecisionCode_as_str AD_MinimumAge = ''minimum_age''"
| "ReleaseAutoDecisionCode_as_str AD_ReleaseAgeUnknown = ''release_age_unknown''"
| "ReleaseAutoDecisionCode_as_str AD_ProtocolDisabled = ''protocol_disabled''"
| "ReleaseAutoDecisionCode_as_str AD_DownloadClientUnavailable = ''download_client_unavailable''"
| "ReleaseAutoDecisionCode_as_str AD_RepackGroupMismatch = ''repack_group_mismatch''"
| "ReleaseAutoDecisionCode_as_str AD_MinimumSeeders = ''minimum_seeders''"
| "ReleaseAutoDecisionCode_as_str AD_MovieAvailabilityBlocked = ''movie_availability_blocked''"
| "ReleaseAutoDecisionCode_as_str AD_PackBelowMissingThreshold = ''pack_below_missing_threshold''"
| "ReleaseAutoDecisionCode_as_str AD_SubtitlesOnly = ''subtitles_only''"
| "ReleaseAutoDecisionCode_as_str AD_AnimeNumberingAmbiguous = ''anime_numbering_ambiguous''"
| "ReleaseAutoDecisionCode_as_str AD_EpisodicReleaseForMovie = ''episodic_release_for_movie''"
| "ReleaseAutoDecisionCode_as_str AD_TitleYearMismatch = ''title_year_mismatch''"
| "ReleaseAutoDecisionCode_as_str AD_PackForSingleEpisode = ''pack_for_single_episode''"

definition ReleaseAutoDecisionCode_parse :: "string \<Rightarrow> ReleaseAutoDecisionCode option" where
  "ReleaseAutoDecisionCode_parse = map_of
     [(''eligible'', AD_Eligible),
      (''parse_ambiguous'', AD_ParseAmbiguous),
      (''parse_unparseable'', AD_ParseUnparseable),
      (''numbering_pack_unresolved'', AD_NumberingPackUnresolved),
      (''title_mismatch'', AD_TitleMismatch),
      (''episode_mismatch'', AD_EpisodeMismatch),
      (''episode_not_monitored'', AD_EpisodeNotMonitored),
      (''acquisition_paused'', AD_AcquisitionPaused),
      (''acquisition_state_unavailable'', AD_AcquisitionStateUnavailable),
      (''category_mismatch'', AD_CategoryMismatch),
      (''ambiguous_identity'', AD_AmbiguousIdentity),
      (''quality_blocked'', AD_QualityBlocked),
      (''negative_score'', AD_NegativeScore),
      (''upgrade_rejected'', AD_UpgradeRejected),
      (''cutoff_reached'', AD_CutoffReached),
      (''proper_for_old_file'', AD_ProperForOldFile),
      (''already_active'', AD_AlreadyActive),
      (''queued_better_or_equal'', AD_QueuedBetterOrEqual),
      (''db_blocklisted'', AD_DbBlocklisted),
      (''pending_delay'', AD_PendingDelay),
      (''minimum_age'', AD_MinimumAge),
      (''release_age_unknown'', AD_ReleaseAgeUnknown),
      (''protocol_disabled'', AD_ProtocolDisabled),
      (''download_client_unavailable'', AD_DownloadClientUnavailable),
      (''repack_group_mismatch'', AD_RepackGroupMismatch),
      (''minimum_seeders'', AD_MinimumSeeders),
      (''movie_availability_blocked'', AD_MovieAvailabilityBlocked),
      (''pack_below_missing_threshold'', AD_PackBelowMissingThreshold),
      (''subtitles_only'', AD_SubtitlesOnly),
      (''anime_numbering_ambiguous'', AD_AnimeNumberingAmbiguous),
      (''episodic_release_for_movie'', AD_EpisodicReleaseForMovie),
      (''title_year_mismatch'', AD_TitleYearMismatch),
      (''pack_for_single_episode'', AD_PackForSingleEpisode)]"

primrec ReleaseAutoDecisionCode_summary :: "ReleaseAutoDecisionCode \<Rightarrow> string" where
  "ReleaseAutoDecisionCode_summary AD_Eligible =
    ''auto search would grab this release''"
| "ReleaseAutoDecisionCode_summary AD_ParseAmbiguous =
    ''release parse is ambiguous and blocks auto-grab''"
| "ReleaseAutoDecisionCode_summary AD_ParseUnparseable =
    ''release could not be parsed and blocks auto-grab''"
| "ReleaseAutoDecisionCode_summary AD_NumberingPackUnresolved =
    ''numbering bridge cannot determine the episodes covered by this pack''"
| "ReleaseAutoDecisionCode_summary AD_TitleMismatch =
    ''release title does not match the target title''"
| "ReleaseAutoDecisionCode_summary AD_EpisodeMismatch =
    ''release numbering does not match the target episode''"
| "ReleaseAutoDecisionCode_summary AD_EpisodeNotMonitored =
    ''release covers an episode this library is not monitoring''"
| "ReleaseAutoDecisionCode_summary AD_AcquisitionPaused =
    ''acquisition is paused for content covered by this release''"
| "ReleaseAutoDecisionCode_summary AD_AcquisitionStateUnavailable =
    ''acquisition state could not be checked; try again''"
| "ReleaseAutoDecisionCode_summary AD_CategoryMismatch =
    ''indexer category contradicts the target title''"
| "ReleaseAutoDecisionCode_summary AD_AmbiguousIdentity =
    ''canonical title is ambiguous and no disambiguator was present''"
| "ReleaseAutoDecisionCode_summary AD_QualityBlocked =
    ''quality profile blocked this release''"
| "ReleaseAutoDecisionCode_summary AD_NegativeScore =
    ''release score is negative after scoring penalties (no longer emitted)''"
| "ReleaseAutoDecisionCode_summary AD_UpgradeRejected =
    ''upgrade policy rejected this release''"
| "ReleaseAutoDecisionCode_summary AD_CutoffReached =
    ''existing file already meets the configured cutoff''"
| "ReleaseAutoDecisionCode_summary AD_ProperForOldFile =
    ''the existing file is too old to be worth replacing with a PROPER''"
| "ReleaseAutoDecisionCode_summary AD_AlreadyActive =
    ''release is already active or covered in the queue''"
| "ReleaseAutoDecisionCode_summary AD_QueuedBetterOrEqual =
    ''a release already downloading for this scope is equal or better''"
| "ReleaseAutoDecisionCode_summary AD_DbBlocklisted =
    ''release is blocklisted from prior failures''"
| "ReleaseAutoDecisionCode_summary AD_PendingDelay =
    ''release is eligible but held by a delay profile''"
| "ReleaseAutoDecisionCode_summary AD_MinimumAge =
    ''release has not reached the configured usenet minimum age''"
| "ReleaseAutoDecisionCode_summary AD_ReleaseAgeUnknown =
    ''release age is unavailable for an active age gate''"
| "ReleaseAutoDecisionCode_summary AD_ProtocolDisabled =
    ''release protocol is disabled by the delay profile''"
| "ReleaseAutoDecisionCode_summary AD_DownloadClientUnavailable =
    ''matching download clients are unavailable''"
| "ReleaseAutoDecisionCode_summary AD_RepackGroupMismatch =
    ''repack group does not match the existing file''"
| "ReleaseAutoDecisionCode_summary AD_MinimumSeeders =
    ''too few seeders for this indexer's seeding profile''"
| "ReleaseAutoDecisionCode_summary AD_MovieAvailabilityBlocked =
    ''movie has not reached its configured availability''"
| "ReleaseAutoDecisionCode_summary AD_PackBelowMissingThreshold =
    ''series pack does not meet the missing-episode threshold''"
| "ReleaseAutoDecisionCode_summary AD_SubtitlesOnly =
    ''release carries subtitles only and no video''"
| "ReleaseAutoDecisionCode_summary AD_AnimeNumberingAmbiguous =
    ''release numbering has several equally-good readings for this anime''"
| "ReleaseAutoDecisionCode_summary AD_EpisodicReleaseForMovie =
    ''release is a season, pack or multi-episode release, not a movie''"
| "ReleaseAutoDecisionCode_summary AD_TitleYearMismatch =
    ''release year is more than a year away from the movie's''"
| "ReleaseAutoDecisionCode_summary AD_PackForSingleEpisode =
    ''an automatic single-episode search does not take a season or multi-episode pack''"
definition is_eligible :: "ReleaseAutoDecisionCode \<Rightarrow> bool" where
  "is_eligible c \<longleftrightarrow> c = AD_Eligible"

definition is_identity_refusal :: "ReleaseAutoDecisionCode \<Rightarrow> bool" where
  "is_identity_refusal c \<longleftrightarrow>
     c \<in> {AD_SubtitlesOnly, AD_NumberingPackUnresolved, AD_TitleMismatch, AD_EpisodeMismatch, AD_CategoryMismatch,
          AD_EpisodicReleaseForMovie, AD_TitleYearMismatch}"

definition with_movie_availability :: "ReleaseAutoDecisionCode \<Rightarrow> bool \<Rightarrow> ReleaseAutoDecisionCode" where
  "with_movie_availability c blocked =
     (if blocked \<and> \<not> is_identity_refusal c \<and> c \<noteq> AD_MinimumSeeders then AD_MovieAvailabilityBlocked else c)"

interpretation auto_decision_code: label_codec ReleaseAutoDecisionCode_as_str ReleaseAutoDecisionCode_parse
proof
  fix c show "ReleaseAutoDecisionCode_parse (ReleaseAutoDecisionCode_as_str c) = Some c"
    by (cases c) (simp_all add: ReleaseAutoDecisionCode_parse_def)
qed

definition annotate_auto_decision :: "ReleaseAutoDecisionCode \<Rightarrow> IndexerSearchResult \<Rightarrow> IndexerSearchResult" where
  "annotate_auto_decision c r =
     r\<lparr>auto_eligible := Some (is_eligible c), auto_decision_code := Some (ReleaseAutoDecisionCode_as_str c),
       auto_decision_summary := Some (ReleaseAutoDecisionCode_summary c)\<rparr>"

definition annotated_auto_decision_code :: "IndexerSearchResult \<Rightarrow> ReleaseAutoDecisionCode" where
  "annotated_auto_decision_code r =
     (case Option.bind (auto_decision_code r) ReleaseAutoDecisionCode_parse of
        Some c \<Rightarrow> c | None \<Rightarrow> AD_QualityBlocked)"

definition effective_auto_decision_code_for_route ::
  "IndexerSearchResult \<Rightarrow> DownloadRouteKey list \<Rightarrow> TitleReleaseBlocklistSignatures \<Rightarrow> ReleaseAutoDecisionCode" where
  "effective_auto_decision_code_for_route r failed_routes blocklist =
     (if is_release_blocklisted (sr_indexer_id r) (sr_title r) (info_hash r) blocklist then AD_DbBlocklisted
      else if (case route_for_candidate r of Some route \<Rightarrow> route \<in> set failed_routes | None \<Rightarrow> False)
      then AD_DownloadClientUnavailable
      else annotated_auto_decision_code r)"

definition active_pending_release_delay_code ::
  "ReleaseAutoDecisionCode \<Rightarrow> bool \<Rightarrow> bool \<Rightarrow> ReleaseAutoDecisionCode" where
  "active_pending_release_delay_code c by_user overlap =
     (if \<not> by_user \<and> overlap \<and> c = AD_Eligible then AD_PendingDelay else c)"

section \<open>The subject and its gates\<close>

record 'x ResolvedReleaseSearchSubject =
  rs_title_evidence :: "'x CanonicalTitleEvidence"
  rs_imdb_id :: "string option"
  rs_tmdb_id :: "string option"
  rs_tvdb_id :: "string option"
  rs_owner_facet :: MediaFacet
  rs_search_facet :: MediaFacet
  rs_season :: "nat option"
  rs_episode :: "nat option"
  rs_absolute_episode :: "nat option"
  rs_submission_scope :: SubmissionScope

text \<open>What the decision takes from outside: the parser, the date crate, the date reader
  \<open>parse_published_at\<close> and the folding and hashing behind the release key.\<close>

record 'x auto_env = "'x match_env" +
  env_chrono :: chrono
  env_published_at :: "string \<Rightarrow> datetime option"
  env_alphanumeric_lowercase :: "string \<Rightarrow> string"
  env_hasher :: "string \<Rightarrow> nat"

definition parsed_or_for_target ::
  "('x, 'm) match_env_scheme \<Rightarrow> IndexerSearchResult \<Rightarrow> 'x CanonicalTitleEvidence \<Rightarrow> ParsedReleaseMetadata" where
  "parsed_or_for_target me r ev =
     (case parsed_release_metadata r of Some p \<Rightarrow> p | None \<Rightarrow> parse_for_target me (sr_title r) ev)"

definition asserted_ids :: "IndexerSearchResult \<Rightarrow> 'x CanonicalTitleEvidence \<Rightarrow> bool option" where
  "asserted_ids r ev =
     strict_external_id_agreement (response_attributes r) (identity_tvdb_id ev) (identity_tmdb_id ev)
       (identity_imdb_id ev)"

definition candidate_title_match ::
  "('x, 'm) match_env_scheme \<Rightarrow> IndexerSearchResult \<Rightarrow> 'x CanonicalTitleEvidence \<Rightarrow> CandidateTitleMatch option" where
  "candidate_title_match me r ev =
     map_option (\<lambda>m. \<lparr>evidence_match = Some m\<rparr>)
       (match_parsed_release_with_asserted_ids (match_env.truncate me) (parsed_or_for_target me r ev) ev
          (asserted_ids r ev))"

definition candidate_matches_title_subject ::
  "('x, 'm) match_env_scheme \<Rightarrow> IndexerSearchResult \<Rightarrow> 'x CanonicalTitleEvidence \<Rightarrow> bool" where
  "candidate_matches_title_subject me r ev \<longleftrightarrow> candidate_title_match me r ev \<noteq> None"

definition candidate_external_id_comparison ::
  "IndexerSearchResult \<Rightarrow> 'x ResolvedReleaseSearchSubject \<Rightarrow> ExternalIdComparison" where
  "candidate_external_id_comparison r subject =
     external_id_comparison (response_attributes r) (rs_tvdb_id subject) (rs_tmdb_id subject) (rs_imdb_id subject)"

definition candidate_external_id_agreement ::
  "IndexerSearchResult \<Rightarrow> 'x ResolvedReleaseSearchSubject \<Rightarrow> bool option" where
  "candidate_external_id_agreement r subject = agreement (candidate_external_id_comparison r subject)"

datatype CandidateParseState = PS_Parsed | PS_Ambiguous | PS_Unparseable

definition candidate_parse_state :: "IndexerSearchResult \<Rightarrow> CandidateParseState" where
  "candidate_parse_state r =
     (case parsed_release_metadata r of
        None \<Rightarrow> PS_Unparseable
      | Some p \<Rightarrow>
          if rel_disposition p = Unparseable \<or>
             list_ex (\<lambda>h. h = ''v2:unparseable'' \<or> h = ''parse_status:unparseable'') (rel_parse_hints p)
          then PS_Unparseable
          else if rel_is_ambiguous p \<or> rel_disposition p = Ambiguous \<or>
             list_ex (\<lambda>h. h = ''v2:ambiguous'' \<or> h = ''parse_status:ambiguous'') (rel_parse_hints p)
          then PS_Ambiguous
          else PS_Parsed)"

definition candidate_episode :: "IndexerSearchResult \<Rightarrow> ParsedEpisodeMetadata option" where
  "candidate_episode r = Option.bind (parsed_release_metadata r) rel_episode"

definition candidate_numbering_contradicts_subject ::
  "IndexerSearchResult \<Rightarrow> 'x ResolvedReleaseSearchSubject \<Rightarrow> bool" where
  "candidate_numbering_contradicts_subject r subject =
     (if rs_season subject = None \<and> rs_episode subject = None \<and> rs_absolute_episode subject = None then False
      else case parsed_release_metadata r of
        None \<Rightarrow> False
      | Some p \<Rightarrow>
          (case rel_episode p of
             None \<Rightarrow>
               \<not> (rs_season subject = Some 0 \<and> rs_episode subject = None \<and> rs_absolute_episode subject = None)
           | Some e \<Rightarrow>
               parsed_numbering_contradicts_episode (rs_season subject) (rs_episode subject)
                 (rs_absolute_episode subject) e))"

definition SUBTITLES_ONLY_RELEASE_EXTENSIONS :: "string list" where
  "SUBTITLES_ONLY_RELEASE_EXTENSIONS =
     [''mks'', ''srt'', ''ass'', ''ssa'', ''sub'', ''idx'', ''vtt'', ''sup'']"

definition release_title_is_subtitles_only :: "string \<Rightarrow> bool" where
  "release_title_is_subtitles_only title =
     (case rsplit_once (CHR ''.'') (trim_end title) of
        Some (_, extension) \<Rightarrow> list_ex (eq_ignore_ascii_case extension) SUBTITLES_ONLY_RELEASE_EXTENSIONS
      | None \<Rightarrow> False)"

fun is_series_movie_scope :: "SubmissionScope \<Rightarrow> bool" where
  "is_series_movie_scope (Scope_SeriesMovie _) = True"
| "is_series_movie_scope _ = False"

fun is_collection_scope :: "SubmissionScope \<Rightarrow> bool" where
  "is_collection_scope (Scope_Collection _) = True"
| "is_collection_scope _ = False"

fun is_episode_scope :: "SubmissionScope \<Rightarrow> bool" where
  "is_episode_scope (Scope_Episode _) = True"
| "is_episode_scope _ = False"

definition subject_is_standalone_movie :: "'x ResolvedReleaseSearchSubject \<Rightarrow> bool" where
  "subject_is_standalone_movie subject \<longleftrightarrow>
     rs_search_facet subject = Movie \<and> rs_owner_facet subject = Movie \<and>
     \<not> is_series_movie_scope (rs_submission_scope subject)"

definition movie_year_contradicts_subject ::
  "('x, 'm) match_env_scheme \<Rightarrow> IndexerSearchResult \<Rightarrow> 'x CanonicalTitleEvidence \<Rightarrow> CandidateTitleMatch option \<Rightarrow> bool" where
  "movie_year_contradicts_subject me r ev title_match =
     (case ev_year ev of
        None \<Rightarrow> False
      | Some expected \<Rightarrow>
          if (case Option.bind title_match evidence_match of Some m \<Rightarrow> year_corroborated m | None \<Rightarrow> False) then False
          else
            (let parsed = parsed_or_for_target me r ev
             in case rel_year parsed of
                  None \<Rightarrow> False
                | Some y \<Rightarrow>
                    if \<bar>y - expected\<bar> \<le> 1 \<or> y \<in> episode_release_years ev then False
                    else if title_match \<noteq> None then True
                    else match_parsed_release_with_asserted_ids (match_env.truncate me) (parsed\<lparr>rel_year := None\<rparr>) ev
                           (asserted_ids r ev) \<noteq> None))"

definition release_title_is_episodic :: "('x, 'm) match_env_scheme \<Rightarrow> string \<Rightarrow> bool" where
  "release_title_is_episodic me title =
     (case rel_episode (parse_neutral me title) of
        None \<Rightarrow> False
      | Some e \<Rightarrow>
          ep_season e \<noteq> None \<or> ep_season_numbers e \<noteq> [] \<or> ep_full_season e \<or> ep_is_partial_season e \<or>
          ep_is_multi_season e \<or> ep_is_series_pack e \<or> 1 < length (ep_episode_numbers e) \<or>
          1 < length (ep_absolute_episode_numbers e))"

definition movie_subject_refusal ::
  "('x, 'm) match_env_scheme \<Rightarrow> IndexerSearchResult \<Rightarrow> 'x ResolvedReleaseSearchSubject \<Rightarrow> CandidateTitleMatch option \<Rightarrow>
   ReleaseAutoDecisionCode option" where
  "movie_subject_refusal me r subject title_match =
     (if \<not> subject_is_standalone_movie subject then None
      else if movie_year_contradicts_subject me r (rs_title_evidence subject) title_match then Some AD_TitleYearMismatch
      else if title_match = None then None
      else if release_title_is_episodic me (sr_title r) then Some AD_EpisodicReleaseForMovie
      else None)"

definition movie_subject_refusal_unmatched ::
  "('x, 'm) match_env_scheme \<Rightarrow> IndexerSearchResult \<Rightarrow> 'x ResolvedReleaseSearchSubject \<Rightarrow> ReleaseAutoDecisionCode option" where
  "movie_subject_refusal_unmatched me r subject =
     (if \<not> subject_is_standalone_movie subject then None
      else movie_subject_refusal me r subject (candidate_title_match me r (rs_title_evidence subject)))"

definition SINGLE_EPISODE_PACK_MIN_EPISODES :: nat where
  "SINGLE_EPISODE_PACK_MIN_EPISODES = 3"

definition candidate_is_pack_for_single_episode :: "IndexerSearchResult \<Rightarrow> bool" where
  "candidate_is_pack_for_single_episode r =
     ((case coverage_scope r of
         Some (Scope_Collection _) \<Rightarrow> True
       | Some (Scope_EpisodeSet ids) \<Rightarrow> SINGLE_EPISODE_PACK_MIN_EPISODES \<le> length ids
       | _ \<Rightarrow> False) \<or>
      (case candidate_episode r of
         None \<Rightarrow> False
       | Some e \<Rightarrow>
           ep_full_season e \<or> ep_is_partial_season e \<or> ep_is_multi_season e \<or> ep_is_series_pack e \<or>
           1 < length (ep_season_numbers e) \<or> SINGLE_EPISODE_PACK_MIN_EPISODES \<le> length (ep_episode_numbers e) \<or>
           SINGLE_EPISODE_PACK_MIN_EPISODES \<le> length (ep_absolute_episode_numbers e)))"

section \<open>The incumbent gates\<close>

definition candidate_revision :: "IndexerSearchResult \<Rightarrow> int" where
  "candidate_revision r = (case parsed_release_metadata r of Some p \<Rightarrow> revision_rank p | None \<Rightarrow> 0)"

definition revision_upgrade_over :: "CandidateFacts \<Rightarrow> Incumbent \<Rightarrow> bool" where
  "revision_upgrade_over c i \<longleftrightarrow>
     revision_cmp c (inc_tier_index i) (inc_release_group i) (inc_revision i) = Greater"

definition candidate_is_revision_upgrade :: "CandidateFacts \<Rightarrow> AdmissionSubject \<Rightarrow> bool" where
  "candidate_is_revision_upgrade c subject = list_ex (revision_upgrade_over c) (incumbents subject)"

definition incumbent_at_cutoff :: "bool \<Rightarrow> AdmissionSubject \<Rightarrow> int option \<Rightarrow> bool" where
  "incumbent_at_cutoff quality_cutoff_met subject cutoff =
     (quality_cutoff_met \<and>
      (case cutoff of
         None \<Rightarrow> True
       | Some c \<Rightarrow> (case best_incumbent subject of None \<Rightarrow> True | Some (_, bar) \<Rightarrow> c \<le> bar)))"

text \<open>\<open>Iterator::any\<close> with a test that may panic: it stops at the first hit.\<close>

fun any_panicking :: "('a \<Rightarrow> bool option) \<Rightarrow> 'a list \<Rightarrow> bool option" where
  "any_panicking P [] = Some False"
| "any_panicking P (x # xs) =
     (case P x of None \<Rightarrow> None | Some True \<Rightarrow> Some True | Some False \<Rightarrow> any_panicking P xs)"

definition cutoff_refusal ::
  "chrono \<Rightarrow> CandidateFacts \<Rightarrow> AdmissionSubject \<Rightarrow> bool \<Rightarrow> bool \<Rightarrow> datetime \<Rightarrow> ReleaseAutoDecisionCode option option" where
  "cutoff_refusal ch c subject at_cutoff is_rss now =
     (if candidate_is_revision_upgrade c subject
      then map_option (\<lambda>old. if old then Some AD_ProperForOldFile else None)
             (if is_rss
              then any_panicking
                     (\<lambda>i. if revision_upgrade_over c i
                          then file_predates_proper_window ch (Some (inc_created_at i)) now else Some False)
                     (incumbents subject)
              else Some False)
      else Some (if at_cutoff then Some AD_CutoffReached else None))"

section \<open>The decision\<close>

record Title =
  title_tags :: "string list"
  title_facet :: MediaFacet
  title_library_id :: string

record 'x AutoCandidateEvaluationContext =
  cx_title :: Title
  cx_subject :: "'x ResolvedReleaseSearchSubject"
  cx_admission :: AdmissionSubject
  cx_profile :: QualityProfile
  cx_thresholds :: AcquisitionThresholds
  cx_incumbent_at_cutoff :: bool
  cx_is_rss_lane :: bool
  cx_user_invoked :: bool
  cx_oldest_pending_published_at :: "datetime option"
  cx_now :: datetime
  cx_dl_snapshot :: "DownloadClientSnapshot option"
  cx_db_blocklist :: TitleReleaseBlocklistSignatures
  cx_existing_files :: "MediaFileCutoffSummary list"
  cx_delay_profiles :: "DelayProfile list"
  cx_failed_routes :: "DownloadRouteKey list option"
  cx_minimum_seeders :: "string \<rightharpoonup> int"
  cx_unmonitored_episode_ids :: "string set"

definition result_score :: "IndexerSearchResult \<Rightarrow> int" where
  "result_score r = (case quality_profile_decision r of Some d \<Rightarrow> preference_score d | None \<Rightarrow> 0)"

definition result_facts :: "'x auto_env \<Rightarrow> QualityProfile \<Rightarrow> IndexerSearchResult \<Rightarrow> CandidateFacts" where
  "result_facts env profile r =
     with_revision_policy
       (with_release_title (env_alphanumeric_lowercase env) (env_hasher env)
          (CandidateFacts_new
             (quality_tier_index (criteria profile) (Option.bind (parsed_release_metadata r) rel_quality))
             (candidate_revision r) (result_score r))
          (sr_title r))
       (Option.bind (parsed_release_metadata r) rel_release_group) (crit_ignore_proper_repack (criteria profile))"

definition automatic_candidate_delay_decision ::
  "'x auto_env \<Rightarrow> IndexerSearchResult \<Rightarrow> Title \<Rightarrow> AdmissionSubject \<Rightarrow> QualityProfile \<Rightarrow> DelayProfile list \<Rightarrow> bool \<Rightarrow>
   datetime option \<Rightarrow> datetime \<Rightarrow> DelayDecision option option" where
  "automatic_candidate_delay_decision env r title admission profile delay_profiles by_user oldest now =
     (let facts = result_facts env profile r
      in grab_time_delay_decision_with_context (env_chrono env) delay_profiles (title_tags title) (title_facet title)
           (title_library_id title) (sr_source_kind r) (Option.bind (sr_published_at r) (env_published_at env))
           \<lparr>user_invoked = by_user, candidate_score = result_score r,
            preferred_protocol_same_tier_revision = list_ex (revision_upgrade_over facts) (incumbents admission),
            preferred_protocol_highest_quality = (cand_tier_index facts = Some 0),
            oldest_overlapping_pending_published_at = oldest\<rparr>
           now)"

definition auto_candidate_delay_decision ::
  "'x auto_env \<Rightarrow> IndexerSearchResult \<Rightarrow> 'x AutoCandidateEvaluationContext \<Rightarrow> DelayDecision option option" where
  "auto_candidate_delay_decision env r cx =
     automatic_candidate_delay_decision env r (cx_title cx) (cx_admission cx) (cx_profile cx) (cx_delay_profiles cx)
       (cx_user_invoked cx) (cx_oldest_pending_published_at cx) (cx_now cx)"

text \<open>The gates up to the identity of the release: the early returns before the quality profile is
  consulted. \<open>None\<close> goes on.\<close>

definition touches_unmonitored :: "'x AutoCandidateEvaluationContext \<Rightarrow> IndexerSearchResult \<Rightarrow> bool" where
  "touches_unmonitored cx r \<longleftrightarrow>
     \<not> cx_user_invoked cx \<and> \<not> is_collection_scope (rs_submission_scope (cx_subject cx)) \<and>
     (case coverage_scope r of
        Some (Scope_EpisodeSet ids) \<Rightarrow> list_ex (\<lambda>i. i \<in> cx_unmonitored_episode_ids cx) ids
      | _ \<Rightarrow> False)"

definition matched_refusal ::
  "IndexerSearchResult \<Rightarrow> 'x AutoCandidateEvaluationContext \<Rightarrow> CandidateTitleMatch \<Rightarrow> ReleaseAutoDecisionCode option" where
  "matched_refusal r cx title_match =
     (let subject = cx_subject cx; ids = candidate_external_id_agreement r subject
      in if candidate_numbering_contradicts_subject r subject then Some AD_EpisodeMismatch
         else if \<not> cx_user_invoked cx \<and> \<not> cx_is_rss_lane cx \<and> is_episode_scope (rs_submission_scope subject) \<and>
                 candidate_is_pack_for_single_episode r then Some AD_PackForSingleEpisode
         else if touches_unmonitored cx r then Some AD_EpisodeNotMonitored
         else if indexer_categories_contradict_facet (resp_categories (response_attributes r)) (rs_search_facet subject)
         then Some AD_CategoryMismatch
         else if is_release_blocklisted (sr_indexer_id r) (sr_title r) (info_hash r) (cx_db_blocklist cx)
         then Some AD_DbBlocklisted
         else if \<not> candidate_meets_minimum_seeders r (cx_minimum_seeders cx) then Some AD_MinimumSeeders
         else if (case evidence_match title_match of Some m \<Rightarrow> requires_external_id m | None \<Rightarrow> False) \<and> ids \<noteq> Some True
         then Some AD_AmbiguousIdentity
         else if requires_disambiguator (rs_title_evidence subject) \<and>
                 \<not> candidate_presents_identity_disambiguator (rs_title_evidence subject) title_match ids
         then Some AD_AmbiguousIdentity
         else None)"

definition subject_refusal ::
  "'x auto_env \<Rightarrow> IndexerSearchResult \<Rightarrow> 'x AutoCandidateEvaluationContext \<Rightarrow> ReleaseAutoDecisionCode option" where
  "subject_refusal env r cx =
     (if release_title_is_subtitles_only (sr_title r) then Some AD_SubtitlesOnly
      else if (case parsed_release_metadata r of
                 Some p \<Rightarrow> list_ex (\<lambda>h. h = ''identity:unresolved_pack_scope'') (rel_parse_hints p)
               | None \<Rightarrow> False) then Some AD_NumberingPackUnresolved
      else
        (let title_match = candidate_title_match env r (rs_title_evidence (cx_subject cx))
         in if candidate_parse_state r = PS_Ambiguous \<and> title_match = None then Some AD_ParseAmbiguous
            else if candidate_parse_state r = PS_Unparseable \<and> title_match = None then Some AD_ParseUnparseable
            else case movie_subject_refusal env r (cx_subject cx) title_match of
              Some code \<Rightarrow> Some code
            | None \<Rightarrow>
                (case title_match of
                   None \<Rightarrow> Some AD_TitleMismatch
                 | Some m \<Rightarrow> matched_refusal r cx m)))"

definition grab_policy :: "QualityProfile \<Rightarrow> AcquisitionThresholds \<Rightarrow> AdmissionPolicy" where
  "grab_policy profile thresholds =
     \<lparr>allow_upgrades = crit_allow_upgrades (criteria profile), min_delta = same_tier_min_delta thresholds,
      cutoff_score = crit_cutoff_score (criteria profile), manual_override = False, applies_to_queue = True\<rparr>"

fun admission_code :: "AdmissionRejectionReason \<Rightarrow> ReleaseAutoDecisionCode" where
  "admission_code (QueuedEqualOrBetter _ _ _) = AD_QueuedBetterOrEqual"
| "admission_code (QueuedSameRelease _) = AD_QueuedBetterOrEqual"
| "admission_code _ = AD_UpgradeRejected"

primrec delay_code :: "DelayDecisionReason \<Rightarrow> ReleaseAutoDecisionCode" where
  "delay_code Eligible = AD_Eligible"
| "delay_code PendingDelay = AD_PendingDelay"
| "delay_code MinimumAge = AD_MinimumAge"
| "delay_code ReleaseAgeUnknown = AD_ReleaseAgeUnknown"
| "delay_code ProtocolDisabled = AD_ProtocolDisabled"

definition route_failed :: "'x AutoCandidateEvaluationContext \<Rightarrow> IndexerSearchResult \<Rightarrow> bool" where
  "route_failed cx r \<longleftrightarrow>
     (case cx_failed_routes cx of
        Some routes \<Rightarrow> (case route_for_candidate r of Some route \<Rightarrow> route \<in> set routes | None \<Rightarrow> False)
      | None \<Rightarrow> False)"

definition after_cutoff ::
  "'x auto_env \<Rightarrow> IndexerSearchResult \<Rightarrow> 'x AutoCandidateEvaluationContext \<Rightarrow> ReleaseAutoDecisionCode option" where
  "after_cutoff env r cx =
     (if (case cx_dl_snapshot cx of Some s \<Rightarrow> snapshot_is_active s (sr_title r) | None \<Rightarrow> False) then Some AD_AlreadyActive
      else if candidate_matches_existing_media_file r (cx_existing_files cx) (cx_admission cx) then Some AD_AlreadyActive
      else if route_failed cx r then Some AD_DownloadClientUnavailable
      else
        (case rejection (evaluate_admission (cx_admission cx) (result_facts env (cx_profile cx) r)
                           (grab_policy (cx_profile cx) (cx_thresholds cx))) of
           Some refused \<Rightarrow> Some (admission_code (ar_reason refused))
         | None \<Rightarrow>
             map_option
               (\<lambda>d. case d of Some decision \<Rightarrow> if blocks_grab decision then delay_code (reason decision) else AD_Eligible
                            | None \<Rightarrow> AD_Eligible)
               (auto_candidate_delay_decision env r cx)))"

definition evaluate_auto_candidate ::
  "'x auto_env \<Rightarrow> IndexerSearchResult \<Rightarrow> 'x AutoCandidateEvaluationContext \<Rightarrow> ReleaseAutoDecisionCode option" where
  "evaluate_auto_candidate env r cx =
     (case subject_refusal env r cx of
        Some code \<Rightarrow> Some code
      | None \<Rightarrow>
          if (case quality_profile_decision r of Some d \<Rightarrow> \<not> allowed d | None \<Rightarrow> True) then Some AD_QualityBlocked
          else Option.bind
                 (cutoff_refusal (env_chrono env) (result_facts env (cx_profile cx) r) (cx_admission cx)
                    (cx_incumbent_at_cutoff cx) (cx_is_rss_lane cx) (cx_now cx))
                 (\<lambda>refused. case refused of Some code \<Rightarrow> Some code | None \<Rightarrow> after_cutoff env r cx))"

section \<open>What the decision guarantees\<close>

lemma eligible_iff:
  "evaluate_auto_candidate env r cx = Some AD_Eligible \<longleftrightarrow>
     subject_refusal env r cx = None \<and>
     (\<exists>d. quality_profile_decision r = Some d \<and> allowed d) \<and>
     cutoff_refusal (env_chrono env) (result_facts env (cx_profile cx) r) (cx_admission cx)
       (cx_incumbent_at_cutoff cx) (cx_is_rss_lane cx) (cx_now cx) = Some None \<and>
     after_cutoff env r cx = Some AD_Eligible"
proof -
  have "subject_refusal env r cx \<noteq> Some AD_Eligible"
    by (auto simp: subject_refusal_def matched_refusal_def movie_subject_refusal_def Let_def split: if_splits option.splits)
  moreover have "cutoff_refusal ch c s a b now \<noteq> Some (Some AD_Eligible)" for ch c s a b now
    by (auto simp: cutoff_refusal_def split: if_splits)
  ultimately show ?thesis
    by (auto simp: evaluate_auto_candidate_def bind_eq_Some_conv split: option.splits)
qed

lemma delay_code_Eligible [simp]: "delay_code x = AD_Eligible \<longleftrightarrow> x = Eligible"
  by (cases x) simp_all

lemma admission_code_not_Eligible [simp]: "admission_code x \<noteq> AD_Eligible"
  by (cases x) simp_all

lemma after_cutoff_eligible:
  "after_cutoff env r cx = Some AD_Eligible \<longleftrightarrow>
     \<not> (case cx_dl_snapshot cx of Some s \<Rightarrow> snapshot_is_active s (sr_title r) | None \<Rightarrow> False) \<and>
     \<not> candidate_matches_existing_media_file r (cx_existing_files cx) (cx_admission cx) \<and>
     \<not> route_failed cx r \<and>
     is_admitted (evaluate_admission (cx_admission cx) (result_facts env (cx_profile cx) r)
       (grab_policy (cx_profile cx) (cx_thresholds cx))) \<and>
     (\<exists>d. auto_candidate_delay_decision env r cx = Some d \<and>
          (case d of Some decision \<Rightarrow> \<not> blocks_grab decision | None \<Rightarrow> True))"
  by (auto simp: after_cutoff_def blocks_grab_def split: option.splits if_splits)

lemma subject_refusal_None:
  assumes "subject_refusal env r cx = None"
  obtains m where "candidate_title_match env r (rs_title_evidence (cx_subject cx)) = Some m"
    "movie_subject_refusal env r (cx_subject cx) (Some m) = None" "matched_refusal r cx m = None"
    "\<not> release_title_is_subtitles_only (sr_title r)"
  using assms by (auto simp: subject_refusal_def Let_def split: if_splits option.splits)

text \<open>The codes that only the stages after the subject return, and those that outrank the blocklist.\<close>

definition late_codes :: "ReleaseAutoDecisionCode set" where
  "late_codes = {AD_QualityBlocked, AD_ProperForOldFile, AD_CutoffReached, AD_AlreadyActive,
     AD_DownloadClientUnavailable, AD_QueuedBetterOrEqual, AD_UpgradeRejected, AD_Eligible, AD_PendingDelay,
     AD_MinimumAge, AD_ReleaseAgeUnknown, AD_ProtocolDisabled}"

definition sharper_codes :: "ReleaseAutoDecisionCode set" where
  "sharper_codes = {AD_SubtitlesOnly, AD_NumberingPackUnresolved, AD_ParseAmbiguous, AD_ParseUnparseable,
     AD_TitleYearMismatch, AD_EpisodicReleaseForMovie, AD_TitleMismatch, AD_EpisodeMismatch,
     AD_PackForSingleEpisode, AD_EpisodeNotMonitored, AD_CategoryMismatch}"

lemma late_codes_simps [simp]:
  "AD_QualityBlocked \<in> late_codes" "AD_ProperForOldFile \<in> late_codes" "AD_CutoffReached \<in> late_codes"
  "AD_AlreadyActive \<in> late_codes" "AD_DownloadClientUnavailable \<in> late_codes"
  "AD_Eligible \<in> late_codes" "AD_DbBlocklisted \<notin> late_codes"
  "AD_PackForSingleEpisode \<notin> late_codes" "AD_EpisodeNotMonitored \<notin> late_codes"
  by (simp_all add: late_codes_def)

lemma sharper_codes_simps [simp]:
  "AD_SubtitlesOnly \<in> sharper_codes" "AD_NumberingPackUnresolved \<in> sharper_codes" "AD_ParseAmbiguous \<in> sharper_codes"
  "AD_ParseUnparseable \<in> sharper_codes" "AD_TitleYearMismatch \<in> sharper_codes"
  "AD_EpisodicReleaseForMovie \<in> sharper_codes" "AD_TitleMismatch \<in> sharper_codes" "AD_EpisodeMismatch \<in> sharper_codes"
  "AD_PackForSingleEpisode \<in> sharper_codes" "AD_EpisodeNotMonitored \<in> sharper_codes"
  "AD_CategoryMismatch \<in> sharper_codes" "AD_DbBlocklisted \<notin> sharper_codes"
  by (simp_all add: sharper_codes_def)

lemma admission_code_late [simp]: "admission_code x \<in> late_codes"
  by (cases x) (simp_all add: late_codes_def)

lemma delay_code_late [simp]: "delay_code x \<in> late_codes"
  by (cases x) (simp_all add: late_codes_def)

lemma cutoff_refusal_late: "cutoff_refusal ch c s a b now = Some (Some code) \<Longrightarrow> code \<in> late_codes"
  by (auto simp: cutoff_refusal_def split: if_splits)

lemma after_cutoff_late: "after_cutoff env r cx = Some code \<Longrightarrow> code \<in> late_codes"
  by (auto simp: after_cutoff_def split: option.splits if_splits)

lemma evaluate_subject: "subject_refusal env r cx = Some c \<Longrightarrow> evaluate_auto_candidate env r cx = Some c"
  by (simp add: evaluate_auto_candidate_def)

lemma evaluate_late:
  "subject_refusal env r cx = None \<Longrightarrow> evaluate_auto_candidate env r cx = Some c \<Longrightarrow> c \<in> late_codes"
  using cutoff_refusal_late after_cutoff_late
  by (auto simp: evaluate_auto_candidate_def bind_eq_Some_conv split: option.splits if_splits)

lemma movie_subject_refusal_sharper: "movie_subject_refusal me r subject m = Some c \<Longrightarrow> c \<in> sharper_codes"
  by (auto simp: movie_subject_refusal_def split: if_splits)

lemma matched_refusal_blocklisted:
  assumes "is_release_blocklisted (sr_indexer_id r) (sr_title r) (info_hash r) (cx_db_blocklist cx)"
  shows "\<exists>c \<in> insert AD_DbBlocklisted sharper_codes. matched_refusal r cx m = Some c"
  using assms by (simp add: matched_refusal_def Let_def)

lemma subject_refusal_blocklisted:
  assumes "is_release_blocklisted (sr_indexer_id r) (sr_title r) (info_hash r) (cx_db_blocklist cx)"
  shows "\<exists>c \<in> insert AD_DbBlocklisted sharper_codes. subject_refusal env r cx = Some c"
  using matched_refusal_blocklisted [OF assms] movie_subject_refusal_sharper
  by (fastforce simp: subject_refusal_def Let_def split: option.splits)

lemma matched_refusal_not_blocklisted:
  assumes "\<not> is_release_blocklisted (sr_indexer_id r) (sr_title r) (info_hash r) (cx_db_blocklist cx)"
  shows "matched_refusal r cx m \<noteq> Some AD_DbBlocklisted"
  using assms by (simp add: matched_refusal_def Let_def)

lemma subject_refusal_not_blocklisted:
  assumes "\<not> is_release_blocklisted (sr_indexer_id r) (sr_title r) (info_hash r) (cx_db_blocklist cx)"
  shows "subject_refusal env r cx \<noteq> Some AD_DbBlocklisted"
  using matched_refusal_not_blocklisted [OF assms]
  by (auto simp: subject_refusal_def Let_def dest: movie_subject_refusal_sharper split: option.splits if_splits)

lemma annotate_simps [simp]:
  "sr_indexer_id (annotate_auto_decision c r) = sr_indexer_id r" "sr_title (annotate_auto_decision c r) = sr_title r"
  "info_hash (annotate_auto_decision c r) = info_hash r"
  "annotated_auto_decision_code (annotate_auto_decision c r) = c"
  by (simp_all add: annotate_auto_decision_def info_hash_def annotated_auto_decision_code_def
      auto_decision_code.parse_as_str)

text \<open>
  C2. What the automatic search grabs is new, wanted and admitted: an eligible release matches the
  title, is not blocklisted, passed the quality profile, is not active in a download client, is not
  a release the scope already holds a file of, goes through a route that has not failed, beats the
  incumbents under the grab policy of its profile, repeats no queued release, and no delay holds it.
\<close>

theorem eligible_release_is_new_and_admitted:
  assumes "evaluate_auto_candidate env r cx = Some AD_Eligible"
  shows "candidate_matches_title_subject env r (rs_title_evidence (cx_subject cx)) \<and>
    \<not> is_release_blocklisted (sr_indexer_id r) (sr_title r) (info_hash r) (cx_db_blocklist cx) \<and>
    \<not> indexer_categories_contradict_facet (resp_categories (response_attributes r)) (rs_search_facet (cx_subject cx)) \<and>
    (case quality_profile_decision r of Some d \<Rightarrow> allowed d | None \<Rightarrow> False) \<and>
    (case cx_dl_snapshot cx of Some s \<Rightarrow> \<not> snapshot_is_active s (sr_title r) | None \<Rightarrow> True) \<and>
    \<not> candidate_matches_existing_media_file r (cx_existing_files cx) (cx_admission cx) \<and> \<not> route_failed cx r \<and>
    is_admitted (evaluate_admission (cx_admission cx) (result_facts env (cx_profile cx) r)
      (grab_policy (cx_profile cx) (cx_thresholds cx))) \<and>
    (case auto_candidate_delay_decision env r cx of Some (Some d) \<Rightarrow> \<not> blocks_grab d | Some None \<Rightarrow> True | None \<Rightarrow> False)"
proof -
  from assms have none: "subject_refusal env r cx = None" and after: "after_cutoff env r cx = Some AD_Eligible"
    and quality: "\<exists>d. quality_profile_decision r = Some d \<and> allowed d"
    by (simp_all add: eligible_iff)
  obtain m where "candidate_title_match env r (rs_title_evidence (cx_subject cx)) = Some m"
    "matched_refusal r cx m = None" using none by (rule subject_refusal_None)
  with quality after show ?thesis
    unfolding after_cutoff_eligible candidate_matches_title_subject_def
    by (auto simp: matched_refusal_def Let_def split: if_splits option.splits)
qed

text \<open>
  C3. A release that failed before is never offered again and never parked: if it is blocklisted,
  the decision is \<open>DbBlocklisted\<close> or one of the sharper reasons checked before it, whatever the
  quality, the queue and the clock say, and a route-aware re-reading of any earlier annotation says
  \<open>DbBlocklisted\<close>; a release that is not blocklisted is never reported as such.
\<close>

theorem burned_release_stays_burned:
  "if is_release_blocklisted (sr_indexer_id r) (sr_title r) (info_hash r) (cx_db_blocklist cx)
   then (case evaluate_auto_candidate env r cx of
           Some code \<Rightarrow> code = AD_DbBlocklisted \<or> code \<in> sharper_codes
         | None \<Rightarrow> False) \<and>
        effective_auto_decision_code_for_route (annotate_auto_decision c r) routes (cx_db_blocklist cx) = AD_DbBlocklisted
   else evaluate_auto_candidate env r cx \<noteq> Some AD_DbBlocklisted \<and>
        effective_auto_decision_code_for_route (annotate_auto_decision c r) [] (cx_db_blocklist cx) = c"
proof (cases "is_release_blocklisted (sr_indexer_id r) (sr_title r) (info_hash r) (cx_db_blocklist cx)")
  case True
  then obtain code where "subject_refusal env r cx = Some code" "code \<in> insert AD_DbBlocklisted sharper_codes"
    using subject_refusal_blocklisted by blast
  then show ?thesis using True by (simp add: evaluate_subject effective_auto_decision_code_for_route_def)
next
  case False
  have "evaluate_auto_candidate env r cx \<noteq> Some AD_DbBlocklisted"
    using subject_refusal_not_blocklisted [OF False] evaluate_late [of env r cx] evaluate_subject [of env r cx]
    by (cases "subject_refusal env r cx") (auto dest: evaluate_late)
  then show ?thesis using False by (simp add: effective_auto_decision_code_for_route_def route_for_candidate_def)
qed

subsection \<open>Searches an operator starts\<close>

lemma remaining_minutes_ge_0: "0 \<le> remaining_minutes ch e now"
  by (simp add: remaining_minutes_def signed_divide_int_def sgn_if pos_imp_zdiv_nonneg_iff)

lemma hold_reason_no_protocol: "0 \<le> m \<Longrightarrow> hold_reason m 0 = (if 0 < m then MinimumAge else Eligible)"
  by (simp add: hold_reason_def)

lemma user_delay_decision:
  assumes "user_invoked context"
    and "evaluate_delay_decision_with_context ch p k published context now = Some d"
  shows "reason d \<noteq> PendingDelay"
  using assms remaining_minutes_ge_0
  by (auto simp: evaluate_delay_decision_with_context_def should_bypass_protocol_delay_def deadline_if_def Let_def
      DelayDecision_default_def bind_eq_Some_conv hold_reason_no_protocol split: if_splits option.splits)

lemma user_delay_no_later:
  assumes "evaluate_delay_decision_with_context ch p k published (context\<lparr>user_invoked := False\<rparr>) now = Some d"
    and "reason d = Eligible"
  shows "\<exists>d'. evaluate_delay_decision_with_context ch p k published (context\<lparr>user_invoked := True\<rparr>) now = Some d' \<and>
    reason d' = Eligible"
proof (cases "is_protocol_enabled p k")
  case True
  obtain bypass where bypass: "should_bypass_protocol_delay ch p k (context\<lparr>user_invoked := False\<rparr>) now = Some bypass"
    using assms True by (auto simp: evaluate_delay_decision_with_context_def bind_eq_Some_conv Let_def)
  have user: "should_bypass_protocol_delay ch p k (context\<lparr>user_invoked := True\<rparr>) now = Some True"
    by (simp add: should_bypass_protocol_delay_def)
  show ?thesis
  proof (cases published)
    case None
    then show ?thesis using assms True
      by (auto simp: evaluate_delay_decision_with_context_def Let_def bypass user DelayDecision_default_def split: if_splits)
  next
    case (Some t)
    obtain min_at where min_at: "deadline_if ch (min_age_delay p k > 0) t (min_age_delay p k) = Some min_at"
      using assms True Some
      by (auto simp: evaluate_delay_decision_with_context_def Let_def bypass bind_eq_Some_conv)
    have "0 \<le> (case min_at of Some e \<Rightarrow> remaining_minutes ch e now | None \<Rightarrow> 0)"
      using remaining_minutes_ge_0 by (simp split: option.split)
    moreover have "\<not> 0 < (case min_at of Some e \<Rightarrow> remaining_minutes ch e now | None \<Rightarrow> 0)"
      using assms True Some
      by (auto simp: evaluate_delay_decision_with_context_def Let_def bypass bind_eq_Some_conv min_at hold_reason_def
          split: if_splits)
    ultimately show ?thesis using True Some
      by (simp add: evaluate_delay_decision_with_context_def Let_def user min_at) (simp add: deadline_if_def hold_reason_def)
  qed
qed (use assms in \<open>simp add: evaluate_delay_decision_with_context_def DelayDecision_default_def\<close>)

lemma user_subject_refusal:
  assumes "subject_refusal env r (cx\<lparr>cx_user_invoked := False\<rparr>) = None"
  shows "subject_refusal env r (cx\<lparr>cx_user_invoked := True\<rparr>) = None"
proof -
  have matched: "matched_refusal r (cx\<lparr>cx_user_invoked := True\<rparr>) m = None"
    if "matched_refusal r (cx\<lparr>cx_user_invoked := False\<rparr>) m = None" for m
    using that by (auto simp: matched_refusal_def touches_unmonitored_def Let_def split: if_splits)
  show ?thesis using assms matched by (auto simp: subject_refusal_def Let_def split: if_splits option.splits)
qed

lemma user_auto_delay:
  assumes "auto_candidate_delay_decision env r (cx\<lparr>cx_user_invoked := False\<rparr>) = Some d"
    and "case d of Some decision \<Rightarrow> \<not> blocks_grab decision | None \<Rightarrow> True"
  shows "\<exists>d. auto_candidate_delay_decision env r (cx\<lparr>cx_user_invoked := True\<rparr>) = Some d \<and>
    (case d of Some decision \<Rightarrow> \<not> blocks_grab decision | None \<Rightarrow> True)"
proof -
  let ?ctx = "\<lambda>by_user. \<lparr>user_invoked = by_user, candidate_score = result_score r,
    preferred_protocol_same_tier_revision =
      list_ex (revision_upgrade_over (result_facts env (cx_profile cx) r)) (incumbents (cx_admission cx)),
    preferred_protocol_highest_quality = (cand_tier_index (result_facts env (cx_profile cx) r) = Some 0),
    oldest_overlapping_pending_published_at = cx_oldest_pending_published_at cx\<rparr>"
  have step: "\<exists>d'. evaluate_delay_decision_with_context (env_chrono env) p k t (?ctx True) (cx_now cx) = Some d' \<and>
      reason d' = Eligible"
    if "evaluate_delay_decision_with_context (env_chrono env) p k t (?ctx False) (cx_now cx) = Some d" "reason d = Eligible"
    for p k t d
    using user_delay_no_later [of "env_chrono env" p k t "?ctx False" "cx_now cx" d] that by simp
  let ?profile = "resolve_delay_profile (cx_delay_profiles cx) (title_tags (cx_title cx)) (title_facet (cx_title cx))
    (title_library_id (cx_title cx))"
  have unfold: "auto_candidate_delay_decision env r (cx\<lparr>cx_user_invoked := b\<rparr>) =
      map_panicking (\<lambda>p. evaluate_delay_decision_with_context (env_chrono env) p (sr_source_kind r)
        (Option.bind (sr_published_at r) (env_published_at env)) (?ctx b) (cx_now cx)) ?profile" for b
    by (simp add: auto_candidate_delay_decision_def automatic_candidate_delay_decision_def Let_def
        grab_time_delay_decision_with_context_def)
  show ?thesis
  proof (cases ?profile)
    case (Some p)
    then obtain decision where "d = Some decision" "reason decision = Eligible"
      "evaluate_delay_decision_with_context (env_chrono env) p (sr_source_kind r)
        (Option.bind (sr_published_at r) (env_published_at env)) (?ctx False) (cx_now cx) = Some decision"
      using assms by (auto simp: unfold map_panicking_def blocks_grab_def)
    with step Some show ?thesis by (fastforce simp: unfold map_panicking_def blocks_grab_def)
  qed (simp add: unfold map_panicking_def)
qed

lemma user_codes:
  assumes "cx_user_invoked cx"
  shows "evaluate_auto_candidate env r cx \<noteq> Some AD_PackForSingleEpisode"
    and "evaluate_auto_candidate env r cx \<noteq> Some AD_EpisodeNotMonitored"
    and "evaluate_auto_candidate env r cx \<noteq> Some AD_PendingDelay"
proof -
  let ?early = "{AD_PackForSingleEpisode, AD_EpisodeNotMonitored, AD_PendingDelay}"
  have matched: "matched_refusal r cx m = Some c \<Longrightarrow> c \<notin> ?early" for m c
    using assms by (auto simp: matched_refusal_def touches_unmonitored_def Let_def split: if_splits)
  have early: "subject_refusal env r cx = Some c \<Longrightarrow> c \<notin> ?early" for c
    using matched by (auto simp: subject_refusal_def movie_subject_refusal_def Let_def split: if_splits option.splits)
  have delay: "delay_code (reason d) \<noteq> AD_PendingDelay"
    if "auto_candidate_delay_decision env r cx = Some (Some d)" for d
  proof -
    have "reason d \<noteq> PendingDelay"
      using that assms
      by (auto simp: auto_candidate_delay_decision_def automatic_candidate_delay_decision_def Let_def
          grab_time_delay_decision_with_context_def map_panicking_def split: option.splits
          dest!: user_delay_decision [rotated])
    then show ?thesis by (cases "reason d") simp_all
  qed
  have admission: "admission_code x \<noteq> AD_PendingDelay" for x by (cases x) simp_all
  have "after_cutoff env r cx \<noteq> Some AD_PendingDelay"
    using delay admission by (auto simp: after_cutoff_def split: option.splits if_splits)
  moreover have "cutoff_refusal ch c s a b now \<noteq> Some (Some AD_PendingDelay)" for ch c s a b now
    by (auto simp: cutoff_refusal_def split: if_splits)
  ultimately show "evaluate_auto_candidate env r cx \<noteq> Some AD_PendingDelay"
    using early by (auto simp: evaluate_auto_candidate_def bind_eq_Some_conv split: option.splits if_splits)
  have "c \<notin> {AD_PackForSingleEpisode, AD_EpisodeNotMonitored}" if "evaluate_auto_candidate env r cx = Some c" for c
    using that early evaluate_late [of env r cx c] evaluate_subject [of env r cx]
    by (cases "subject_refusal env r cx") auto
  then show "evaluate_auto_candidate env r cx \<noteq> Some AD_PackForSingleEpisode"
    and "evaluate_auto_candidate env r cx \<noteq> Some AD_EpisodeNotMonitored" by auto
qed

text \<open>
  C5. An operator's search is never stricter than the automatic one: whatever the automatic search
  would grab, a search an operator started over the same state would grab too; and it refuses
  nothing for being a pack, for touching an episode nobody monitors or for a protocol delay.
\<close>

theorem operator_search_is_no_stricter:
  "(if evaluate_auto_candidate env r (cx\<lparr>cx_user_invoked := False\<rparr>) = Some AD_Eligible
    then evaluate_auto_candidate env r (cx\<lparr>cx_user_invoked := True\<rparr>) = Some AD_Eligible else True) \<and>
   evaluate_auto_candidate env r (cx\<lparr>cx_user_invoked := True\<rparr>)
     \<notin> {Some AD_PackForSingleEpisode, Some AD_EpisodeNotMonitored, Some AD_PendingDelay}"
proof -
  have "evaluate_auto_candidate env r (cx\<lparr>cx_user_invoked := True\<rparr>) = Some AD_Eligible"
    if "evaluate_auto_candidate env r (cx\<lparr>cx_user_invoked := False\<rparr>) = Some AD_Eligible"
    using that user_subject_refusal [of env r cx] user_auto_delay [of env r cx]
    by (auto simp: eligible_iff after_cutoff_eligible route_failed_def)
  then show ?thesis using user_codes [of "cx\<lparr>cx_user_invoked := True\<rparr>" env r] by simp
qed

text \<open>
  C4. An identity refusal is final. Whether a release is the subject at all does not depend on the
  files, the profile, the queue, the delays or the clock: with any of these replaced the refusal is
  the same, and an unavailable movie does not hide it.
\<close>

theorem identity_refusal_is_final:
  "case evaluate_auto_candidate env r cx of
     None \<Rightarrow> True
   | Some code \<Rightarrow>
       if is_identity_refusal code
       then evaluate_auto_candidate env r
              (cx\<lparr>cx_admission := admission, cx_profile := profile, cx_thresholds := thresholds,
                  cx_incumbent_at_cutoff := at_cutoff, cx_oldest_pending_published_at := oldest, cx_now := now,
                  cx_dl_snapshot := snapshot, cx_existing_files := files, cx_delay_profiles := delays,
                  cx_failed_routes := routes\<rparr>) = Some code \<and>
            with_movie_availability code blocked = code
       else True"
proof -
  let ?cx = "cx\<lparr>cx_admission := admission, cx_profile := profile, cx_thresholds := thresholds,
    cx_incumbent_at_cutoff := at_cutoff, cx_oldest_pending_published_at := oldest, cx_now := now,
    cx_dl_snapshot := snapshot, cx_existing_files := files, cx_delay_profiles := delays, cx_failed_routes := routes\<rparr>"
  have fields: "cx_subject ?cx = cx_subject cx" "cx_user_invoked ?cx = cx_user_invoked cx"
    "cx_is_rss_lane ?cx = cx_is_rss_lane cx" "cx_unmonitored_episode_ids ?cx = cx_unmonitored_episode_ids cx"
    "cx_db_blocklist ?cx = cx_db_blocklist cx" "cx_minimum_seeders ?cx = cx_minimum_seeders cx"
    by simp_all
  have same: "subject_refusal env r ?cx = subject_refusal env r cx"
  proof -
    have matched: "matched_refusal r ?cx = matched_refusal r cx"
      unfolding matched_refusal_def touches_unmonitored_def Let_def fields by (rule refl)
    show ?thesis unfolding subject_refusal_def Let_def fields matched by (rule refl)
  qed
  have "subject_refusal env r cx = Some c"
    if "evaluate_auto_candidate env r cx = Some c" "is_identity_refusal c" for c
    using that evaluate_late [of env r cx c] evaluate_subject [of env r cx]
    by (cases "subject_refusal env r cx") (auto simp: late_codes_def is_identity_refusal_def)
  then show ?thesis
    using evaluate_subject [of env r ?cx] same
    by (auto simp: with_movie_availability_def split: option.split)
qed

end
