(* ===== verification/Seeding.thy ===== *)
theory Seeding
  imports Search_Candidate
begin

text \<open>
  Torrent seeding: the goals a grab is frozen with (\<open>acquisition/seed_goals.rs\<close>) and the gate
  every removal and every move of a payload passes (\<open>import/seeding_gate.rs\<close>). The repositories
  are arguments that answer a value or an error (the left of a sum); the JSON reader of the settings
  and of the managed metadata is an argument too.
\<close>

section \<open>Profiles and requests\<close>

record SeedingProfile =
  sp_id :: string
  sp_name :: string
  sp_ratio :: "f64 option"
  sp_seed_time_minutes :: "int option"
  sp_season_pack_mode :: SeasonPackSeedMode
  sp_season_pack_ratio :: "f64 option"
  sp_season_pack_seed_time_minutes :: "int option"
  sp_honor_tracker_minimums :: bool
  sp_goal_met_action :: SeedGoalMetAction
  sp_never_remove :: bool
  sp_minimum_seeders :: "int option"
  sp_post_import_tracking :: PostImportTracking

definition SeedingProfile_normalized :: "SeedingProfile \<Rightarrow> SeedingProfile" where
  "SeedingProfile_normalized p =
     (let p = p\<lparr>sp_name := trim (sp_name p)\<rparr>
      in if sp_season_pack_mode p = Inherit
         then p\<lparr>sp_season_pack_ratio := None, sp_season_pack_seed_time_minutes := None\<rparr> else p)"

definition effective_ratio :: "SeedingProfile \<Rightarrow> bool \<Rightarrow> f64 option" where
  "effective_ratio p season_pack =
     (if season_pack \<and> sp_season_pack_mode p = Override then sp_season_pack_ratio p else sp_ratio p)"

definition effective_seed_time_minutes :: "SeedingProfile \<Rightarrow> bool \<Rightarrow> int option" where
  "effective_seed_time_minutes p season_pack =
     (if season_pack \<and> sp_season_pack_mode p = Override then sp_season_pack_seed_time_minutes p
      else sp_seed_time_minutes p)"

definition validate_seed_ratio :: "string \<Rightarrow> f64 option \<Rightarrow> string + unit" where
  "validate_seed_ratio label value =
     (case value of
        Some v \<Rightarrow> if \<not> is_finite v \<or> f64_le v (Finite 0)
                  then Inl (''seeding profile '' @ label @ '' must be greater than 0'') else Inr ()
      | None \<Rightarrow> Inr ())"

definition validate_seed_time_minutes :: "string \<Rightarrow> int option \<Rightarrow> string + unit" where
  "validate_seed_time_minutes label value =
     (case value of
        Some v \<Rightarrow> if v \<le> 0 then Inl (''seeding profile '' @ label @ '' must be greater than 0'') else Inr ()
      | None \<Rightarrow> Inr ())"

definition SeedingProfile_validate :: "SeedingProfile \<Rightarrow> string + unit" where
  "SeedingProfile_validate p =
     (if trim (sp_name p) = [] then Inl ''seeding profile name is required''
      else and_then (validate_seed_ratio ''ratio'' (sp_ratio p)) (\<lambda>_.
           and_then (validate_seed_time_minutes ''seed time'' (sp_seed_time_minutes p)) (\<lambda>_.
           and_then (validate_seed_ratio ''season pack ratio'' (sp_season_pack_ratio p)) (\<lambda>_.
           and_then (validate_seed_time_minutes ''season pack seed time'' (sp_season_pack_seed_time_minutes p)) (\<lambda>_.
           if (case sp_minimum_seeders p of Some n \<Rightarrow> n < 0 | None \<Rightarrow> False)
           then Inl ''seeding profile minimum seeders cannot be negative'' else Inr ())))))"

datatype SeedGoalResolutionSource = SRC_None | SRC_Indexer | SRC_ProwlarrManaged | SRC_RoutingEntry | SRC_GlobalDefault

primrec SeedGoalResolutionSource_as_str :: "SeedGoalResolutionSource \<Rightarrow> string" where
  "SeedGoalResolutionSource_as_str SRC_None = ''none''"
| "SeedGoalResolutionSource_as_str SRC_Indexer = ''indexer''"
| "SeedGoalResolutionSource_as_str SRC_ProwlarrManaged = ''prowlarr_managed''"
| "SeedGoalResolutionSource_as_str SRC_RoutingEntry = ''routing_entry''"
| "SeedGoalResolutionSource_as_str SRC_GlobalDefault = ''global_default''"

definition SeedGoalResolutionSource_parse :: "string \<Rightarrow> SeedGoalResolutionSource option" where
  "SeedGoalResolutionSource_parse value =
     (let v = trim value
      in if v = ''none'' then Some SRC_None else if v = ''indexer'' then Some SRC_Indexer
         else if v = ''prowlarr_managed'' then Some SRC_ProwlarrManaged
         else if v = ''routing_entry'' then Some SRC_RoutingEntry
         else if v = ''global_default'' then Some SRC_GlobalDefault else None)"

interpretation seed_goal_source: label_codec SeedGoalResolutionSource_as_str SeedGoalResolutionSource_parse
proof
  show "SeedGoalResolutionSource_parse (SeedGoalResolutionSource_as_str x) = Some x" for x
    by (cases x; hypsubst; code_simp)
qed

record SeedGoalRequest =
  rq_indexer_id :: "string option"
  rq_routing_seeding_profile_id :: "string option"
  rq_season_pack :: bool
  rq_tracker_min_seed_ratio :: "f64 option"
  rq_tracker_min_seed_time_minutes :: "int option"
  rq_season_pack_min_seed_ratio :: "f64 option"
  rq_season_pack_min_seed_time_minutes :: "int option"

definition effective_min_ratio :: "SeedGoalRequest \<Rightarrow> f64 option" where
  "effective_min_ratio r =
     (if rq_season_pack r then or_else (rq_season_pack_min_seed_ratio r) (rq_tracker_min_seed_ratio r)
      else rq_tracker_min_seed_ratio r)"

definition effective_min_seed_time_minutes :: "SeedGoalRequest \<Rightarrow> int option" where
  "effective_min_seed_time_minutes r =
     (if rq_season_pack r
      then or_else (rq_season_pack_min_seed_time_minutes r) (rq_tracker_min_seed_time_minutes r)
      else rq_tracker_min_seed_time_minutes r)"

record ResolvedSeedGoals =
  rg_seeding_profile_id :: "string option"
  rg_seed_goal_ratio :: "f64 option"
  rg_seed_goal_seconds :: "int option"
  rg_never_remove :: bool
  rg_goal_met_action :: "SeedGoalMetAction option"
  rg_post_import_tracking :: PostImportTracking
  rg_resolution_source :: SeedGoalResolutionSource

definition ResolvedSeedGoals_default :: ResolvedSeedGoals where
  "ResolvedSeedGoals_default =
     \<lparr>rg_seeding_profile_id = None, rg_seed_goal_ratio = None, rg_seed_goal_seconds = None,
      rg_never_remove = False, rg_goal_met_action = None, rg_post_import_tracking = Park,
      rg_resolution_source = SRC_None\<rparr>"

definition is_resolved :: "ResolvedSeedGoals \<Rightarrow> bool" where
  "is_resolved g \<longleftrightarrow> rg_resolution_source g \<noteq> SRC_None"

section \<open>Goals of a profile\<close>

definition clamp_up_f64 :: "f64 option \<Rightarrow> f64 option \<Rightarrow> f64 option" where
  "clamp_up_f64 value minimum =
     (let minimum = (case minimum of Some m \<Rightarrow> if finite_positive m then Some m else None | None \<Rightarrow> None)
      in case (value, minimum) of
           (Some v, Some m) \<Rightarrow> Some (f64_max v m)
         | (Some v, None) \<Rightarrow> Some v
         | (None, m) \<Rightarrow> m)"

definition clamp_up_i64 :: "int option \<Rightarrow> int option \<Rightarrow> int option" where
  "clamp_up_i64 value minimum =
     (let minimum = (case minimum of Some m \<Rightarrow> if 0 < m then Some m else None | None \<Rightarrow> None)
      in case (value, minimum) of
           (Some v, Some m) \<Rightarrow> Some (max v m)
         | (Some v, None) \<Rightarrow> Some v
         | (None, m) \<Rightarrow> m)"

definition checked_mul_i64 :: "int \<Rightarrow> int \<Rightarrow> int option" where
  "checked_mul_i64 a b = (if is_i64 (a * b) then Some (a * b) else None)"

definition apply_profile :: "SeedingProfile \<Rightarrow> SeedGoalRequest \<Rightarrow> SeedGoalResolutionSource \<Rightarrow> ResolvedSeedGoals" where
  "apply_profile p r source =
     (let ratio = effective_ratio p (rq_season_pack r);
          minutes = effective_seed_time_minutes p (rq_season_pack r);
          ratio = (if sp_honor_tracker_minimums p then clamp_up_f64 ratio (effective_min_ratio r) else ratio);
          minutes = (if sp_honor_tracker_minimums p
                     then clamp_up_i64 minutes (effective_min_seed_time_minutes r) else minutes)
      in \<lparr>rg_seeding_profile_id = (if sp_id p = [] then None else Some (sp_id p)),
          rg_seed_goal_ratio = (case ratio of Some v \<Rightarrow> if finite_positive v then Some v else None | None \<Rightarrow> None),
          rg_seed_goal_seconds =
            (case minutes of Some m \<Rightarrow> if 0 < m then checked_mul_i64 m 60 else None | None \<Rightarrow> None),
          rg_never_remove = sp_never_remove p,
          rg_goal_met_action = Some (sp_goal_met_action p),
          rg_post_import_tracking = sp_post_import_tracking p,
          rg_resolution_source = source\<rparr>)"

text \<open>The breadcrumb of a clamp: the axes a tracker minimum raised.\<close>

record TrackerMinimumClamp =
  cl_profile_ratio :: "f64 option"
  cl_min_ratio :: "f64 option"
  cl_resolved_ratio :: "f64 option"
  cl_profile_seed_time_minutes :: "int option"
  cl_min_seed_time_minutes :: "int option"
  cl_resolved_seed_time_minutes :: "int option"

definition clamped_axes :: "TrackerMinimumClamp \<Rightarrow> string option" where
  "clamped_axes c =
     (let ratio_clamped =
            (case cl_min_ratio c of
               Some m \<Rightarrow> finite_positive m \<and>
                 (case cl_profile_ratio c of Some v \<Rightarrow> is_finite v \<longrightarrow> f64_less v m | None \<Rightarrow> True)
             | None \<Rightarrow> False);
          time_clamped =
            (case cl_min_seed_time_minutes c of
               Some m \<Rightarrow> 0 < m \<and> (case cl_profile_seed_time_minutes c of Some v \<Rightarrow> v < m | None \<Rightarrow> True)
             | None \<Rightarrow> False)
      in if ratio_clamped \<and> time_clamped then Some ''ratio,seed_time''
         else if ratio_clamped then Some ''ratio''
         else if time_clamped then Some ''seed_time''
         else None)"

section \<open>Resolution\<close>

record ProwlarrManagedSeedCriteria =
  pc_seed_ratio :: "f64 option"
  pc_seed_time_minutes :: "int option"
  pc_season_pack_seed_time_minutes :: "int option"
  pc_minimum_seeders :: "int option"

text \<open>Of an indexer configuration, the fields the resolver reads.\<close>

record IndexerConfig =
  ix_seeding_profile_id :: "string option"
  ix_managed_parent_config_id :: "string option"
  ix_managed_metadata_json :: "string option"

record 'e seed_repositories =
  repo_profile :: "string \<Rightarrow> 'e + SeedingProfile option" \<comment> \<open>\<open>seeding_profiles.get_by_id\<close>\<close>
  repo_indexer :: "(string \<Rightarrow> 'e + IndexerConfig option) option" \<comment> \<open>\<open>indexer_configs\<close>, when there is one\<close>
  repo_setting :: "string \<Rightarrow> 'e + string option" \<comment> \<open>\<open>settings.get_setting_json\<close> of the system scope\<close>
  repo_criteria :: "string \<Rightarrow> ProwlarrManagedSeedCriteria option" \<comment> \<open>\<open>serde_json::from_str(..).ok()\<close>\<close>
  repo_json :: "string \<Rightarrow> Value option" \<comment> \<open>\<open>serde_json::from_str::<Value>(..).ok()\<close>\<close>

definition trimmed :: "string option \<Rightarrow> string option" where
  "trimmed value = filled (map_option trim value)"

definition prowlarr_managed_criteria ::
  "'e seed_repositories \<Rightarrow> IndexerConfig \<Rightarrow> ProwlarrManagedSeedCriteria option" where
  "prowlarr_managed_criteria repo ix =
     (case ix_managed_parent_config_id ix of
        None \<Rightarrow> None
      | Some _ \<Rightarrow> Option.bind (ix_managed_metadata_json ix) (repo_criteria repo))"

definition prowlarr_managed_goal_profile :: "'e seed_repositories \<Rightarrow> IndexerConfig \<Rightarrow> SeedingProfile option" where
  "prowlarr_managed_goal_profile repo ix =
     Option.bind (prowlarr_managed_criteria repo ix) (\<lambda>c.
       let ratio = (case pc_seed_ratio c of Some v \<Rightarrow> if finite_positive v then Some v else None | None \<Rightarrow> None);
           minutes = (case pc_seed_time_minutes c of Some m \<Rightarrow> if 0 < m then Some m else None | None \<Rightarrow> None);
           pack = (case pc_season_pack_seed_time_minutes c of Some m \<Rightarrow> if 0 < m then Some m else None | None \<Rightarrow> None)
       in if ratio = None \<and> minutes = None \<and> pack = None then None
          else Some \<lparr>sp_id = [], sp_name = ''Managed by Prowlarr'', sp_ratio = ratio, sp_seed_time_minutes = minutes,
                     sp_season_pack_mode = (if pack \<noteq> None then Override else Inherit),
                     sp_season_pack_ratio = None, sp_season_pack_seed_time_minutes = pack,
                     sp_honor_tracker_minimums = True, sp_goal_met_action = RemoveEntry,
                     sp_never_remove = False, sp_minimum_seeders = None, sp_post_import_tracking = Park\<rparr>)"

definition prowlarr_managed_minimum_seeders :: "'e seed_repositories \<Rightarrow> IndexerConfig \<Rightarrow> int option" where
  "prowlarr_managed_minimum_seeders repo ix =
     Option.bind (prowlarr_managed_criteria repo ix) (\<lambda>c.
       case pc_minimum_seeders c of Some n \<Rightarrow> if 0 \<le> n then Some n else None | None \<Rightarrow> None)"

definition parse_setting_string :: "(string \<Rightarrow> Value option) \<Rightarrow> string \<Rightarrow> string option" where
  "parse_setting_string json raw =
     (let t = trim raw
      in if t = [] \<or> t = ''null'' then None
         else case json t of
           Some V_Null \<Rightarrow> None
         | Some (V_String v) \<Rightarrow> if trim v = [] then None else Some (trim v)
         | Some _ \<Rightarrow> Some t
         | None \<Rightarrow> Some t)"

definition DEFAULT_SEEDING_PROFILE_SETTING_KEY :: string where
  "DEFAULT_SEEDING_PROFILE_SETTING_KEY = ''download_client.default_seeding_profile''"

definition MINIMUM_SEEDERS_FLOOR_SETTING_KEY :: string where
  "MINIMUM_SEEDERS_FLOOR_SETTING_KEY = ''download_client.minimum_seeders_floor''"

definition MINIMUM_SEEDERS_FLOOR_DEFAULT :: int where
  "MINIMUM_SEEDERS_FLOOR_DEFAULT = 1"

definition default_seeding_profile_id :: "'e seed_repositories \<Rightarrow> 'e + string option" where
  "default_seeding_profile_id repo =
     and_then (repo_setting repo DEFAULT_SEEDING_PROFILE_SETTING_KEY) (\<lambda>raw.
       Inr (case raw of None \<Rightarrow> None | Some v \<Rightarrow> parse_setting_string (repo_json repo) v))"

text \<open>\<open>if let Some(id) = .. && let Some(profile) = self.load_profile(&id).await?\<close>.\<close>

definition load_named_profile :: "'e seed_repositories \<Rightarrow> string option \<Rightarrow> 'e + SeedingProfile option" where
  "load_named_profile repo named =
     (case named of None \<Rightarrow> Inr None | Some i \<Rightarrow> repo_profile repo i)"

definition find_indexer :: "'e seed_repositories \<Rightarrow> string option \<Rightarrow> 'e + IndexerConfig option" where
  "find_indexer repo indexer_id =
     (case (trimmed indexer_id, repo_indexer repo) of
        (Some i, Some get) \<Rightarrow> get i
      | _ \<Rightarrow> Inr None)"

definition resolve_profile ::
  "'e seed_repositories \<Rightarrow> SeedGoalRequest \<Rightarrow> 'e + (SeedingProfile \<times> SeedGoalResolutionSource) option" where
  "resolve_profile repo r =
     and_then (find_indexer repo (rq_indexer_id r)) (\<lambda>indexer.
     and_then
       (case indexer of
          None \<Rightarrow> Inr None
        | Some ix \<Rightarrow>
            and_then (load_named_profile repo (trimmed (ix_seeding_profile_id ix))) (\<lambda>own.
              Inr (case own of
                     Some p \<Rightarrow> Some (p, SRC_Indexer)
                   | None \<Rightarrow> map_option (\<lambda>p. (p, SRC_ProwlarrManaged)) (prowlarr_managed_goal_profile repo ix))))
       (\<lambda>from_indexer. case from_indexer of
          Some found \<Rightarrow> Inr (Some found)
        | None \<Rightarrow>
            and_then (load_named_profile repo (trimmed (rq_routing_seeding_profile_id r))) (\<lambda>routed.
              case routed of
                Some p \<Rightarrow> Inr (Some (p, SRC_RoutingEntry))
              | None \<Rightarrow>
                  and_then (default_seeding_profile_id repo) (\<lambda>default_id.
                  and_then (load_named_profile repo default_id) (\<lambda>fallback.
                    Inr (map_option (\<lambda>p. (p, SRC_GlobalDefault)) fallback))))))"

definition SeedGoalResolver_resolve :: "'e seed_repositories \<Rightarrow> SeedGoalRequest \<Rightarrow> 'e + ResolvedSeedGoals" where
  "SeedGoalResolver_resolve repo r =
     and_then (resolve_profile repo r) (\<lambda>found.
       Inr (case found of
              None \<Rightarrow> ResolvedSeedGoals_default
            | Some (p, source) \<Rightarrow> apply_profile p r source))"

definition minimum_seeders_floor :: "'e seed_repositories \<Rightarrow> 'e + int" where
  "minimum_seeders_floor repo =
     and_then (repo_setting repo MINIMUM_SEEDERS_FLOOR_SETTING_KEY) (\<lambda>raw.
       Inr (case raw of
              None \<Rightarrow> MINIMUM_SEEDERS_FLOOR_DEFAULT
            | Some v \<Rightarrow>
                (case Option.bind (repo_json repo (trim v)) (\<lambda>j. case j of
                        V_Int n \<Rightarrow> as_i64 (V_Int n)
                      | V_String t \<Rightarrow> parse_i64 (trim t)
                      | _ \<Rightarrow> None) of
                   None \<Rightarrow> MINIMUM_SEEDERS_FLOOR_DEFAULT
                 | Some n \<Rightarrow> max 0 (min n i32_max))))"

definition admission_minimum_seeders :: "'e seed_repositories \<Rightarrow> string option \<Rightarrow> 'e + int option" where
  "admission_minimum_seeders repo indexer_id =
     and_then (find_indexer repo indexer_id) (\<lambda>indexer.
     and_then
       (case indexer of
          None \<Rightarrow> Inr None
        | Some ix \<Rightarrow>
            and_then (load_named_profile repo (trimmed (ix_seeding_profile_id ix))) (\<lambda>own.
              Inr (case own of
                     Some p \<Rightarrow> Some (sp_minimum_seeders p)
                   | None \<Rightarrow> map_option Some (prowlarr_managed_minimum_seeders repo ix))))
       (\<lambda>answer. case answer of
          Some minimum \<Rightarrow> Inr minimum
        | None \<Rightarrow>
            and_then (default_seeding_profile_id repo) (\<lambda>default_id.
            and_then (load_named_profile repo default_id) (\<lambda>fallback.
              Inr (case fallback of Some p \<Rightarrow> sp_minimum_seeders p | None \<Rightarrow> None)))))"

definition resolve_minimum_seeders :: "'e seed_repositories \<Rightarrow> string option \<Rightarrow> 'e + int" where
  "resolve_minimum_seeders repo indexer_id =
     and_then (admission_minimum_seeders repo indexer_id) (\<lambda>minimum.
       case minimum of Some n \<Rightarrow> Inr (max n 0) | None \<Rightarrow> minimum_seeders_floor repo)"

section \<open>The gate\<close>

text \<open>What the grab froze onto its submission row.\<close>

record PersistedSeedGoals =
  pg_seeding_profile_id :: "string option"
  pg_seed_goal_ratio :: "f64 option"
  pg_seed_goal_seconds :: "int option"
  pg_never_remove :: bool
  pg_goal_met_action :: "SeedGoalMetAction option"
  pg_post_import_tracking :: PostImportTracking
  pg_resolution_source :: SeedGoalResolutionSource
  pg_info_hash :: "string option"

definition PersistedSeedGoals_default :: PersistedSeedGoals where
  "PersistedSeedGoals_default =
     \<lparr>pg_seeding_profile_id = None, pg_seed_goal_ratio = None, pg_seed_goal_seconds = None,
      pg_never_remove = False, pg_goal_met_action = None, pg_post_import_tracking = Park,
      pg_resolution_source = SRC_None, pg_info_hash = None\<rparr>"

definition has_goals :: "PersistedSeedGoals \<Rightarrow> bool" where
  "has_goals g \<longleftrightarrow> pg_seed_goal_ratio g \<noteq> None \<or> pg_seed_goal_seconds g \<noteq> None"

definition goal_met_action_for :: "PersistedSeedGoals \<Rightarrow> SeedGoalMetAction" where
  "goal_met_action_for g = (case pg_goal_met_action g of Some a \<Rightarrow> a | None \<Rightarrow> RemoveEntry)"

record TorrentSeedingObservation =
  ob_can_remove :: "bool option"
  ob_can_move_files :: "bool option"
  ob_seed_ratio :: "f64 option"
  ob_seed_time_seconds :: "int option"
  ob_is_private :: "bool option"
  ob_completed_at :: "datetime option"

definition observation_default :: TorrentSeedingObservation where
  "observation_default =
     \<lparr>ob_can_remove = None, ob_can_move_files = None, ob_seed_ratio = None, ob_seed_time_seconds = None,
      ob_is_private = None, ob_completed_at = None\<rparr>"

definition observation_from_snapshot :: "chrono \<Rightarrow> DownloadSeedingSnapshot \<Rightarrow> TorrentSeedingObservation" where
  "observation_from_snapshot ch s =
     \<lparr>ob_can_remove = ds_can_remove s, ob_can_move_files = ds_can_move_files s,
      ob_seed_ratio = ds_seed_ratio s, ob_seed_time_seconds = ds_seed_time_seconds s,
      ob_is_private = ds_is_private s, ob_completed_at = Option.bind (ds_completed_at s) (ch_rfc3339 ch)\<rparr>"

text \<open>
  \<open>*observation != default()\<close> compares two \<open>f64\<close> fields with IEEE equality; the default has none,
  so a present ratio is already a difference.
\<close>

definition observation_from_queue_item :: "chrono \<Rightarrow> DownloadQueueItem \<Rightarrow> TorrentSeedingObservation option" where
  "observation_from_queue_item ch item =
     (case qi_seeding item of
        None \<Rightarrow> None
      | Some s \<Rightarrow> let o' = observation_from_snapshot ch s in if o' = observation_default then None else Some o')"

record SeedingGateInput =
  gi_is_torrent :: bool
  gi_client_type :: string
  gi_present_in_client :: bool
  gi_observation :: "TorrentSeedingObservation option"
  gi_goals :: "PersistedSeedGoals option"
  gi_now :: datetime

datatype SeedingGateOutcome = NotApplicable | Vanished | Released SeedGoalMetAction | HandedOff | GateHold

record SeedingGateDecision =
  gd_outcome :: SeedingGateOutcome
  gd_reason :: string
  gd_move_allowed :: bool

definition SeedingGateDecision_new :: "SeedingGateOutcome \<Rightarrow> string \<Rightarrow> bool \<Rightarrow> SeedingGateDecision" where
  "SeedingGateDecision_new out why move = \<lparr>gd_outcome = out, gd_reason = why, gd_move_allowed = move\<rparr>"

definition not_applicable :: SeedingGateDecision where
  "not_applicable = SeedingGateDecision_new NotApplicable ''non_torrent_protocol'' True"

definition TORRENT_BLACKHOLE_CLIENT_TYPE :: string where
  "TORRENT_BLACKHOLE_CLIENT_TYPE = ''torrent-blackhole''"

definition scryer_goal_is_met ::
  "chrono \<Rightarrow> PersistedSeedGoals \<Rightarrow> TorrentSeedingObservation \<Rightarrow> datetime \<Rightarrow> bool" where
  "scryer_goal_is_met ch g obs now \<longleftrightarrow>
     (case (pg_seed_goal_ratio g, ob_seed_ratio obs) of
        (Some goal, Some observed) \<Rightarrow> is_finite goal \<and> is_finite observed \<and> f64_le goal observed
      | _ \<Rightarrow> False) \<or>
     (case pg_seed_goal_seconds g of
        None \<Rightarrow> False
      | Some goal \<Rightarrow> 0 < goal \<and>
          (case ob_seed_time_seconds obs of
             Some observed \<Rightarrow> goal \<le> observed
           | None \<Rightarrow>
               (case ob_completed_at obs of
                  Some t \<Rightarrow> goal \<le> ch_num_seconds ch (now - t)
                | None \<Rightarrow> False)))"

definition evaluate_seeding_obligation :: "chrono \<Rightarrow> SeedingGateInput \<Rightarrow> SeedingGateDecision" where
  "evaluate_seeding_obligation ch input =
     (if \<not> gi_is_torrent input then not_applicable
      else
        (let obs = (case gi_observation input of Some o' \<Rightarrow> o' | None \<Rightarrow> observation_default);
             data_stable = (ob_can_move_files obs \<noteq> Some False)
         in if \<not> gi_present_in_client input
            then SeedingGateDecision_new Vanished ''torrent_no_longer_in_client'' data_stable
            else if eq_ignore_ascii_case (trim (gi_client_type input)) TORRENT_BLACKHOLE_CLIENT_TYPE
            then SeedingGateDecision_new (Released Keep) ''torrent_blackhole_removal_is_destructive''
                   (data_stable \<and> ob_can_move_files obs = Some True)
            else
              (let g = (case gi_goals input of Some g \<Rightarrow> g | None \<Rightarrow> PersistedSeedGoals_default)
               in if pg_never_remove g then SeedingGateDecision_new GateHold ''profile_never_remove'' False
                  else if ob_is_private obs = Some True \<and> \<not> has_goals g
                  then SeedingGateDecision_new GateHold ''private_torrent_without_resolved_goals'' False
                  else if has_goals g then
                    (if scryer_goal_is_met ch g obs (gi_now input)
                     then SeedingGateDecision_new (Released (goal_met_action_for g)) ''profile_goal_met'' data_stable
                     else SeedingGateDecision_new GateHold ''profile_goal_unmet'' False)
                  else
                    (case ob_can_remove obs of
                       Some True \<Rightarrow> SeedingGateDecision_new (Released (goal_met_action_for g))
                                      ''client_reports_seeding_obligation_met'' data_stable
                     | Some False \<Rightarrow> SeedingGateDecision_new GateHold ''client_reports_unmet_seed_limit'' False
                     | None \<Rightarrow> SeedingGateDecision_new GateHold
                                 ''no_resolved_goals_and_client_verdict_unknown'' False))))"

fun holds_or_releases :: "SeedingGateOutcome \<Rightarrow> bool" where
  "holds_or_releases GateHold = True"
| "holds_or_releases (Released _) = True"
| "holds_or_releases _ = False"

definition evaluate_seeding_gate :: "chrono \<Rightarrow> SeedingGateInput \<Rightarrow> SeedingGateDecision" where
  "evaluate_seeding_gate ch input =
     (let d = evaluate_seeding_obligation ch input;
          hands_off = (case gi_goals input of Some g \<Rightarrow> is_hand_off (pg_post_import_tracking g) | None \<Rightarrow> False)
      in if hands_off \<and> holds_or_releases (gd_outcome d)
         then SeedingGateDecision_new HandedOff ''post_import_handoff'' (gd_move_allowed d)
         else d)"

datatype ImportMode = HardlinkOrCopy | MoveFiles

definition import_mode :: "SeedingGateDecision \<Rightarrow> ImportMode \<Rightarrow> ImportMode" where
  "import_mode d configured =
     (if configured = MoveFiles \<and> \<not> gd_move_allowed d then HardlinkOrCopy else configured)"

section \<open>Gathering the input\<close>

text \<open>
  \<open>accepted_inputs_for_provider\<close> of the plugin provider, when one is available, is an argument.
\<close>

definition native_accepted_inputs :: "string \<Rightarrow> DownloadSourceKind list" where
  "native_accepted_inputs client_type =
     (if client_type \<in> {''nzbget'', ''sabnzbd'', ''weaver''} then [NzbFile]
      else if client_type = ''http'' then [HttpResource] else [])"

definition accepted_inputs_for_client :: "(string \<Rightarrow> string list) option \<Rightarrow> string \<Rightarrow> DownloadSourceKind list" where
  "accepted_inputs_for_client plugins client_type =
     (case plugins of
        Some inputs_of \<Rightarrow>
          if inputs_of client_type \<noteq> []
          then List.map_filter DownloadSourceKind_parse (inputs_of client_type)
          else native_accepted_inputs client_type
      | None \<Rightarrow> native_accepted_inputs client_type)"

definition client_type_is_torrent :: "(string \<Rightarrow> string list) option \<Rightarrow> string \<Rightarrow> bool" where
  "client_type_is_torrent plugins client_type =
     (let inputs = accepted_inputs_for_client plugins client_type
      in inputs = [] \<or> list_ex (\<lambda>i. i \<in> {TorrentFile, MagnetUri}) inputs)"

record SeedGoalLookupKey =
  lk_canonical_download_id :: "DownloadId option"
  lk_client_id :: string
  lk_client_type :: string
  lk_client_item_id :: string
  lk_info_hash :: "string option"

definition seed_goal_lookup_key_for_completed :: "CompletedDownload \<Rightarrow> SeedGoalLookupKey" where
  "seed_goal_lookup_key_for_completed c =
     \<lparr>lk_canonical_download_id = Option.bind (cd_download_id c) from_wire,
      lk_client_id = trim (cd_client_id c), lk_client_type = trim (cd_client_type c),
      lk_client_item_id = trim (cd_item_id c), lk_info_hash = normalize_torrent_info_hash (Some (cd_item_id c))\<rparr>"

definition lookup_key_locator :: "SeedGoalLookupKey \<Rightarrow> ClientJobLocator" where
  "lookup_key_locator key = ClientJobLocator_new (Some (lk_client_id key)) (lk_client_type key) (lk_client_item_id key)"

record SeedGoalBatch =
  batch_covered :: "ClientJobLocator set"
  batch_resolved :: "ClientJobLocator \<rightharpoonup> PersistedSeedGoals"

datatype SeedGoalBatchAnswer = Uncovered | BatchResolved PersistedSeedGoals | NoIdentityResolution

definition SeedGoalBatch_default :: SeedGoalBatch where
  "SeedGoalBatch_default = \<lparr>batch_covered = {}, batch_resolved = Map.empty\<rparr>"

definition SeedGoalBatch_prefetch ::
  "(ClientJobLocator set \<Rightarrow> 'e + (ClientJobLocator \<times> PersistedSeedGoals) list) \<Rightarrow> ClientJobLocator list \<Rightarrow> SeedGoalBatch" where
  "SeedGoalBatch_prefetch list_goals identities =
     (if identities = [] then SeedGoalBatch_default
      else case list_goals (set identities) of
        Inr rows \<Rightarrow> \<lparr>batch_covered = set identities, batch_resolved = map_of (rev rows)\<rparr>
      | Inl _ \<Rightarrow> SeedGoalBatch_default)"

definition batch_answer :: "SeedGoalBatch \<Rightarrow> ClientJobLocator \<Rightarrow> SeedGoalBatchAnswer" where
  "batch_answer b identity =
     (case batch_resolved b identity of
        Some g \<Rightarrow> BatchResolved g
      | None \<Rightarrow> if identity \<in> batch_covered b then NoIdentityResolution else Uncovered)"

record 'e goal_store =
  gs_for_download :: "DownloadId option \<Rightarrow> ClientJobLocator \<Rightarrow> 'e + PersistedSeedGoals option"
    \<comment> \<open>\<open>get_seed_goals_for_download\<close>\<close>
  gs_by_info_hash :: "string \<Rightarrow> 'e + PersistedSeedGoals option" \<comment> \<open>\<open>find_seed_goals_by_info_hash\<close>\<close>

definition goals_by_hash :: "'e goal_store \<Rightarrow> SeedGoalLookupKey \<Rightarrow> 'e + PersistedSeedGoals option" where
  "goals_by_hash store key =
     (case lk_info_hash key of None \<Rightarrow> Inr None | Some h \<Rightarrow> gs_by_info_hash store h)"

definition resolved_seed_goals ::
  "'e goal_store \<Rightarrow> SeedGoalLookupKey \<Rightarrow> SeedGoalBatch option \<Rightarrow> 'e + PersistedSeedGoals option" where
  "resolved_seed_goals store key batch =
     (let identity = lookup_key_locator key;
          answer = (case batch of
             Some b \<Rightarrow> if lk_canonical_download_id key = None then batch_answer b identity else Uncovered
           | None \<Rightarrow> Uncovered)
      in case answer of
           BatchResolved g \<Rightarrow> Inr (Some g)
         | NoIdentityResolution \<Rightarrow> goals_by_hash store key
         | Uncovered \<Rightarrow>
             and_then (gs_for_download store (lk_canonical_download_id key) identity) (\<lambda>found.
               case found of Some g \<Rightarrow> Inr (Some g) | None \<Rightarrow> goals_by_hash store key))"

definition tracked_matches_lookup_key :: "DownloadQueueItem \<Rightarrow> SeedGoalLookupKey \<Rightarrow> bool" where
  "tracked_matches_lookup_key item key =
     (if \<not> eq_ignore_ascii_case (trim (qi_client_type item)) (lk_client_type key) then False
      else if trim (qi_client_id item) \<noteq> [] \<and> lk_client_id key \<noteq> [] \<and> trim (qi_client_id item) \<noteq> lk_client_id key
      then False
      else if eq_ignore_ascii_case (trim (qi_item_id item)) (trim (lk_client_item_id key)) then True
      else (case (normalize_torrent_info_hash (Some (trim (qi_item_id item))), lk_info_hash key) of
              (Some observed, Some expected) \<Rightarrow> observed = expected
            | _ \<Rightarrow> False))"

text \<open>The published snapshot is the list of its client items, in the iteration order of the map.\<close>

definition observe_torrent_seeding ::
  "chrono \<Rightarrow> DownloadQueueItem list \<Rightarrow> SeedGoalLookupKey \<Rightarrow> TorrentSeedingObservation option" where
  "observe_torrent_seeding ch snapshot key =
     Option.bind (List.find (\<lambda>i. tracked_matches_lookup_key i key) snapshot) (observation_from_queue_item ch)"

definition hold_because :: "string \<Rightarrow> SeedingGateDecision" where
  "hold_because why = SeedingGateDecision_new GateHold why False"

record 'e gate_env =
  ge_chrono :: chrono
  ge_plugins :: "(string \<Rightarrow> string list) option"
  ge_goals :: "'e goal_store"
  ge_snapshot :: "DownloadQueueItem list"
  ge_now :: datetime

definition evaluate_seeding_gate_with ::
  "'e gate_env \<Rightarrow> SeedGoalLookupKey \<Rightarrow> bool \<Rightarrow> TorrentSeedingObservation option \<Rightarrow> SeedGoalBatch option \<Rightarrow>
   SeedingGateDecision" where
  "evaluate_seeding_gate_with env key present observation batch =
     (if \<not> client_type_is_torrent (ge_plugins env) (lk_client_type key) then not_applicable
      else if accepted_inputs_for_client (ge_plugins env) (lk_client_type key) = []
      then hold_because ''download_client_protocol_unavailable''
      else
        (let obs = (case observation of Some o' \<Rightarrow> Some o'
                    | None \<Rightarrow> observe_torrent_seeding (ge_chrono env) (ge_snapshot env) key)
         in case resolved_seed_goals (ge_goals env) key batch of
              Inl _ \<Rightarrow> hold_because ''persisted_seed_goals_unavailable''
            | Inr goals \<Rightarrow>
                evaluate_seeding_gate (ge_chrono env)
                  \<lparr>gi_is_torrent = True, gi_client_type = lk_client_type key, gi_present_in_client = present,
                   gi_observation = obs, gi_goals = goals, gi_now = ge_now env\<rparr>))"

datatype DownloadClientObservation = Present DownloadQueueItem | Absent | Unknown string nat

text \<open>The guard of the fresh read: the same job, completed, and not another canonical download.\<close>

definition fresh_item_answers :: "SeedGoalLookupKey \<Rightarrow> DownloadQueueItem \<Rightarrow> bool" where
  "fresh_item_answers key item \<longleftrightarrow>
     ClientJobLocator_new (Some (qi_client_id item)) (qi_client_type item) (qi_item_id item) = lookup_key_locator key \<and>
     qi_state item = DQ_Completed \<and>
     (case (Option.bind (qi_download_id item) from_wire, lk_canonical_download_id key) of
        (Some observed, Some expected) \<Rightarrow> observed = expected
      | _ \<Rightarrow> True)"

definition evaluate_seeding_gate_for ::
  "'e gate_env \<Rightarrow> (ClientJobLocator \<Rightarrow> 'e + DownloadClientObservation) \<Rightarrow> SeedGoalLookupKey \<Rightarrow> bool \<Rightarrow>
   SeedingGateDecision" where
  "evaluate_seeding_gate_for env observe key present =
     (if \<not> client_type_is_torrent (ge_plugins env) (lk_client_type key) then not_applicable
      else case observe (lookup_key_locator key) of
        Inr (Present item) \<Rightarrow>
          if fresh_item_answers key item
          then evaluate_seeding_gate_with env key present
                 (Some (case observation_from_queue_item (ge_chrono env) item of
                          Some o' \<Rightarrow> o' | None \<Rightarrow> observation_default)) None
          else hold_because ''fresh_seeding_observation_unavailable''
      | _ \<Rightarrow> hold_because ''fresh_seeding_observation_unavailable'')"

text \<open>\<open>resolve_import_mode\<close> reads the library settings and is the argument \<open>configured\<close>.\<close>

definition resolve_seeding_safe_import_mode ::
  "'e gate_env \<Rightarrow> (ClientJobLocator \<Rightarrow> 'e + DownloadClientObservation) \<Rightarrow> 'e + ImportMode \<Rightarrow>
   CompletedDownload option \<Rightarrow> 'e + ImportMode" where
  "resolve_seeding_safe_import_mode env observe configured completed =
     and_then configured (\<lambda>mode.
       if mode \<noteq> MoveFiles then Inr mode
       else case completed of
         None \<Rightarrow> Inr mode
       | Some c \<Rightarrow>
           Inr (import_mode (evaluate_seeding_gate_for env observe (seed_goal_lookup_key_for_completed c) True) mode))"

section \<open>The grab\<close>

text \<open>
  The router's choke point (\<open>downloads/clients/router.rs\<close>): goals are resolved for torrents only, a
  failed resolution leaves the grab without goals, and only a resolution is persisted.
\<close>

definition resolve_seed_goals ::
  "'e seed_repositories option \<Rightarrow> DownloadSourceKind option \<Rightarrow> SeedGoalRequest \<Rightarrow> ResolvedSeedGoals" where
  "resolve_seed_goals repo kind r =
     (case repo of
        None \<Rightarrow> ResolvedSeedGoals_default
      | Some repo \<Rightarrow>
          if kind \<notin> {Some TorrentFile, Some MagnetUri} then ResolvedSeedGoals_default
          else (case SeedGoalResolver_resolve repo r of Inr g \<Rightarrow> g | Inl _ \<Rightarrow> ResolvedSeedGoals_default))"

definition persisted_seed_goals ::
  "string option \<Rightarrow> string option \<Rightarrow> ResolvedSeedGoals \<Rightarrow> PersistedSeedGoals option" where
  "persisted_seed_goals info_hash_hint grab_info_hash g =
     (if \<not> is_resolved g then None
      else Some \<lparr>pg_seeding_profile_id = rg_seeding_profile_id g, pg_seed_goal_ratio = rg_seed_goal_ratio g,
                 pg_seed_goal_seconds = rg_seed_goal_seconds g, pg_never_remove = rg_never_remove g,
                 pg_goal_met_action = rg_goal_met_action g, pg_post_import_tracking = rg_post_import_tracking g,
                 pg_resolution_source = rg_resolution_source g,
                 pg_info_hash = or_else grab_info_hash info_hash_hint\<rparr>)"

section \<open>What the gate lets through\<close>

lemmas gate_simps = SeedingGateDecision_new_def not_applicable_def hold_because_def

abbreviation gate_observation :: "SeedingGateInput \<Rightarrow> TorrentSeedingObservation" where
  "gate_observation input \<equiv> (case gi_observation input of Some o' \<Rightarrow> o' | None \<Rightarrow> observation_default)"

abbreviation gate_goals :: "SeedingGateInput \<Rightarrow> PersistedSeedGoals" where
  "gate_goals input \<equiv> (case gi_goals input of Some g \<Rightarrow> g | None \<Rightarrow> PersistedSeedGoals_default)"

abbreviation is_blackhole :: "string \<Rightarrow> bool" where
  "is_blackhole client_type \<equiv> eq_ignore_ascii_case (trim client_type) TORRENT_BLACKHOLE_CLIENT_TYPE"

text \<open>
  The obligation is discharged: by the profile's goal where there is one, by the client's word on
  a torrent not known to be private otherwise, and never under a profile that seeds forever.
\<close>

definition obligation_discharged :: "chrono \<Rightarrow> SeedingGateInput \<Rightarrow> bool" where
  "obligation_discharged ch input \<longleftrightarrow>
     \<not> pg_never_remove (gate_goals input) \<and>
     (if has_goals (gate_goals input)
      then scryer_goal_is_met ch (gate_goals input) (gate_observation input) (gi_now input)
      else ob_can_remove (gate_observation input) = Some True \<and> ob_is_private (gate_observation input) \<noteq> Some True)"

lemma obligation_cases:
  assumes "gi_is_torrent input" "gi_present_in_client input" "\<not> is_blackhole (gi_client_type input)"
  shows "gd_outcome (evaluate_seeding_obligation ch input) =
    (if obligation_discharged ch input then Released (goal_met_action_for (gate_goals input)) else GateHold)"
    and "gd_move_allowed (evaluate_seeding_obligation ch input) =
      (obligation_discharged ch input \<and> ob_can_move_files (gate_observation input) \<noteq> Some False)"
  using assms
  by (auto simp: evaluate_seeding_obligation_def obligation_discharged_def gate_simps Let_def
      split: option.splits bool.splits)

lemma obligation_other:
  "\<not> gi_is_torrent input \<Longrightarrow> evaluate_seeding_obligation ch input = not_applicable"
  "gi_is_torrent input \<Longrightarrow> \<not> gi_present_in_client input \<Longrightarrow>
     evaluate_seeding_obligation ch input =
       SeedingGateDecision_new Vanished ''torrent_no_longer_in_client'' (ob_can_move_files (gate_observation input) \<noteq> Some False)"
  "gi_is_torrent input \<Longrightarrow> gi_present_in_client input \<Longrightarrow> is_blackhole (gi_client_type input) \<Longrightarrow>
     evaluate_seeding_obligation ch input =
       SeedingGateDecision_new (Released Keep) ''torrent_blackhole_removal_is_destructive''
         (ob_can_move_files (gate_observation input) = Some True)"
  by (auto simp: evaluate_seeding_obligation_def Let_def SeedingGateDecision_new_def)

lemma gate_outcome:
  "gd_outcome (evaluate_seeding_gate ch input) =
     (if (case gi_goals input of Some g \<Rightarrow> is_hand_off (pg_post_import_tracking g) | None \<Rightarrow> False) \<and>
         holds_or_releases (gd_outcome (evaluate_seeding_obligation ch input))
      then HandedOff else gd_outcome (evaluate_seeding_obligation ch input))"
  "gd_move_allowed (evaluate_seeding_gate ch input) = gd_move_allowed (evaluate_seeding_obligation ch input)"
  by (simp_all add: evaluate_seeding_gate_def Let_def gate_simps)

lemma holds_or_releases_iff: "holds_or_releases d \<longleftrightarrow> d = GateHold \<or> (\<exists>a. d = Released a)"
  by (cases d) simp_all

lemma gate_released:
  "gd_outcome (evaluate_seeding_gate ch input) = Released a \<longleftrightarrow>
     gi_is_torrent input \<and> gi_present_in_client input \<and>
     (case gi_goals input of Some g \<Rightarrow> pg_post_import_tracking g = Park | None \<Rightarrow> True) \<and>
     (if is_blackhole (gi_client_type input) then a = Keep
      else obligation_discharged ch input \<and> goal_met_action_for (gate_goals input) = a)"
proof -
  have park: "(t = Park) = (\<not> is_hand_off t)" for t by (cases t) (simp_all add: is_hand_off_def)
  consider "\<not> gi_is_torrent input" | "gi_is_torrent input" "\<not> gi_present_in_client input"
    | "gi_is_torrent input" "gi_present_in_client input" "is_blackhole (gi_client_type input)"
    | "gi_is_torrent input" "gi_present_in_client input" "\<not> is_blackhole (gi_client_type input)" by blast
  then show ?thesis
    by cases (auto simp: gate_outcome obligation_other obligation_cases gate_simps park split: option.splits)
qed

text \<open>
  C26. The gate touches a client entry (removes it or stops it) exactly when the entry is a torrent
  present in a client other than a blackhole, its profile does not hand it off, the obligation is
  discharged and the profile asks for that action. In particular a torrent observed as private is
  never removed on the client's word, an unknown verdict never removes, and \<open>never_remove\<close> holds
  whatever the goals.
\<close>
theorem gate_touches_entry_iff:
  "(a \<noteq> Keep \<and> gd_outcome (evaluate_seeding_gate ch input) = Released a) =
   (a \<noteq> Keep \<and> gi_is_torrent input \<and> gi_present_in_client input \<and> \<not> is_blackhole (gi_client_type input) \<and>
    (case gi_goals input of Some g \<Rightarrow> pg_post_import_tracking g = Park | None \<Rightarrow> True) \<and>
    \<not> pg_never_remove (gate_goals input) \<and> goal_met_action_for (gate_goals input) = a \<and>
    (if has_goals (gate_goals input)
     then scryer_goal_is_met ch (gate_goals input) (gate_observation input) (gi_now input)
     else ob_can_remove (gate_observation input) = Some True \<and> ob_is_private (gate_observation input) \<noteq> Some True))"
  by (auto simp: gate_released obligation_discharged_def split: if_splits)

section \<open>Tracker minimums\<close>

text \<open>The minimum a tracker declares on each axis, where it declares one.\<close>

definition declared_min_ratio :: "SeedGoalRequest \<Rightarrow> f64 option" where
  "declared_min_ratio r =
     (case effective_min_ratio r of Some m \<Rightarrow> if finite_positive m then Some m else None | None \<Rightarrow> None)"

definition declared_min_seconds :: "SeedGoalRequest \<Rightarrow> int option" where
  "declared_min_seconds r =
     (case effective_min_seed_time_minutes r of Some m \<Rightarrow> if 0 < m then Some (m * 60) else None | None \<Rightarrow> None)"

lemma clamp_up_f64_lower:
  "declared_min_ratio r = Some m \<Longrightarrow> clamp_up_f64 v (effective_min_ratio r) = Some c \<Longrightarrow> f64_le m c"
  by (cases v) (auto simp: declared_min_ratio_def clamp_up_f64_def f64_max_upper split: option.splits if_splits)

lemma clamp_up_i64_lower:
  "declared_min_seconds r = Some m \<Longrightarrow> clamp_up_i64 v (effective_min_seed_time_minutes r) = Some c \<Longrightarrow> m \<le> c * 60"
  by (cases v) (auto simp: declared_min_seconds_def clamp_up_i64_def split: option.splits if_splits)

lemma apply_profile_ratio:
  assumes "sp_honor_tracker_minimums p" "rg_seed_goal_ratio (apply_profile p r source) = Some c"
  shows "finite_positive c \<and> (case declared_min_ratio r of Some m \<Rightarrow> f64_le m c | None \<Rightarrow> True)"
  using assms clamp_up_f64_lower [of r _ "effective_ratio p (rq_season_pack r)" c]
  by (auto simp: apply_profile_def Let_def split: option.splits if_splits)

lemma apply_profile_seconds:
  assumes "sp_honor_tracker_minimums p" "rg_seed_goal_seconds (apply_profile p r source) = Some c"
  shows "0 < c \<and> (case declared_min_seconds r of Some m \<Rightarrow> m \<le> c | None \<Rightarrow> True)"
  using assms clamp_up_i64_lower [of r _ "effective_seed_time_minutes p (rq_season_pack r)"]
  by (auto simp: apply_profile_def Let_def checked_mul_i64_def split: option.splits if_splits)

text \<open>How long a torrent has seeded, as the gate reads it.\<close>

definition seeded_seconds :: "chrono \<Rightarrow> TorrentSeedingObservation \<Rightarrow> datetime \<Rightarrow> int option" where
  "seeded_seconds ch obs now =
     (case ob_seed_time_seconds obs of
        Some n \<Rightarrow> Some n
      | None \<Rightarrow> map_option (\<lambda>t. ch_num_seconds ch (now - t)) (ob_completed_at obs))"

lemma scryer_goal_is_met_iff:
  "scryer_goal_is_met ch g obs now \<longleftrightarrow>
     (\<exists>goal observed. pg_seed_goal_ratio g = Some goal \<and> ob_seed_ratio obs = Some observed \<and>
        is_finite goal \<and> is_finite observed \<and> f64_le goal observed) \<or>
     (\<exists>goal observed. pg_seed_goal_seconds g = Some goal \<and> seeded_seconds ch obs now = Some observed \<and>
        0 < goal \<and> goal \<le> observed)"
  by (auto simp: scryer_goal_is_met_def seeded_seconds_def split: option.splits)

lemma persisted_seed_goals_Some:
  "persisted_seed_goals hint hash g = Some pg \<Longrightarrow>
     pg_seed_goal_ratio pg = rg_seed_goal_ratio g \<and> pg_seed_goal_seconds pg = rg_seed_goal_seconds g"
  by (auto simp: persisted_seed_goals_def split: if_splits)


definition example_profile :: SeedingProfile where
  "example_profile =
     \<lparr>sp_id = ''p1'', sp_name = ''Private'', sp_ratio = Some (Finite 1), sp_seed_time_minutes = Some 60,
      sp_season_pack_mode = Inherit, sp_season_pack_ratio = None, sp_season_pack_seed_time_minutes = None,
      sp_honor_tracker_minimums = True, sp_goal_met_action = RemoveEntry, sp_never_remove = False,
      sp_minimum_seeders = None, sp_post_import_tracking = Park\<rparr>"

definition example_request :: SeedGoalRequest where
  "example_request =
     \<lparr>rq_indexer_id = Some ''ix'', rq_routing_seeding_profile_id = None, rq_season_pack = False,
      rq_tracker_min_seed_ratio = Some (Finite 2), rq_tracker_min_seed_time_minutes = Some 120,
      rq_season_pack_min_seed_ratio = None, rq_season_pack_min_seed_time_minutes = None\<rparr>"

definition example_observation :: TorrentSeedingObservation where
  "example_observation = observation_default\<lparr>ob_seed_ratio := Some (Finite 2), ob_is_private := Some True\<rparr>"

lemma example_goals:
  "apply_profile example_profile example_request SRC_Indexer =
     \<lparr>rg_seeding_profile_id = Some ''p1'', rg_seed_goal_ratio = Some (Finite 2), rg_seed_goal_seconds = Some 7200,
      rg_never_remove = False, rg_goal_met_action = Some RemoveEntry, rg_post_import_tracking = Park,
      rg_resolution_source = SRC_Indexer\<rparr>"
  by (simp add: apply_profile_def example_profile_def example_request_def effective_ratio_def
      effective_seed_time_minutes_def effective_min_ratio_def effective_min_seed_time_minutes_def clamp_up_f64_def
      clamp_up_i64_def finite_positive_def f64_less_def f64_max_def checked_mul_i64_def is_i64_def Let_def)

definition example_persisted :: PersistedSeedGoals where
  "example_persisted =
     \<lparr>pg_seeding_profile_id = Some ''p1'', pg_seed_goal_ratio = Some (Finite 2), pg_seed_goal_seconds = Some 7200,
      pg_never_remove = False, pg_goal_met_action = Some RemoveEntry, pg_post_import_tracking = Park,
      pg_resolution_source = SRC_Indexer, pg_info_hash = None\<rparr>"

definition example_gate_input :: SeedingGateInput where
  "example_gate_input =
     \<lparr>gi_is_torrent = True, gi_client_type = ''qbittorrent'', gi_present_in_client = True,
      gi_observation = Some example_observation, gi_goals = Some example_persisted, gi_now = 0\<rparr>"

lemma example_not_blackhole: "\<not> is_blackhole ''qbittorrent''"
  by code_simp

lemma example_gate_released:
  "gd_outcome (evaluate_seeding_gate chrono_ns example_gate_input) = Released RemoveEntry"
  using example_not_blackhole
  by (simp add: gate_released obligation_discharged_def example_gate_input_def example_persisted_def has_goals_def
      scryer_goal_is_met_def example_observation_def goal_met_action_for_def)


text \<open>
  Two limits of the clamp. The axes are alternatives, so a time goal of the profile releases a
  torrent whose ratio is below the tracker's minimum when the tracker declares no seed time; and a
  declared seed time whose seconds leave \<open>i64\<close> erases the time goal instead of raising it.
\<close>

lemma profile_time_releases_below_tracker_ratio:
  "let r = example_request\<lparr>rq_tracker_min_seed_time_minutes := None\<rparr>;
       g = apply_profile example_profile r SRC_Indexer;
       input = example_gate_input\<lparr>gi_goals := persisted_seed_goals None None g,
         gi_observation := Some (observation_default\<lparr>ob_seed_ratio := Some (Finite 0), ob_seed_time_seconds := Some 3600\<rparr>)\<rparr>
   in declared_min_ratio r = Some (Finite 2) \<and>
      gd_outcome (evaluate_seeding_gate chrono_ns input) = Released RemoveEntry"
  using example_not_blackhole
  by (simp add: Let_def gate_released obligation_discharged_def example_gate_input_def has_goals_def
      scryer_goal_is_met_def goal_met_action_for_def persisted_seed_goals_def is_resolved_def apply_profile_def
      example_profile_def example_request_def effective_ratio_def effective_seed_time_minutes_def
      effective_min_ratio_def effective_min_seed_time_minutes_def clamp_up_f64_def clamp_up_i64_def
      finite_positive_def f64_less_def f64_max_def checked_mul_i64_def is_i64_def declared_min_ratio_def)

lemma huge_tracker_minimum_erases_time_goal:
  "rg_seed_goal_seconds (apply_profile example_profile
     (example_request\<lparr>rq_tracker_min_seed_time_minutes := Some i64_max\<rparr>) SRC_Indexer) = None"
  by (simp add: apply_profile_def example_profile_def example_request_def effective_seed_time_minutes_def
      effective_min_seed_time_minutes_def clamp_up_i64_def checked_mul_i64_def is_i64_def i64_max_def Let_def)

section \<open>Moves\<close>

lemma gate_move_allowed:
  "gi_is_torrent input \<Longrightarrow> gi_present_in_client input \<Longrightarrow>
   gd_move_allowed (evaluate_seeding_gate ch input) =
     (if is_blackhole (gi_client_type input) then ob_can_move_files (gate_observation input) = Some True
      else obligation_discharged ch input \<and> ob_can_move_files (gate_observation input) \<noteq> Some False)"
  by (auto simp: gate_outcome obligation_other obligation_cases gate_simps)

lemma import_mode_move: "import_mode d m = MoveFiles \<longleftrightarrow> m = MoveFiles \<and> gd_move_allowed d"
  by (auto simp: import_mode_def)

text \<open>The input the gate judges for a completed download that was read afresh.\<close>

definition fresh_gate_input ::
  "'e gate_env \<Rightarrow> SeedGoalLookupKey \<Rightarrow> DownloadQueueItem \<Rightarrow> PersistedSeedGoals option \<Rightarrow> SeedingGateInput" where
  "fresh_gate_input env key item goals =
     \<lparr>gi_is_torrent = True, gi_client_type = lk_client_type key, gi_present_in_client = True,
      gi_observation = Some (case observation_from_queue_item (ge_chrono env) item of
                               Some o' \<Rightarrow> o' | None \<Rightarrow> observation_default),
      gi_goals = goals, gi_now = ge_now env\<rparr>"

lemma gate_for_moves:
  assumes "gd_move_allowed (evaluate_seeding_gate_for env observe key True)"
    and "client_type_is_torrent (ge_plugins env) (lk_client_type key)"
  obtains item goals where "observe (lookup_key_locator key) = Inr (Present item)" "fresh_item_answers key item"
    "resolved_seed_goals (ge_goals env) key None = Inr goals"
    "gd_move_allowed (evaluate_seeding_gate (ge_chrono env) (fresh_gate_input env key item goals))"
  using assms
  by (auto simp: evaluate_seeding_gate_for_def evaluate_seeding_gate_with_def fresh_gate_input_def gate_simps
      split: sum.splits DownloadClientObservation.splits if_splits)

text \<open>
  C28. A torrent's payload is moved out of the client's directory only after a fresh read of that very
  job said it is complete and not still being written, its goals could be read, and its seeding
  obligation is discharged (for a blackhole folder, the client said that the files may be moved).
  Everything else is imported by hardlink or copy.
\<close>
theorem move_needs_discharged_obligation:
  fixes env :: "'e gate_env" and c :: CompletedDownload
  defines "key \<equiv> seed_goal_lookup_key_for_completed c"
  assumes "resolve_seeding_safe_import_mode env observe configured (Some c) = Inr MoveFiles"
    and "client_type_is_torrent (ge_plugins env) (lk_client_type key)"
  shows "\<exists>item goals. observe (lookup_key_locator key) = Inr (Present item) \<and> qi_state item = DQ_Completed \<and>
    fresh_item_answers key item \<and> resolved_seed_goals (ge_goals env) key None = Inr goals \<and>
    (let input = fresh_gate_input env key item goals
     in ob_can_move_files (gate_observation input) \<noteq> Some False \<and>
        (if is_blackhole (lk_client_type key) then ob_can_move_files (gate_observation input) = Some True
         else obligation_discharged (ge_chrono env) input))"
proof -
  have "gd_move_allowed (evaluate_seeding_gate_for env observe key True)"
    using assms(2) by (auto simp: resolve_seeding_safe_import_mode_def and_then_Inr_iff key_def import_mode_move
        split: if_splits)
  then obtain item goals where moved: "observe (lookup_key_locator key) = Inr (Present item)"
    "fresh_item_answers key item" "resolved_seed_goals (ge_goals env) key None = Inr goals"
    "gd_move_allowed (evaluate_seeding_gate (ge_chrono env) (fresh_gate_input env key item goals))"
    using assms(3) by (rule gate_for_moves)
  define input where "input = fresh_gate_input env key item goals"
  have "gi_is_torrent input" "gi_present_in_client input" "gi_client_type input = lk_client_type key"
    by (simp_all add: input_def fresh_gate_input_def)
  with moved(4) have "ob_can_move_files (gate_observation input) \<noteq> Some False \<and>
      (if is_blackhole (lk_client_type key) then ob_can_move_files (gate_observation input) = Some True
       else obligation_discharged (ge_chrono env) input)"
    by (auto simp: gate_move_allowed input_def [symmetric] split: if_splits)
  moreover have "qi_state item = DQ_Completed" using moved(2) by (simp add: fresh_item_answers_def)
  ultimately show ?thesis using moved(1-3) unfolding input_def Let_def by blast
qed

section \<open>Progress\<close>

text \<open>Seeding goes on: the clock and the counters do not run backwards, the rest of the reading stays.\<close>

definition seeds_on :: "SeedingGateInput \<Rightarrow> SeedingGateInput \<Rightarrow> bool" where
  "seeds_on input later \<longleftrightarrow>
     (\<exists>ratio seconds now. gi_now input \<le> now \<and>
        later = input\<lparr>gi_now := now,
          gi_observation := Some ((gate_observation input)\<lparr>ob_seed_ratio := ratio, ob_seed_time_seconds := seconds\<rparr>)\<rparr> \<and>
        (case ob_seed_ratio (gate_observation input) of
           Some r \<Rightarrow> (case ratio of Some r' \<Rightarrow> is_finite r' \<and> f64_le r r' | None \<Rightarrow> False) | None \<Rightarrow> True) \<and>
        (case ob_seed_time_seconds (gate_observation input) of
           Some s \<Rightarrow> (case seconds of Some s' \<Rightarrow> s \<le> s' | None \<Rightarrow> False) | None \<Rightarrow> seconds = None))"

lemma num_seconds_mono: "chrono_time ch \<Longrightarrow> a \<le> b \<Longrightarrow> ch_num_seconds ch a \<le> ch_num_seconds ch b"
  by (simp add: chrono_time.num_seconds signed_divide_int_def sgn_if zdiv_mono1 split: if_splits)
    (smt (verit) div_nonneg_neg_le0 pos_imp_zdiv_nonneg_iff zdiv_mono1)

lemma goal_met_mono:
  assumes "chrono_time ch" "seeds_on input later"
    and "scryer_goal_is_met ch g (gate_observation input) (gi_now input)"
  shows "scryer_goal_is_met ch g (gate_observation later) (gi_now later)"
proof -
  obtain ratio seconds now where later: "gi_now input \<le> now"
    "later = input\<lparr>gi_now := now,
       gi_observation := Some ((gate_observation input)\<lparr>ob_seed_ratio := ratio, ob_seed_time_seconds := seconds\<rparr>)\<rparr>"
    "case ob_seed_ratio (gate_observation input) of
       Some r \<Rightarrow> (case ratio of Some r' \<Rightarrow> is_finite r' \<and> f64_le r r' | None \<Rightarrow> False) | None \<Rightarrow> True"
    "case ob_seed_time_seconds (gate_observation input) of
       Some s \<Rightarrow> (case seconds of Some s' \<Rightarrow> s \<le> s' | None \<Rightarrow> False) | None \<Rightarrow> seconds = None"
    using assms(2) unfolding seeds_on_def by blast
  from assms(3) show ?thesis unfolding scryer_goal_is_met_iff
  proof (elim disjE exE conjE)
    fix goal observed
    assume met: "pg_seed_goal_ratio g = Some goal" "ob_seed_ratio (gate_observation input) = Some observed"
      "is_finite goal" "f64_le goal observed"
    with later(3) obtain r' where "ratio = Some r'" "is_finite r'" "f64_le observed r'"
      by (auto split: option.splits)
    with met later(2) f64_le_trans show "(\<exists>goal observed. pg_seed_goal_ratio g = Some goal \<and>
        ob_seed_ratio (gate_observation later) = Some observed \<and> is_finite goal \<and> is_finite observed \<and>
        f64_le goal observed) \<or>
      (\<exists>goal observed. pg_seed_goal_seconds g = Some goal \<and>
        seeded_seconds ch (gate_observation later) (gi_now later) = Some observed \<and> 0 < goal \<and> goal \<le> observed)"
      by fastforce
  next
    fix goal observed
    assume met: "pg_seed_goal_seconds g = Some goal"
      "seeded_seconds ch (gate_observation input) (gi_now input) = Some observed" "0 < goal" "goal \<le> observed"
    then obtain observed' where "seeded_seconds ch (gate_observation later) (gi_now later) = Some observed'"
      "observed \<le> observed'"
      using later num_seconds_mono [OF assms(1), of "gi_now input - _" "now - _"]
      by (auto simp: seeded_seconds_def split: option.splits)
    with met show "(\<exists>goal observed. pg_seed_goal_ratio g = Some goal \<and>
        ob_seed_ratio (gate_observation later) = Some observed \<and> is_finite goal \<and> is_finite observed \<and>
        f64_le goal observed) \<or>
      (\<exists>goal observed. pg_seed_goal_seconds g = Some goal \<and>
        seeded_seconds ch (gate_observation later) (gi_now later) = Some observed \<and> 0 < goal \<and> goal \<le> observed)"
      by force
  qed
qed

text \<open>
  C29. Once the gate acts on a torrent it goes on acting as the torrent seeds on: a verdict is not
  withdrawn by a later poll. And a torrent under a seed-time goal, in a client with no seed-time
  counter, is acted on at the latest when the goal has elapsed on the clock since completion, so a
  goal is not held for ever.
\<close>
theorem seeding_gate_progress:
  assumes "chrono_time ch" and "seeds_on input later"
  shows "(gd_outcome (evaluate_seeding_gate ch input) = Released a \<longrightarrow>
          gd_outcome (evaluate_seeding_gate ch later) = Released a) \<and>
    (gi_is_torrent input \<and> gi_present_in_client input \<and> \<not> is_blackhole (gi_client_type input) \<and>
     gi_goals input = Some g \<and> pg_post_import_tracking g = Park \<and> \<not> pg_never_remove g \<and>
     pg_seed_goal_seconds g = Some goal \<and> 0 < goal \<and> ob_seed_time_seconds (gate_observation input) = None \<and>
     ob_completed_at (gate_observation input) = Some t \<and> t + goal * ns_per_second \<le> gi_now later \<longrightarrow>
       gd_outcome (evaluate_seeding_gate ch later) = Released (goal_met_action_for g))"
proof -
  obtain ratio seconds now where later: "later = input\<lparr>gi_now := now,
       gi_observation := Some ((gate_observation input)\<lparr>ob_seed_ratio := ratio, ob_seed_time_seconds := seconds\<rparr>)\<rparr>"
    "ob_seed_time_seconds (gate_observation input) = None \<Longrightarrow> seconds = None"
    using assms(2) unfolding seeds_on_def by (fastforce split: option.splits)
  have same: "gi_goals later = gi_goals input" "gi_client_type later = gi_client_type input"
    "gi_is_torrent later = gi_is_torrent input" "gi_present_in_client later = gi_present_in_client input"
    "ob_can_remove (gate_observation later) = ob_can_remove (gate_observation input)"
    "ob_is_private (gate_observation later) = ob_is_private (gate_observation input)"
    "ob_completed_at (gate_observation later) = ob_completed_at (gate_observation input)"
    "gi_now later = now" "ob_seed_time_seconds (gate_observation later) = seconds"
    using later(1) by simp_all
  have stays: "gd_outcome (evaluate_seeding_gate ch later) = Released a"
    if "gd_outcome (evaluate_seeding_gate ch input) = Released a"
    using that goal_met_mono [OF assms] unfolding gate_released same obligation_discharged_def
    by (auto split: if_splits)
  have ends: "gd_outcome (evaluate_seeding_gate ch later) = Released (goal_met_action_for g)"
    if "gi_is_torrent input" "gi_present_in_client input" "\<not> is_blackhole (gi_client_type input)"
      "gi_goals input = Some g" "pg_post_import_tracking g = Park" "\<not> pg_never_remove g"
      "pg_seed_goal_seconds g = Some goal" "0 < goal" "ob_seed_time_seconds (gate_observation input) = None"
      "ob_completed_at (gate_observation input) = Some t" "t + goal * ns_per_second \<le> gi_now later"
  proof -
    have "goal = ch_num_seconds ch (goal * ns_per_second)"
      using that(8) by (simp add: chrono_time.num_seconds_nonneg [OF assms(1)])
    also have "\<dots> \<le> ch_num_seconds ch (gi_now later - t)"
      using that(11) by (intro num_seconds_mono [OF assms(1)]) simp
    finally have "scryer_goal_is_met ch g (gate_observation later) (gi_now later)"
      using that(7,8,9,10) later(2) same(7,9) by (simp add: scryer_goal_is_met_def)
    then show ?thesis
      using that(1-7) same by (simp add: gate_released obligation_discharged_def has_goals_def)
  qed
  show ?thesis using stays ends by blast
qed

definition example_late_input :: SeedingGateInput where
  "example_late_input =
     example_gate_input\<lparr>gi_now := 7200 * ns_per_second, gi_observation := Some (observation_default\<lparr>ob_completed_at := Some 0\<rparr>)\<rparr>"

theorem seeding_gate_progress_witness:
  "gd_outcome (evaluate_seeding_gate chrono_ns example_gate_input) = Released RemoveEntry \<and>
   gd_outcome (evaluate_seeding_gate chrono_ns (example_gate_input\<lparr>gi_now := 5\<rparr>)) = Released RemoveEntry \<and>
   gd_outcome (evaluate_seeding_gate chrono_ns (example_late_input\<lparr>gi_now := 0\<rparr>)) = GateHold \<and>
   gd_outcome (evaluate_seeding_gate chrono_ns example_late_input) = Released RemoveEntry"
proof -
  have on: "seeds_on example_gate_input (example_gate_input\<lparr>gi_now := 5\<rparr>)"
    unfolding seeds_on_def
    by (rule exI [of _ "Some (Finite 2)"], rule exI [of _ None], rule exI [of _ 5])
      (simp add: example_gate_input_def example_observation_def observation_default_def)
  have late: "seeds_on (example_late_input\<lparr>gi_now := 0\<rparr>) example_late_input"
    unfolding seeds_on_def
    by (rule exI [of _ None], rule exI [of _ None], rule exI [of _ "7200 * ns_per_second"])
      (simp add: example_late_input_def observation_default_def)
  have held: "gd_outcome (evaluate_seeding_gate chrono_ns (example_late_input\<lparr>gi_now := 0\<rparr>)) = GateHold"
    using example_not_blackhole
    by (simp add: gate_outcome obligation_cases obligation_discharged_def example_late_input_def
        example_gate_input_def example_persisted_def has_goals_def scryer_goal_is_met_def observation_default_def
        is_hand_off_def chrono_ns_def Let_def signed_divide_int_def)
  have facts: "gi_is_torrent (example_late_input\<lparr>gi_now := 0\<rparr>)" "gi_present_in_client (example_late_input\<lparr>gi_now := 0\<rparr>)"
    "\<not> is_blackhole (gi_client_type (example_late_input\<lparr>gi_now := 0\<rparr>))"
    "gi_goals (example_late_input\<lparr>gi_now := 0\<rparr>) = Some example_persisted"
    "pg_post_import_tracking example_persisted = Park" "\<not> pg_never_remove example_persisted"
    "pg_seed_goal_seconds example_persisted = Some 7200"
    "ob_seed_time_seconds (gate_observation (example_late_input\<lparr>gi_now := 0\<rparr>)) = None"
    "ob_completed_at (gate_observation (example_late_input\<lparr>gi_now := 0\<rparr>)) = Some 0"
    "0 + 7200 * ns_per_second \<le> gi_now example_late_input" "goal_met_action_for example_persisted = RemoveEntry"
    using example_not_blackhole
    by (simp_all add: example_late_input_def example_gate_input_def example_persisted_def observation_default_def
        goal_met_action_for_def)
  show ?thesis
    using seeding_gate_progress [OF ns.chrono_time_axioms on, of RemoveEntry] example_gate_released held
      seeding_gate_progress [OF ns.chrono_time_axioms late, of RemoveEntry example_persisted 7200 0] facts
    by simp
qed

definition example_completed :: CompletedDownload where
  "example_completed =
     \<lparr>cd_client_type = ''qbittorrent'', cd_client_id = ''c1'', cd_item_id = ''job'', cd_download_id = None,
      cd_name = ''Show'', cd_release_name = None, cd_dest_dir = ''/d'', cd_category = None, cd_size_bytes = None,
      cd_completed_at = None, cd_parameters = []\<rparr>"

definition example_item :: DownloadQueueItem where
  "example_item =
     \<lparr>qi_title_id = None, qi_title_name = ''Show'', qi_facet = None, qi_category = None, qi_client_id = ''c1'',
      qi_client_name = ''Box'', qi_client_type = ''qbittorrent'', qi_state = DQ_Completed, qi_queued_at = None,
      qi_attention_reason = None, qi_attention_reason_code = None, qi_item_id = ''job'', qi_download_id = None,
      qi_is_scryer_origin = True,
      qi_seeding = Some \<lparr>ds_can_remove = None, ds_can_move_files = Some True, ds_seed_ratio = Some (Finite 2),
        ds_seed_time_seconds = None, ds_is_private = Some True, ds_uploaded_bytes = None, ds_completed_at = None,
        ds_seed_goal_ratio = None, ds_seed_goal_seconds = None, ds_never_remove = False\<rparr>\<rparr>"

definition example_gate_env :: "string gate_env" where
  "example_gate_env =
     \<lparr>ge_chrono = chrono_ns, ge_plugins = Some (\<lambda>_. [''torrent_file'']),
      ge_goals = \<lparr>gs_for_download = (\<lambda>_ _. Inr (Some example_persisted)), gs_by_info_hash = (\<lambda>_. Inr None)\<rparr>,
      ge_snapshot = [], ge_now = 0\<rparr>"

lemma example_inputs: "accepted_inputs_for_client (ge_plugins example_gate_env) ct = [TorrentFile]"
proof -
  have "DownloadSourceKind_parse ''torrent_file'' = Some TorrentFile" by code_simp
  then show ?thesis by (simp add: accepted_inputs_for_client_def example_gate_env_def List.map_filter_def)
qed

lemma example_torrent: "client_type_is_torrent (ge_plugins example_gate_env) ct"
  by (simp add: client_type_is_torrent_def example_inputs)

lemma example_fresh: "fresh_item_answers (seed_goal_lookup_key_for_completed example_completed) example_item"
  by (simp add: fresh_item_answers_def seed_goal_lookup_key_for_completed_def lookup_key_locator_def
      example_item_def example_completed_def ClientJobLocator_new_def normalized_non_empty_owned_def)

lemma example_moves:
  "resolve_seeding_safe_import_mode example_gate_env (\<lambda>_. Inr (Present example_item)) (Inr MoveFiles)
     (Some example_completed) = Inr MoveFiles"
proof -
  have "lk_client_type (seed_goal_lookup_key_for_completed example_completed) = ''qbittorrent''"
    by (simp add: seed_goal_lookup_key_for_completed_def example_completed_def) code_simp
  moreover have "resolved_seed_goals (ge_goals example_gate_env) key None = Inr (Some example_persisted)" for key
    by (simp add: resolved_seed_goals_def example_gate_env_def Let_def)
  moreover have "ge_chrono example_gate_env = chrono_ns" by (simp add: example_gate_env_def)
  moreover have "observation_from_queue_item chrono_ns example_item =
      Some (example_observation\<lparr>ob_can_move_files := Some True\<rparr>)"
    by (simp add: observation_from_queue_item_def example_item_def observation_from_snapshot_def
        observation_default_def example_observation_def)
  ultimately have "gd_move_allowed (evaluate_seeding_gate_for example_gate_env (\<lambda>_. Inr (Present example_item))
      (seed_goal_lookup_key_for_completed example_completed) True)"
    using example_not_blackhole
    by (simp add: evaluate_seeding_gate_for_def evaluate_seeding_gate_with_def example_torrent example_inputs
        example_fresh gate_move_allowed obligation_discharged_def example_persisted_def has_goals_def
        scryer_goal_is_met_def example_observation_def)
  then show ?thesis by (simp add: resolve_seeding_safe_import_mode_def import_mode_def)
qed

theorem move_needs_discharged_obligation_witness:
  "resolve_seeding_safe_import_mode example_gate_env (\<lambda>_. Inr (Present example_item)) (Inr MoveFiles)
     (Some example_completed) = Inr MoveFiles \<and>
   (\<exists>goals. resolved_seed_goals (ge_goals example_gate_env) (seed_goal_lookup_key_for_completed example_completed)
     None = Inr goals)"
  using move_needs_discharged_obligation [OF example_moves example_torrent] example_moves by blast

end
