(* ===== verification/Tracked_Downloads.thy ===== *)
theory Tracked_Downloads
  imports Seeding "HOL-Library.AList"
begin

text \<open>
  The tracked downloads of \<open>integration/tracked_downloads.rs\<close>: one row per download a client has
  shown, driven through Scryer's own workflow states, and the in-memory service that creates,
  refreshes, ages out and removes the rows. The row cache is a hash map and is modelled as an
  association list with distinct keys whose order is the iteration order, which is unspecified:
  what is proved holds for every order. The maps whose order is never observed are partial
  functions. The clock, the stores and the clients are arguments.
\<close>

section \<open>Status messages\<close>

datatype TrackedStatusMessageKind =
  SM_Informational | SM_IdOnlyConfirmation | SM_IdOnlyConflict | SM_WarningTimeout | SM_PasswordRetryReconciliation
| SM_TitleUnmatched | SM_PathWaiting | SM_PathUnavailable | SM_PathUnsupported | SM_SceneSubtitlePending
| SM_SeedingHold | SM_ManualReview

record TrackedStatusMessage =
  msg_kind :: TrackedStatusMessageKind
  msg_text :: string

definition TrackedStatusMessage_new :: "TrackedStatusMessageKind \<Rightarrow> string \<Rightarrow> TrackedStatusMessage" where
  "TrackedStatusMessage_new kind text = \<lparr>msg_kind = kind, msg_text = text\<rparr>"

definition status_message :: "string \<Rightarrow> TrackedStatusMessage" where
  "status_message text = TrackedStatusMessage_new SM_Informational text"

section \<open>A tracked download\<close>

datatype ImportHold = NoImportableVideo | ExternalManager

record NoVideoImportSourceSignature =
  nv_source_path :: string
  nv_file_count :: nat
  nv_total_bytes :: nat
  nv_latest_mtime :: "datetime option"

record NoVideoImportRetryState =
  nr_signature :: NoVideoImportSourceSignature
  nr_attempts :: nat
  nr_next_retry_at :: datetime

record ImportExecutionRetryState =
  er_attempts :: nat
  er_next_retry_at :: datetime

record TrackedDownload =
  td_download_id :: DownloadId
  td_id :: string
  td_client_id :: string
  td_client_type :: string
  td_client_item :: DownloadQueueItem
  td_completed_source :: "CompletedDownload option"
  td_state :: TrackedDownloadState
  td_status :: TrackedDownloadStatus
  td_status_messages :: "TrackedStatusMessage list"
  td_title_id :: "string option"
  td_facet :: "string option"
  td_source_title :: "string option"
  td_indexer :: "string option"
  td_added_at :: "datetime option"
  td_notified_manual_interaction :: bool
  td_match_type :: TitleMatchType
  td_is_trackable :: bool
  td_import_attempted :: bool
  td_waiting_for_completed_history :: bool
  td_path_missing_since :: "datetime option"
  td_no_video_import_retry :: "NoVideoImportRetryState option"
  td_import_execution_retry :: "ImportExecutionRetryState option"
  td_import_hold :: "ImportHold option"
  td_skip_reacquire_on_failure :: bool
  td_manual_failure_cleanup :: bool
  td_blocklist_confirmation_failed :: bool
  td_burned_by_import_gate :: bool
  td_snapshot_missing_since :: "datetime option"
  td_retained_in_client_after_cleanup :: bool

definition import_execution_retry_delay :: "nat \<Rightarrow> timedelta" where
  "import_execution_retry_delay attempts =
     (if attempts \<le> 1 then 30 * ns_per_second
      else if attempts = 2 then 2 * ns_per_minute
      else if attempts = 3 then 5 * ns_per_minute
      else 15 * ns_per_minute)"

definition td_warn :: "string \<Rightarrow> TrackedDownload \<Rightarrow> TrackedDownload" where
  "td_warn text td =
     td\<lparr>td_status := TS_Warning, td_status_messages := td_status_messages td @ [status_message text]\<rparr>"

definition td_warn_kind :: "TrackedStatusMessageKind \<Rightarrow> string \<Rightarrow> TrackedDownload \<Rightarrow> TrackedDownload" where
  "td_warn_kind kind text td =
     td\<lparr>td_status := TS_Warning,
        td_status_messages := td_status_messages td @ [TrackedStatusMessage_new kind text]\<rparr>"

definition td_clear_warnings :: "TrackedDownload \<Rightarrow> TrackedDownload" where
  "td_clear_warnings td = td\<lparr>td_status := TS_Ok, td_status_messages := []\<rparr>"

definition td_fail :: "TrackedDownload \<Rightarrow> TrackedDownload" where
  "td_fail td = td\<lparr>td_status := TS_Error, td_state := TD_FailedPending\<rparr>"

definition merge_background_work_state_from :: "TrackedDownload \<Rightarrow> TrackedDownload \<Rightarrow> TrackedDownload" where
  "merge_background_work_state_from td finished =
     td\<lparr>td_state := td_state finished, td_status := td_status finished,
        td_status_messages := td_status_messages finished, td_title_id := td_title_id finished,
        td_facet := td_facet finished, td_source_title := td_source_title finished,
        td_indexer := td_indexer finished, td_added_at := td_added_at finished,
        td_notified_manual_interaction := td_notified_manual_interaction finished,
        td_match_type := td_match_type finished, td_import_attempted := td_import_attempted finished,
        td_waiting_for_completed_history := td_waiting_for_completed_history finished,
        td_path_missing_since := td_path_missing_since finished,
        td_no_video_import_retry := td_no_video_import_retry finished,
        td_import_execution_retry := td_import_execution_retry finished,
        td_import_hold := td_import_hold finished, td_completed_source := td_completed_source finished,
        td_burned_by_import_gate := td_burned_by_import_gate finished,
        td_manual_failure_cleanup := td_manual_failure_cleanup finished,
        td_blocklist_confirmation_failed := td_blocklist_confirmation_failed finished\<rparr>"

definition reset_for_import_retry :: "TrackedDownload \<Rightarrow> TrackedDownload" where
  "reset_for_import_retry td =
     td\<lparr>td_blocklist_confirmation_failed := False, td_state := TD_ImportPending, td_status := TS_Ok,
        td_status_messages := [], td_import_attempted := False, td_waiting_for_completed_history := False,
        td_path_missing_since := None, td_no_video_import_retry := None, td_import_execution_retry := None,
        td_import_hold := None, td_skip_reacquire_on_failure := False, td_manual_failure_cleanup := False,
        td_burned_by_import_gate := False\<rparr>"

definition import_retry_deferred :: "TrackedDownload \<Rightarrow> datetime \<Rightarrow> bool" where
  "import_retry_deferred td now \<longleftrightarrow>
     (case td_no_video_import_retry td of Some r \<Rightarrow> now < nr_next_retry_at r | None \<Rightarrow> False) \<or>
     (case td_import_execution_retry td of Some r \<Rightarrow> now < er_next_retry_at r | None \<Rightarrow> False)"

text \<open>\<open>now + delay\<close> panics past the last representable instant.\<close>

definition schedule_import_execution_retry ::
  "chrono \<Rightarrow> datetime \<Rightarrow> (nat \<Rightarrow> datetime \<Rightarrow> string) \<Rightarrow> TrackedDownload \<Rightarrow> (nat \<times> TrackedDownload) option" where
  "schedule_import_execution_retry ch now message td =
     (let attempts = (case td_import_execution_retry td of Some r \<Rightarrow> min (er_attempts r + 1) u32_max | None \<Rightarrow> 1)
      in map_option (\<lambda>next.
           (attempts,
            td\<lparr>td_import_execution_retry := Some \<lparr>er_attempts = attempts, er_next_retry_at = next\<rparr>,
               td_state := TD_ImportPending, td_waiting_for_completed_history := False, td_status := TS_Warning,
               td_status_messages := [status_message (message attempts next)]\<rparr>))
           (ch_add ch now (import_execution_retry_delay attempts)))"

definition clear_import_execution_retry :: "TrackedDownload \<Rightarrow> TrackedDownload" where
  "clear_import_execution_retry td = td\<lparr>td_import_execution_retry := None\<rparr>"

definition schedule_no_video_import_retry ::
  "NoVideoImportSourceSignature \<Rightarrow> nat \<Rightarrow> datetime \<Rightarrow> string \<Rightarrow> TrackedDownload \<Rightarrow> TrackedDownload" where
  "schedule_no_video_import_retry signature attempts next message td =
     td\<lparr>td_no_video_import_retry :=
          Some \<lparr>nr_signature = signature, nr_attempts = attempts, nr_next_retry_at = next\<rparr>,
        td_state := TD_ImportPending, td_waiting_for_completed_history := False, td_status := TS_Warning,
        td_status_messages := [TrackedStatusMessage_new SM_Informational message]\<rparr>"

definition block_no_video_import_after_retries :: "string \<Rightarrow> TrackedDownload \<Rightarrow> TrackedDownload" where
  "block_no_video_import_after_retries message td =
     td\<lparr>td_no_video_import_retry := None, td_state := TD_ImportBlocked, td_waiting_for_completed_history := False,
        td_status := TS_Warning, td_status_messages := [TrackedStatusMessage_new SM_Informational message]\<rparr>"

definition awaiting_completed_path_retry :: "TrackedDownload \<Rightarrow> bool" where
  "awaiting_completed_path_retry td \<longleftrightarrow> td_path_missing_since td \<noteq> None \<and> td_import_execution_retry td \<noteq> None"

definition clear_no_video_import_retry :: "TrackedDownload \<Rightarrow> TrackedDownload" where
  "clear_no_video_import_retry td = td\<lparr>td_no_video_import_retry := None\<rparr>"

section \<open>Durable reasons\<close>

definition IMPORT_GATE_REJECTED_TRACKED_STATE_REASON :: string where
  "IMPORT_GATE_REJECTED_TRACKED_STATE_REASON = ''import_gate_rejected''"

definition MANUAL_FAILURE_CLEANUP_REASON :: string where
  "MANUAL_FAILURE_CLEANUP_REASON = ''manual_blocklist_remove_data''"

definition MANUAL_FAILURE_NO_REACQUIRE_REASON :: string where
  "MANUAL_FAILURE_NO_REACQUIRE_REASON = ''manual_blocklist_remove_data_no_reacquire''"

definition WARNING_TIMEOUT_TRACKED_STATE_REASON :: string where
  "WARNING_TIMEOUT_TRACKED_STATE_REASON = ''warning_timeout''"

definition WARNING_TIMEOUT_STATUS_MESSAGE_PREFIX :: string where
  "WARNING_TIMEOUT_STATUS_MESSAGE_PREFIX = ''download client warning persisted for 24h:''"

lemmas tracked_reasons = IMPORT_GATE_REJECTED_TRACKED_STATE_REASON_def MANUAL_FAILURE_CLEANUP_REASON_def
  MANUAL_FAILURE_NO_REACQUIRE_REASON_def WARNING_TIMEOUT_TRACKED_STATE_REASON_def

datatype ImportBlockedReason =
  PreImport | AfterImport | ManualMappingRequired | MissingCompletedHistoryIdentity | AssignedTitleMissing
| CompletedTitleIdentityMismatch | UnverifiedAlreadyImported | BlocklistConfirmationFailed

primrec ImportBlockedReason_as_str :: "ImportBlockedReason \<Rightarrow> string" where
  "ImportBlockedReason_as_str PreImport = ''import_blocked_pre_import''"
| "ImportBlockedReason_as_str AfterImport = ''import_blocked_after_import''"
| "ImportBlockedReason_as_str ManualMappingRequired = ''manual_import_mapping_required''"
| "ImportBlockedReason_as_str MissingCompletedHistoryIdentity = ''missing_completed_history_identity''"
| "ImportBlockedReason_as_str AssignedTitleMissing = ''assigned_title_missing''"
| "ImportBlockedReason_as_str CompletedTitleIdentityMismatch = ''completed_title_identity_mismatch''"
| "ImportBlockedReason_as_str UnverifiedAlreadyImported = ''unverified_already_imported''"
| "ImportBlockedReason_as_str BlocklistConfirmationFailed = ''manual_blocklist_confirmation_failed''"

definition ImportBlockedReason_parse :: "string \<Rightarrow> ImportBlockedReason option" where
  "ImportBlockedReason_parse value =
     (if value = ''import_blocked_pre_import'' then Some PreImport
      else if value = ''import_blocked_after_import'' then Some AfterImport
      else if value = ''manual_import_mapping_required'' then Some ManualMappingRequired
      else if value = ''missing_completed_history_identity'' then Some MissingCompletedHistoryIdentity
      else if value = ''assigned_title_missing'' then Some AssignedTitleMissing
      else if value = ''completed_title_identity_mismatch'' then Some CompletedTitleIdentityMismatch
      else if value = ''unverified_already_imported'' then Some UnverifiedAlreadyImported
      else if value = ''manual_blocklist_confirmation_failed'' then Some BlocklistConfirmationFailed
      else None)"

interpretation import_blocked_reason: label_codec ImportBlockedReason_as_str ImportBlockedReason_parse
proof
  show "ImportBlockedReason_parse (ImportBlockedReason_as_str x) = Some x" for x
    by (cases x; hypsubst; code_simp)
qed

definition reopens_for_verification :: "ImportBlockedReason \<Rightarrow> bool" where
  "reopens_for_verification r \<longleftrightarrow> r = UnverifiedAlreadyImported"

section \<open>Identities\<close>

definition observed_queue_item_identity :: "DownloadQueueItem \<Rightarrow> string option" where
  "observed_queue_item_identity item = observed_download_identity (qi_download_id item) [] None"

definition queue_item_source_identity :: "DownloadQueueItem \<Rightarrow> ClientJobLocator" where
  "queue_item_source_identity item =
     ClientJobLocator_new (Some (qi_client_id item)) (qi_client_type item) (qi_item_id item)"

definition tracked_source_identity :: "TrackedDownload \<Rightarrow> ClientJobLocator" where
  "tracked_source_identity td =
     ClientJobLocator_new (Some (td_client_id td)) (td_client_type td) (qi_item_id (td_client_item td))"

definition tracked_download_id :: "string option \<Rightarrow> string \<Rightarrow> string \<Rightarrow> string" where
  "tracked_download_id client_id client_type item_id =
     (let normalized = (case filled (map_option trim client_id) of Some c \<Rightarrow> c | None \<Rightarrow> [])
      in if normalized = [] then client_type @ '':'' @ item_id else normalized @ '':'' @ item_id)"

definition tracked_download_id_for_item :: "DownloadQueueItem \<Rightarrow> string" where
  "tracked_download_id_for_item item =
     (case filled (map_option trim (observed_queue_item_identity item)) of
        Some i \<Rightarrow> ''download:'' @ qi_client_id item @ '':'' @ qi_client_type item @ '':'' @ i
      | None \<Rightarrow> tracked_download_id (Some (qi_client_id item)) (qi_client_type item) (qi_item_id item))"

definition tracked_download_matches_source_id :: "TrackedDownload \<Rightarrow> string \<Rightarrow> bool" where
  "tracked_download_matches_source_id td requested =
     (let requested = trim requested; item = td_client_item td
      in if requested = [] then False
         else requested \<in> set
           [tracked_download_id (Some (td_client_id td)) (td_client_type td) (qi_item_id item),
            tracked_download_id (Some (qi_client_id item)) (qi_client_type item) (qi_item_id item),
            tracked_download_id None (td_client_type td) (qi_item_id item),
            tracked_download_id None (qi_client_type item) (qi_item_id item)])"

definition title_id_present :: "string option \<Rightarrow> bool" where
  "title_id_present value = (filled value \<noteq> None)"

definition normalize_facet_signal :: "string option \<Rightarrow> string option" where
  "normalize_facet_signal value = map_option to_ascii_lowercase (filled (map_option trim value))"

definition download_submission_identity_is_empty :: "string option \<Rightarrow> bool" where
  "download_submission_identity_is_empty identity = (filled (map_option trim identity) = None)"

definition unresolved_match :: "TitleMatchType \<Rightarrow> bool" where
  "unresolved_match m \<longleftrightarrow> m \<in> {MT_Unmatched, MT_IdOnly, MT_TitleParse}"

definition should_clear_stale_unmatched_state_on_submission :: "TrackedDownload \<Rightarrow> bool" where
  "should_clear_stale_unmatched_state_on_submission td \<longleftrightarrow>
     \<not> title_id_present (td_title_id td) \<and> unresolved_match (td_match_type td)"

definition should_retry_late_submission_resolution :: "TrackedDownload \<Rightarrow> DownloadQueueItem \<Rightarrow> bool" where
  "should_retry_late_submission_resolution existing incoming \<longleftrightarrow>
     \<not> title_id_present (td_title_id existing) \<and> unresolved_match (td_match_type existing) \<and>
     \<not> download_submission_identity_is_empty (observed_queue_item_identity incoming)"

text \<open>\<open>normalize_title_signal\<close> folds by the Unicode tables and is the argument \<open>title_signal\<close>.\<close>

definition should_reresolve_title ::
  "(string \<Rightarrow> string) \<Rightarrow> TrackedDownload \<Rightarrow> DownloadQueueItem \<Rightarrow> bool \<Rightarrow> bool" where
  "should_reresolve_title title_signal existing incoming matcher_dirty =
     (let known = td_client_item existing
      in if td_match_type existing \<in> {MT_Submission, MT_ClientParameter} then False
         else if matcher_dirty \<and> unresolved_match (td_match_type existing) then True
         else if should_retry_late_submission_resolution existing incoming then True
         else if \<not> title_id_present (qi_title_id known) \<and> title_id_present (qi_title_id incoming) then True
         else if \<not> title_id_present (td_title_id existing) \<and> title_id_present (qi_title_id incoming) then True
         else if \<not> qi_is_scryer_origin known \<and> qi_is_scryer_origin incoming then True
         else if title_signal (qi_title_name known) \<noteq> title_signal (qi_title_name incoming) then True
         else if normalize_facet_signal (qi_facet known) \<noteq> normalize_facet_signal (qi_facet incoming) then True
         else False)"

section \<open>What keeps a row\<close>

definition tracked_download_is_foreign :: "TrackedDownload \<Rightarrow> bool" where
  "tracked_download_is_foreign td \<longleftrightarrow>
     \<not> qi_is_scryer_origin (td_client_item td) \<and> td_match_type td \<noteq> MT_Submission"

definition tracked_download_import_is_under_way :: "TrackedDownload \<Rightarrow> bool" where
  "tracked_download_import_is_under_way td \<longleftrightarrow>
     td_state td = TD_Importing \<or> td_import_attempted td \<or> td_import_execution_retry td \<noteq> None"

definition SNAPSHOT_ABSENCE_PRUNE_GRACE_SECS :: int where
  "SNAPSHOT_ABSENCE_PRUNE_GRACE_SECS = 150"

definition WARNING_FAILURE_TIMEOUT :: timedelta where
  "WARNING_FAILURE_TIMEOUT = 24 * ns_per_hour"

definition snapshot_absence_exceeds_grace :: "chrono \<Rightarrow> datetime \<Rightarrow> TrackedDownload \<Rightarrow> bool \<times> TrackedDownload" where
  "snapshot_absence_exceeds_grace ch now td =
     (case td_snapshot_missing_since td of
        None \<Rightarrow> (False, td\<lparr>td_snapshot_missing_since := Some now\<rparr>)
      | Some since \<Rightarrow> (SNAPSHOT_ABSENCE_PRUNE_GRACE_SECS \<le> ch_num_seconds ch (now - since), td))"

definition should_preserve_tracking :: "TrackedDownloadState \<Rightarrow> bool" where
  "should_preserve_tracking s \<longleftrightarrow> s \<in> {TD_ImportPending, TD_Importing, TD_ImportBlocked, TD_FailedPending}"

definition awaits_password_retry :: "TrackedDownload \<Rightarrow> bool" where
  "awaits_password_retry td = list_ex (\<lambda>m. msg_kind m = SM_PasswordRetryReconciliation) (td_status_messages td)"

definition should_preserve_tracked_download :: "TrackedDownload \<Rightarrow> bool" where
  "should_preserve_tracked_download td =
     (if awaits_password_retry td then True
      else if td_state td = TD_Downloading \<and> awaiting_completed_path_retry td then \<not> tracked_download_is_foreign td
      else if \<not> should_preserve_tracking (td_state td) then False
      else \<not> tracked_download_is_foreign td \<or> tracked_download_import_is_under_way td)"

definition tracked_client_type_is_excluded :: "string \<Rightarrow> string list \<Rightarrow> bool" where
  "tracked_client_type_is_excluded client_type excluded =
     list_ex (\<lambda>e. eq_ignore_ascii_case (trim e) (trim client_type)) excluded"

definition tracked_matches_snapshot_scope :: "TrackedDownload \<Rightarrow> string option \<Rightarrow> string \<Rightarrow> bool" where
  "tracked_matches_snapshot_scope td client_id client_type =
     (if \<not> eq_ignore_ascii_case (trim (td_client_type td)) (trim client_type) then False
      else case filled (map_option trim client_id) of
        None \<Rightarrow> True
      | Some c \<Rightarrow> trim (td_client_id td) = c)"

definition tracked_download_can_be_evicted_for_cache_pressure :: "TrackedDownload \<Rightarrow> bool" where
  "tracked_download_can_be_evicted_for_cache_pressure td =
     (if \<not> td_is_trackable td then True
      else td_state td = TD_Downloading \<and> td_status td = TS_Ok \<and> td_status_messages td = [] \<and>
           td_title_id td = None \<and> td_facet td = None \<and> td_source_title td = None \<and>
           td_match_type td = MT_Unmatched \<and> \<not> td_import_attempted td \<and> td_path_missing_since td = None \<and>
           \<not> td_notified_manual_interaction td \<and> \<not> td_skip_reacquire_on_failure td)"

section \<open>The service\<close>

record TrackedDownloadService =
  sv_cache :: "(DownloadId \<times> TrackedDownload) list"
  sv_last_seen_at :: "DownloadId \<rightharpoonup> datetime"
  sv_warning_since :: "DownloadId \<rightharpoonup> datetime"
  sv_resolved_generation :: "DownloadId \<rightharpoonup> nat"
  sv_current_download_for_id :: "string \<rightharpoonup> DownloadId"

definition service_new :: TrackedDownloadService where
  "service_new =
     \<lparr>sv_cache = [], sv_last_seen_at = Map.empty, sv_warning_since = Map.empty, sv_resolved_generation = Map.empty,
      sv_current_download_for_id = Map.empty\<rparr>"

text \<open>\<open>HashMap::retain\<close> on a map whose order is not observed.\<close>

definition retain_map :: "('k \<Rightarrow> 'v \<Rightarrow> bool) \<Rightarrow> ('k \<rightharpoonup> 'v) \<Rightarrow> ('k \<rightharpoonup> 'v)" where
  "retain_map P m = (\<lambda>k. case m k of Some v \<Rightarrow> if P k v then Some v else None | None \<Rightarrow> None)"

definition get_by_download_id :: "DownloadId \<Rightarrow> TrackedDownloadService \<Rightarrow> TrackedDownload option" where
  "get_by_download_id i sv = map_of (sv_cache sv) i"

text \<open>\<open>get_mut\<close> and an assignment through it.\<close>

definition modify_row :: "DownloadId \<Rightarrow> (TrackedDownload \<Rightarrow> TrackedDownload) \<Rightarrow> TrackedDownloadService \<Rightarrow> TrackedDownloadService" where
  "modify_row i f sv =
     (case map_of (sv_cache sv) i of
        Some td \<Rightarrow> sv\<lparr>sv_cache := AList.update i (f td) (sv_cache sv)\<rparr>
      | None \<Rightarrow> sv)"

definition find_download_id :: "string \<Rightarrow> TrackedDownloadService \<Rightarrow> DownloadId option" where
  "find_download_id id' sv = find_map (\<lambda>(i, td). if td_id td = id' then Some i else None) (sv_cache sv)"

definition find_tracked :: "string \<Rightarrow> TrackedDownloadService \<Rightarrow> TrackedDownload option" where
  "find_tracked id' sv = List.find (\<lambda>td. td_id td = id') (map snd (sv_cache sv))"

definition cached_key ::
  "TrackedDownloadService \<Rightarrow> string \<Rightarrow> DownloadId \<times> TrackedDownload \<Rightarrow> bool \<times> bool \<times> datetime option" where
  "cached_key sv requested row =
     (list_ex (\<lambda>s. sv_current_download_for_id sv s = Some (fst row)) [td_id (snd row), requested],
      \<not> is_import_settled (td_state (snd row)), sv_last_seen_at sv (fst row))"

text \<open>\<open>Ord\<close> of the ranking tuple; the last component is \<open>Reverse(download_id)\<close>, and \<open>None < Some\<close>.\<close>

definition cmp_cached ::
  "TrackedDownloadService \<Rightarrow> string \<Rightarrow> DownloadId \<times> TrackedDownload \<Rightarrow> DownloadId \<times> TrackedDownload \<Rightarrow> ordering" where
  "cmp_cached sv requested a b =
     (case (cached_key sv requested a, cached_key sv requested b) of
        ((cur_a, open_a, seen_a), (cur_b, open_b, seen_b)) \<Rightarrow>
          then_with (cmp cur_a cur_b)
            (then_with (cmp open_a open_b)
              (then_with (cmp_option seen_a seen_b) (cmp (fst b) (fst a)))))"

text \<open>\<open>Iterator::max_by\<close>: the last of equal maxima.\<close>

fun max_by :: "('a \<Rightarrow> 'a \<Rightarrow> ordering) \<Rightarrow> 'a list \<Rightarrow> 'a option" where
  "max_by c [] = None"
| "max_by c (x # xs) = Some (foldl (\<lambda>best y. if c best y = Greater then best else y) x xs)"

definition resolve_cached_download_id :: "string \<Rightarrow> TrackedDownloadService \<Rightarrow> DownloadId option" where
  "resolve_cached_download_id requested sv =
     map_option fst (max_by (cmp_cached sv requested)
       (filter (\<lambda>(i, td). td_id td = requested \<or> tracked_download_matches_source_id td requested) (sv_cache sv)))"

definition resolve_cached_id :: "string \<Rightarrow> TrackedDownloadService \<Rightarrow> string option" where
  "resolve_cached_id requested sv =
     Option.bind (resolve_cached_download_id requested sv) (\<lambda>i. map_option td_id (map_of (sv_cache sv) i))"

definition completed_source_for_identity :: "ClientJobLocator \<Rightarrow> TrackedDownloadService \<Rightarrow> CompletedDownload option" where
  "completed_source_for_identity identity sv =
     Option.bind (List.find (\<lambda>td. tracked_source_identity td = identity) (map snd (sv_cache sv))) td_completed_source"

definition cached_id_for_source_identity :: "ClientJobLocator \<Rightarrow> TrackedDownloadService \<Rightarrow> string option" where
  "cached_id_for_source_identity identity sv =
     map_option td_id (List.find (\<lambda>td. tracked_source_identity td = identity) (map snd (sv_cache sv)))"

definition get_trackable :: "TrackedDownloadService \<Rightarrow> TrackedDownload list" where
  "get_trackable sv = filter (\<lambda>td. td_is_trackable td \<and> \<not> is_terminal (td_state td)) (map snd (sv_cache sv))"

definition get_trackable_ids :: "TrackedDownloadService \<Rightarrow> string list" where
  "get_trackable_ids sv = map td_id (get_trackable sv)"

definition restore_cleanup_download :: "datetime \<Rightarrow> TrackedDownload \<Rightarrow> TrackedDownloadService \<Rightarrow> TrackedDownloadService" where
  "restore_cleanup_download now td sv =
     (let i = td_download_id td; sv = sv\<lparr>sv_last_seen_at := (sv_last_seen_at sv)(i \<mapsto> now)\<rparr>
      in case map_of (sv_cache sv) i of
           Some _ \<Rightarrow> sv
         | None \<Rightarrow> sv\<lparr>sv_cache := AList.update i td (sv_cache sv)\<rparr>)"

definition stop_tracking_download :: "DownloadId \<Rightarrow> TrackedDownloadService \<Rightarrow> TrackedDownloadService" where
  "stop_tracking_download i sv =
     \<lparr>sv_cache = AList.delete i (sv_cache sv), sv_last_seen_at = (sv_last_seen_at sv)(i := None),
      sv_warning_since = (sv_warning_since sv)(i := None), sv_resolved_generation = (sv_resolved_generation sv)(i := None),
      sv_current_download_for_id = retain_map (\<lambda>_ current. current \<noteq> i) (sv_current_download_for_id sv)\<rparr>"

definition stop_tracking :: "string \<Rightarrow> TrackedDownloadService \<Rightarrow> TrackedDownloadService" where
  "stop_tracking id' sv =
     (case find_download_id id' sv of Some i \<Rightarrow> stop_tracking_download i sv | None \<Rightarrow> sv)"

definition forget_for_title ::
  "string \<Rightarrow> DownloadId list \<Rightarrow> TrackedDownloadService \<Rightarrow> DownloadId list \<times> TrackedDownloadService" where
  "forget_for_title title_id download_ids sv =
     (let removed = sort (map fst (filter (\<lambda>(i, td). td_title_id td = Some title_id \<or> i \<in> set download_ids) (sv_cache sv)))
      in (removed, foldl (\<lambda>sv i. stop_tracking_download i sv) sv removed))"

definition reassignable :: "string \<Rightarrow> TrackedDownload \<Rightarrow> bool" where
  "reassignable from_title td = (case td_title_id td of Some t \<Rightarrow> t = from_title | None \<Rightarrow> True)"

fun reassign_rows ::
  "string \<Rightarrow> string \<Rightarrow> string option \<Rightarrow> DownloadId list \<Rightarrow> TrackedDownloadService \<Rightarrow> DownloadId list \<times> TrackedDownloadService" where
  "reassign_rows from_title to_title facet [] sv = ([], sv)"
| "reassign_rows from_title to_title facet (i # is) sv =
     (case map_of (sv_cache sv) i of
        None \<Rightarrow> reassign_rows from_title to_title facet is sv
      | Some td \<Rightarrow>
          if \<not> reassignable from_title td then reassign_rows from_title to_title facet is sv
          else
            (let td = td\<lparr>td_title_id := Some to_title,
                         td_facet := (case facet of Some f \<Rightarrow> Some f | None \<Rightarrow> td_facet td)\<rparr>;
                 (done', sv) = reassign_rows from_title to_title facet is
                   (sv\<lparr>sv_cache := AList.update i td (sv_cache sv)\<rparr>)
             in (i # done', sv)))"

definition reassign_title ::
  "string \<Rightarrow> string \<Rightarrow> string option \<Rightarrow> DownloadId list \<Rightarrow> TrackedDownloadService \<Rightarrow> DownloadId list \<times> TrackedDownloadService" where
  "reassign_title from_title to_title facet download_ids sv =
     (let (ids, sv) = reassign_rows from_title to_title facet download_ids sv in (sort_dedup ids, sv))"

section \<open>Ageing\<close>

text \<open>
  The limits of the cache, from two environment variables and the clock. \<open>prune_cache\<close> applies
  \<open>prune_cache_with_limits\<close> to them; the operations below take the limits as arguments.
\<close>

definition tracked_download_cache_ttl :: "chrono \<Rightarrow> string option \<Rightarrow> timedelta option" where
  "tracked_download_cache_ttl ch var =
     (case Option.bind var (\<lambda>v. parse_i64 (trim v)) of
        Some hours \<Rightarrow> if 0 < hours then ch_hours ch hours else ch_hours ch 24
      | None \<Rightarrow> ch_hours ch 24)"

definition tracked_download_cache_max_entries :: "string option \<Rightarrow> nat" where
  "tracked_download_cache_max_entries var =
     (case Option.bind var (\<lambda>v. parse_uint usize_max (trim v)) of
        Some entries \<Rightarrow> if 0 < entries then entries else 5000
      | None \<Rightarrow> 5000)"

record prune_limits =
  stale_cutoff :: datetime
  max_entries :: nat

definition prune_limits_now :: "chrono \<Rightarrow> string option \<Rightarrow> string option \<Rightarrow> datetime \<Rightarrow> prune_limits option" where
  "prune_limits_now ch ttl_var max_var now =
     do {
       ttl \<leftarrow> tracked_download_cache_ttl ch ttl_var;
       cutoff \<leftarrow> ch_add ch now (- ttl);
       Some \<lparr>stale_cutoff = cutoff, max_entries = tracked_download_cache_max_entries max_var\<rparr>
     }"

definition keep_fresh :: "prune_limits \<Rightarrow> TrackedDownloadService \<Rightarrow> DownloadId \<times> TrackedDownload \<Rightarrow> bool" where
  "keep_fresh limits sv row \<longleftrightarrow>
     td_is_trackable (snd row) \<or>
     (case sv_last_seen_at sv (fst row) of Some t \<Rightarrow> stale_cutoff limits \<le> t | None \<Rightarrow> True)"

definition eviction_order ::
  "prune_limits \<Rightarrow> TrackedDownloadService \<Rightarrow> (DownloadId \<times> TrackedDownload) list \<Rightarrow> DownloadId list" where
  "eviction_order limits sv cache =
     map snd (sort_key fst
       (map (\<lambda>(i, _). (case sv_last_seen_at sv i of Some t \<Rightarrow> t | None \<Rightarrow> stale_cutoff limits, i))
         (filter (\<lambda>(_, td). tracked_download_can_be_evicted_for_cache_pressure td) cache)))"

definition evict ::
  "prune_limits \<Rightarrow> TrackedDownloadService \<Rightarrow> (DownloadId \<times> TrackedDownload) list \<Rightarrow> (DownloadId \<times> TrackedDownload) list" where
  "evict limits sv cache =
     (if max_entries limits < length cache
      then foldl (\<lambda>c i. AList.delete i c) cache
             (take (length cache - max_entries limits) (eviction_order limits sv cache))
      else cache)"

definition prune_cache_with_limits :: "prune_limits \<Rightarrow> TrackedDownloadService \<Rightarrow> TrackedDownloadService" where
  "prune_cache_with_limits limits sv =
     (let cache = evict limits sv (filter (keep_fresh limits sv) (sv_cache sv));
          cached = (\<lambda>i. map_of cache i \<noteq> None)
      in \<lparr>sv_cache = cache, sv_last_seen_at = retain_map (\<lambda>i _. cached i) (sv_last_seen_at sv),
          sv_warning_since = retain_map (\<lambda>i _. cached i) (sv_warning_since sv),
          sv_resolved_generation = retain_map (\<lambda>i _. cached i) (sv_resolved_generation sv),
          sv_current_download_for_id = retain_map (\<lambda>_ i. cached i) (sv_current_download_for_id sv)\<rparr>)"

definition clear_untracked_warning_clocks :: "TrackedDownloadService \<Rightarrow> TrackedDownloadService" where
  "clear_untracked_warning_clocks sv =
     sv\<lparr>sv_warning_since := retain_map
          (\<lambda>i _. case map_of (sv_cache sv) i of Some td \<Rightarrow> td_is_trackable td | None \<Rightarrow> False) (sv_warning_since sv)\<rparr>"

text \<open>A loop over \<open>cache.values_mut()\<close> that rewrites each row and may report its source.\<close>

definition sweep ::
  "(TrackedDownload \<Rightarrow> bool \<times> TrackedDownload) \<Rightarrow> prune_limits \<Rightarrow> TrackedDownloadService \<Rightarrow>
   ClientJobLocator list \<times> TrackedDownloadService" where
  "sweep f limits sv =
     (let rows = map (\<lambda>(i, td). (i, f td)) (sv_cache sv);
          gone = map (\<lambda>(i, (_, td)). tracked_source_identity td) (filter (\<lambda>(_, (absent, _)). absent) rows)
      in (gone, prune_cache_with_limits limits (clear_untracked_warning_clocks
                  (sv\<lparr>sv_cache := map (\<lambda>(i, (_, td)). (i, td)) rows\<rparr>))))"

abbreviation seen_again :: "TrackedDownload \<Rightarrow> TrackedDownload" where
  "seen_again td \<equiv> td\<lparr>td_snapshot_missing_since := None\<rparr>"

definition update_row :: "string set \<Rightarrow> TrackedDownload \<Rightarrow> bool \<times> TrackedDownload" where
  "update_row seen td =
     (if should_preserve_tracked_download td then (False, seen_again td)
      else if td_is_trackable td \<and> td_id td \<notin> seen then (True, td\<lparr>td_is_trackable := False\<rparr>)
      else (False, td))"

definition update_trackable ::
  "string set \<Rightarrow> prune_limits \<Rightarrow> TrackedDownloadService \<Rightarrow> ClientJobLocator list \<times> TrackedDownloadService" where
  "update_trackable seen = sweep (update_row seen)"

definition unauthoritative :: "string set option \<Rightarrow> TrackedDownload \<Rightarrow> bool" where
  "unauthoritative authoritative td = (case authoritative of Some ids \<Rightarrow> td_client_id td \<notin> ids | None \<Rightarrow> False)"

definition update_row_excluding ::
  "string set \<Rightarrow> string list \<Rightarrow> string set option \<Rightarrow> TrackedDownload \<Rightarrow> bool \<times> TrackedDownload" where
  "update_row_excluding seen excluded authoritative td =
     (if tracked_client_type_is_excluded (td_client_type td) excluded then (False, td)
      else if unauthoritative authoritative td then (False, seen_again td)
      else if td_id td \<in> seen then (False, seen_again td)
      else if should_preserve_tracked_download td then (False, seen_again td)
      else if td_is_trackable td then (True, td\<lparr>td_snapshot_missing_since := None, td_is_trackable := False\<rparr>)
      else (False, td))"

definition update_trackable_excluding_client_types_for_authoritative_clients ::
  "string set \<Rightarrow> string list \<Rightarrow> string set option \<Rightarrow> prune_limits \<Rightarrow> TrackedDownloadService \<Rightarrow>
   ClientJobLocator list \<times> TrackedDownloadService" where
  "update_trackable_excluding_client_types_for_authoritative_clients seen excluded authoritative =
     sweep (update_row_excluding seen excluded authoritative)"

definition update_trackable_excluding_client_types ::
  "string set \<Rightarrow> string list \<Rightarrow> prune_limits \<Rightarrow> TrackedDownloadService \<Rightarrow>
   ClientJobLocator list \<times> TrackedDownloadService" where
  "update_trackable_excluding_client_types seen excluded =
     update_trackable_excluding_client_types_for_authoritative_clients seen excluded None"

datatype TrackedDownloadSnapshotScope = AuthoritativeForClient "string option" string | Delta

definition update_row_in_scope ::
  "chrono \<Rightarrow> datetime \<Rightarrow> string set \<Rightarrow> string option \<Rightarrow> string \<Rightarrow> string set option \<Rightarrow> TrackedDownload \<Rightarrow> bool \<times> TrackedDownload" where
  "update_row_in_scope ch now seen client_id client_type authoritative td =
     (if \<not> tracked_matches_snapshot_scope td client_id client_type then (False, td)
      else if unauthoritative authoritative td then (False, seen_again td)
      else if td_id td \<in> seen then (False, seen_again td)
      else if should_preserve_tracked_download td then (False, seen_again td)
      else if \<not> td_is_trackable td then (False, td)
      else case snapshot_absence_exceeds_grace ch now td of
        (True, td) \<Rightarrow> (True, td\<lparr>td_is_trackable := False\<rparr>)
      | (False, td) \<Rightarrow> (False, td))"

definition update_trackable_for_scope_for_authoritative_clients ::
  "chrono \<Rightarrow> datetime \<Rightarrow> string set \<Rightarrow> TrackedDownloadSnapshotScope \<Rightarrow> string set option \<Rightarrow> prune_limits \<Rightarrow>
   TrackedDownloadService \<Rightarrow> ClientJobLocator list \<times> TrackedDownloadService" where
  "update_trackable_for_scope_for_authoritative_clients ch now seen scope authoritative limits sv =
     (case scope of
        Delta \<Rightarrow> ([], sv)
      | AuthoritativeForClient client_id client_type \<Rightarrow>
          sweep (update_row_in_scope ch now seen client_id client_type authoritative) limits sv)"

definition update_trackable_for_scope ::
  "chrono \<Rightarrow> datetime \<Rightarrow> string set \<Rightarrow> TrackedDownloadSnapshotScope \<Rightarrow> prune_limits \<Rightarrow> TrackedDownloadService \<Rightarrow>
   ClientJobLocator list \<times> TrackedDownloadService" where
  "update_trackable_for_scope ch now seen scope =
     update_trackable_for_scope_for_authoritative_clients ch now seen scope None"

section \<open>Warnings that persist\<close>

definition warning_is_actionable :: "TrackedDownload \<Rightarrow> bool" where
  "warning_is_actionable td \<longleftrightarrow>
     qi_is_scryer_origin (td_client_item td) \<and> \<not> td_blocklist_confirmation_failed td \<and>
     td_state td \<in> {TD_Downloading, TD_ImportPending, TD_ImportBlocked} \<and>
     qi_state (td_client_item td) = DQ_Warning"

definition warning_timeout_row :: "TrackedDownload \<Rightarrow> TrackedDownload" where
  "warning_timeout_row td =
     (let why = (case filled (qi_attention_reason (td_client_item td)) of Some r \<Rightarrow> r | None \<Rightarrow> ''no reason supplied'')
      in td\<lparr>td_state := TD_FailedPending, td_status := TS_Error,
            td_status_messages :=
              (if list_ex (\<lambda>m. msg_kind m = SM_WarningTimeout) (td_status_messages td) then td_status_messages td
               else td_status_messages td @
                 [TrackedStatusMessage_new SM_WarningTimeout (WARNING_TIMEOUT_STATUS_MESSAGE_PREFIX @ '' '' @ why)]),
            td_burned_by_import_gate := td_state td \<in> {TD_ImportPending, TD_ImportBlocked}\<rparr>)"

definition fail_persistent_warning_for_download ::
  "DownloadId \<Rightarrow> datetime \<Rightarrow> bool \<Rightarrow> TrackedDownloadService \<Rightarrow> bool \<times> TrackedDownloadService" where
  "fail_persistent_warning_for_download i now timeout_applies sv =
     (case map_of (sv_cache sv) i of
        None \<Rightarrow> (False, sv)
      | Some td \<Rightarrow>
          if \<not> warning_is_actionable td \<or> \<not> timeout_applies
          then (False, sv\<lparr>sv_warning_since := (sv_warning_since sv)(i := None)\<rparr>)
          else
            (let since = (case sv_warning_since sv i of Some t \<Rightarrow> t | None \<Rightarrow> now)
             in if now - since < WARNING_FAILURE_TIMEOUT
                then (False, sv\<lparr>sv_warning_since := (sv_warning_since sv)(i \<mapsto> since)\<rparr>)
                else (True, sv\<lparr>sv_warning_since := (sv_warning_since sv)(i := None),
                               sv_cache := AList.update i (warning_timeout_row td) (sv_cache sv)\<rparr>)))"

section \<open>Persistence\<close>

text \<open>
  The durable side of a row: the canonical state with its reason and detail, keyed by the canonical
  download, and the state projected onto the submission. The three columns are read one by one. A read answers \<open>None\<close> where the store has
  nothing and where it fails (\<open>.ok().flatten()\<close>, \<open>if let Ok(Some(..))\<close>).
\<close>

record durable_state =
  du_state :: string
  du_reason :: "string option"
  du_detail :: "string option"

record 'e restart_env =
  re_state :: "DownloadId \<Rightarrow> string option" \<comment> \<open>\<open>get_identity_tracked_state_for_download\<close>\<close>
  re_reason :: "DownloadId \<Rightarrow> string option" \<comment> \<open>\<open>get_identity_tracked_state_reason_for_download\<close>\<close>
  re_detail :: "DownloadId \<Rightarrow> string option" \<comment> \<open>\<open>get_identity_tracked_state_detail_for_download\<close>\<close>
  re_retry_claim :: "DownloadId \<Rightarrow> bool" \<comment> \<open>\<open>get_import_retry_claim\<close> answers a claim\<close>
  re_submissions :: "DownloadId \<Rightarrow> string \<Rightarrow> string \<Rightarrow> string \<Rightarrow> 'e + DownloadSubmission list"
    \<comment> \<open>\<open>list_by_download_id_for_download\<close>\<close>
  re_projected :: "ClientJobLocator \<Rightarrow> string option" \<comment> \<open>\<open>get_tracked_state\<close>\<close>

definition submission_for_tracked :: "'e restart_env \<Rightarrow> TrackedDownload \<Rightarrow> DownloadSubmission option" where
  "submission_for_tracked env td =
     (case filled (map_option trim (observed_queue_item_identity (td_client_item td))) of
        None \<Rightarrow> None
      | Some i \<Rightarrow>
          (case re_submissions env (td_download_id td) (td_client_id td) (td_client_type td) (trim i) of
             Inl _ \<Rightarrow> None
           | Inr subs \<Rightarrow> coalesce_download_submissions_by_release_attempt subs))"

definition terminal_marker :: "TrackedDownload \<Rightarrow> TrackedDownloadState \<Rightarrow> string option \<times> string option" where
  "terminal_marker td state =
     (if state = TD_Failed \<and> td_manual_failure_cleanup td then
        (Some (if td_skip_reacquire_on_failure td then MANUAL_FAILURE_NO_REACQUIRE_REASON
               else MANUAL_FAILURE_CLEANUP_REASON), None)
      else case (if state = TD_Failed then password_failure (td_client_item td) else None) of
        Some failure \<Rightarrow> (Some (pw_code failure), Some (pw_message failure))
      | None \<Rightarrow>
          if state = TD_Failed \<and> td_burned_by_import_gate td then
            (let timeout = List.find (\<lambda>m. msg_kind m = SM_WarningTimeout) (td_status_messages td)
             in (Some (if timeout \<noteq> None then WARNING_TIMEOUT_TRACKED_STATE_REASON
                       else IMPORT_GATE_REJECTED_TRACKED_STATE_REASON),
                 or_else (map_option msg_text timeout)
                   (case td_status_messages td of m # _ \<Rightarrow> Some (msg_text m) | [] \<Rightarrow> None)))
          else (None, None))"

text \<open>
  The two writes of a marker, each a success or a failure: the canonical row, then the projection
  onto the submission. \<open>invalidated\<close> is the retirement of the memo of client observations, gated on
  the state moving.
\<close>

record marker_write =
  mw_canonical :: "DownloadId \<times> durable_state"
  mw_projection :: "(ClientJobLocator \<times> string) option"
  mw_invalidated :: bool

definition persist_tracked_download_state_marker ::
  "'e restart_env \<Rightarrow> (DownloadId \<Rightarrow> durable_state \<Rightarrow> bool) \<Rightarrow> (ClientJobLocator \<Rightarrow> string \<Rightarrow> bool) \<Rightarrow> TrackedDownload \<Rightarrow>
   TrackedDownloadState \<Rightarrow> string option \<Rightarrow> string option \<Rightarrow> bool \<times> marker_write option" where
  "persist_tracked_download_state_marker env record_state update_state td state why detail =
     (let identity = (case submission_for_tracked env td of
             Some s \<Rightarrow> locator_from_submission s | None \<Rightarrow> tracked_source_identity td);
          label = TrackedDownloadState_as_str state;
          row = \<lparr>du_state = label, du_reason = why, du_detail = detail\<rparr>
      in if \<not> record_state (td_download_id td) row then (False, None)
         else
           (update_state identity label,
            Some \<lparr>mw_canonical = (td_download_id td, row),
                  mw_projection = (if update_state identity label then Some (identity, label) else None),
                  mw_invalidated = (td_state td \<noteq> state)\<rparr>))"

definition persist_import_blocked_state_marker ::
  "'e restart_env \<Rightarrow> (DownloadId \<Rightarrow> durable_state \<Rightarrow> bool) \<Rightarrow> (ClientJobLocator \<Rightarrow> string \<Rightarrow> bool) \<Rightarrow> TrackedDownload \<Rightarrow>
   ImportBlockedReason \<Rightarrow> string option \<Rightarrow> bool \<times> marker_write option" where
  "persist_import_blocked_state_marker env record_state update_state td why detail =
     persist_tracked_download_state_marker env record_state update_state td TD_ImportBlocked
       (Some (ImportBlockedReason_as_str why)) detail"

definition persist_terminal_state_by_download_id ::
  "'e restart_env \<Rightarrow> (DownloadId \<Rightarrow> durable_state \<Rightarrow> bool) \<Rightarrow> (ClientJobLocator \<Rightarrow> string \<Rightarrow> bool) \<Rightarrow> TrackedDownloadService \<Rightarrow>
   DownloadId \<Rightarrow> TrackedDownloadState \<Rightarrow> bool \<times> marker_write option" where
  "persist_terminal_state_by_download_id env record_state update_state sv i state =
     (if \<not> is_terminal state then (True, None)
      else case get_by_download_id i sv of
        None \<Rightarrow> (False, None)
      | Some td \<Rightarrow>
          (let (why, detail) = terminal_marker td state
           in persist_tracked_download_state_marker env record_state update_state td state why detail))"

definition import_blocked_reason_for_tracked :: "'e restart_env \<Rightarrow> TrackedDownload \<Rightarrow> ImportBlockedReason option" where
  "import_blocked_reason_for_tracked env td =
     Option.bind (re_reason env (td_download_id td)) ImportBlockedReason_parse"

section \<open>Restart\<close>

definition import_blocked_fallback_message :: "TrackedDownload \<Rightarrow> string" where
  "import_blocked_fallback_message td =
     (if \<not> title_id_present (td_title_id td)
      then ''Automatic import could not identify a library title. Assign a title to continue.''
      else if map_option to_ascii_lowercase (td_facet td) \<in> {Some ''series'', Some ''anime''}
      then ''Automatic import could not determine a unique season and episode mapping. Open Manual Import and assign the correct season and episode.''
      else ''Automatic import needs operator review. Open Manual Import and confirm the file mapping to continue.'')"

definition set_import_blocked_status :: "string option \<Rightarrow> TrackedDownload \<Rightarrow> TrackedDownload" where
  "set_import_blocked_status detail td =
     td\<lparr>td_status := TS_Warning,
        td_status_messages := [TrackedStatusMessage_new SM_Informational
          (case filled (map_option trim detail) of Some d \<Rightarrow> d | None \<Rightarrow> import_blocked_fallback_message td)]\<rparr>"

definition restored_from_ledger :: "bool \<Rightarrow> TrackedDownloadState \<Rightarrow> bool" where
  "restored_from_ledger retry_claimed s \<longleftrightarrow>
     is_import_settled s \<or> s = TD_FailedPending \<or> s = TD_ImportBlocked \<or> (s = TD_Importing \<and> retry_claimed)"

definition restore_flags :: "string option \<Rightarrow> TrackedDownload \<Rightarrow> TrackedDownload" where
  "restore_flags why td =
     (let failed = (why = Some (ImportBlockedReason_as_str BlocklistConfirmationFailed))
      in td\<lparr>td_manual_failure_cleanup :=
              (why \<in> {Some MANUAL_FAILURE_CLEANUP_REASON, Some MANUAL_FAILURE_NO_REACQUIRE_REASON}),
            td_skip_reacquire_on_failure := (why = Some MANUAL_FAILURE_NO_REACQUIRE_REASON),
            td_blocklist_confirmation_failed := failed,
            td_import_attempted := (failed \<or> td_import_attempted td),
            td_burned_by_import_gate :=
              (why \<in> {Some IMPORT_GATE_REJECTED_TRACKED_STATE_REASON, Some WARNING_TIMEOUT_TRACKED_STATE_REASON})\<rparr>)"

definition restore_row ::
  "string option \<Rightarrow> string option \<Rightarrow> TrackedDownloadState \<Rightarrow> TrackedDownload \<Rightarrow> TrackedDownload" where
  "restore_row recorded_reason detail state td =
     (let why = (if state \<in> {TD_Failed, TD_FailedPending, TD_ImportBlocked} then recorded_reason else None);
          td = restore_flags why (td\<lparr>td_state := state\<rparr>)
      in if state = TD_Failed \<and> td_burned_by_import_gate td then
           td\<lparr>td_status := TS_Error,
              td_status_messages := map (TrackedStatusMessage_new
                (if why = Some WARNING_TIMEOUT_TRACKED_STATE_REASON then SM_WarningTimeout else SM_Informational))
                (case detail of Some d \<Rightarrow> [d] | None \<Rightarrow> [])\<rparr>
         else if state = TD_Importing then
           td\<lparr>td_status_messages := [status_message ''Import retry is awaiting recovery'']\<rparr>
         else if state = TD_ImportBlocked then set_import_blocked_status detail td
         else td)"

definition restore_from_projection :: "'e restart_env \<Rightarrow> TrackedDownload \<Rightarrow> TrackedDownload" where
  "restore_from_projection env td =
     (case Option.bind (submission_for_tracked env td) (\<lambda>s.
             Option.bind (re_projected env (locator_from_submission s)) TrackedDownloadState_from_str_opt) of
        Some state \<Rightarrow>
          if is_import_settled state \<or> state = TD_ImportBlocked
          then (let td = td\<lparr>td_state := state\<rparr>
                in if state = TD_ImportBlocked then set_import_blocked_status None td else td)
          else td
      | None \<Rightarrow> td)"

definition reconstruct_state :: "'e restart_env \<Rightarrow> TrackedDownload \<Rightarrow> TrackedDownload" where
  "reconstruct_state env td =
     (let i = td_download_id td
      in case Option.bind (re_state env i) TrackedDownloadState_from_str_opt of
           Some state \<Rightarrow>
             if restored_from_ledger (re_retry_claim env i) state
             then restore_row (re_reason env i) (re_detail env i) state td
             else restore_from_projection env td
         | None \<Rightarrow> restore_from_projection env td)"

section \<open>Titles\<close>

record 'e title_env =
  tl_restart :: "'e restart_env"
  tl_find_by_client_item :: "ClientJobLocator \<Rightarrow> DownloadSubmission option"
    \<comment> \<open>\<open>find_by_client_item_id(..).ok().flatten()\<close>\<close>
  tl_title_exists :: "string \<Rightarrow> bool" \<comment> \<open>\<open>titles.get_by_id\<close> answers \<open>Ok(Some(_))\<close>\<close>
  tl_known_category :: "(string \<Rightarrow> bool) option" \<comment> \<open>\<open>knows_category\<close> of the admission snapshot, when there is one\<close>
  tl_match :: "string \<Rightarrow> string option \<Rightarrow> (string \<times> string \<times> TitleMatchType) option"
    \<comment> \<open>the parser and the monitored-title matcher: title id, facet label, match type\<close>
  tl_title_signal :: "string \<Rightarrow> string" \<comment> \<open>\<open>normalize_title_signal\<close>\<close>
  tl_fresh_id :: DownloadId \<comment> \<open>\<open>DownloadId::new()\<close>\<close>

definition download_observation_is_admitted :: "bool \<Rightarrow> string option \<Rightarrow> (string \<Rightarrow> bool) option \<Rightarrow> bool" where
  "download_observation_is_admitted has_submission category known \<longleftrightarrow>
     has_submission \<or>
     (case (filled (map_option trim category), known) of (Some c, Some knows) \<Rightarrow> knows c | _ \<Rightarrow> False)"

definition observation_stub :: "'e title_env \<Rightarrow> TrackedDownload \<Rightarrow> DownloadSubmission" where
  "observation_stub env td =
     \<lparr>sub_download_id = tl_fresh_id env, sub_title_id = [],
      sub_facet = (case td_facet td of Some f \<Rightarrow> f | None \<Rightarrow> []),
      sub_client_id = (if td_client_id td = [] then None else Some (td_client_id td)),
      sub_client_type = td_client_type td, sub_item_id = qi_item_id (td_client_item td), sub_source_title = None,
      sub_scope = Scope_Orphan\<rparr>"

definition adopt_submission :: "DownloadSubmission \<Rightarrow> TrackedDownload \<Rightarrow> TrackedDownload" where
  "adopt_submission sub td =
     (let stale = should_clear_stale_unmatched_state_on_submission td;
          td = td\<lparr>td_title_id := Some (sub_title_id sub), td_facet := Some (sub_facet sub),
                  td_source_title := sub_source_title sub, td_match_type := MT_Submission\<rparr>
      in if \<not> stale then td
         else (let td = td\<lparr>td_status := TS_Ok, td_status_messages := []\<rparr>
               in if td_state td = TD_ImportBlocked \<and> \<not> td_import_attempted td \<and> td_path_missing_since td = None
                  then td\<lparr>td_state := TD_Downloading\<rparr> else td))"

definition release_title_of :: "TrackedDownload \<Rightarrow> string" where
  "release_title_of td =
     (case filled (td_source_title td) of Some t \<Rightarrow> t | None \<Rightarrow> qi_title_name (td_client_item td))"

definition match_by_name :: "'e title_env \<Rightarrow> TrackedDownload \<Rightarrow> TrackedDownload" where
  "match_by_name env td =
     (case tl_match env (release_title_of td) (or_else (qi_facet (td_client_item td)) (td_facet td)) of
        None \<Rightarrow> td
      | Some (title, facet, kind) \<Rightarrow>
          td\<lparr>td_title_id := Some title, td_facet := Some facet,
             td_source_title := (case td_source_title td of None \<Rightarrow> Some (release_title_of td) | Some t \<Rightarrow> Some t),
             td_match_type := kind\<rparr>)"

text \<open>The row after the resolution, and the observation row it recorded, if any.\<close>

definition resolve_title :: "'e title_env \<Rightarrow> TrackedDownload \<Rightarrow> TrackedDownload \<times> DownloadSubmission option" where
  "resolve_title env td =
     (let canonical = (case submission_for_tracked (tl_restart env) td of
             Some s \<Rightarrow> if title_id_present (Some (sub_title_id s)) then Some s else None | None \<Rightarrow> None);
          existing = (case canonical of Some s \<Rightarrow> Some s | None \<Rightarrow> tl_find_by_client_item env (tracked_source_identity td));
          embedded = (case qi_title_id (td_client_item td) of Some t \<Rightarrow> t | None \<Rightarrow> [])
      in case (case existing of Some s \<Rightarrow> if sub_title_id s \<noteq> [] then Some s else None | None \<Rightarrow> None) of
           Some sub \<Rightarrow> (adopt_submission sub td, None)
         | None \<Rightarrow>
             if embedded \<noteq> [] \<and> tl_title_exists env embedded
             then (td\<lparr>td_title_id := Some embedded, td_match_type := MT_ClientParameter\<rparr>, None)
             else (match_by_name env td,
                   if existing = None \<and>
                      download_observation_is_admitted False (qi_category (td_client_item td)) (tl_known_category env)
                   then Some (observation_stub env td) else None))"

definition fresh_row :: "DownloadId \<Rightarrow> string \<Rightarrow> DownloadQueueItem \<Rightarrow> TrackedDownload" where
  "fresh_row i id' item =
     \<lparr>td_download_id = i, td_id = id', td_client_id = qi_client_id item, td_client_type = qi_client_type item,
      td_client_item = item, td_completed_source = None, td_state = TD_Downloading, td_status = TS_Ok,
      td_status_messages = [], td_title_id = qi_title_id item, td_facet = qi_facet item, td_source_title = None,
      td_indexer = None, td_added_at = None, td_notified_manual_interaction = False, td_match_type = MT_Unmatched,
      td_is_trackable = True, td_import_attempted = False, td_waiting_for_completed_history = False,
      td_path_missing_since = None, td_no_video_import_retry = None, td_import_execution_retry = None,
      td_import_hold = None, td_skip_reacquire_on_failure = False, td_manual_failure_cleanup = False,
      td_blocklist_confirmation_failed = False, td_burned_by_import_gate = False, td_snapshot_missing_since = None,
      td_retained_in_client_after_cleanup = False\<rparr>"

definition build_new_tracked_download ::
  "'e title_env \<Rightarrow> DownloadId \<Rightarrow> string \<Rightarrow> DownloadQueueItem \<Rightarrow> TrackedDownload \<times> DownloadSubmission option" where
  "build_new_tracked_download env i id' item =
     (let (td, stub) = resolve_title env (fresh_row i id' item)
      in (reconstruct_state (tl_restart env) td, stub))"

section \<open>Failures\<close>

text \<open>From \<open>import/failed_download.rs\<close>.\<close>

definition warn_download_not_grabbed :: "TrackedDownload \<Rightarrow> TrackedDownload" where
  "warn_download_not_grabbed td =
     td_warn (''Download has failed but wasn'' @ [CHR 0x27] @ ''t grabbed by Scryer. Skipping automatic failure handling.'')
       (td\<lparr>td_status_messages := []\<rparr>)"

definition failed_check :: "TrackedDownload \<Rightarrow> TrackedDownload" where
  "failed_check td =
     (if td_blocklist_confirmation_failed td then td
      else if td_state td \<notin> {TD_Downloading, TD_ImportPending, TD_ImportBlocked} then td
      else if qi_state (td_client_item td) \<noteq> DQ_Failed then td
      else if \<not> qi_is_scryer_origin (td_client_item td) then warn_download_not_grabbed td
      else td\<lparr>td_state := TD_FailedPending, td_status := TS_Error, td_status_messages := []\<rparr>)"

datatype FailureHandlingOutcome =
  FH_Reopened | FH_RecordedOnly | FH_RecordedNoReacquire | FH_AlreadyHandled | FH_RecordingFailed | FH_MissingBlocklistKey

text \<open>The context the acquisition workflow handles the failure with; it names no wanted item.\<close>

record DownloadFailureContext =
  fc_title_id :: "string option"
  fc_client_id :: string
  fc_client_type :: string
  fc_client_name :: "string option"
  fc_client_item_id :: string
  fc_release_title :: string
  fc_reason :: string
  fc_blocklist_reason :: "string option"
  fc_skip_reacquire :: bool

definition failure_context :: "TrackedDownload \<Rightarrow> DownloadFailureContext" where
  "failure_context td =
     (let why = (case qi_attention_reason (td_client_item td) of Some r \<Rightarrow> r | None \<Rightarrow> ''Failed download detected'')
      in \<lparr>fc_title_id = td_title_id td, fc_client_id = td_client_id td, fc_client_type = td_client_type td,
          fc_client_name = Some (qi_client_name (td_client_item td)), fc_client_item_id = qi_item_id (td_client_item td),
          fc_release_title = (case td_source_title td of Some t \<Rightarrow> t | None \<Rightarrow> qi_title_name (td_client_item td)),
          fc_reason = why,
          fc_blocklist_reason = (if td_burned_by_import_gate td then Some (''import rejected: '' @ why) else None),
          fc_skip_reacquire = td_skip_reacquire_on_failure td\<rparr>)"

definition MISSING_BLOCKLIST_KEY_MESSAGE :: string where
  "MISSING_BLOCKLIST_KEY_MESSAGE = ''Cannot blocklist this download because its title or release name is missing. Automatic retries stopped; download and files are preserved. Resolve the missing identity before retrying the blocklist action.''"

record failure_env =
  fe_submission_exists :: "DownloadId \<Rightarrow> ClientJobLocator \<Rightarrow> bool"
    \<comment> \<open>\<open>find_by_client_item_id_for_download\<close> answers a submission\<close>
  fe_record_password_failure :: "TrackedDownload \<Rightarrow> DownloadPasswordFailure \<Rightarrow> bool"
    \<comment> \<open>\<open>record_password_retry_failure\<close> succeeds\<close>
  fe_process :: "DownloadId \<Rightarrow> DownloadFailureContext \<Rightarrow> bool \<Rightarrow> FailureHandlingOutcome"
    \<comment> \<open>\<open>process_download_failure_with_cleanup_intent\<close>\<close>

definition tracked_download_failure_submission_identity :: "TrackedDownload \<Rightarrow> ClientJobLocator option" where
  "tracked_download_failure_submission_identity td =
     (if \<not> qi_is_scryer_origin (td_client_item td) then None else Some (tracked_source_identity td))"

definition tracked_download_has_grabbed_submission :: "failure_env \<Rightarrow> TrackedDownload \<Rightarrow> bool" where
  "tracked_download_has_grabbed_submission env td =
     (case tracked_download_failure_submission_identity td of
        None \<Rightarrow> False
      | Some l \<Rightarrow> fe_submission_exists env (td_download_id td) l)"

text \<open>The row after the outcome, and the import-blocked marker the handler persists.\<close>

definition settle_failure ::
  "FailureHandlingOutcome \<Rightarrow> TrackedDownload \<Rightarrow> TrackedDownload \<times> (ImportBlockedReason \<times> string) option" where
  "settle_failure outcome td =
     (if outcome = FH_RecordingFailed
      then (td\<lparr>td_status_messages := [status_message ''Could not confirm blocklist entry; download preserved for retry'']\<rparr>, None)
      else if outcome = FH_MissingBlocklistKey
      then (td\<lparr>td_state := TD_ImportBlocked, td_status := TS_Error,
               td_status_messages := [status_message MISSING_BLOCKLIST_KEY_MESSAGE],
               td_blocklist_confirmation_failed := True, td_manual_failure_cleanup := False, td_import_attempted := True\<rparr>,
            Some (BlocklistConfirmationFailed, MISSING_BLOCKLIST_KEY_MESSAGE))
      else (td\<lparr>td_state := TD_Failed,
               td_status_messages := td_status_messages td @
                 (if td_skip_reacquire_on_failure td \<and> outcome \<noteq> FH_RecordedNoReacquire
                  then [status_message ''Failure was recorded, but Scryer could not confirm that reacquisition was disabled.'']
                  else [])\<rparr>, None))"

definition process_failed ::
  "failure_env \<Rightarrow> TrackedDownload \<Rightarrow> TrackedDownload \<times> (ImportBlockedReason \<times> string) option" where
  "process_failed env td =
     (if td_state td \<noteq> TD_FailedPending then (td, None)
      else if \<not> tracked_download_has_grabbed_submission env td
      then ((warn_download_not_grabbed td)\<lparr>td_state := TD_Downloading, td_skip_reacquire_on_failure := False,
               td_manual_failure_cleanup := False\<rparr>, None)
      else case (if td_manual_failure_cleanup td then None else password_failure (td_client_item td)) of
        Some failure \<Rightarrow>
          if \<not> fe_record_password_failure env td failure
          then (td\<lparr>td_status_messages := [status_message ''Could not record password failure; awaiting retry'']\<rparr>, None)
          else (td\<lparr>td_state := TD_Failed, td_status := TS_Error, td_status_messages := [status_message (pw_message failure)],
                   td_skip_reacquire_on_failure := True\<rparr>, None)
      | None \<Rightarrow>
          settle_failure (fe_process env (td_download_id td) (failure_context td) (td_manual_failure_cleanup td)) td)"

section \<open>Recovery of a manual import\<close>

datatype ManualImportRecoveryVerdict = MarkImported | Leave

definition manual_import_recovery_verdict :: "TrackedDownload \<Rightarrow> datetime \<Rightarrow> ManualImportRecoveryVerdict" where
  "manual_import_recovery_verdict td record_completed_at =
     (case td_completed_source td of
        None \<Rightarrow> Leave
      | Some c \<Rightarrow>
          if td_state td \<notin> {TD_ImportPending, TD_Importing, TD_ImportBlocked} then Leave
          else if (case cd_completed_at c of Some t \<Rightarrow> record_completed_at < t | None \<Rightarrow> False) then Leave
          else MarkImported)"

section \<open>Restarts keep the outcome\<close>

definition reads_back :: "marker_write \<Rightarrow> 'e restart_env \<Rightarrow> bool" where
  "reads_back w env \<longleftrightarrow>
     (case mw_canonical w of
        (i, row) \<Rightarrow> re_state env i = Some (du_state row) \<and> re_reason env i = du_reason row \<and> re_detail env i = du_detail row)"

lemma pw_code_not_reason:
  "pw_code f \<noteq> MANUAL_FAILURE_CLEANUP_REASON" "pw_code f \<noteq> MANUAL_FAILURE_NO_REACQUIRE_REASON"
  "pw_code f \<noteq> IMPORT_GATE_REJECTED_TRACKED_STATE_REASON" "pw_code f \<noteq> WARNING_TIMEOUT_TRACKED_STATE_REASON"
  "pw_code f \<noteq> ImportBlockedReason_as_str BlocklistConfirmationFailed"
  by (cases f; simp add: tracked_reasons)+

lemma reasons_distinct:
  "MANUAL_FAILURE_CLEANUP_REASON \<noteq> MANUAL_FAILURE_NO_REACQUIRE_REASON"
  "MANUAL_FAILURE_CLEANUP_REASON \<noteq> IMPORT_GATE_REJECTED_TRACKED_STATE_REASON"
  "MANUAL_FAILURE_CLEANUP_REASON \<noteq> WARNING_TIMEOUT_TRACKED_STATE_REASON"
  "MANUAL_FAILURE_NO_REACQUIRE_REASON \<noteq> IMPORT_GATE_REJECTED_TRACKED_STATE_REASON"
  "MANUAL_FAILURE_NO_REACQUIRE_REASON \<noteq> WARNING_TIMEOUT_TRACKED_STATE_REASON"
  "IMPORT_GATE_REJECTED_TRACKED_STATE_REASON \<noteq> WARNING_TIMEOUT_TRACKED_STATE_REASON"
  "ImportBlockedReason_as_str BlocklistConfirmationFailed \<noteq> MANUAL_FAILURE_CLEANUP_REASON"
  "ImportBlockedReason_as_str BlocklistConfirmationFailed \<noteq> MANUAL_FAILURE_NO_REACQUIRE_REASON"
  "ImportBlockedReason_as_str BlocklistConfirmationFailed \<noteq> IMPORT_GATE_REJECTED_TRACKED_STATE_REASON"
  "ImportBlockedReason_as_str BlocklistConfirmationFailed \<noteq> WARNING_TIMEOUT_TRACKED_STATE_REASON"
  by (simp_all add: tracked_reasons)

lemmas reason_distinct = pw_code_not_reason pw_code_not_reason [symmetric] reasons_distinct reasons_distinct [symmetric]

lemmas reason_simps = reason_distinct reason_distinct [simplified]

lemma find_None_list_ex: "List.find P xs = None \<longleftrightarrow> \<not> list_ex P xs"
  by (induction xs) auto

lemma find_SomeD: "List.find P xs = Some x \<Longrightarrow> P x \<and> x \<in> set xs"
  by (induction xs) (auto split: if_splits)

lemma find_Some_list_ex: "List.find P xs = Some x \<Longrightarrow> list_ex P xs"
  by (induction xs) (auto split: if_splits)

text \<open>What the reason column says about a failed row.\<close>

lemma terminal_marker_reason:
  "fst (terminal_marker td TD_Failed) =
     (if td_manual_failure_cleanup td
      then Some (if td_skip_reacquire_on_failure td then MANUAL_FAILURE_NO_REACQUIRE_REASON else MANUAL_FAILURE_CLEANUP_REASON)
      else case password_failure (td_client_item td) of
        Some f \<Rightarrow> Some (pw_code f)
      | None \<Rightarrow>
          if td_burned_by_import_gate td
          then Some (if list_ex (\<lambda>m. msg_kind m = SM_WarningTimeout) (td_status_messages td)
                     then WARNING_TIMEOUT_TRACKED_STATE_REASON else IMPORT_GATE_REJECTED_TRACKED_STATE_REASON)
          else None)"
  by (cases "List.find (\<lambda>m. msg_kind m = SM_WarningTimeout) (td_status_messages td)")
    (auto simp: terminal_marker_def Let_def find_None_list_ex dest: find_Some_list_ex split: option.splits)

lemma terminal_marker_other: "state \<noteq> TD_Failed \<Longrightarrow> terminal_marker td state = (None, None)"
  by (simp add: terminal_marker_def)

lemma restore_row_simps:
  "td_state (restore_row why detail state td) = state"
  "td_manual_failure_cleanup (restore_row why detail state td) =
     (state \<in> {TD_Failed, TD_FailedPending, TD_ImportBlocked} \<and>
      why \<in> {Some MANUAL_FAILURE_CLEANUP_REASON, Some MANUAL_FAILURE_NO_REACQUIRE_REASON})"
  "td_skip_reacquire_on_failure (restore_row why detail state td) =
     (state \<in> {TD_Failed, TD_FailedPending, TD_ImportBlocked} \<and> why = Some MANUAL_FAILURE_NO_REACQUIRE_REASON)"
  "td_burned_by_import_gate (restore_row why detail state td) =
     (state \<in> {TD_Failed, TD_FailedPending, TD_ImportBlocked} \<and>
      why \<in> {Some IMPORT_GATE_REJECTED_TRACKED_STATE_REASON, Some WARNING_TIMEOUT_TRACKED_STATE_REASON})"
  "td_blocklist_confirmation_failed (restore_row why detail state td) =
     (state \<in> {TD_Failed, TD_FailedPending, TD_ImportBlocked} \<and>
      why = Some (ImportBlockedReason_as_str BlocklistConfirmationFailed))"
  by (auto simp: restore_row_def restore_flags_def set_import_blocked_status_def Let_def)

lemma restore_row_timeout_message:
  assumes "why \<in> {Some IMPORT_GATE_REJECTED_TRACKED_STATE_REASON, Some WARNING_TIMEOUT_TRACKED_STATE_REASON}"
  shows "list_ex (\<lambda>m. msg_kind m = SM_WarningTimeout) (td_status_messages (restore_row why detail TD_Failed td)) =
    (why = Some WARNING_TIMEOUT_TRACKED_STATE_REASON \<and> detail \<noteq> None)"
  using assms
  by (auto simp: restore_row_def restore_flags_def Let_def TrackedStatusMessage_new_def list_ex_iff split: option.splits)

lemma reconstruct_recorded:
  assumes "re_state env (td_download_id td) = Some (TrackedDownloadState_as_str state)"
    and "restored_from_ledger (re_retry_claim env (td_download_id td)) state"
  shows "reconstruct_state env td =
    restore_row (re_reason env (td_download_id td)) (re_detail env (td_download_id td)) state td"
  using assms by (simp add: reconstruct_state_def tracked_state.parse_as_str Let_def)

lemma persisted_terminal:
  assumes "persist_terminal_state_by_download_id env rec upd sv i state = (ok, Some w)"
  obtains td where "is_terminal state" "get_by_download_id i sv = Some td"
    "mw_canonical w = (td_download_id td, \<lparr>du_state = TrackedDownloadState_as_str state,
       du_reason = fst (terminal_marker td state), du_detail = snd (terminal_marker td state)\<rparr>)"
  using assms
  by (auto simp: persist_terminal_state_by_download_id_def persist_tracked_download_state_marker_def Let_def
      split: option.splits if_splits prod.splits)

text \<open>
  C23. A terminal outcome survives a restart. When the canonical row of an imported, failed or ignored
  download was written (whether or not the projection onto the submission was), a row rebuilt for
  that download from what the ledger reads back is in that state again, is settled, and, for a
  failure, carries the same operator intent (cleanup and no reacquisition), the same burn by the
  import gate and the same warning-timeout mark; nothing else is invented.
\<close>
theorem restart_keeps_outcome:
  assumes "persist_terminal_state_by_download_id env rec upd sv i state = (ok, Some w)"
    and "get_by_download_id i sv = Some td"
    and "reads_back w env'" and "td_download_id td0 = td_download_id td"
  shows "let r = reconstruct_state env' td0
    in td_state r = state \<and> is_import_settled (td_state r) \<and> \<not> td_blocklist_confirmation_failed r \<and>
       td_manual_failure_cleanup r = (state = TD_Failed \<and> td_manual_failure_cleanup td) \<and>
       td_skip_reacquire_on_failure r =
         (state = TD_Failed \<and> td_manual_failure_cleanup td \<and> td_skip_reacquire_on_failure td) \<and>
       td_burned_by_import_gate r =
         (state = TD_Failed \<and> \<not> td_manual_failure_cleanup td \<and> password_failure (td_client_item td) = None \<and>
          td_burned_by_import_gate td) \<and>
       (if td_burned_by_import_gate r
        then list_ex (\<lambda>m. msg_kind m = SM_WarningTimeout) (td_status_messages r) =
             list_ex (\<lambda>m. msg_kind m = SM_WarningTimeout) (td_status_messages td)
        else True)"
proof -
  obtain td' where "get_by_download_id i sv = Some td'" and terminal: "is_terminal state"
    and "mw_canonical w = (td_download_id td', \<lparr>du_state = TrackedDownloadState_as_str state,
       du_reason = fst (terminal_marker td' state), du_detail = snd (terminal_marker td' state)\<rparr>)"
    using assms(1) by (rule persisted_terminal)
  then have ledger: "re_state env' (td_download_id td0) = Some (TrackedDownloadState_as_str state)"
    "re_reason env' (td_download_id td0) = fst (terminal_marker td state)"
    "re_detail env' (td_download_id td0) = snd (terminal_marker td state)"
    using assms(2,3,4) by (simp_all add: reads_back_def)
  have settled: "is_import_settled state" using terminal by (simp add: is_import_settled_def)
  define r where "r = reconstruct_state env' td0"
  have r: "r = restore_row (fst (terminal_marker td state)) (snd (terminal_marker td state)) state td0"
    using reconstruct_recorded [OF ledger(1)] settled ledger(2,3) by (simp add: r_def restored_from_ledger_def)
  show ?thesis
  proof (cases "state = TD_Failed")
    case False
    with terminal have "state \<notin> {TD_Failed, TD_FailedPending, TD_ImportBlocked}" by (auto simp: is_terminal_def)
    with settled show ?thesis unfolding r_def [symmetric] r by (simp add: restore_row_simps Let_def)
  next
    case True
    have timeout: "list_ex (\<lambda>m. msg_kind m = SM_WarningTimeout) (td_status_messages r) =
        list_ex (\<lambda>m. msg_kind m = SM_WarningTimeout) (td_status_messages td)"
      if "\<not> td_manual_failure_cleanup td" "password_failure (td_client_item td) = None" "td_burned_by_import_gate td"
    proof -
      have "snd (terminal_marker td state) \<noteq> None"
        if "list_ex (\<lambda>m. msg_kind m = SM_WarningTimeout) (td_status_messages td)"
        using that \<open>\<not> td_manual_failure_cleanup td\<close> \<open>password_failure (td_client_item td) = None\<close>
          \<open>td_burned_by_import_gate td\<close> True
        by (cases "List.find (\<lambda>m. msg_kind m = SM_WarningTimeout) (td_status_messages td)")
          (auto simp: terminal_marker_def Let_def or_else_def find_None_list_ex)
      then show ?thesis
        using that True by (simp add: r restore_row_timeout_message terminal_marker_reason reason_simps)
    qed
    show ?thesis
      using settled timeout True unfolding r_def [symmetric] Let_def
      by (auto simp: r restore_row_simps terminal_marker_reason reason_simps split: option.splits if_splits)
  qed
qed

text \<open>A torrent job of a client, for the applications of the theorems.\<close>

definition sample_item :: DownloadQueueItem where
  "sample_item =
     \<lparr>qi_title_id = None, qi_title_name = ''A'', qi_facet = None, qi_category = None, qi_client_id = ''c'',
      qi_client_name = ''C'', qi_client_type = ''qbittorrent'', qi_state = DQ_Warning, qi_queued_at = None,
      qi_attention_reason = None, qi_attention_reason_code = None, qi_item_id = ''h1'', qi_download_id = None,
      qi_is_scryer_origin = True, qi_seeding = None\<rparr>"

definition sample_service :: "TrackedDownload \<Rightarrow> TrackedDownloadService" where
  "sample_service td = service_new\<lparr>sv_cache := [(td_download_id td, td)]\<rparr>"

definition sample_ledger :: "durable_state option \<Rightarrow> unit restart_env" where
  "sample_ledger row =
     \<lparr>re_state = (\<lambda>_. map_option du_state row), re_reason = (\<lambda>_. Option.bind row du_reason),
      re_detail = (\<lambda>_. Option.bind row du_detail), re_retry_claim = (\<lambda>_. False),
      re_submissions = (\<lambda>_ _ _ _. Inr []), re_projected = (\<lambda>_. None)\<rparr>"

theorem restart_keeps_outcome_witness:
  "let r = reconstruct_state (sample_ledger (Some \<lparr>du_state = ''failed'', du_reason = Some ''warning_timeout'',
             du_detail = Some ''download client warning persisted for 24h: no reason supplied''\<rparr>))
             (fresh_row ''d'' ''k'' sample_item)
   in td_state r = TD_Failed \<and> td_burned_by_import_gate r \<and> \<not> td_manual_failure_cleanup r"
proof -
  define burned where "burned = warning_timeout_row ((fresh_row ''d'' ''k'' sample_item)\<lparr>td_state := TD_ImportBlocked\<rparr>)"
  define row where "row = \<lparr>du_state = ''failed'', du_reason = Some ''warning_timeout'',
             du_detail = Some ''download client warning persisted for 24h: no reason supplied''\<rparr>"
  have persisted: "persist_terminal_state_by_download_id (sample_ledger None) (\<lambda>_ _. True) (\<lambda>_ _. True)
      (sample_service burned) ''d'' TD_Failed =
      (True, Some \<lparr>mw_canonical = (''d'', row), mw_projection = Some (tracked_source_identity burned, ''failed''),
         mw_invalidated = True\<rparr>)"
    unfolding burned_def row_def by code_simp
  have found: "get_by_download_id ''d'' (sample_service burned) = Some burned"
    by (simp add: get_by_download_id_def sample_service_def burned_def warning_timeout_row_def Let_def fresh_row_def)
  have read: "reads_back \<lparr>mw_canonical = (''d'', row), mw_projection = Some (tracked_source_identity burned, ''failed''),
         mw_invalidated = True\<rparr> (sample_ledger (Some row))"
    by (simp add: reads_back_def sample_ledger_def)
  have same: "td_download_id (fresh_row ''d'' ''k'' sample_item) = td_download_id burned"
    by (simp add: burned_def warning_timeout_row_def Let_def fresh_row_def)
  have "password_failure (td_client_item burned) = None" "td_burned_by_import_gate burned"
    "\<not> td_manual_failure_cleanup burned"
    unfolding burned_def by code_simp+
  then show ?thesis
    using restart_keeps_outcome [OF persisted found read same] by (simp add: Let_def row_def)
qed

end
