(* ===== verification/Tracked_Poll.thy ===== *)
theory Tracked_Poll
  imports Tracked_Downloads
begin

text \<open>
  One observation of one client item: \<open>TrackedDownloadService::track\<close> of
  \<open>integration/tracked_downloads.rs\<close>, with the password-retry holds and the recovery of a download
  the ledger had marked missing. What the registry, the stores and the clients answer during the
  call is a record of answers; the writes that reach a store are returned as effects in the order
  they are issued.
\<close>

datatype ObservedClientJobResolution = Resolved DownloadId | Conflict | BindingAlreadyEnded | Unavailable

record PasswordRetryObservation =
  pr_source :: ClientJobLocator
  pr_confirmed :: bool

record ClientPresenceScopeUpdate =
  su_previous :: AcquisitionScopeState
  su_status :: AcquisitionScopeStatus
  su_grabbed_release :: string

record ClientPresenceTransition =
  tr_download_id :: DownloadId
  tr_source :: ClientJobLocator
  tr_identity :: "string option"
  tr_expected_state :: "string option"
  tr_state :: TrackedDownloadState
  tr_reason :: "string option"
  tr_detail :: "string option"
  tr_scopes :: "ClientPresenceScopeUpdate list"

record ('e, 'ev) track_env =
  tk_titles :: "'e title_env"
  tk_now :: datetime
  tk_limits :: prune_limits
  tk_generation :: nat \<comment> \<open>\<open>catalog_generation\<close>\<close>
  tk_resolution :: ObservedClientJobResolution \<comment> \<open>\<open>resolve_observed_client_job_memoized\<close>\<close>
  tk_active_binding :: "'e + DownloadId option" \<comment> \<open>\<open>find_active_binding_by_locator\<close>\<close>
  tk_retry :: "DownloadId \<Rightarrow> 'e + PasswordRetryObservation option" \<comment> \<open>\<open>password_retry_observation\<close>\<close>
  tk_observe :: "ClientJobLocator \<Rightarrow> 'e + DownloadClientObservation" \<comment> \<open>\<open>observe_download\<close>\<close>
  tk_confirm :: "PasswordRetryObservation \<Rightarrow> DownloadQueueState \<Rightarrow> bool"
    \<comment> \<open>\<open>confirm_password_retry_observation(..).unwrap_or(false)\<close>\<close>
  tk_state :: "DownloadId \<Rightarrow> 'e + string option" \<comment> \<open>the durable state, read first\<close>
  tk_submission :: "DownloadId \<Rightarrow> ClientJobLocator \<Rightarrow> DownloadSubmission option"
  tk_state_guarded :: "DownloadId \<Rightarrow> string option" \<comment> \<open>the durable state, read again under the title guard\<close>
  tk_missing_event :: "DownloadId \<Rightarrow> 'ev option" \<comment> \<open>the recorded intent, decoded\<close>
  tk_append :: "'ev \<Rightarrow> bool" \<comment> \<open>\<open>append_once\<close> succeeds\<close>
  tk_scopes :: "string \<Rightarrow> 'e + AcquisitionScopeState list"
  tk_json :: "string \<Rightarrow> Value option"
  tk_transition :: "ClientPresenceTransition \<Rightarrow> bool" \<comment> \<open>\<open>transition_client_presence\<close> answers \<open>Ok(true)\<close>\<close>

datatype 'ev track_effect = AppendEvent 'ev | Transition ClientPresenceTransition | RecordStub DownloadSubmission

definition stub_effect :: "DownloadSubmission option \<Rightarrow> 'ev track_effect list" where
  "stub_effect stub = (case stub of Some s \<Rightarrow> [RecordStub s] | None \<Rightarrow> [])"

record TrackOutcome =
  to_download_id :: DownloadId
  newly_tracked :: bool

definition PASSWORD_RETRY_RECONCILIATION_MESSAGE :: string where
  "PASSWORD_RETRY_RECONCILIATION_MESSAGE =
     ''Password retry is awaiting confirmation from the download client; sources are preserved.''"

definition hold_row :: "TrackedDownload \<Rightarrow> TrackedDownload" where
  "hold_row td =
     td\<lparr>td_is_trackable := True, td_state := TD_ImportBlocked, td_import_attempted := True, td_status := TS_Warning,
        td_status_messages :=
          [TrackedStatusMessage_new SM_PasswordRetryReconciliation PASSWORD_RETRY_RECONCILIATION_MESSAGE]\<rparr>"

definition hold_password_retry ::
  "('e, 'ev) track_env \<Rightarrow> DownloadId \<Rightarrow> DownloadQueueItem \<Rightarrow> TrackedDownloadService \<Rightarrow>
   'ev track_effect list \<times> TrackedDownloadService" where
  "hold_password_retry env i item sv =
     (let id' = tracked_download_id_for_item item;
          (td, stub) = (case map_of (sv_cache sv) i of
                  Some td \<Rightarrow> (td, None) | None \<Rightarrow> build_new_tracked_download (tk_titles env) i id' item)
      in (stub_effect stub, sv\<lparr>sv_cache := AList.update i (hold_row td) (sv_cache sv),
            sv_current_download_for_id := (sv_current_download_for_id sv)(id' \<mapsto> i),
            sv_last_seen_at := (sv_last_seen_at sv)(i \<mapsto> tk_now env)\<rparr>))"

definition reconcile_password_retry_holds ::
  "'e title_env \<Rightarrow> (DownloadId \<Rightarrow> 'e + PasswordRetryObservation option) \<Rightarrow> TrackedDownloadService \<Rightarrow> TrackedDownloadService" where
  "reconcile_password_retry_holds env retry sv =
     foldl (\<lambda>sv i.
         case (retry i, map_of (sv_cache sv) i) of
           (Inr None, Some held) \<Rightarrow>
             sv\<lparr>sv_cache := AList.update i (fst (build_new_tracked_download env i (td_id held) (td_client_item held))) (sv_cache sv)\<rparr>
         | _ \<Rightarrow> sv)
       sv (map fst (filter (\<lambda>(i, td). awaits_password_retry td) (sv_cache sv)))"

definition job_of_resolution :: "('e, 'ev) track_env \<Rightarrow> DownloadId option" where
  "job_of_resolution env =
     (case tk_resolution env of
        Resolved i \<Rightarrow> Some i
      | Conflict \<Rightarrow> None
      | BindingAlreadyEnded \<Rightarrow> None
      | Unavailable \<Rightarrow> (case tk_active_binding env of Inr found \<Rightarrow> found | Inl _ \<Rightarrow> None))"

text \<open>
  The password-retry step: the item the rest of the call works on, or \<open>None\<close> when the call ends.
\<close>

definition awaited :: "DownloadId \<Rightarrow> TrackedDownloadService \<Rightarrow> bool" where
  "awaited i sv = (case map_of (sv_cache sv) i of Some td \<Rightarrow> awaits_password_retry td | None \<Rightarrow> False)"

definition retry_step ::
  "('e, 'ev) track_env \<Rightarrow> DownloadId \<Rightarrow> DownloadQueueItem \<Rightarrow> TrackedDownloadService \<Rightarrow>
   DownloadQueueItem option \<times> 'ev track_effect list \<times> TrackedDownloadService" where
  "retry_step env i item sv =
     (case tk_retry env i of
        Inl _ \<Rightarrow> (None, [], sv)
      | Inr None \<Rightarrow> (Some item, [], if awaited i sv then stop_tracking_download i sv else sv)
      | Inr (Some pending) \<Rightarrow>
          (case tk_observe env (pr_source pending) of
             Inr (Present fresh) \<Rightarrow>
               if queue_item_source_identity fresh \<noteq> pr_source pending \<or> \<not> tk_confirm env pending (qi_state fresh)
               then (None, hold_password_retry env i item sv)
               else (Some fresh, [],
                     if \<not> pr_confirmed pending \<or> awaited i sv then stop_tracking_download i sv else sv)
           | _ \<Rightarrow> (None, hold_password_retry env i item sv)))"

definition owns_missing_claim :: "('e, 'ev) track_env \<Rightarrow> DownloadId \<Rightarrow> AcquisitionScopeState \<Rightarrow> string option" where
  "owns_missing_claim env i row =
     (case ledger_grabbed_release row of
        None \<Rightarrow> None
      | Some raw \<Rightarrow>
          if ledger_status row = AS_Wanted \<and>
             (case tk_json env raw of
                Some (V_Object fields') \<Rightarrow> map_of fields' ''missing_download_id'' = Some (V_String i)
              | _ \<Rightarrow> False)
          then Some raw else None)"

definition recovery_scopes ::
  "('e, 'ev) track_env \<Rightarrow> DownloadId \<Rightarrow> AcquisitionScopeState list \<Rightarrow> ClientPresenceScopeUpdate list" where
  "recovery_scopes env i rows =
     List.map_filter (\<lambda>row. map_option
       (\<lambda>raw. \<lparr>su_previous = row, su_status = AS_Grabbed, su_grabbed_release = raw\<rparr>) (owns_missing_claim env i row)) rows"

definition recovery_transition ::
  "('e, 'ev) track_env \<Rightarrow> DownloadId \<Rightarrow> DownloadQueueItem \<Rightarrow> AcquisitionScopeState list \<Rightarrow> ClientPresenceTransition" where
  "recovery_transition env i item rows =
     \<lparr>tr_download_id = i, tr_source = queue_item_source_identity item, tr_identity = observed_queue_item_identity item,
      tr_expected_state = Some ''missing'', tr_state = TD_Downloading, tr_reason = None, tr_detail = None,
      tr_scopes = recovery_scopes env i rows\<rparr>"

text \<open>
  The recovery of a missing download: the effects it issued, and whether it went through. Every
  early \<open>return None\<close> of the code is a \<open>False\<close>.
\<close>

definition recover_missing ::
  "('e, 'ev) track_env \<Rightarrow> DownloadId \<Rightarrow> DownloadQueueItem \<Rightarrow> 'ev track_effect list \<times> bool" where
  "recover_missing env i item =
     (case tk_submission env i (queue_item_source_identity item) of
        None \<Rightarrow> ([], False)
      | Some sub \<Rightarrow>
          if tk_state_guarded env i \<noteq> Some ''missing'' then ([], False)
          else (case tk_missing_event env i of
             None \<Rightarrow> ([], False)
           | Some ev \<Rightarrow>
               if \<not> tk_append env ev then ([AppendEvent ev], False)
               else (case tk_scopes env (sub_title_id sub) of
                  Inl _ \<Rightarrow> ([AppendEvent ev], False)
                | Inr rows \<Rightarrow>
                    (let t = recovery_transition env i item rows
                     in ([AppendEvent ev, Transition t], tk_transition env t)))))"

definition refresh_item :: "DownloadQueueItem \<Rightarrow> TrackedDownload \<Rightarrow> TrackedDownload" where
  "refresh_item item td =
     (let td = (if td_state td = TD_Downloading then td\<lparr>td_status := TS_Ok, td_status_messages := []\<rparr> else td);
          item = (case qi_seeding item of None \<Rightarrow> item\<lparr>qi_seeding := qi_seeding (td_client_item td)\<rparr> | Some _ \<Rightarrow> item)
      in td\<lparr>td_client_item := item, td_is_trackable := True\<rparr>)"

definition observe_item ::
  "('e, 'ev) track_env \<Rightarrow> DownloadId \<Rightarrow> DownloadQueueItem \<Rightarrow> TrackedDownloadService \<Rightarrow>
   TrackOutcome \<times> 'ev track_effect list \<times> TrackedDownloadService" where
  "observe_item env i item sv =
     (case map_of (sv_cache sv) i of
        Some existing \<Rightarrow>
          (let dirty = (sv_resolved_generation sv i \<noteq> Some (tk_generation env));
               again = should_reresolve_title (tl_title_signal (tk_titles env)) existing item dirty;
               td = refresh_item item existing;
               (td, stub) = (if again then resolve_title (tk_titles env) td else (td, None))
           in (\<lparr>to_download_id = i, newly_tracked = False\<rparr>, stub_effect stub,
               sv\<lparr>sv_cache := AList.update i td (sv_cache sv),
                  sv_resolved_generation :=
                    (if again then (sv_resolved_generation sv)(i \<mapsto> tk_generation env) else sv_resolved_generation sv)\<rparr>))
      | None \<Rightarrow>
          (let (td, stub) = build_new_tracked_download (tk_titles env) i (tracked_download_id_for_item item) item
           in (\<lparr>to_download_id = i, newly_tracked = True\<rparr>, stub_effect stub,
               prune_cache_with_limits (tk_limits env)
                 (sv\<lparr>sv_cache := AList.update i td (sv_cache sv),
                     sv_resolved_generation := (sv_resolved_generation sv)(i \<mapsto> tk_generation env)\<rparr>))))"

definition note_sighting ::
  "('e, 'ev) track_env \<Rightarrow> DownloadId \<Rightarrow> DownloadQueueItem \<Rightarrow> TrackedDownloadService \<Rightarrow> TrackedDownloadService" where
  "note_sighting env i item sv =
     sv\<lparr>sv_current_download_for_id := (sv_current_download_for_id sv)(tracked_download_id_for_item item \<mapsto> i),
        sv_last_seen_at := (sv_last_seen_at sv)(i \<mapsto> tk_now env),
        sv_warning_since := (if qi_state item \<noteq> DQ_Warning then (sv_warning_since sv)(i := None) else sv_warning_since sv)\<rparr>"

definition track ::
  "('e, 'ev) track_env \<Rightarrow> DownloadQueueItem \<Rightarrow> TrackedDownloadService \<Rightarrow>
   TrackOutcome option \<times> 'ev track_effect list \<times> TrackedDownloadService" where
  "track env item sv =
     (case job_of_resolution env of
        None \<Rightarrow> (None, [], sv)
      | Some i \<Rightarrow>
          (case retry_step env i item sv of
             (None, effects, sv) \<Rightarrow> (None, effects, sv)
           | (Some item, _, sv) \<Rightarrow>
               (let sv = note_sighting env i item sv
                in case tk_state env i of
                     Inl _ \<Rightarrow> (None, [], sv)
                   | Inr durable \<Rightarrow>
                       if durable = Some ''missing'' then
                         (case recover_missing env i item of
                            (effects, False) \<Rightarrow> (None, effects, sv)
                          | (effects, True) \<Rightarrow>
                              (let (outcome, stubs, sv) = observe_item env i item
                                     (modify_row i (\<lambda>td. td\<lparr>td_state := TD_Downloading\<rparr>) sv)
                               in (Some outcome, effects @ stubs, sv)))
                       else (let (outcome, stubs, sv) = observe_item env i item sv in (Some outcome, stubs, sv)))))"

end
