(* ===== verification/Tracked_Invariant.thy ===== *)
theory Tracked_Invariant
  imports Tracked_Poll
begin

text \<open>
  What holds of the tracked-download service across sequences of its operations: the cache stays
  keyed by the rows' own canonical ids, a lookup does not depend on the order of the hash map, work
  in progress survives every snapshot and every prune, the cache stays within its bound, and a
  warning fails a download only after it has stood for its whole timeout.
\<close>

section \<open>Rows and their keys\<close>

definition keyed :: "TrackedDownloadService \<Rightarrow> bool" where
  "keyed sv \<longleftrightarrow> distinct (map fst (sv_cache sv))"

definition service_ok :: "TrackedDownloadService \<Rightarrow> bool" where
  "service_ok sv \<longleftrightarrow> keyed sv \<and> list_all (\<lambda>(i, td). td_download_id td = i) (sv_cache sv)"

named_theorems row_id \<open>operations on a row that keep its canonical id\<close>

lemma row_id_simple [row_id]:
  "td_download_id (td_warn text td) = td_download_id td"
  "td_download_id (td_warn_kind kind text td) = td_download_id td"
  "td_download_id (td_clear_warnings td) = td_download_id td"
  "td_download_id (td_fail td) = td_download_id td"
  "td_download_id (merge_background_work_state_from td finished) = td_download_id td"
  "td_download_id (reset_for_import_retry td) = td_download_id td"
  "td_download_id (warning_timeout_row td) = td_download_id td"
  "td_download_id (adopt_submission sub td) = td_download_id td"
  "td_download_id (set_import_blocked_status detail td) = td_download_id td"
  "td_download_id (restore_flags why td) = td_download_id td"
  "td_download_id (hold_row td) = td_download_id td"
  "td_download_id (refresh_item item td) = td_download_id td"
  "td_download_id (fresh_row i id' item) = i"
  "td_download_id (warn_download_not_grabbed td) = td_download_id td"
  by (simp_all add: td_warn_def td_warn_kind_def td_clear_warnings_def td_fail_def merge_background_work_state_from_def
      reset_for_import_retry_def warning_timeout_row_def adopt_submission_def set_import_blocked_status_def
      restore_flags_def hold_row_def refresh_item_def fresh_row_def warn_download_not_grabbed_def Let_def)

lemma row_id_failed [row_id]:
  "td_download_id (failed_check td) = td_download_id td"
  "td_download_id (fst (settle_failure outcome td)) = td_download_id td"
  "td_download_id (fst (process_failed fenv td)) = td_download_id td"
  by (simp_all add: failed_check_def settle_failure_def process_failed_def row_id split: option.split)

lemma row_id_restart [row_id]:
  "td_download_id (restore_row why detail state td) = td_download_id td"
  "td_download_id (restore_from_projection env td) = td_download_id td"
  "td_download_id (reconstruct_state env td) = td_download_id td"
  by (simp_all add: restore_row_def restore_from_projection_def reconstruct_state_def row_id Let_def split: option.split)

lemma row_id_titles [row_id]:
  "td_download_id (match_by_name tenv td) = td_download_id td"
  "td_download_id (fst (resolve_title tenv td)) = td_download_id td"
  "td_download_id (fst (build_new_tracked_download tenv i id' item)) = i"
  by (simp_all add: match_by_name_def resolve_title_def build_new_tracked_download_def row_id Let_def
      split: option.split prod.split)

lemma set_alist_update: "set (AList.update k v al) \<subseteq> insert (k, v) (set al)"
  by (induction al) auto

lemma service_ok_cong: "sv_cache sv = sv_cache sv' \<Longrightarrow> service_ok sv = service_ok sv'"
  by (simp add: service_ok_def keyed_def)

lemma service_ok_update:
  assumes "service_ok sv" "td_download_id td = i"
  shows "service_ok (sv\<lparr>sv_cache := AList.update i td (sv_cache sv)\<rparr>)"
  using assms set_alist_update [of i td "sv_cache sv"]
  by (auto simp: service_ok_def keyed_def list_all_iff distinct_update)

lemma service_ok_subset:
  assumes "service_ok sv" "set (sv_cache sv') \<subseteq> set (sv_cache sv)" "keyed sv'"
  shows "service_ok sv'"
  using assms by (auto simp: service_ok_def list_all_iff)

lemma service_ok_row: "service_ok sv \<Longrightarrow> map_of (sv_cache sv) i = Some td \<Longrightarrow> td_download_id td = i"
  by (auto simp: service_ok_def list_all_iff dest: map_of_SomeD)

lemma service_ok_modify:
  assumes "service_ok sv" "\<And>td. td_download_id (f td) = td_download_id td"
  shows "service_ok (modify_row i f sv)"
  using assms service_ok_row [OF assms(1)]
  by (auto simp: modify_row_def intro!: service_ok_update split: option.split)

section \<open>Pruning\<close>

lemma distinct_deletes: "distinct (map fst al) \<Longrightarrow> distinct (map fst (foldl (\<lambda>c i. AList.delete i c) al is))"
  by (induction "is" arbitrary: al) (auto simp: distinct_delete)

lemma deletes_filter: "foldl (\<lambda>c i. AList.delete i c) al is = filter (\<lambda>(k, _). k \<notin> set is) al"
  by (induction "is" arbitrary: al) (auto simp: AList.delete_eq filter_filter intro: filter_cong)

lemma set_eviction_order:
  "set (eviction_order limits sv cache) =
     fst ` set (filter (\<lambda>(_, td). tracked_download_can_be_evicted_for_cache_pressure td) cache)"
  by (auto simp: eviction_order_def image_iff split: prod.splits)

lemma length_eviction_order:
  "length (eviction_order limits sv cache) =
     length (filter (\<lambda>(_, td). tracked_download_can_be_evicted_for_cache_pressure td) cache)"
  by (simp add: eviction_order_def)

lemma evict_filter:
  "evict limits sv cache =
     filter (\<lambda>(k, _). k \<notin> set (take (length cache - max_entries limits) (eviction_order limits sv cache))) cache"
  by (simp add: evict_def deletes_filter)

lemma prune_subset: "set (sv_cache (prune_cache_with_limits limits sv)) \<subseteq> set (sv_cache sv)"
  by (auto simp: prune_cache_with_limits_def Let_def evict_filter)

lemma prune_keyed: "keyed sv \<Longrightarrow> keyed (prune_cache_with_limits limits sv)"
  by (auto simp: keyed_def prune_cache_with_limits_def Let_def evict_filter distinct_map_filter)

lemma prune_ok: "service_ok sv \<Longrightarrow> service_ok (prune_cache_with_limits limits sv)"
  by (rule service_ok_subset [OF _ prune_subset prune_keyed]) (auto simp: service_ok_def)

definition seen_or_cutoff :: "prune_limits \<Rightarrow> TrackedDownloadService \<Rightarrow> DownloadId \<Rightarrow> datetime" where
  "seen_or_cutoff limits sv i = (case sv_last_seen_at sv i of Some t \<Rightarrow> t | None \<Rightarrow> stale_cutoff limits)"

abbreviation ranked_candidates ::
  "prune_limits \<Rightarrow> TrackedDownloadService \<Rightarrow> (DownloadId \<times> TrackedDownload) list \<Rightarrow> (datetime \<times> DownloadId) list" where
  "ranked_candidates limits sv cache \<equiv>
     map (\<lambda>(i, _). (seen_or_cutoff limits sv i, i))
       (filter (\<lambda>(_, td). tracked_download_can_be_evicted_for_cache_pressure td) cache)"

lemma eviction_order_ranked: "eviction_order limits sv cache = map snd (sort_key fst (ranked_candidates limits sv cache))"
  by (simp add: eviction_order_def seen_or_cutoff_def)

lemma distinct_map_sort: "distinct (map f xs) \<Longrightarrow> distinct (map f (sort_key g xs))"
  by (simp add: distinct_map)

lemma distinct_eviction_order:
  assumes "distinct (map fst cache)"
  shows "distinct (eviction_order limits sv cache)"
proof -
  have "map snd (ranked_candidates limits sv cache) =
      map fst (filter (\<lambda>(_, td). tracked_download_can_be_evicted_for_cache_pressure td) cache)"
    by (simp add: comp_def case_prod_beta)
  then have "distinct (map snd (ranked_candidates limits sv cache))" using assms by (simp only: distinct_map_filter)
  then show ?thesis unfolding eviction_order_ranked by (rule distinct_map_sort)
qed

lemma eviction_order_sorted: "sorted (map (seen_or_cutoff limits sv) (eviction_order limits sv cache))"
proof -
  define ps where "ps = sort_key fst (ranked_candidates limits sv cache)"
  have "\<forall>p \<in> set ps. seen_or_cutoff limits sv (snd p) = fst p" by (auto simp: ps_def)
  then have "map (seen_or_cutoff limits sv) (map snd ps) = map fst ps" by simp
  moreover have "sorted (map fst ps)" by (simp add: ps_def)
  ultimately show ?thesis by (simp only: ps_def eviction_order_ranked)
qed

lemma sorted_take_le:
  assumes "sorted (map f xs)" "x \<in> set (take n xs)" "y \<in> set xs" "y \<notin> set (take n xs)"
  shows "f x \<le> f y"
proof -
  have "y \<in> set (drop n xs)" using assms(3,4) by (metis append_take_drop_id Un_iff set_append)
  moreover have "sorted (map f (take n xs) @ map f (drop n xs))" using assms(1) by (simp flip: map_append)
  ultimately show ?thesis using assms(2) by (auto simp: sorted_append)
qed

lemma length_removed_keys:
  assumes "distinct (map fst al)" "distinct ks" "set ks \<subseteq> fst ` set al"
  shows "length (filter (\<lambda>(k, _). k \<notin> set ks) al) + length ks = length al"
proof -
  have "card (set ks) = length (filter (\<lambda>(k, _). k \<in> set ks) al)"
  proof -
    have "set ks = set (map fst (filter (\<lambda>(k, _). k \<in> set ks) al))" using assms(3) by force
    moreover have "distinct (map fst (filter (\<lambda>(k, _). k \<in> set ks) al))" using assms(1) by (rule distinct_map_filter)
    ultimately show ?thesis by (metis distinct_card length_map)
  qed
  moreover have "length (filter (\<lambda>(k, _). k \<in> set ks) al) + length (filter (\<lambda>(k, _). k \<notin> set ks) al) = length al"
    using sum_length_filter_compl [of "\<lambda>(k, _). k \<in> set ks" al] by (simp add: case_prod_unfold)
  ultimately show ?thesis using assms(2) by (simp add: distinct_card)
qed

lemma evict_bound:
  assumes "distinct (map fst cache)" "max_entries limits < length (evict limits sv cache)"
  shows "\<forall>row \<in> set (evict limits sv cache). \<not> tracked_download_can_be_evicted_for_cache_pressure (snd row)"
proof -
  define order where "order = eviction_order limits sv cache"
  define n where "n = length cache - max_entries limits"
  have dist: "distinct order" using assms(1) by (simp add: order_def distinct_eviction_order)
  have "set order \<subseteq> fst ` set cache" by (auto simp: order_def set_eviction_order)
  then have "set (take n order) \<subseteq> fst ` set cache" using set_take_subset by (rule subset_trans [rotated])
  then have "length (evict limits sv cache) + length (take n order) = length cache"
    using length_removed_keys [OF assms(1), of "take n order"] dist by (simp add: evict_filter order_def n_def)
  then have "length order < n" using assms(2) by (simp add: n_def min_def split: if_splits)
  then have "take n order = order" by simp
  then have "evict limits sv cache = filter (\<lambda>(k, _). k \<notin> set order) cache" by (simp add: evict_filter order_def n_def)
  then show ?thesis by (auto simp: order_def set_eviction_order image_iff)
qed

lemma evict_oldest:
  assumes dist: "distinct (map fst cache)" and row: "row \<in> set cache" "row \<notin> set (evict limits sv cache)"
  shows "tracked_download_can_be_evicted_for_cache_pressure (snd row) \<and>
    (\<forall>r \<in> set (evict limits sv cache). tracked_download_can_be_evicted_for_cache_pressure (snd r) \<longrightarrow>
       seen_or_cutoff limits sv (fst row) \<le> seen_or_cutoff limits sv (fst r))"
proof (intro conjI ballI impI)
  define order where "order = eviction_order limits sv cache"
  define n where "n = length cache - max_entries limits"
  have taken: "fst row \<in> set (take n order)" using row by (auto simp: evict_filter order_def n_def)
  then have "fst row \<in> set order" by (rule in_set_takeD)
  then show "tracked_download_can_be_evicted_for_cache_pressure (snd row)"
    using row(1) dist by (cases row) (auto simp: order_def set_eviction_order dest: eq_key_imp_eq_value)
  fix r assume "r \<in> set (evict limits sv cache)" "tracked_download_can_be_evicted_for_cache_pressure (snd r)"
  then have "fst r \<notin> set (take n order)" "fst r \<in> set order"
    by (force simp: evict_filter order_def n_def set_eviction_order)+
  then show "seen_or_cutoff limits sv (fst row) \<le> seen_or_cutoff limits sv (fst r)"
    using sorted_take_le [OF eviction_order_sorted] taken unfolding order_def by blast
qed

text \<open>
  C25. Pruning the cache of tracked downloads. What is left of the cache is a part of it, in which
  the configured number of entries is exceeded only by rows that may not be evicted; a row that is
  gone was either untrackable and not seen since the cutoff, or one the rules allow to evict; among
  the rows evicted for space none was seen later than an evictable row that stays; and every side
  table is cut back to the rows that are left.
\<close>
theorem prune_bounds_cache:
  assumes "keyed sv"
  shows "let sv' = prune_cache_with_limits limits sv; left = set (sv_cache sv')
    in left \<subseteq> set (sv_cache sv) \<and>
       (max_entries limits < length (sv_cache sv') \<longrightarrow>
          (\<forall>row \<in> left. \<not> tracked_download_can_be_evicted_for_cache_pressure (snd row))) \<and>
       (\<forall>row \<in> set (sv_cache sv) - left.
          \<not> keep_fresh limits sv row \<or>
          tracked_download_can_be_evicted_for_cache_pressure (snd row) \<and>
          (\<forall>r \<in> left. tracked_download_can_be_evicted_for_cache_pressure (snd r) \<longrightarrow>
             seen_or_cutoff limits sv (fst row) \<le> seen_or_cutoff limits sv (fst r))) \<and>
       dom (sv_last_seen_at sv') \<union> dom (sv_warning_since sv') \<union> dom (sv_resolved_generation sv') \<union>
         ran (sv_current_download_for_id sv') \<subseteq> fst ` left"
proof -
  define cache where "cache = filter (keep_fresh limits sv) (sv_cache sv)"
  define sv' where "sv' = prune_cache_with_limits limits sv"
  have left: "sv_cache sv' = evict limits sv cache"
    by (simp add: sv'_def cache_def prune_cache_with_limits_def Let_def)
  have dist: "distinct (map fst cache)" using assms by (simp add: keyed_def cache_def distinct_map_filter)
  have tables: "dom (sv_last_seen_at sv') \<union> dom (sv_warning_since sv') \<union> dom (sv_resolved_generation sv') \<union>
      ran (sv_current_download_for_id sv') \<subseteq> fst ` set (sv_cache sv')"
    by (auto simp: sv'_def prune_cache_with_limits_def Let_def retain_map_def ran_def map_of_eq_None_iff
        split: option.splits if_splits)
  have part: "set (sv_cache sv') \<subseteq> set (sv_cache sv)" unfolding sv'_def by (rule prune_subset)
  have bound: "max_entries limits < length (sv_cache sv') \<longrightarrow>
      (\<forall>row \<in> set (sv_cache sv'). \<not> tracked_download_can_be_evicted_for_cache_pressure (snd row))"
    using evict_bound [OF dist] by (simp only: left) blast
  have gone: "\<forall>row \<in> set (sv_cache sv) - set (sv_cache sv').
      \<not> keep_fresh limits sv row \<or>
      tracked_download_can_be_evicted_for_cache_pressure (snd row) \<and>
      (\<forall>r \<in> set (sv_cache sv'). tracked_download_can_be_evicted_for_cache_pressure (snd r) \<longrightarrow>
         seen_or_cutoff limits sv (fst row) \<le> seen_or_cutoff limits sv (fst r))"
  proof
    fix row assume row: "row \<in> set (sv_cache sv) - set (sv_cache sv')"
    show "\<not> keep_fresh limits sv row \<or>
      tracked_download_can_be_evicted_for_cache_pressure (snd row) \<and>
      (\<forall>r \<in> set (sv_cache sv'). tracked_download_can_be_evicted_for_cache_pressure (snd r) \<longrightarrow>
         seen_or_cutoff limits sv (fst row) \<le> seen_or_cutoff limits sv (fst r))"
    proof (cases "keep_fresh limits sv row")
      case True
      with row have "row \<in> set cache" "row \<notin> set (sv_cache sv')" by (simp_all add: cache_def)
      then show ?thesis using evict_oldest [OF dist] by (simp only: left) blast
    qed simp
  qed
  show ?thesis
    unfolding Let_def sv'_def [symmetric] by (intro conjI part bound gone tables)
qed

definition idle_row :: "DownloadId \<Rightarrow> TrackedDownload" where
  "idle_row i = fresh_row i i sample_item"

definition busy_row :: "DownloadId \<Rightarrow> TrackedDownload" where
  "busy_row i = (idle_row i)\<lparr>td_state := TD_Importing\<rparr>"

theorem prune_bounds_cache_witness:
  "let sv = service_new\<lparr>sv_cache := [(''a'', idle_row ''a''), (''b'', busy_row ''b''), (''c'', idle_row ''c'')],
             sv_last_seen_at := [''a'' \<mapsto> 7, ''b'' \<mapsto> 1, ''c'' \<mapsto> 5]\<rparr>;
       sv' = prune_cache_with_limits \<lparr>stale_cutoff = 0, max_entries = 2\<rparr> sv
   in map fst (sv_cache sv') = [''a'', ''b''] \<and>
      (2 < length (sv_cache sv') \<longrightarrow>
         (\<forall>row \<in> set (sv_cache sv'). \<not> tracked_download_can_be_evicted_for_cache_pressure (snd row)))"
proof -
  define sv where "sv = service_new\<lparr>sv_cache := [(''a'', idle_row ''a''), (''b'', busy_row ''b''), (''c'', idle_row ''c'')],
             sv_last_seen_at := [''a'' \<mapsto> 7, ''b'' \<mapsto> 1, ''c'' \<mapsto> 5]\<rparr>"
  have "keyed sv" by (simp add: sv_def keyed_def)
  moreover have "map fst (sv_cache (prune_cache_with_limits \<lparr>stale_cutoff = 0, max_entries = 2\<rparr> sv)) = [''a'', ''b'']"
    unfolding sv_def by code_simp
  ultimately show ?thesis
    using prune_bounds_cache [of sv "\<lparr>stale_cutoff = 0, max_entries = 2\<rparr>"]
    unfolding Let_def sv_def [symmetric] by simp
qed

section \<open>Snapshots\<close>

lemma prune_keeps:
  assumes "keyed sv" "map_of (sv_cache sv) i = Some td" "td_is_trackable td"
    and "\<not> tracked_download_can_be_evicted_for_cache_pressure td"
  shows "map_of (sv_cache (prune_cache_with_limits limits sv)) i = Some td"
proof -
  define cache where "cache = filter (keep_fresh limits sv) (sv_cache sv)"
  have dist: "distinct (map fst cache)" using assms(1) by (simp add: keyed_def cache_def distinct_map_filter)
  have "(i, td) \<in> set cache" using assms(2,3) by (auto simp: cache_def keep_fresh_def dest: map_of_SomeD)
  then have "(i, td) \<in> set (evict limits sv cache)" using evict_oldest [OF dist] assms(4) by fastforce
  moreover have "distinct (map fst (evict limits sv cache))" using dist by (simp add: evict_filter distinct_map_filter)
  ultimately show ?thesis
    by (simp add: prune_cache_with_limits_def Let_def map_of_is_SomeI flip: cache_def)
qed

lemma seen_again_keeps:
  "awaits_password_retry (seen_again td) = awaits_password_retry td"
  "awaiting_completed_path_retry (seen_again td) = awaiting_completed_path_retry td"
  "tracked_download_is_foreign (seen_again td) = tracked_download_is_foreign td"
  "tracked_download_import_is_under_way (seen_again td) = tracked_download_import_is_under_way td"
  by (simp_all add: awaits_password_retry_def awaiting_completed_path_retry_def tracked_download_is_foreign_def
      tracked_download_import_is_under_way_def)

lemma preserve_seen_again: "should_preserve_tracked_download (seen_again td) = should_preserve_tracked_download td"
  by (simp add: should_preserve_tracked_download_def seen_again_keeps)

lemma work_not_evictable:
  "should_preserve_tracked_download td \<Longrightarrow> td_is_trackable td \<Longrightarrow>
   \<not> tracked_download_can_be_evicted_for_cache_pressure td"
  by (auto simp: should_preserve_tracked_download_def tracked_download_can_be_evicted_for_cache_pressure_def
      awaits_password_retry_def awaiting_completed_path_retry_def should_preserve_tracking_def split: if_splits)

lemma sweep_keyed: "keyed sv \<Longrightarrow> keyed (snd (sweep f limits sv))"
  by (auto simp: sweep_def Let_def clear_untracked_warning_clocks_def keyed_def comp_def case_prod_unfold
      intro: prune_keyed [unfolded keyed_def])

text \<open>
  What a sweep may do to a row: it changes no more than the trackable mark and the absence clock,
  never brings a row back, reports exactly the rows it stops tracking, and leaves work in progress
  tracked.
\<close>

locale row_sweep =
  fixes f :: "TrackedDownload \<Rightarrow> bool \<times> TrackedDownload"
  assumes only_marks: "snd (f td) = td\<lparr>td_is_trackable := td_is_trackable (snd (f td)),
      td_snapshot_missing_since := td_snapshot_missing_since (snd (f td))\<rparr>"
    and reported: "fst (f td) \<longleftrightarrow> td_is_trackable td \<and> \<not> td_is_trackable (snd (f td))"
    and not_revived: "td_is_trackable (snd (f td)) \<Longrightarrow> td_is_trackable td"
    and preserved: "should_preserve_tracked_download td \<Longrightarrow> \<not> fst (f td) \<and> snd (f td) \<in> {td, seen_again td}"
begin

lemma keeps_id: "td_download_id (snd (f td)) = td_download_id td"
  using arg_cong [OF only_marks [of td], of td_download_id] by simp

lemma keeps_source: "tracked_source_identity (snd (f td)) = tracked_source_identity td"
  using arg_cong [OF only_marks [of td], of tracked_source_identity] by (simp add: tracked_source_identity_def)

lemma swept_cache:
  "sv_cache (snd (sweep f limits sv)) = sv_cache (prune_cache_with_limits limits
     (clear_untracked_warning_clocks (sv\<lparr>sv_cache := map (\<lambda>(i, td). (i, snd (f td))) (sv_cache sv)\<rparr>)))"
  by (simp add: sweep_def Let_def comp_def case_prod_unfold)

lemma gone_iff:
  "l \<in> set (fst (sweep f limits sv)) \<longleftrightarrow>
     (\<exists>(i, td) \<in> set (sv_cache sv). l = tracked_source_identity td \<and> fst (f td))"
proof -
  have "fst (sweep f limits sv) =
      map (\<lambda>p. tracked_source_identity (snd (f (snd p)))) (filter (\<lambda>p. fst (f (snd p))) (sv_cache sv))"
    by (simp add: sweep_def Let_def filter_map comp_def case_prod_unfold)
  then show ?thesis by (force simp: keeps_source)
qed

lemma swept_ok:
  assumes "service_ok sv"
  shows "service_ok (snd (sweep f limits sv))"
proof -
  have "service_ok (clear_untracked_warning_clocks (sv\<lparr>sv_cache := map (\<lambda>(i, td). (i, snd (f td))) (sv_cache sv)\<rparr>))"
    using assms by (auto simp: clear_untracked_warning_clocks_def service_ok_def keyed_def list_all_iff comp_def
        case_prod_unfold keeps_id)
  then show ?thesis by (simp add: service_ok_cong [OF swept_cache] prune_ok)
qed

lemma work_survives:
  assumes "keyed sv" "get_by_download_id i sv = Some td" "td_is_trackable td" "should_preserve_tracked_download td"
  shows "get_by_download_id i (snd (sweep f limits sv)) \<in> {Some td, Some (seen_again td)}"
proof -
  define sv1 where "sv1 = clear_untracked_warning_clocks (sv\<lparr>sv_cache := map (\<lambda>(i, td). (i, snd (f td))) (sv_cache sv)\<rparr>)"
  have row: "snd (f td) \<in> {td, seen_again td}" using preserved [OF assms(4)] by simp
  have "keyed sv1" using assms(1) by (simp add: sv1_def clear_untracked_warning_clocks_def keyed_def comp_def case_prod_unfold)
  moreover have "map_of (sv_cache sv1) i = Some (snd (f td))"
    using assms(2) by (simp add: sv1_def clear_untracked_warning_clocks_def get_by_download_id_def map_of_map)
  moreover have "td_is_trackable (snd (f td))" "should_preserve_tracked_download (snd (f td))"
    using row assms(3,4) by (auto simp: preserve_seen_again)
  ultimately have "map_of (sv_cache (prune_cache_with_limits limits sv1)) i = Some (snd (f td))"
    by (intro prune_keeps work_not_evictable)
  then show ?thesis using row by (auto simp: get_by_download_id_def swept_cache sv1_def)
qed

end

interpretation all_clients: row_sweep "update_row seen"
  by unfold_locales (auto simp: update_row_def split: if_splits)

interpretation some_clients: row_sweep "update_row_excluding seen excluded authoritative"
  by unfold_locales (auto simp: update_row_excluding_def split: if_splits)

interpretation one_client: row_sweep "update_row_in_scope ch now seen client_id client_type authoritative"
  by unfold_locales (auto simp: update_row_in_scope_def snapshot_absence_exceeds_grace_def split: option.splits if_splits bool.splits)

text \<open>
  C21. A snapshot of one client drops a tracked download exactly when the download belongs to the
  snapshot's scope, its client was authoritative, the snapshot does not list it, no work of Scryer's
  is in progress on it, and it had already been missing for the grace period; a delta drops nothing.
\<close>
theorem scoped_snapshot_drops_iff:
  "l \<in> set (fst (update_trackable_for_scope_for_authoritative_clients ch now seen scope authoritative limits sv)) \<longleftrightarrow>
     (\<exists>client_id client_type i td since.
        scope = AuthoritativeForClient client_id client_type \<and> (i, td) \<in> set (sv_cache sv) \<and>
        l = tracked_source_identity td \<and> td_is_trackable td \<and>
        tracked_matches_snapshot_scope td client_id client_type \<and> \<not> unauthoritative authoritative td \<and>
        td_id td \<notin> seen \<and> \<not> should_preserve_tracked_download td \<and>
        td_snapshot_missing_since td = Some since \<and>
        SNAPSHOT_ABSENCE_PRUNE_GRACE_SECS \<le> ch_num_seconds ch (now - since))"
proof (cases scope)
  case Delta
  then show ?thesis by (simp add: update_trackable_for_scope_for_authoritative_clients_def)
next
  case (AuthoritativeForClient client_id client_type)
  have "fst (update_row_in_scope ch now seen client_id client_type authoritative td) \<longleftrightarrow>
      td_is_trackable td \<and> tracked_matches_snapshot_scope td client_id client_type \<and>
      \<not> unauthoritative authoritative td \<and> td_id td \<notin> seen \<and> \<not> should_preserve_tracked_download td \<and>
      (\<exists>since. td_snapshot_missing_since td = Some since \<and>
         SNAPSHOT_ABSENCE_PRUNE_GRACE_SECS \<le> ch_num_seconds ch (now - since))" for td
    by (auto simp: update_row_in_scope_def snapshot_absence_exceeds_grace_def split: option.splits bool.splits)
  then show ?thesis
    using one_client.gone_iff [of l ch now seen client_id client_type authoritative limits sv]
    by (auto simp: update_trackable_for_scope_for_authoritative_clients_def AuthoritativeForClient)
qed

text \<open>The operations a client snapshot triggers, with every argument they may be given.\<close>

inductive snapshot_step :: "TrackedDownloadService \<Rightarrow> TrackedDownloadService \<Rightarrow> bool" where
  Whole: "snapshot_step sv (snd (update_trackable seen limits sv))"
| Excluding: "snapshot_step sv
    (snd (update_trackable_excluding_client_types_for_authoritative_clients seen excluded authoritative limits sv))"
| Scoped: "snapshot_step sv
    (snd (update_trackable_for_scope_for_authoritative_clients ch now seen scope authoritative limits sv))"
| Pruned: "snapshot_step sv (prune_cache_with_limits limits sv)"

lemma snapshot_step_keyed: "snapshot_step sv sv' \<Longrightarrow> keyed sv \<Longrightarrow> keyed sv'"
proof (induction rule: snapshot_step.induct)
  case (Scoped sv ch now seen scope authoritative limits)
  then show ?case
    by (cases scope) (auto simp: update_trackable_for_scope_for_authoritative_clients_def sweep_keyed)
qed (auto simp: update_trackable_def update_trackable_excluding_client_types_for_authoritative_clients_def
    sweep_keyed prune_keyed)

lemma snapshot_step_work:
  assumes "snapshot_step sv sv'" "keyed sv" "get_by_download_id i sv = Some td" "td_is_trackable td"
    "should_preserve_tracked_download td"
  shows "get_by_download_id i sv' \<in> {Some td, Some (seen_again td)}"
  using assms
proof cases
  case (Whole seen limits)
  then show ?thesis unfolding update_trackable_def using assms(2-) by (simp only: all_clients.work_survives)
next
  case (Excluding seen excluded authoritative limits)
  then show ?thesis
    unfolding update_trackable_excluding_client_types_for_authoritative_clients_def
    using assms(2-) by (simp only: some_clients.work_survives)
next
  case (Scoped ch now seen scope authoritative limits)
  then show ?thesis
    using assms(2-) one_client.work_survives
    by (cases scope) (simp_all add: update_trackable_for_scope_for_authoritative_clients_def)
next
  case (Pruned limits)
  then show ?thesis
    using assms(2-) work_not_evictable [of td] by (simp add: get_by_download_id_def prune_keeps)
qed

text \<open>
  C20. No sequence of snapshots loses work in progress. A tracked download whose import or failure
  handling is under way (or that awaits a password retry, or the path of its completed files) is
  still tracked after any number of snapshots and prunes, whatever they list, whichever clients
  answered and however full the cache was; of the row at most the absence clock is reset.
\<close>
theorem work_survives_snapshots:
  assumes "snapshot_step\<^sup>*\<^sup>* sv sv'" "keyed sv" "get_by_download_id i sv = Some td" "td_is_trackable td"
    "should_preserve_tracked_download td"
  shows "get_by_download_id i sv' \<in> {Some td, Some (seen_again td)}"
proof -
  have "keyed sv' \<and> get_by_download_id i sv' \<in> {Some td, Some (seen_again td)}"
    using assms(1)
  proof (induction rule: rtranclp_induct)
    case base
    then show ?case using assms by simp
  next
    case (step sv1 sv2)
    then show ?case
      using snapshot_step_keyed snapshot_step_work [of sv1 sv2 i] assms(4,5) by (auto simp: preserve_seen_again)
  qed
  then show ?thesis by simp
qed

theorem work_survives_snapshots_witness:
  "get_by_download_id ''b'' (prune_cache_with_limits \<lparr>stale_cutoff = 9, max_entries = 0\<rparr>
     (snd (update_trackable {} \<lparr>stale_cutoff = 9, max_entries = 0\<rparr> (sample_service (busy_row ''b'')))))
   \<in> {Some (busy_row ''b''), Some (seen_again (busy_row ''b''))}"
proof (rule work_survives_snapshots [where sv = "sample_service (busy_row ''b'')"])
  show "snapshot_step\<^sup>*\<^sup>* (sample_service (busy_row ''b''))
      (prune_cache_with_limits \<lparr>stale_cutoff = 9, max_entries = 0\<rparr>
        (snd (update_trackable {} \<lparr>stale_cutoff = 9, max_entries = 0\<rparr> (sample_service (busy_row ''b'')))))"
    by (meson Whole Pruned r_into_rtranclp rtranclp.rtrancl_into_rtrancl)
  show "keyed (sample_service (busy_row ''b''))" by (simp add: keyed_def sample_service_def)
  show "get_by_download_id ''b'' (sample_service (busy_row ''b'')) = Some (busy_row ''b'')"
    by (simp add: get_by_download_id_def sample_service_def busy_row_def idle_row_def fresh_row_def)
  show "td_is_trackable (busy_row ''b'')" "should_preserve_tracked_download (busy_row ''b'')"
    by code_simp+
qed

section \<open>Lookups\<close>

lemma cmp_cached_conv:
  "cmp_cached sv requested a b =
     then_with (cmp (fst (cached_key sv requested a)) (fst (cached_key sv requested b)))
       (then_with (cmp (fst (snd (cached_key sv requested a))) (fst (snd (cached_key sv requested b))))
         (then_with (cmp_option (snd (snd (cached_key sv requested a))) (snd (snd (cached_key sv requested b))))
           (cmp (fst b) (fst a))))"
  by (simp add: cmp_cached_def cached_key_def)

interpretation cached: comparator "cmp_cached sv requested"
  unfolding cmp_cached_conv [abs_def]
  by (intro comparator_then comparator_on [where f = "\<lambda>a. fst (cached_key sv requested a)"]
      comparator_on [where f = "\<lambda>a. fst (snd (cached_key sv requested a))"]
      comparator_on [where c = cmp_option and f = "\<lambda>a. snd (snd (cached_key sv requested a))"]
      comparator_flip [where c = "\<lambda>a b. cmp (fst a) (fst b)"] comparator_on [where f = fst]
      linorder_cmp.comparator_axioms option_cmp.comparator_axioms)

context comparator
begin

lemma foldl_max_by:
  "foldl (\<lambda>best y. if compare best y = Greater then best else y) x xs \<in> insert x (set xs) \<and>
   (\<forall>y \<in> insert x (set xs). le y (foldl (\<lambda>best y. if compare best y = Greater then best else y) x xs))"
proof (induction xs arbitrary: x)
  case Nil
  then show ?case by (simp add: refl)
next
  case (Cons z zs)
  define w where "w = (if compare x z = Greater then x else z)"
  define r where "r = foldl (\<lambda>best y. if compare best y = Greater then best else y) w zs"
  have w: "le x w" "le z w" "w \<in> {x, z}" using refl greater_le by (auto simp: w_def)
  have r: "r \<in> insert w (set zs)" "\<forall>y \<in> insert w (set zs). le y r" using Cons.IH [of w] by (simp_all add: r_def)
  then have "le x r" "le z r" using w trans by blast+
  with r w show ?case by (auto simp: r_def w_def)
qed

lemma max_by_Some: "max_by compare xs = Some m \<Longrightarrow> m \<in> set xs \<and> (\<forall>y \<in> set xs. le y m)"
  using foldl_max_by by (cases xs) fastforce+

lemma max_by_perm:
  assumes "set xs = set ys" "\<And>x y. x \<in> set xs \<Longrightarrow> y \<in> set xs \<Longrightarrow> compare x y = Equal \<Longrightarrow> x = y"
  shows "max_by compare xs = max_by compare ys"
proof (cases "max_by compare xs"; cases "max_by compare ys")
  fix a b assume "max_by compare xs = Some a" "max_by compare ys = Some b"
  then have "a \<in> set xs" "b \<in> set xs" "le a b" "le b a" using assms(1) by (auto dest!: max_by_Some)
  with assms(2) \<open>max_by compare xs = Some a\<close> \<open>max_by compare ys = Some b\<close> show ?thesis using le_antisym by metis
qed (use assms(1) in \<open>cases xs; cases ys; simp\<close>)+

end

text \<open>
  A row named by a source identifier or a queue id is found whatever the order of the hash map:
  two services whose caches hold the same rows in any two orders (and whose side tables agree)
  resolve every request to the same canonical download.
\<close>
theorem lookup_ignores_hash_order:
  assumes "keyed sv" "mset (sv_cache sv') = mset (sv_cache sv)"
    and "sv' = sv\<lparr>sv_cache := sv_cache sv'\<rparr>"
  shows "resolve_cached_download_id requested sv' = resolve_cached_download_id requested sv"
proof -
  define P where "P = (\<lambda>(i :: DownloadId, td). td_id td = requested \<or> tracked_download_matches_source_id td requested)"
  have same: "cmp_cached sv' requested = cmp_cached sv requested"
    by (subst assms(3)) (simp add: cmp_cached_def cached_key_def fun_eq_iff)
  have rows: "set (filter P (sv_cache sv')) = set (filter P (sv_cache sv))" using assms(2) by (metis mset_filter set_mset_mset)
  have "a = b" if "a \<in> set (filter P (sv_cache sv'))" "b \<in> set (filter P (sv_cache sv'))" "cmp_cached sv requested a b = Equal" for a b
  proof -
    have "fst a = fst b" using that(3) by (auto simp: cmp_cached_conv then_with_iff)
    moreover have "a \<in> set (sv_cache sv)" "b \<in> set (sv_cache sv)" using that(1,2) rows by auto
    ultimately show ?thesis using assms(1) by (metis eq_key_imp_eq_value keyed_def prod.collapse)
  qed
  then have "max_by (cmp_cached sv requested) (filter P (sv_cache sv')) = max_by (cmp_cached sv requested) (filter P (sv_cache sv))"
    by (intro cached.max_by_perm rows)
  then show ?thesis by (simp add: resolve_cached_download_id_def same P_def)
qed

theorem lookup_ignores_hash_order_witness:
  "let older = idle_row ''a''; newer = (idle_row ''b'')\<lparr>td_id := ''a''\<rparr>;
       sv = service_new\<lparr>sv_cache := [(''a'', older), (''b'', newer)], sv_last_seen_at := [''a'' \<mapsto> 1, ''b'' \<mapsto> 2]\<rparr>;
       sv' = service_new\<lparr>sv_cache := [(''b'', newer), (''a'', older)], sv_last_seen_at := [''a'' \<mapsto> 1, ''b'' \<mapsto> 2]\<rparr>
   in resolve_cached_download_id ''a'' sv' = resolve_cached_download_id ''a'' sv \<and>
      resolve_cached_download_id ''a'' sv = Some ''b''"
proof -
  define older where "older = idle_row ''a''"
  define newer where "newer = (idle_row ''b'')\<lparr>td_id := ''a''\<rparr>"
  define sv where "sv = service_new\<lparr>sv_cache := [(''a'', older), (''b'', newer)], sv_last_seen_at := [''a'' \<mapsto> 1, ''b'' \<mapsto> 2]\<rparr>"
  define sv' where "sv' = service_new\<lparr>sv_cache := [(''b'', newer), (''a'', older)], sv_last_seen_at := [''a'' \<mapsto> 1, ''b'' \<mapsto> 2]\<rparr>"
  have "resolve_cached_download_id ''a'' sv' = resolve_cached_download_id ''a'' sv"
    by (rule lookup_ignores_hash_order) (simp_all add: sv_def sv'_def keyed_def service_new_def add_mset_commute)
  moreover have "resolve_cached_download_id ''a'' sv = Some ''b''"
    unfolding sv_def older_def newer_def by code_simp
  ultimately show ?thesis by (simp add: sv_def sv'_def older_def newer_def)
qed

section \<open>The service over time\<close>

text \<open>
  A step of the service is one of its operations with any arguments; the label says what the step
  meant for the warning clocks. The errors of the stores and the payloads of the events play no
  part and are texts here. A rewrite of a row through \<open>get_mut\<close> is any function that keeps the
  canonical id, as those of \<open>row_id\<close> do.
\<close>

datatype clock_event = Sighted DownloadId DownloadQueueState | Checked DownloadId datetime bool | Silent

definition sighting :: "('e, 'ev) track_env \<Rightarrow> DownloadQueueItem \<Rightarrow> TrackedDownloadService \<Rightarrow> clock_event" where
  "sighting env item sv =
     (case job_of_resolution env of
        None \<Rightarrow> Silent
      | Some i \<Rightarrow> (case fst (retry_step env i item sv) of None \<Rightarrow> Silent | Some fresh \<Rightarrow> Sighted i (qi_state fresh)))"

definition check_event :: "DownloadId \<Rightarrow> datetime \<Rightarrow> bool \<Rightarrow> TrackedDownloadService \<Rightarrow> clock_event" where
  "check_event i now timeout_applies sv =
     (case map_of (sv_cache sv) i of
        None \<Rightarrow> Silent
      | Some td \<Rightarrow> Checked i now (warning_is_actionable td \<and> timeout_applies))"

inductive service_step :: "TrackedDownloadService \<Rightarrow> clock_event \<Rightarrow> TrackedDownloadService \<Rightarrow> bool" where
  Track: "service_step sv (sighting env item sv) (snd (snd (track (env :: (string, string) track_env) item sv)))"
| Check: "service_step sv (check_event i now applies sv) (snd (fail_persistent_warning_for_download i now applies sv))"
| Snapshot: "snapshot_step sv sv' \<Longrightarrow> service_step sv Silent sv'"
| Stop: "service_step sv Silent (stop_tracking_download i sv)"
| StopNamed: "service_step sv Silent (stop_tracking id' sv)"
| Forget: "service_step sv Silent (snd (forget_for_title title is sv))"
| Reassign: "service_step sv Silent (snd (reassign_title from_title to_title facet is sv))"
| Restore: "service_step sv Silent (restore_cleanup_download now td sv)"
| Reconcile: "service_step sv Silent (reconcile_password_retry_holds (tenv :: string title_env) retry sv)"
| Rewrite: "(\<And>td. td_download_id (f td) = td_download_id td) \<Longrightarrow> service_step sv Silent (modify_row i f sv)"

text \<open>The events of a run, the newest first.\<close>

inductive history :: "clock_event list \<Rightarrow> TrackedDownloadService \<Rightarrow> bool" where
  Start: "history [] service_new"
| Step: "history h sv \<Longrightarrow> service_step sv e sv' \<Longrightarrow> history (e # h) sv'"

lemma ok_new: "service_ok service_new"
  by (simp add: service_ok_def keyed_def service_new_def)

lemma stop_ok: "service_ok sv \<Longrightarrow> service_ok (stop_tracking_download i sv)"
  by (rule service_ok_subset [where sv = sv])
    (auto simp: service_ok_def keyed_def stop_tracking_download_def distinct_map_filter AList.delete_eq)

lemma foldl_keeps: "(\<And>s x. P s \<Longrightarrow> P (f s x)) \<Longrightarrow> P s \<Longrightarrow> P (foldl f s xs)"
  by (induction xs arbitrary: s) auto

lemma stops_ok: "service_ok sv \<Longrightarrow> service_ok (foldl (\<lambda>sv i. stop_tracking_download i sv) sv is)"
  by (rule foldl_keeps) (simp_all add: stop_ok)

lemma reassign_ok: "service_ok sv \<Longrightarrow> service_ok (snd (reassign_rows from_title to_title facet is sv))"
proof (induction "is" arbitrary: sv)
  case Nil
  then show ?case by simp
next
  case (Cons i "is")
  show ?case
  proof (cases "map_of (sv_cache sv) i")
    case None
    with Cons show ?thesis by simp
  next
    case (Some td)
    define moved where "moved = sv\<lparr>sv_cache := AList.update i (td\<lparr>td_title_id := Some to_title,
      td_facet := (case facet of Some f \<Rightarrow> Some f | None \<Rightarrow> td_facet td)\<rparr>) (sv_cache sv)\<rparr>"
    have "service_ok moved"
      unfolding moved_def using service_ok_row [OF Cons.prems Some] by (intro service_ok_update Cons.prems) simp
    with Some Cons show ?thesis by (simp add: Let_def case_prod_unfold flip: moved_def)
  qed
qed

lemma hold_ok: "service_ok sv \<Longrightarrow> service_ok (snd (hold_password_retry env i item sv))"
proof -
  assume ok: "service_ok sv"
  define td where "td = (case map_of (sv_cache sv) i of Some td \<Rightarrow> td
    | None \<Rightarrow> fst (build_new_tracked_download (tk_titles env) i (tracked_download_id_for_item item) item))"
  have "td_download_id (hold_row td) = i"
    using service_ok_row [OF ok] by (auto simp: td_def row_id split: option.split)
  then have "service_ok (sv\<lparr>sv_cache := AList.update i (hold_row td) (sv_cache sv)\<rparr>)" using ok by (intro service_ok_update)
  moreover have "sv_cache (snd (hold_password_retry env i item sv)) = AList.update i (hold_row td) (sv_cache sv)"
    by (simp add: hold_password_retry_def td_def Let_def case_prod_unfold split: option.split)
  ultimately show ?thesis by (simp add: service_ok_def keyed_def)
qed

lemma retry_step_ok: "service_ok sv \<Longrightarrow> service_ok (snd (snd (retry_step env i item sv)))"
  using hold_ok stop_ok
  by (auto simp: retry_step_def split: sum.split option.split DownloadClientObservation.split)

lemma note_sighting_ok: "service_ok (note_sighting env i item sv) = service_ok sv"
  by (simp add: note_sighting_def service_ok_def keyed_def)

lemma observe_item_ok: "service_ok sv \<Longrightarrow> service_ok (snd (snd (observe_item env i item sv)))"
proof -
  assume ok: "service_ok sv"
  have drop: "service_ok (s\<lparr>sv_cache := c, sv_resolved_generation := g\<rparr>) = service_ok (s\<lparr>sv_cache := c\<rparr>)" for s c g
    by (simp add: service_ok_def keyed_def)
  show ?thesis
    using ok service_ok_row [OF ok]
    by (auto simp: observe_item_def Let_def case_prod_unfold drop row_id intro!: prune_ok service_ok_update split: option.split)
qed

lemma track_ok: "service_ok sv \<Longrightarrow> service_ok (snd (snd (track env item sv)))"
  using retry_step_ok [of sv env]
  by (auto simp: track_def Let_def case_prod_unfold note_sighting_ok
      intro!: observe_item_ok service_ok_modify split: option.split sum.split prod.splits bool.splits)

lemma reconcile_ok: "service_ok sv \<Longrightarrow> service_ok (reconcile_password_retry_holds tenv retry sv)"
  unfolding reconcile_password_retry_holds_def
  by (rule foldl_keeps) (auto intro!: service_ok_update simp: row_id split: sum.split option.split)

lemma warning_ok: "service_ok sv \<Longrightarrow> service_ok (snd (fail_persistent_warning_for_download i now applies sv))"
proof -
  assume ok: "service_ok sv"
  have drop: "service_ok (s\<lparr>sv_warning_since := w, sv_cache := c\<rparr>) = service_ok (s\<lparr>sv_cache := c\<rparr>)"
    "service_ok (s\<lparr>sv_warning_since := w\<rparr>) = service_ok s" for s w c
    by (simp_all add: service_ok_def keyed_def)
  show ?thesis
    using ok service_ok_row [OF ok]
    by (auto simp: fail_persistent_warning_for_download_def Let_def drop row_id intro!: service_ok_update split: option.split)
qed

lemma snapshot_step_ok: "snapshot_step sv sv' \<Longrightarrow> service_ok sv \<Longrightarrow> service_ok sv'"
proof (induction rule: snapshot_step.induct)
  case (Scoped sv ch now seen scope authoritative limits)
  then show ?case
    by (cases scope) (auto simp: update_trackable_for_scope_for_authoritative_clients_def one_client.swept_ok)
qed (auto simp: update_trackable_def update_trackable_excluding_client_types_for_authoritative_clients_def
    all_clients.swept_ok some_clients.swept_ok prune_ok)

lemma restore_ok: "service_ok sv \<Longrightarrow> service_ok (restore_cleanup_download now td sv)"
proof -
  assume ok: "service_ok sv"
  have drop: "service_ok (s\<lparr>sv_last_seen_at := w, sv_cache := c\<rparr>) = service_ok (s\<lparr>sv_cache := c\<rparr>)"
    "service_ok (s\<lparr>sv_last_seen_at := w\<rparr>) = service_ok s" for s w c
    by (simp_all add: service_ok_def keyed_def)
  show ?thesis
    using ok by (auto simp: restore_cleanup_download_def Let_def drop intro!: service_ok_update split: option.split)
qed

lemma service_step_ok: "service_step sv e sv' \<Longrightarrow> service_ok sv \<Longrightarrow> service_ok sv'"
  by (induction rule: service_step.induct)
    (auto simp: stop_tracking_def forget_for_title_def reassign_title_def Let_def case_prod_unfold
      intro!: track_ok warning_ok stop_ok stops_ok reassign_ok restore_ok reconcile_ok service_ok_modify
      intro: snapshot_step_ok split: option.split)

lemma history_ok: "history h sv \<Longrightarrow> service_ok sv"
  by (induction rule: history.induct) (auto intro: ok_new service_step_ok)

text \<open>
  C19. The row cache is an index by canonical download. In every state the service reaches from its
  start, whatever it observed, checked, swept, forgot, reassigned, restored or rewrote, a row is
  stored under its own canonical id and each download has one row, so that a row found by a
  canonical id is the row of that download.
\<close>
theorem tracked_rows_are_indexed:
  assumes "history h sv" "(i, td) \<in> set (sv_cache sv)"
  shows "td_download_id td = i \<and> get_by_download_id i sv = Some td"
  using history_ok [OF assms(1)] assms(2)
  by (auto simp: service_ok_def keyed_def list_all_iff get_by_download_id_def)

section \<open>The warning clock\<close>

fun interrupts :: "DownloadId \<Rightarrow> clock_event \<Rightarrow> bool" where
  "interrupts i (Sighted j state) = (j = i \<and> state \<noteq> DQ_Warning)"
| "interrupts i (Checked j now holds) = (j = i \<and> \<not> holds)"
| "interrupts i Silent = False"

lemma retain_map_le: "retain_map P m \<subseteq>\<^sub>m m"
  by (auto simp: map_le_def retain_map_def split: option.splits if_splits)

lemma map_le_Some: "m \<subseteq>\<^sub>m m' \<Longrightarrow> m i = Some t \<Longrightarrow> m' i = Some t"
  by (auto simp: map_le_def dom_def)

lemma prune_clock: "sv_warning_since (prune_cache_with_limits limits sv) \<subseteq>\<^sub>m sv_warning_since sv"
  by (simp add: prune_cache_with_limits_def Let_def retain_map_le)

lemma sweep_clock: "sv_warning_since (snd (sweep f limits sv)) \<subseteq>\<^sub>m sv_warning_since sv"
  unfolding sweep_def Let_def snd_conv
  by (rule map_le_trans [OF prune_clock]) (simp add: clear_untracked_warning_clocks_def retain_map_le)

lemma stop_clock: "sv_warning_since (stop_tracking_download i sv) \<subseteq>\<^sub>m sv_warning_since sv"
  by (auto simp: stop_tracking_download_def map_le_def)

lemma stops_clock: "sv_warning_since (foldl (\<lambda>sv i. stop_tracking_download i sv) sv is) \<subseteq>\<^sub>m sv_warning_since sv"
  by (induction "is" arbitrary: sv) (auto intro: map_le_trans [OF _ stop_clock])

lemma reassign_clock: "sv_warning_since (snd (reassign_rows from_title to_title facet is sv)) = sv_warning_since sv"
  by (induction "is" arbitrary: sv) (auto simp: Let_def case_prod_unfold split: option.split)

lemma snapshot_clock: "snapshot_step sv sv' \<Longrightarrow> sv_warning_since sv' \<subseteq>\<^sub>m sv_warning_since sv"
  by (induction rule: snapshot_step.induct)
    (auto simp: update_trackable_def update_trackable_excluding_client_types_for_authoritative_clients_def
      update_trackable_for_scope_for_authoritative_clients_def sweep_clock prune_clock
      split: TrackedDownloadSnapshotScope.split)

lemma hold_clock: "sv_warning_since (snd (hold_password_retry env i item sv)) = sv_warning_since sv"
  by (simp add: hold_password_retry_def Let_def case_prod_unfold)

lemma retry_clock: "sv_warning_since (snd (snd (retry_step env i item sv))) \<subseteq>\<^sub>m sv_warning_since sv"
  by (auto simp: retry_step_def hold_clock stop_clock split: sum.split option.split DownloadClientObservation.split)

lemma observe_clock: "sv_warning_since (snd (snd (observe_item env i item sv))) \<subseteq>\<^sub>m sv_warning_since sv"
  by (auto simp: observe_item_def Let_def case_prod_unfold intro: map_le_trans [OF prune_clock] split: option.split)

lemma reconcile_clock: "sv_warning_since (reconcile_password_retry_holds tenv retry sv) = sv_warning_since sv"
  unfolding reconcile_password_retry_holds_def
  by (rule foldl_keeps [where P = "\<lambda>s. sv_warning_since s = sv_warning_since sv"]) (auto split: sum.split option.split)

lemma track_clock:
  assumes "sv_warning_since (snd (snd (track env item sv))) i = Some t"
  shows "sv_warning_since sv i = Some t \<and> \<not> interrupts i (sighting env item sv)"
proof (cases "job_of_resolution env")
  case None
  with assms show ?thesis by (simp add: track_def sighting_def)
next
  case (Some j)
  obtain found effects sv1 where step: "retry_step env j item sv = (found, effects, sv1)" by (metis prod.collapse)
  have sv1: "sv_warning_since sv1 \<subseteq>\<^sub>m sv_warning_since sv" using retry_clock [of env j item sv] by (simp add: step)
  show ?thesis
  proof (cases found)
    case None
    with assms Some step sv1 show ?thesis by (auto simp: track_def sighting_def dest: map_le_Some)
  next
    case found: (Some fresh)
    define sv2 where "sv2 = note_sighting env j fresh sv1"
    have "sv_warning_since (snd (snd (track env item sv))) \<subseteq>\<^sub>m sv_warning_since sv2"
      using observe_clock [of env j fresh sv2]
        observe_clock [of env j fresh "modify_row j (\<lambda>td. td\<lparr>td_state := TD_Downloading\<rparr>) sv2"]
      by (auto simp: track_def Some step found Let_def case_prod_unfold modify_row_def simp flip: sv2_def
          split: sum.split bool.split option.splits)
    then have "sv_warning_since sv2 i = Some t" using assms by (rule map_le_Some)
    then show ?thesis
      using map_le_Some [OF sv1] by (auto simp: sv2_def note_sighting_def sighting_def Some step found split: if_splits)
  qed
qed

lemma check_clock:
  assumes "sv_warning_since (snd (fail_persistent_warning_for_download j now applies sv)) i = Some t"
  shows "sv_warning_since sv i = Some t \<and> \<not> interrupts i (check_event j now applies sv) \<or>
    check_event j now applies sv = Checked i t True"
  using assms
  by (auto simp: fail_persistent_warning_for_download_def check_event_def Let_def split: option.splits if_splits)

lemma clock_step:
  assumes "service_step sv e sv'" "sv_warning_since sv' i = Some t"
  shows "sv_warning_since sv i = Some t \<and> \<not> interrupts i e \<or> e = Checked i t True"
  using assms
proof cases
  case Track
  then show ?thesis using assms(2) track_clock by blast
next
  case Check
  then show ?thesis using assms(2) check_clock by blast
next
  case Snapshot
  then show ?thesis using assms(2) snapshot_clock map_le_Some by fastforce
next
  case Stop
  then show ?thesis using assms(2) stop_clock map_le_Some by fastforce
next
  case StopNamed
  then show ?thesis using assms(2) stop_clock map_le_Some by (fastforce simp: stop_tracking_def split: option.splits)
next
  case Forget
  then show ?thesis using assms(2) stops_clock map_le_Some by (fastforce simp: forget_for_title_def Let_def)
next
  case Reassign
  then show ?thesis using assms(2) by (simp add: reassign_title_def reassign_clock Let_def case_prod_unfold)
next
  case Restore
  then show ?thesis using assms(2) by (auto simp: restore_cleanup_download_def Let_def split: option.splits)
next
  case Reconcile
  then show ?thesis using assms(2) by (simp add: reconcile_clock)
next
  case Rewrite
  then show ?thesis using assms(2) by (auto simp: modify_row_def split: option.splits)
qed

lemma clock_history:
  "history h sv \<Longrightarrow> sv_warning_since sv i = Some t \<Longrightarrow>
   \<exists>since_then before. h = since_then @ Checked i t True # before \<and> \<not> list_ex (interrupts i) since_then"
proof (induction arbitrary: i t rule: history.induct)
  case Start
  then show ?case by (simp add: service_new_def)
next
  case (Step h sv e sv')
  from clock_step [OF Step(2,4)] show ?case
  proof (elim disjE conjE)
    assume "sv_warning_since sv i = Some t" "\<not> interrupts i e"
    with Step.IH obtain xs ys where "h = xs @ Checked i t True # ys" "\<not> list_ex (interrupts i) xs" by blast
    with \<open>\<not> interrupts i e\<close> show ?thesis by (intro exI [of _ "e # xs"] exI [of _ ys]) simp
  next
    assume "e = Checked i t True"
    then show ?thesis by (intro exI [of _ "[]"] exI [of _ h]) simp
  qed
qed

text \<open>
  C22. A client warning fails a download only when it has persisted. When a check fails the download
  for its warning, an earlier check, at least the whole timeout before, had already found the same
  actionable warning, and between the two no observation of the client showed the download in any
  other state and no check found the warning not actionable or the timeout not applicable; every
  such event restarts the clock.
\<close>
theorem warning_failure_needs_whole_timeout:
  assumes "history h sv" "fst (fail_persistent_warning_for_download i now applies sv)"
  shows "\<exists>t since_then before. h = since_then @ Checked i t True # before \<and>
    WARNING_FAILURE_TIMEOUT \<le> now - t \<and> \<not> list_ex (interrupts i) since_then"
proof -
  have "\<exists>t. sv_warning_since sv i = Some t \<and> WARNING_FAILURE_TIMEOUT \<le> now - t"
    using assms(2)
    by (auto simp: fail_persistent_warning_for_download_def Let_def WARNING_FAILURE_TIMEOUT_def
        split: option.splits if_splits)
  then show ?thesis using clock_history [OF assms(1)] by blast
qed

abbreviation warned_at :: "datetime \<Rightarrow> TrackedDownloadService" where
  "warned_at t \<equiv> snd (fail_persistent_warning_for_download ''a'' t True (restore_cleanup_download 0 (idle_row ''a'') service_new))"

lemma warned_history: "history [Checked ''a'' 5 True, Silent] (warned_at 5)"
proof -
  have "history [Silent] (restore_cleanup_download 0 (idle_row ''a'') service_new)"
    by (rule history.Step [OF history.Start]) (rule Restore)
  moreover have "check_event ''a'' 5 True (restore_cleanup_download 0 (idle_row ''a'') service_new) = Checked ''a'' 5 True"
    by code_simp
  ultimately show ?thesis by (metis Check history.Step)
qed

theorem tracked_rows_are_indexed_witness:
  "td_download_id (idle_row ''a'') = ''a'' \<and> get_by_download_id ''a'' (warned_at 5) = Some (idle_row ''a'')"
proof -
  have "sv_cache (warned_at 5) = [(''a'', idle_row ''a'')]" by code_simp
  then show ?thesis using tracked_rows_are_indexed [OF warned_history] by simp
qed

theorem warning_failure_needs_whole_timeout_witness:
  "\<exists>t since_then before. [Checked ''a'' 5 True, Silent] = since_then @ Checked ''a'' t True # before \<and>
    WARNING_FAILURE_TIMEOUT \<le> (5 + 24 * ns_per_hour) - t \<and> \<not> list_ex (interrupts ''a'') since_then"
proof (rule warning_failure_needs_whole_timeout [OF warned_history])
  show "fst (fail_persistent_warning_for_download ''a'' (5 + 24 * ns_per_hour) True (warned_at 5))"
    by code_simp
qed

section \<open>One observation\<close>

lemma observe_item_stubs: "set (fst (snd (observe_item env i item sv))) \<subseteq> range RecordStub"
  by (auto simp: observe_item_def stub_effect_def Let_def case_prod_unfold split: option.splits)

lemma retry_step_effects: "set (fst (snd (retry_step env i item sv))) \<subseteq> range RecordStub"
  by (auto simp: retry_step_def hold_password_retry_def stub_effect_def Let_def case_prod_unfold
      split: sum.splits option.splits DownloadClientObservation.splits)

lemma recover_missing_transition:
  assumes "Transition t \<in> set (fst (recover_missing env i item))"
  obtains ev rows sub where "fst (recover_missing env i item) = [AppendEvent ev, Transition t]"
    "tk_state_guarded env i = Some ''missing''" "tk_missing_event env i = Some ev" "tk_append env ev"
    "tk_submission env i (queue_item_source_identity item) = Some sub"
    "tk_scopes env (sub_title_id sub) = Inr rows" "t = recovery_transition env i item rows"
  using assms by (auto simp: recover_missing_def Let_def split: option.splits if_splits sum.splits)

lemma owns_missing_claim_Some:
  "owns_missing_claim env i row = Some raw \<Longrightarrow> ledger_status row = AS_Wanted \<and> ledger_grabbed_release row = Some raw"
  by (auto simp: owns_missing_claim_def split: option.splits if_splits)

lemma recovery_scopes_owned:
  "u \<in> set (recovery_scopes env i rows) \<Longrightarrow>
   su_previous u \<in> set rows \<and> ledger_status (su_previous u) = AS_Wanted \<and> su_status u = AS_Grabbed \<and>
   ledger_grabbed_release (su_previous u) = Some (su_grabbed_release u)"
  by (auto simp: recovery_scopes_def map_filter_def dest: owns_missing_claim_Some)

text \<open>
  C24. A download the ledger had given up as missing comes back only through the journal. Whenever an
  observation issues the transition that revives it, the download had been read as missing twice
  (before and under the guard of its title), the recorded event was appended first and durably, the
  transition is conditional on the state still being missing and moves it to downloading, and the
  only claims it restores are those of wanted scopes of the submission's title, with the release
  each had recorded; nothing but title stubs follows it.
\<close>
theorem missing_download_recovers_through_journal:
  assumes "Transition t \<in> set (fst (snd (track env item sv)))"
  shows "\<exists>i ev stubs sub rows. job_of_resolution env = Some i \<and>
    fst (snd (track env item sv)) = [AppendEvent ev, Transition t] @ stubs \<and> set stubs \<subseteq> range RecordStub \<and>
    tk_state env i = Inr (Some ''missing'') \<and> tk_state_guarded env i = Some ''missing'' \<and>
    tk_missing_event env i = Some ev \<and> tk_append env ev \<and>
    tr_download_id t = i \<and> tr_expected_state t = Some ''missing'' \<and> tr_state t = TD_Downloading \<and>
    tk_submission env i (tr_source t) = Some sub \<and> tk_scopes env (sub_title_id sub) = Inr rows \<and>
    list_all (\<lambda>u. su_previous u \<in> set rows \<and> ledger_status (su_previous u) = AS_Wanted \<and> su_status u = AS_Grabbed \<and>
      ledger_grabbed_release (su_previous u) = Some (su_grabbed_release u)) (tr_scopes t)"
proof (cases "job_of_resolution env")
  case None
  with assms show ?thesis by (simp add: track_def)
next
  case (Some i)
  obtain found effects sv1 where step: "retry_step env i item sv = (found, effects, sv1)" by (metis prod.collapse)
  have none: "Transition t \<notin> set effects" using retry_step_effects [of env i item sv] by (auto simp: step)
  have stubs: "Transition t \<notin> set (fst (snd (observe_item env i x s)))" for x s
    using observe_item_stubs [of env i x s] by auto
  obtain fresh where found: "found = Some fresh"
    using assms none by (cases found) (auto simp: track_def Some step)
  have read: "tk_state env i = Inr (Some ''missing'')"
    and mem: "Transition t \<in> set (fst (recover_missing env i fresh))"
    using assms stubs
    by (auto simp: track_def Some step found Let_def case_prod_unfold split: sum.splits if_splits bool.splits)
  from mem obtain ev rows sub where *: "fst (recover_missing env i fresh) = [AppendEvent ev, Transition t]"
    "tk_state_guarded env i = Some ''missing''" "tk_missing_event env i = Some ev" "tk_append env ev"
    "tk_submission env i (queue_item_source_identity fresh) = Some sub"
    "tk_scopes env (sub_title_id sub) = Inr rows" "t = recovery_transition env i fresh rows"
    by (rule recover_missing_transition)
  have "\<exists>rest. fst (snd (track env item sv)) = fst (recover_missing env i fresh) @ rest \<and> set rest \<subseteq> range RecordStub"
    using read
    by (cases "snd (recover_missing env i fresh)")
      (auto simp: track_def Some step found Let_def case_prod_unfold dest: subsetD [OF observe_item_stubs])
  then obtain rest where "fst (snd (track env item sv)) = [AppendEvent ev, Transition t] @ rest" "set rest \<subseteq> range RecordStub"
    by (auto simp: *(1))
  with * read Some show ?thesis
    by (intro exI [of _ i] exI [of _ ev] exI [of _ rest] exI [of _ sub] exI [of _ rows])
      (auto simp: recovery_transition_def list_all_iff dest: recovery_scopes_owned)
qed

lemma resolve_title_keeps_settled:
  "is_import_settled (td_state td) \<Longrightarrow> td_state (fst (resolve_title tenv td)) = td_state td"
  by (auto simp: resolve_title_def adopt_submission_def match_by_name_def Let_def is_import_settled_def is_terminal_def
      split: option.split)

text \<open>
  Settled downloads stay settled while the client keeps listing them. An observation of a
  download whose import has been settled, whose ledger row is not missing and for which no password
  retry is pending or awaited leaves the row in the cache, in the same state, and issues neither a
  transition nor an event.
\<close>
theorem settled_download_stays_settled:
  assumes "job_of_resolution env = Some i" "tk_retry env i = Inr None" "tk_state env i = Inr durable"
    and "durable \<noteq> Some ''missing''" "get_by_download_id i sv = Some td" "is_import_settled (td_state td)"
    and "\<not> awaits_password_retry td"
  shows "\<exists>td'. get_by_download_id i (snd (snd (track env item sv))) = Some td' \<and> td_state td' = td_state td \<and>
    td_is_trackable td' \<and> set (fst (snd (track env item sv))) \<subseteq> range RecordStub"
proof -
  define sv1 where "sv1 = note_sighting env i item sv"
  have step: "retry_step env i item sv = (Some item, [], sv)"
    using assms(2,5,7) by (simp add: retry_step_def awaited_def get_by_download_id_def)
  have track: "track env item sv = (let (outcome, stubs, sv) = observe_item env i item sv1 in (Some outcome, stubs, sv))"
    using assms(1,3,4) by (simp add: track_def step sv1_def)
  have row: "map_of (sv_cache sv1) i = Some td" using assms(5) by (simp add: sv1_def note_sighting_def get_by_download_id_def)
  have refreshed: "td_state (refresh_item item td) = td_state td" "td_is_trackable (refresh_item item td)"
    by (simp_all add: refresh_item_def Let_def)
  have resolved: "td_is_trackable (fst (resolve_title tenv x)) = td_is_trackable x" for x and tenv :: "'a title_env"
    by (auto simp: resolve_title_def adopt_submission_def match_by_name_def Let_def split: option.split)
  show ?thesis
    using observe_item_stubs [of env i item sv1] refreshed assms(6)
    by (auto simp: track case_prod_unfold observe_item_def row get_by_download_id_def Let_def update_conv'
        resolve_title_keeps_settled resolved)
qed

text \<open>An observation of \<open>sample_item\<close>, bound to the download \<open>d\<close>, with the given ledger state.\<close>

definition sample_titles :: "unit title_env" where
  "sample_titles =
     \<lparr>tl_restart = sample_ledger None, tl_find_by_client_item = (\<lambda>_. None), tl_title_exists = (\<lambda>_. False),
      tl_known_category = None, tl_match = (\<lambda>_ _. None), tl_title_signal = (\<lambda>s. s), tl_fresh_id = ''f''\<rparr>"

definition sample_submission :: DownloadSubmission where
  "sample_submission =
     \<lparr>sub_download_id = ''d'', sub_title_id = ''t'', sub_facet = ''movie'', sub_client_id = None,
      sub_client_type = ''qbittorrent'', sub_item_id = ''h1'', sub_source_title = None, sub_scope = Scope_Title\<rparr>"

definition sample_observation :: "string option \<Rightarrow> (unit, nat) track_env" where
  "sample_observation durable =
     \<lparr>tk_titles = sample_titles, tk_now = 100, tk_limits = \<lparr>stale_cutoff = 0, max_entries = 10\<rparr>, tk_generation = 1,
      tk_resolution = Resolved ''d'', tk_active_binding = Inr None, tk_retry = (\<lambda>_. Inr None),
      tk_observe = (\<lambda>_. Inr Absent), tk_confirm = (\<lambda>_ _. False), tk_state = (\<lambda>_. Inr durable),
      tk_submission = (\<lambda>_ _. Some sample_submission), tk_state_guarded = (\<lambda>_. durable), tk_missing_event = (\<lambda>_. Some 7),
      tk_append = (\<lambda>_. True), tk_scopes = (\<lambda>_. Inr []), tk_json = (\<lambda>_. None), tk_transition = (\<lambda>_. True)\<rparr>"

theorem missing_download_recovers_through_journal_witness:
  "\<exists>i stubs. fst (snd (track (sample_observation (Some ''missing'')) sample_item service_new)) =
      [AppendEvent 7, Transition (recovery_transition (sample_observation (Some ''missing'')) ''d'' sample_item [])] @ stubs \<and>
    tk_state (sample_observation (Some ''missing'')) i = Inr (Some ''missing'')"
proof -
  define env where "env = sample_observation (Some ''missing'')"
  have "fst (recover_missing env ''d'' sample_item) = [AppendEvent 7, Transition (recovery_transition env ''d'' sample_item [])]"
    by (simp add: env_def recover_missing_def sample_observation_def)
  moreover have "snd (recover_missing env ''d'' sample_item)"
    by (simp add: env_def recover_missing_def sample_observation_def)
  moreover have "retry_step env ''d'' sample_item service_new = (Some sample_item, [], service_new)"
    by (simp add: env_def sample_observation_def retry_step_def awaited_def service_new_def)
  moreover have "job_of_resolution env = Some ''d''" "tk_state env ''d'' = Inr (Some ''missing'')" "tk_missing_event env i = Some 7" for i
    by (simp_all add: env_def sample_observation_def job_of_resolution_def)
  ultimately have "Transition (recovery_transition env ''d'' sample_item []) \<in> set (fst (snd (track env sample_item service_new)))"
    by (simp add: track_def Let_def case_prod_unfold)
  from missing_download_recovers_through_journal [OF this]
  show ?thesis unfolding env_def [symmetric] by (auto simp: \<open>\<And>i. tk_missing_event env i = Some 7\<close>)
qed

theorem settled_download_stays_settled_witness:
  "\<exists>td'. get_by_download_id ''d''
      (snd (snd (track (sample_observation (Some ''imported'')) sample_item
        (sample_service ((idle_row ''d'')\<lparr>td_state := TD_Imported\<rparr>))))) = Some td' \<and> td_state td' = TD_Imported"
proof -
  let ?td = "(idle_row ''d'')\<lparr>td_state := TD_Imported\<rparr>"
  have "get_by_download_id ''d'' (sample_service ?td) = Some ?td" "is_import_settled (td_state ?td)"
    "\<not> awaits_password_retry ?td"
    by (simp_all add: get_by_download_id_def sample_service_def idle_row_def fresh_row_def is_import_settled_def
        is_terminal_def awaits_password_retry_def)
  then show ?thesis
    using settled_download_stays_settled [of "sample_observation (Some ''imported'')" "''d''" "Some ''imported''"
        "sample_service ?td" ?td sample_item]
    by (auto simp: sample_observation_def job_of_resolution_def)
qed

end
