(* ===== verification/List_Types.thy ===== *)
theory List_Types
  imports Domain_Types Time_Interface Float64
begin

text \<open>
  The vocabulary of list subscriptions: \<open>scryer-domain/src/lists.rs\<close>, the external ids of
  \<open>scryer-domain/src/lib.rs\<close> and the item a list plugin returns. A subscription says what to read,
  where each kind of title goes and what to do with it; a membership row is what the engine last
  decided about one item; an exclusion keeps an entity out. Of the subscription, the route and the
  plugin's item the records have the fields the engine reads.
\<close>

section \<open>Labels\<close>

datatype ListScope = LS_Public | LS_Personal

primrec ListScope_as_str :: "ListScope \<Rightarrow> string" where
  "ListScope_as_str LS_Public = ''public''"
| "ListScope_as_str LS_Personal = ''personal''"

definition ListScope_parse :: "string \<Rightarrow> ListScope option" where
  "ListScope_parse value =
     (let v = to_ascii_lowercase (trim value)
      in if v = ''public'' then Some LS_Public else if v = ''personal'' then Some LS_Personal else None)"

interpretation list_scope: label_codec ListScope_as_str ListScope_parse
proof
  show "ListScope_parse (ListScope_as_str x) = Some x" for x by (cases x; hypsubst; code_simp)
qed

datatype ListMode = Mode_Add | Mode_Hold | Mode_Request | Mode_Discover

primrec ListMode_as_str :: "ListMode \<Rightarrow> string" where
  "ListMode_as_str Mode_Add = ''add''"
| "ListMode_as_str Mode_Hold = ''hold''"
| "ListMode_as_str Mode_Request = ''request''"
| "ListMode_as_str Mode_Discover = ''discover''"

definition ListMode_parse :: "string \<Rightarrow> ListMode option" where
  "ListMode_parse value =
     (let v = to_ascii_lowercase (trim value)
      in if v = ''add'' then Some Mode_Add else if v = ''hold'' then Some Mode_Hold
         else if v = ''request'' then Some Mode_Request else if v = ''discover'' then Some Mode_Discover else None)"

interpretation list_mode: label_codec ListMode_as_str ListMode_parse
proof
  show "ListMode_parse (ListMode_as_str x) = Some x" for x by (cases x; hypsubst; code_simp)
qed

datatype ListOnLeave = Leave_Keep | Leave_Log | Leave_Unmonitor | Leave_Tag

primrec ListOnLeave_as_str :: "ListOnLeave \<Rightarrow> string" where
  "ListOnLeave_as_str Leave_Keep = ''keep''"
| "ListOnLeave_as_str Leave_Log = ''log''"
| "ListOnLeave_as_str Leave_Unmonitor = ''unmonitor''"
| "ListOnLeave_as_str Leave_Tag = ''tag''"

definition ListOnLeave_parse :: "string \<Rightarrow> ListOnLeave option" where
  "ListOnLeave_parse value =
     (let v = to_ascii_lowercase (trim value)
      in if v = ''keep'' then Some Leave_Keep else if v = ''log'' then Some Leave_Log
         else if v = ''unmonitor'' then Some Leave_Unmonitor else if v = ''tag'' then Some Leave_Tag else None)"

interpretation list_on_leave: label_codec ListOnLeave_as_str ListOnLeave_parse
proof
  show "ListOnLeave_parse (ListOnLeave_as_str x) = Some x" for x by (cases x; hypsubst; code_simp)
qed

datatype ListSyncState = Sync_Ok | Sync_New | Sync_Fail | Sync_Off

primrec ListSyncState_as_str :: "ListSyncState \<Rightarrow> string" where
  "ListSyncState_as_str Sync_Ok = ''ok''"
| "ListSyncState_as_str Sync_New = ''new''"
| "ListSyncState_as_str Sync_Fail = ''fail''"
| "ListSyncState_as_str Sync_Off = ''off''"

definition ListSyncState_parse :: "string \<Rightarrow> ListSyncState option" where
  "ListSyncState_parse value =
     (let v = to_ascii_lowercase (trim value)
      in if v = ''ok'' then Some Sync_Ok else if v = ''new'' then Some Sync_New
         else if v = ''fail'' then Some Sync_Fail else if v = ''off'' then Some Sync_Off else None)"

interpretation list_sync_state: label_codec ListSyncState_as_str ListSyncState_parse
proof
  show "ListSyncState_parse (ListSyncState_as_str x) = Some x" for x by (cases x; hypsubst; code_simp)
qed

datatype ListMembershipState =
  M_InLibrary | M_Added | M_Requested | M_Held | M_Rejected | M_Filtered | M_Excluded | M_Unresolved
| M_BlockedPermission | M_Discover | M_Pending

primrec ListMembershipState_as_str :: "ListMembershipState \<Rightarrow> string" where
  "ListMembershipState_as_str M_InLibrary = ''in_library''"
| "ListMembershipState_as_str M_Added = ''added''"
| "ListMembershipState_as_str M_Requested = ''requested''"
| "ListMembershipState_as_str M_Held = ''held''"
| "ListMembershipState_as_str M_Rejected = ''rejected''"
| "ListMembershipState_as_str M_Filtered = ''filtered''"
| "ListMembershipState_as_str M_Excluded = ''excluded''"
| "ListMembershipState_as_str M_Unresolved = ''unresolved''"
| "ListMembershipState_as_str M_BlockedPermission = ''blocked_permission''"
| "ListMembershipState_as_str M_Discover = ''discover''"
| "ListMembershipState_as_str M_Pending = ''pending''"

definition ListMembershipState_parse :: "string \<Rightarrow> ListMembershipState option" where
  "ListMembershipState_parse value =
     (let v = to_ascii_lowercase (trim value)
      in if v = ''in_library'' then Some M_InLibrary
         else if v = ''added'' then Some M_Added
         else if v = ''requested'' then Some M_Requested
         else if v = ''held'' then Some M_Held
         else if v = ''rejected'' then Some M_Rejected
         else if v = ''filtered'' then Some M_Filtered
         else if v = ''excluded'' then Some M_Excluded
         else if v = ''unresolved'' then Some M_Unresolved
         else if v = ''blocked_permission'' then Some M_BlockedPermission
         else if v = ''discover'' then Some M_Discover
         else if v = ''pending'' then Some M_Pending
         else None)"

interpretation list_membership_state: label_codec ListMembershipState_as_str ListMembershipState_parse
proof
  show "ListMembershipState_parse (ListMembershipState_as_str x) = Some x" for x by (cases x; hypsubst; code_simp)
qed

definition is_settled :: "ListMembershipState \<Rightarrow> bool" where
  "is_settled s \<longleftrightarrow> s \<in> {M_Added, M_Requested, M_Held, M_Rejected, M_Discover}"

datatype ListPolicy = Policy_Auto | Policy_Approval | Policy_None

primrec ListPolicy_as_str :: "ListPolicy \<Rightarrow> string" where
  "ListPolicy_as_str Policy_Auto = ''auto''"
| "ListPolicy_as_str Policy_Approval = ''approval''"
| "ListPolicy_as_str Policy_None = ''none''"

definition ListPolicy_parse :: "string \<Rightarrow> ListPolicy option" where
  "ListPolicy_parse value =
     (let v = to_ascii_lowercase (trim value)
      in if v = ''auto'' then Some Policy_Auto else if v = ''approval'' then Some Policy_Approval
         else if v = ''none'' then Some Policy_None else None)"

interpretation list_policy: label_codec ListPolicy_as_str ListPolicy_parse
proof
  show "ListPolicy_parse (ListPolicy_as_str x) = Some x" for x by (cases x; hypsubst; code_simp)
qed

datatype ListSyncRunOutcome = Run_Succeeded | Run_Failed | Run_Skipped

section \<open>External ids\<close>

record ExternalId =
  xid_source :: string
  xid_kind :: "string option"
  xid_value :: string

definition normalize_external_id_kind :: "string \<Rightarrow> string option" where
  "normalize_external_id_kind kind = (let k = to_ascii_lowercase (trim kind) in if k = [] then None else Some k)"

definition normalized_kind :: "ExternalId \<Rightarrow> string option" where
  "normalized_kind x = Option.bind (xid_kind x) normalize_external_id_kind"

definition same_entity_as :: "ExternalId \<Rightarrow> ExternalId \<Rightarrow> bool" where
  "same_entity_as a b =
     (if \<not> eq_ignore_ascii_case (trim (xid_source a)) (trim (xid_source b)) \<or>
         \<not> eq_ignore_ascii_case (trim (xid_value a)) (trim (xid_value b)) then False
      else case (normalized_kind a, normalized_kind b) of (Some l, Some r) \<Rightarrow> l = r | _ \<Rightarrow> True)"

section \<open>Subscriptions\<close>

datatype ListSourceOrigin = SmgChart string string | ProviderFetch

record ListSource =
  src_provider :: string
  src_source_type :: string
  src_params :: "(string \<times> string) list"
  src_origin :: ListSourceOrigin

record ListRoute =
  rt_kind :: MediaFacet
  rt_library_id :: string

record ListRatingMinimum =
  rm_source :: string
  rm_value :: f64

datatype ListFilter =
  MonitorSpecials MediaFacet bool
| FillerPolicy MediaFacet bool
| RecapPolicy MediaFacet bool
| Ratings MediaFacet bool "ListRatingMinimum list"
| ExcludeCanonicalTags MediaFacet "string list" "string list"
| ExcludeAdult MediaFacet
| RatingAtLeast string f64
| ReleaseYear "int option" "int option"
| ExcludeGenres "string list"
| Format "string list"
| Language "string list"
| SkipOnMyStreamingServices
| ReleasedOnly
| DirectorCreditsOnly
| NotSequelWithoutBase

record ListSyncStatus =
  ss_state :: ListSyncState
  ss_last_at :: "datetime option"
  ss_next_at :: "datetime option"
  ss_error_message :: "string option"
  ss_error_at :: "datetime option"
  ss_paused_until :: "datetime option"
  ss_fetch_fingerprint :: "string option"

record ListCounts =
  lc_total :: nat
  lc_in_library :: nat
  lc_added :: nat
  lc_requested :: nat
  lc_held :: nat
  lc_filtered :: nat
  lc_excluded :: nat
  lc_unresolved :: nat

record ListSubscription =
  ls_id :: string
  ls_scope :: ListScope
  ls_owner_user_id :: string
  ls_source :: ListSource
  ls_kinds :: "MediaFacet list"
  ls_enabled :: bool
  ls_mode :: ListMode
  ls_routes :: "ListRoute list"
  ls_filters :: "ListFilter list"
  ls_max_per_sync :: "nat option"
  ls_on_leave :: ListOnLeave
  ls_interval_seconds :: int
  ls_sync :: ListSyncStatus
  ls_counts :: ListCounts
  ls_updated_at :: datetime

definition route_for :: "ListSubscription \<Rightarrow> MediaFacet \<Rightarrow> ListRoute option" where
  "route_for s kind = List.find (\<lambda>r. rt_kind r = kind) (ls_routes s)"

definition is_personal :: "ListSubscription \<Rightarrow> bool" where
  "is_personal s \<longleftrightarrow> ls_scope s = LS_Personal"

section \<open>Items and memberships\<close>

record ListSeriesMovieTarget =
  sm_parent_smg_id :: int
  sm_parent_tvdb_id :: int
  sm_parent_name :: string
  sm_link_id :: "string option"

record ListMembership =
  mb_series_movie :: "ListSeriesMovieTarget option"
  mb_subscription_id :: string
  mb_item_key :: string
  mb_rank :: "int option"
  mb_season :: "int option"
  mb_display_title :: "string option"
  mb_year :: "int option"
  mb_external_ids :: "ExternalId list"
  mb_smg_title_id :: "int option"
  mb_title_id :: "string option"
  mb_request_id :: "string option"
  mb_kind :: MediaFacet
  mb_state :: ListMembershipState
  mb_state_reason :: "string option"
  mb_added_by_list :: bool
  mb_first_seen_at :: datetime
  mb_last_seen_at :: datetime
  mb_left_at :: "datetime option"
  mb_left_handled :: bool

datatype ListExclusionScope = AllLists | OneList string

record ListExclusion =
  ex_kind :: MediaFacet
  ex_external_ids :: "ExternalId list"
  ex_display_title :: string
  ex_year :: "int option"
  ex_scope :: ListExclusionScope
  ex_created_by_user_id :: "string option"
  ex_created_at :: datetime

definition exclusion_matches :: "ListExclusion \<Rightarrow> MediaFacet \<Rightarrow> ExternalId list \<Rightarrow> string \<Rightarrow> bool" where
  "exclusion_matches e kind ids subscription_id =
     (if ex_kind e \<noteq> kind then False
      else if (case ex_scope e of OneList scoped \<Rightarrow> scoped \<noteq> subscription_id | AllLists \<Rightarrow> False) then False
      else list_ex (\<lambda>candidate. list_ex (\<lambda>excluded. same_entity_as excluded candidate) (ex_external_ids e)) ids)"

datatype MediaRequestOrigin = Manual | PublicList string | PersonalList string

primrec origin_subscription_id :: "MediaRequestOrigin \<Rightarrow> string option" where
  "origin_subscription_id Manual = None"
| "origin_subscription_id (PublicList s) = Some s"
| "origin_subscription_id (PersonalList s) = Some s"

primrec MediaRequestOrigin_as_str :: "MediaRequestOrigin \<Rightarrow> string" where
  "MediaRequestOrigin_as_str Manual = ''manual''"
| "MediaRequestOrigin_as_str (PublicList _) = ''public_list''"
| "MediaRequestOrigin_as_str (PersonalList _) = ''personal_list''"

definition origin_from_parts :: "string \<Rightarrow> string option \<Rightarrow> MediaRequestOrigin" where
  "origin_from_parts kind subscription_id =
     (case subscription_id of
        Some s \<Rightarrow> if kind = ''public_list'' then PublicList s
                  else if kind = ''personal_list'' then PersonalList s else Manual
      | None \<Rightarrow> Manual)"

definition origin_for_subscription :: "ListSubscription \<Rightarrow> MediaRequestOrigin" where
  "origin_for_subscription s =
     (case ls_scope s of LS_Public \<Rightarrow> PublicList (ls_id s) | LS_Personal \<Rightarrow> PersonalList (ls_id s))"

lemma origin_roundtrip: "origin_from_parts (MediaRequestOrigin_as_str o') (origin_subscription_id o') = o'"
  by (cases o') (simp_all add: origin_from_parts_def)

text \<open>Whether two ids can name the same entity does not depend on their order or their spelling.\<close>

lemma same_entity_sym: "same_entity_as a b = same_entity_as b a"
  by (auto simp: same_entity_as_def eq_ignore_ascii_case_def split: option.split)

lemma same_entity_refl: "same_entity_as a a"
  by (simp add: same_entity_as_def eq_ignore_ascii_case_def split: option.split)

end
