(* ===== verification/List_Evaluate.thy ===== *)
theory List_Evaluate
  imports List_Types
begin

text \<open>
  From the items of a list to one decision per item: \<open>lists/resolve.rs\<close>, \<open>lists/evaluate.rs\<close> and
  \<open>lists/act.rs\<close>. The metadata gateway (the resolver), the effects behind an action, the division of
  two floating-point ratings, the language tables and today's date are arguments.
\<close>

section \<open>Resolved items\<close>

record ListExternalId =
  li_source :: string
  li_kind :: "string option"
  li_id :: string

record ListPluginItem =
  pi_item_key :: string
  pi_rank :: "int option"
  pi_kind_hint :: "MediaFacet option"
  pi_title :: "string option"
  pi_year :: "int option"
  pi_external_ids :: "ListExternalId list"
  pi_season :: "int option"
  pi_format :: "string option"

record TitleExternalRating =
  er_source :: string
  er_value :: "f64 option"
  er_score :: "f64 option"
  er_normalized :: f64

record ListMetadataFacts =
  mf_name :: "string option"
  mf_ratings :: "TitleExternalRating list"
  mf_canonical_keys :: "string list"
  mf_is_adult :: bool
  mf_original_language :: "string option"
  mf_year :: "int option"
  mf_release_date :: "int option"

record ResolvedItem =
  ri_series_movie :: "ListSeriesMovieTarget option"
  ri_resolution_reason :: "string option"
  ri_facts :: "ListMetadataFacts option"
  ri_item :: ListPluginItem
  ri_kind :: "MediaFacet option"
  ri_external_ids :: "ExternalId list"
  ri_resolved :: bool
  ri_smg_title_id :: "int option"
  ri_library_title_id :: "string option"

record ResolveInput =
  in_kind :: MediaFacet
  in_external_ids :: "ExternalId list"

record ResolveOutput =
  out_series_movie :: "ListSeriesMovieTarget option"
  out_resolution_reason :: "string option"
  out_resolved :: bool
  out_smg_title_id :: "int option"
  out_external_ids :: "ExternalId list"
  out_library_title_id :: "string option"

definition display_title :: "ResolvedItem \<Rightarrow> string option" where
  "display_title item =
     or_else (filled (map_option trim (Option.bind (ri_facts item) mf_name))) (filled (map_option trim (pi_title (ri_item item))))"

definition item_kind :: "ListPluginItem \<Rightarrow> ListSubscription \<Rightarrow> MediaFacet option" where
  "item_kind item s =
     (case pi_kind_hint item of
        Some kind \<Rightarrow>
          if ls_kinds s = [] \<or> kind \<in> set (ls_kinds s) then Some kind
          else if kind = Series \<and> Anime \<in> set (ls_kinds s) then Some Anime
          else Some kind
      | None \<Rightarrow> (case ls_kinds s of [only] \<Rightarrow> Some only | _ \<Rightarrow> None))"

definition item_external_ids :: "ListPluginItem \<Rightarrow> ExternalId list" where
  "item_external_ids item =
     push_all_unique []
       (List.map_filter (\<lambda>i.
          let source = to_ascii_lowercase (trim (li_source i)); v = trim (li_id i)
          in if source = [] \<or> v = [] then None
             else Some \<lparr>xid_source = source, xid_kind = li_kind i, xid_value = v\<rparr>) (pi_external_ids item))"

definition ResolvedItem_unresolved :: "ListPluginItem \<Rightarrow> MediaFacet option \<Rightarrow> ResolvedItem" where
  "ResolvedItem_unresolved item kind =
     \<lparr>ri_series_movie = None, ri_resolution_reason = None, ri_facts = None, ri_item = item, ri_kind = kind,
      ri_external_ids = item_external_ids item, ri_resolved = False, ri_smg_title_id = None, ri_library_title_id = None\<rparr>"

definition merge_ids :: "ExternalId list \<Rightarrow> ExternalId list \<Rightarrow> ExternalId list" where
  "merge_ids ids extra =
     foldl (\<lambda>ids i.
       if list_ex (\<lambda>e. eq_ignore_ascii_case (xid_source e) (xid_source i) \<and> eq_ignore_ascii_case (xid_value e) (xid_value i)) ids
       then ids else ids @ [i]) ids extra"

definition filter_requires_metadata :: "ListFilter \<Rightarrow> bool" where
  "filter_requires_metadata f =
     (case f of
        Ratings _ _ minimums \<Rightarrow> minimums \<noteq> []
      | ExcludeCanonicalTags _ keys labels \<Rightarrow> keys \<noteq> [] \<or> labels \<noteq> []
      | RatingAtLeast _ _ \<Rightarrow> True
      | ReleasedOnly \<Rightarrow> True
      | ExcludeAdult _ \<Rightarrow> True
      | ReleaseYear from to \<Rightarrow> from \<noteq> None \<or> to \<noteq> None
      | ExcludeGenres genres \<Rightarrow> genres \<noteq> []
      | Language languages \<Rightarrow> languages \<noteq> []
      | _ \<Rightarrow> False)"

definition requires_metadata :: "ListFilter list \<Rightarrow> bool" where
  "requires_metadata filters = list_ex filter_requires_metadata filters"

text \<open>The item an input is made from, its input, and what an output writes back.\<close>

definition resolve_input :: "ResolvedItem \<Rightarrow> ResolveInput option" where
  "resolve_input item =
     Option.bind (ri_kind item) (\<lambda>kind.
       if ri_external_ids item = [] then None
       else Some \<lparr>in_kind = kind, in_external_ids = ri_external_ids item\<rparr>)"

definition apply_output :: "ListSubscription \<Rightarrow> ResolvedItem \<Rightarrow> ResolveOutput \<Rightarrow> ResolvedItem" where
  "apply_output s item out =
     item\<lparr>ri_series_movie := out_series_movie out, ri_resolution_reason := out_resolution_reason out,
          ri_kind := (if out_series_movie out \<noteq> None
                      then Some (if Series \<in> set (ls_kinds s) \<and> Anime \<notin> set (ls_kinds s) then Series else Anime)
                      else ri_kind item),
          ri_resolved := (out_resolved out \<or> out_library_title_id out \<noteq> None),
          ri_smg_title_id := out_smg_title_id out, ri_library_title_id := out_library_title_id out,
          ri_external_ids := merge_ids (ri_external_ids item) (out_external_ids out)\<rparr>"

fun write_back :: "('a \<Rightarrow> bool) \<Rightarrow> ('a \<Rightarrow> 'b \<Rightarrow> 'a) \<Rightarrow> 'a list \<Rightarrow> 'b list \<Rightarrow> 'a list" where
  "write_back P f [] ys = []"
| "write_back P f (x # xs) ys =
     (if P x then (case ys of y # ys \<Rightarrow> f x y # write_back P f xs ys | [] \<Rightarrow> x # write_back P f xs [])
      else x # write_back P f xs ys)"

definition needs_facts :: "ListSubscription \<Rightarrow> ResolvedItem \<Rightarrow> bool" where
  "needs_facts s item =
     list_ex filter_requires_metadata
       (filter (\<lambda>f. case f of
          Ratings facet _ _ \<Rightarrow> ri_kind item = Some facet
        | ExcludeCanonicalTags facet _ _ \<Rightarrow> ri_kind item = Some facet
        | ExcludeAdult facet \<Rightarrow> ri_kind item = Some facet
        | _ \<Rightarrow> True) (ls_filters s))"

datatype 'e resolve_error = ResolverFailed 'e | IncompleteResolution

definition resolve_items ::
  "ListSubscription \<Rightarrow> ListPluginItem list \<Rightarrow> (ResolveInput list \<Rightarrow> 'e + ResolveOutput list) \<Rightarrow>
   (ResolvedItem list \<Rightarrow> 'e + ResolvedItem list) \<Rightarrow> 'e resolve_error + ResolvedItem list" where
  "resolve_items s items resolver enrich =
     (let resolved = map (\<lambda>item. ResolvedItem_unresolved item (item_kind item s)) items;
          inputs = List.map_filter resolve_input resolved
      in if inputs = [] then Inr resolved
         else case resolver inputs of
           Inl e \<Rightarrow> Inl (ResolverFailed e)
         | Inr outputs \<Rightarrow>
             if length outputs \<noteq> length inputs then Inl IncompleteResolution
             else
               (let resolved = write_back (\<lambda>i. resolve_input i \<noteq> None) (apply_output s) resolved outputs;
                    needed = filter (needs_facts s) resolved
                in if needed = [] then Inr resolved
                   else case enrich needed of
                     Inl e \<Rightarrow> Inl (ResolverFailed e)
                   | Inr enriched \<Rightarrow>
                       Inr (write_back (needs_facts s) (\<lambda>i e. i\<lparr>ri_facts := ri_facts e\<rparr>) resolved enriched)))"

section \<open>Filters\<close>

record filter_env =
  fl_today :: int \<comment> \<open>\<open>Utc::now().date_naive()\<close>, as a day number\<close>
  fl_language :: "string \<Rightarrow> string option" \<comment> \<open>\<open>normalize_search_language_code\<close>\<close>
  fl_ratio_ge :: "f64 \<Rightarrow> f64 \<Rightarrow> f64 \<Rightarrow> bool" \<comment> \<open>\<open>normalized / 10.0 >= minimum / scale\<close>, on \<open>f64\<close>\<close>

definition rating_source :: "string \<Rightarrow> (string \<times> f64) option" where
  "rating_source source =
     (let s = to_ascii_lowercase (trim source)
      in if s = ''imdb'' then Some (''imdb'', Finite 10)
         else if s = ''tmdb'' then Some (''tmdb'', Finite 10)
         else if s \<in> {''tvdb'', ''thetvdb''} then Some (''tvdb'', Finite 10)
         else if s = ''trakt'' then Some (''trakt'', Finite 10)
         else if s \<in> {''mal'', ''myanimelist'', ''myanimelist.net''} then Some (''mal'', Finite 10)
         else if s = ''anilist'' then Some (''anilist'', Finite 100)
         else if s = ''anidb'' then Some (''anidb'', Finite 10)
         else if s = ''letterboxd'' then Some (''letterboxd'', Finite 5)
         else if s \<in> {''tomatoes'', ''rottentomatoes''} then Some (''tomatoes'', Finite 100)
         else if s \<in> {''audience'', ''popcorn'', ''popcornmeter''} then Some (''audience'', Finite 100)
         else if s = ''metacritic'' then Some (''metacritic'', Finite 100)
         else if s \<in> {''mcuser'', ''metacriticuser''} then Some (''mcuser'', Finite 10)
         else if s = ''mdblist'' then Some (''mdblist'', Finite 100)
         else None)"

definition usable_rating :: "TitleExternalRating \<Rightarrow> bool" where
  "usable_rating r \<longleftrightarrow>
     is_finite (er_normalized r) \<and> f64_le (Finite 0) (er_normalized r) \<and> f64_le (er_normalized r) (Finite 10) \<and>
     (f64_less (Finite 0) (er_normalized r) \<or>
      (case er_value r of Some v \<Rightarrow> is_finite v | None \<Rightarrow> False) \<or>
      (case er_score r of Some v \<Rightarrow> is_finite v | None \<Rightarrow> False))"

definition rating_passes :: "filter_env \<Rightarrow> ListMetadataFacts option \<Rightarrow> string \<Rightarrow> f64 \<Rightarrow> bool" where
  "rating_passes env facts source minimum =
     (case rating_source source of
        None \<Rightarrow> False
      | Some (name, scale) \<Rightarrow>
          if \<not> is_finite minimum \<or> \<not> (f64_le (Finite 0) minimum \<and> f64_le minimum scale) then False
          else case facts of
            None \<Rightarrow> False
          | Some f \<Rightarrow>
              list_ex (\<lambda>r. (case rating_source (er_source r) of Some (n, _) \<Rightarrow> n = name | None \<Rightarrow> False) \<and>
                           usable_rating r \<and> fl_ratio_ge env (er_normalized r) minimum scale) (mf_ratings f))"

definition passes :: "filter_env \<Rightarrow> ResolvedItem \<Rightarrow> ListFilter \<Rightarrow> bool" where
  "passes env item f =
     (case f of
        MonitorSpecials facet enabled \<Rightarrow> ri_kind item \<noteq> Some facet \<or> enabled \<or> pi_season (ri_item item) \<noteq> Some 0
      | FillerPolicy _ _ \<Rightarrow> True
      | RecapPolicy _ _ \<Rightarrow> True
      | Ratings facet match_any minimums \<Rightarrow>
          if ri_kind item \<noteq> Some facet \<or> minimums = [] then True
          else if match_any then list_ex (\<lambda>m. rating_passes env (ri_facts item) (rm_source m) (rm_value m)) minimums
          else list_all (\<lambda>m. rating_passes env (ri_facts item) (rm_source m) (rm_value m)) minimums
      | ExcludeCanonicalTags facet keys labels \<Rightarrow>
          if ri_kind item \<noteq> Some facet \<or> keys = [] \<and> labels = [] then True
          else labels = [] \<and>
            (case ri_facts item of Some fs \<Rightarrow> \<not> list_ex (\<lambda>k. k \<in> set keys) (mf_canonical_keys fs) | None \<Rightarrow> False)
      | ExcludeAdult facet \<Rightarrow>
          ri_kind item \<noteq> Some facet \<or> (case ri_facts item of Some fs \<Rightarrow> \<not> mf_is_adult fs | None \<Rightarrow> False)
      | RatingAtLeast scale v \<Rightarrow> rating_passes env (ri_facts item) scale v
      | ReleaseYear from to \<Rightarrow>
          (case Option.bind (ri_facts item) mf_year of
             Some year \<Rightarrow> (case from of Some a \<Rightarrow> a \<le> year | None \<Rightarrow> True) \<and> (case to of Some b \<Rightarrow> year \<le> b | None \<Rightarrow> True)
           | None \<Rightarrow> from = None \<and> to = None)
      | ExcludeGenres genres \<Rightarrow> genres = []
      | Format formats \<Rightarrow>
          (case pi_format (ri_item item) of
             None \<Rightarrow> True | Some format \<Rightarrow> list_ex (\<lambda>allowed. eq_ignore_ascii_case allowed format) formats)
      | Language languages \<Rightarrow>
          languages = [] \<or>
          (case Option.bind (ri_facts item) mf_original_language of
             None \<Rightarrow> False
           | Some language \<Rightarrow>
               list_ex (\<lambda>allowed. case fl_language env language of
                  Some l \<Rightarrow> fl_language env allowed = Some l | None \<Rightarrow> False) languages)
      | ReleasedOnly \<Rightarrow>
          (case Option.bind (ri_facts item) mf_release_date of Some d \<Rightarrow> d \<le> fl_today env | None \<Rightarrow> False)
      | SkipOnMyStreamingServices \<Rightarrow> True
      | DirectorCreditsOnly \<Rightarrow> True
      | NotSequelWithoutBase \<Rightarrow> True)"

definition filter_label :: "ListFilter \<Rightarrow> string" where
  "filter_label f =
     (case f of
        MonitorSpecials _ _ \<Rightarrow> ''specials'' | FillerPolicy _ _ \<Rightarrow> ''filler'' | RecapPolicy _ _ \<Rightarrow> ''recap''
      | Ratings _ _ _ \<Rightarrow> ''rating'' | ExcludeCanonicalTags _ _ _ \<Rightarrow> ''genre'' | ExcludeAdult _ \<Rightarrow> ''adult''
      | RatingAtLeast _ _ \<Rightarrow> ''rating'' | ReleaseYear _ _ \<Rightarrow> ''release_year'' | ExcludeGenres _ \<Rightarrow> ''genre''
      | Format _ \<Rightarrow> ''format'' | Language _ \<Rightarrow> ''language'' | SkipOnMyStreamingServices \<Rightarrow> ''streaming_service''
      | ReleasedOnly \<Rightarrow> ''unreleased'' | DirectorCreditsOnly \<Rightarrow> ''director_credit''
      | NotSequelWithoutBase \<Rightarrow> ''sequel_without_base'')"

definition has_usable_rating :: "ResolvedItem \<Rightarrow> string \<Rightarrow> bool" where
  "has_usable_rating item source =
     (case ri_facts item of
        None \<Rightarrow> False
      | Some f \<Rightarrow> list_ex (\<lambda>r. map_option fst (rating_source (er_source r)) = map_option fst (rating_source source) \<and> usable_rating r)
                   (mf_ratings f))"

definition fact_missing :: "ResolvedItem \<Rightarrow> ListFilter \<Rightarrow> bool" where
  "fact_missing item f =
     (case f of
        Ratings _ _ minimums \<Rightarrow> list_ex (\<lambda>m. \<not> has_usable_rating item (rm_source m)) minimums
      | RatingAtLeast scale _ \<Rightarrow> \<not> has_usable_rating item scale
      | ReleaseYear _ _ \<Rightarrow> Option.bind (ri_facts item) mf_year = None
      | Language _ \<Rightarrow> Option.bind (ri_facts item) mf_original_language = None
      | ReleasedOnly \<Rightarrow> Option.bind (ri_facts item) mf_release_date = None
      | ExcludeCanonicalTags _ _ _ \<Rightarrow> ri_facts item = None
      | ExcludeAdult _ \<Rightarrow> ri_facts item = None
      | _ \<Rightarrow> False)"

definition NO_ROUTE_REASON :: string where
  "NO_ROUTE_REASON = ''no_route''"

definition filter_reason :: "filter_env \<Rightarrow> ListSubscription \<Rightarrow> ResolvedItem \<Rightarrow> string option" where
  "filter_reason env s item =
     (case ri_kind item of
        None \<Rightarrow> None
      | Some kind \<Rightarrow>
          if ls_kinds s \<noteq> [] \<and> kind \<notin> set (ls_kinds s) then Some ''media_type_not_included''
          else if route_for s kind = None then Some NO_ROUTE_REASON
          else map_option (\<lambda>f. if fact_missing item f then ''missing_'' @ filter_label f else filter_label f)
                 (List.find (\<lambda>f. \<not> passes env item f) (ls_filters s)))"

section \<open>Decisions\<close>

datatype ItemDecision =
  D_Excluded | D_Filtered string | D_InLibrary string | D_Keep ListMembershipState | D_Unresolved | D_Candidate | D_Deferred

record EvaluatedItem =
  ev_item :: ResolvedItem
  ev_decision :: ItemDecision

definition REFUSED_REASON :: string where
  "REFUSED_REASON = ''rejected''"

definition NOT_FOUND_REASON :: string where
  "NOT_FOUND_REASON = ''not_found''"

definition is_refused_action_reason :: "string \<Rightarrow> bool" where
  "is_refused_action_reason r \<longleftrightarrow> r \<in> {REFUSED_REASON, NOT_FOUND_REASON}"

definition edited_since_last_sync :: "ListSubscription \<Rightarrow> bool" where
  "edited_since_last_sync s = (case ss_last_at (ls_sync s) of None \<Rightarrow> True | Some t \<Rightarrow> t < ls_updated_at s)"

definition refusal_may_have_lifted :: "ListSubscription \<Rightarrow> ResolvedItem \<Rightarrow> ListMembership \<Rightarrow> bool" where
  "refusal_may_have_lifted s item row \<longleftrightarrow>
     mb_state row = M_Rejected \<and>
     (case mb_state_reason row of Some r \<Rightarrow> is_refused_action_reason r | None \<Rightarrow> False) \<and>
     (edited_since_last_sync s \<or> mb_external_ids row \<noteq> ri_external_ids item \<or> mb_smg_title_id row \<noteq> ri_smg_title_id item)"

definition excluded_kind :: "ResolvedItem \<Rightarrow> MediaFacet option" where
  "excluded_kind item = (if ri_series_movie item \<noteq> None then Some Movie else ri_kind item)"

definition is_excluded :: "ListSubscription \<Rightarrow> ResolvedItem \<Rightarrow> ListExclusion list \<Rightarrow> bool" where
  "is_excluded s item exclusions =
     (case excluded_kind item of
        None \<Rightarrow> False
      | Some kind \<Rightarrow> list_ex (\<lambda>e. exclusion_matches e kind (ri_external_ids item) (ls_id s)) exclusions)"

definition bound_row :: "ListMembership \<Rightarrow> bool" where
  "bound_row row \<longleftrightarrow>
     mb_left_at row = None \<and> mb_title_id row \<noteq> None \<and> mb_state row \<notin> {M_Filtered, M_Excluded}"

definition settled_row :: "ListSubscription \<Rightarrow> ResolvedItem \<Rightarrow> ListMembership \<Rightarrow> bool" where
  "settled_row s item row \<longleftrightarrow>
     mb_left_at row = None \<and> is_settled (mb_state row) \<and> \<not> refusal_may_have_lifted s item row"

definition decide ::
  "filter_env \<Rightarrow> ListSubscription \<Rightarrow> ListExclusion list \<Rightarrow> (string \<rightharpoonup> ListMembership) \<Rightarrow> ResolvedItem \<Rightarrow> ItemDecision" where
  "decide env s exclusions memberships item =
     (let previous = memberships (pi_item_key (ri_item item));
          existing = (case previous of Some row \<Rightarrow> if settled_row s item row then Some row else None | None \<Rightarrow> None)
      in if is_excluded s item exclusions then D_Excluded
         else if (case previous of Some row \<Rightarrow> bound_row row | None \<Rightarrow> False) then D_Keep (mb_state (the previous))
         else if ri_resolution_reason item \<noteq> None then D_Unresolved
         else case filter_reason env s item of
           Some r \<Rightarrow> D_Filtered r
         | None \<Rightarrow>
             (case ri_library_title_id item of
                Some title \<Rightarrow>
                  (case existing of
                     Some row \<Rightarrow> if mb_state row = M_Added then D_Keep M_Added else D_InLibrary title
                   | None \<Rightarrow> D_InLibrary title)
              | None \<Rightarrow>
                  (case existing of
                     Some row \<Rightarrow> D_Keep (mb_state row)
                   | None \<Rightarrow> if \<not> ri_resolved item then D_Unresolved else D_Candidate)))"

text \<open>The loop of \<open>evaluate\<close>, with the ids of the candidates so far and the cap that is left.\<close>

fun cap_candidates ::
  "(ResolvedItem \<Rightarrow> ItemDecision) \<Rightarrow> int set \<Rightarrow> nat option \<Rightarrow> ResolvedItem list \<Rightarrow> EvaluatedItem list" where
  "cap_candidates decision ids remaining [] = []"
| "cap_candidates decision ids remaining (item # items) =
     (let d = decision item
      in if d \<noteq> D_Candidate then \<lparr>ev_item = item, ev_decision = d\<rparr> # cap_candidates decision ids remaining items
         else if (case ri_smg_title_id item of Some i \<Rightarrow> i \<in> ids | None \<Rightarrow> False)
         then \<lparr>ev_item = item, ev_decision = D_Filtered ''duplicate_target''\<rparr> # cap_candidates decision ids remaining items
         else
           (let ids = (case ri_smg_title_id item of Some i \<Rightarrow> insert i ids | None \<Rightarrow> ids)
            in case remaining of
                 None \<Rightarrow> \<lparr>ev_item = item, ev_decision = D_Candidate\<rparr> # cap_candidates decision ids None items
               | Some 0 \<Rightarrow> \<lparr>ev_item = item, ev_decision = D_Deferred\<rparr> # cap_candidates decision ids (Some 0) items
               | Some (Suc n) \<Rightarrow> \<lparr>ev_item = item, ev_decision = D_Candidate\<rparr> # cap_candidates decision ids (Some n) items))"

definition evaluate ::
  "filter_env \<Rightarrow> ListSubscription \<Rightarrow> ListExclusion list \<Rightarrow> (string \<rightharpoonup> ListMembership) \<Rightarrow> ResolvedItem list \<Rightarrow> EvaluatedItem list" where
  "evaluate env s exclusions memberships items =
     cap_candidates (decide env s exclusions memberships) {} (ls_max_per_sync s) items"

definition count_state :: "ListCounts \<Rightarrow> ListMembershipState \<Rightarrow> ListCounts" where
  "count_state c state =
     (let c = c\<lparr>lc_total := lc_total c + 1\<rparr>
      in case state of
           M_InLibrary \<Rightarrow> c\<lparr>lc_in_library := lc_in_library c + 1\<rparr>
         | M_Added \<Rightarrow> c\<lparr>lc_added := lc_added c + 1\<rparr>
         | M_Requested \<Rightarrow> c\<lparr>lc_requested := lc_requested c + 1\<rparr>
         | M_Held \<Rightarrow> c\<lparr>lc_held := lc_held c + 1\<rparr>
         | M_Filtered \<Rightarrow> c\<lparr>lc_filtered := lc_filtered c + 1\<rparr>
         | M_Excluded \<Rightarrow> c\<lparr>lc_excluded := lc_excluded c + 1\<rparr>
         | M_Unresolved \<Rightarrow> c\<lparr>lc_unresolved := lc_unresolved c + 1\<rparr>
         | _ \<Rightarrow> c)"

definition ListCounts_default :: ListCounts where
  "ListCounts_default =
     \<lparr>lc_total = 0, lc_in_library = 0, lc_added = 0, lc_requested = 0, lc_held = 0, lc_filtered = 0, lc_excluded = 0,
      lc_unresolved = 0\<rparr>"

definition count_states :: "ListMembershipState list \<Rightarrow> ListCounts" where
  "count_states states = foldl count_state ListCounts_default states"

section \<open>Actions\<close>

text \<open>The errors a use case answers with, as far as the engine tells them apart.\<close>

datatype AppError =
  E_Unauthorized | E_UnauthorizedReason | E_Validation | E_ValidationRefused | E_ValidationRefusedWithCount
| E_NotFound | E_NotFoundReason | E_Other

definition failed_action_state :: "AppError \<Rightarrow> ListMembershipState" where
  "failed_action_state e =
     (if e \<in> {E_Unauthorized, E_UnauthorizedReason} then M_BlockedPermission
      else if e \<in> {E_Validation, E_ValidationRefused, E_ValidationRefusedWithCount, E_NotFound, E_NotFoundReason}
      then M_Rejected else M_Pending)"

definition action_failure_reason :: "AppError \<Rightarrow> string" where
  "action_failure_reason e =
     (if e \<in> {E_Unauthorized, E_UnauthorizedReason} then ''not_permitted''
      else if e \<in> {E_Validation, E_ValidationRefused, E_ValidationRefusedWithCount} then REFUSED_REASON
      else if e \<in> {E_NotFound, E_NotFoundReason} then NOT_FOUND_REASON
      else ''action_failed'')"

record AddedTitle =
  at_title_id :: string
  at_created :: bool

record ActOutcome =
  ao_state :: ListMembershipState
  ao_title_id :: "string option"
  ao_request_id :: "string option"
  ao_added_by_list :: bool
  ao_reason :: "string option"

definition ActOutcome_state :: "ListMembershipState \<Rightarrow> ActOutcome" where
  "ActOutcome_state state =
     \<lparr>ao_state = state, ao_title_id = None, ao_request_id = None, ao_added_by_list = False, ao_reason = None\<rparr>"

record list_actions =
  la_add_title :: "ListRoute \<Rightarrow> ResolvedItem \<Rightarrow> AppError + AddedTitle"
  la_owner_manages_titles :: "nat \<Rightarrow> ListRoute \<Rightarrow> AppError + bool" \<comment> \<open>the answer of the n-th read\<close>
  la_submit_request :: "ListRoute \<Rightarrow> ResolvedItem \<Rightarrow> bool \<Rightarrow> AppError + string"

text \<open>The calls that change the catalog or the requests, in the order they are made.\<close>

datatype act_effect = AddTitle ListRoute string | SubmitRequest ListRoute string bool

definition failed_outcome :: "AppError \<Rightarrow> ActOutcome" where
  "failed_outcome e = (ActOutcome_state (failed_action_state e))\<lparr>ao_reason := Some (action_failure_reason e)\<rparr>"

definition add_outcome :: "list_actions \<Rightarrow> ListRoute \<Rightarrow> ResolvedItem \<Rightarrow> ActOutcome \<times> act_effect list" where
  "add_outcome act route item =
     (case la_add_title act route item of
        Inl e \<Rightarrow> (failed_outcome e, [AddTitle route (pi_item_key (ri_item item))])
      | Inr added \<Rightarrow>
          ((if at_created added
            then (ActOutcome_state M_Added)\<lparr>ao_title_id := Some (at_title_id added), ao_added_by_list := (ri_series_movie item = None)\<rparr>
            else (ActOutcome_state M_InLibrary)\<lparr>ao_title_id := Some (at_title_id added)\<rparr>),
           [AddTitle route (pi_item_key (ri_item item))]))"

definition request_outcome ::
  "list_actions \<Rightarrow> ListRoute \<Rightarrow> ResolvedItem \<Rightarrow> bool \<Rightarrow> ListMembershipState \<Rightarrow> ActOutcome \<times> act_effect list" where
  "request_outcome act route item hold state =
     ((case la_submit_request act route item hold of
         Inl e \<Rightarrow> failed_outcome e
       | Inr request \<Rightarrow> (ActOutcome_state state)\<lparr>ao_request_id := Some request\<rparr>),
      [SubmitRequest route (pi_item_key (ri_item item)) hold])"

definition act_on_candidate ::
  "list_actions \<Rightarrow> ListSubscription \<Rightarrow> ResolvedItem \<Rightarrow> bool \<Rightarrow> ActOutcome \<times> act_effect list" where
  "act_on_candidate act s item hold_requests =
     (case Option.bind (ri_kind item) (route_for s) of
        None \<Rightarrow> ((ActOutcome_state M_Filtered)\<lparr>ao_reason := Some NO_ROUTE_REASON\<rparr>, [])
      | Some route \<Rightarrow>
          (let mode = (if ls_mode s = Mode_Add \<and> is_personal s
                       then map_sum (\<lambda>e. e) (\<lambda>manages. if manages then Mode_Add else Mode_Request) (la_owner_manages_titles act 0 route)
                       else Inr (ls_mode s))
           in case mode of
                Inl e \<Rightarrow> (failed_outcome e, [])
              | Inr Mode_Add \<Rightarrow> add_outcome act route item
              | Inr Mode_Hold \<Rightarrow> request_outcome act route item True M_Held
              | Inr Mode_Request \<Rightarrow>
                  (case la_owner_manages_titles act 1 route of
                     Inr True \<Rightarrow> add_outcome act route item
                   | Inr False \<Rightarrow> request_outcome act route item hold_requests M_Requested
                   | Inl e \<Rightarrow> (failed_outcome e, []))
              | Inr Mode_Discover \<Rightarrow> (ActOutcome_state M_Discover, [])))"

section \<open>What the decisions mean\<close>

text \<open>
  The reference reading of one sync: the items that qualify, without repetitions of a target,
  cut at the cap.
\<close>

fun first_targets :: "int set \<Rightarrow> ResolvedItem list \<Rightarrow> ResolvedItem list" where
  "first_targets ids [] = []"
| "first_targets ids (item # items) =
     (case ri_smg_title_id item of
        Some i \<Rightarrow> if i \<in> ids then first_targets ids items else item # first_targets (insert i ids) items
      | None \<Rightarrow> item # first_targets ids items)"

definition capped :: "nat option \<Rightarrow> 'a list \<Rightarrow> 'a list" where
  "capped limit xs = (case limit of None \<Rightarrow> xs | Some n \<Rightarrow> take n xs)"

abbreviation chosen :: "EvaluatedItem list \<Rightarrow> ResolvedItem list" where
  "chosen evs \<equiv> map ev_item (filter (\<lambda>e. ev_decision e = D_Candidate) evs)"

abbreviation waiting :: "EvaluatedItem list \<Rightarrow> ResolvedItem list" where
  "waiting evs \<equiv> map ev_item (filter (\<lambda>e. ev_decision e = D_Deferred) evs)"

lemma cap_candidates_items: "map ev_item (cap_candidates decision ids remaining items) = items"
  by (induction decision ids remaining items rule: cap_candidates.induct)
    (auto simp: Let_def split: option.split nat.split)

lemma cap_candidates_none: "chosen (cap_candidates decision ids (Some 0) items) = []"
  by (induction items arbitrary: ids) (auto simp: Let_def)

lemma decide_not_deferred: "decide env s exclusions memberships item \<noteq> D_Deferred"
  by (simp add: decide_def Let_def split: option.split)

lemma cap_candidates_chosen:
  "chosen (cap_candidates decision ids remaining items) =
     capped remaining (first_targets ids (filter (\<lambda>i. decision i = D_Candidate) items))"
  by (induction decision ids remaining items rule: cap_candidates.induct)
    (auto simp: Let_def capped_def cap_candidates_none split: option.splits nat.splits)

lemma cap_candidates_waiting:
  assumes "\<And>i. decision i \<noteq> D_Deferred"
  shows "waiting (cap_candidates decision ids remaining items) =
     drop (length (capped remaining (first_targets ids (filter (\<lambda>i. decision i = D_Candidate) items))))
       (first_targets ids (filter (\<lambda>i. decision i = D_Candidate) items))"
  using assms
  by (induction decision ids remaining items rule: cap_candidates.induct)
    (auto simp: Let_def capped_def split: option.splits nat.splits)

text \<open>
  C35. The cap of a sync. What a sync acts on is, in list order, the first items that qualify and name
  a title no earlier qualifying item named, up to the cap; the rest of those wait for the next sync;
  every other item keeps the decision it had on its own, except that a qualifying item repeating a
  target is filtered as a duplicate. The list itself is neither reordered nor shortened.
\<close>
theorem evaluate_is_capped_selection:
  "let qualifies = (\<lambda>i. decide env s exclusions memberships i = D_Candidate);
       targets = first_targets {} (filter qualifies items);
       evs = evaluate env s exclusions memberships items
   in map ev_item evs = items \<and> chosen evs = capped (ls_max_per_sync s) targets \<and>
      chosen evs @ waiting evs = targets \<and>
      list_all (\<lambda>e. if qualifies (ev_item e)
          then ev_decision e \<in> {D_Candidate, D_Deferred, D_Filtered ''duplicate_target''}
          else ev_decision e = decide env s exclusions memberships (ev_item e)) evs"
proof -
  define ok where "ok decision e \<longleftrightarrow> (if decision (ev_item e) = D_Candidate
      then ev_decision e \<in> {D_Candidate, D_Deferred, D_Filtered ''duplicate_target''}
      else ev_decision e = decision (ev_item e))" for decision and e :: EvaluatedItem
  have at: "ok decision \<lparr>ev_item = i, ev_decision = d\<rparr> \<longleftrightarrow> (if decision i = D_Candidate
      then d \<in> {D_Candidate, D_Deferred, D_Filtered ''duplicate_target''} else d = decision i)" for decision i d
    by (simp add: ok_def)
  have same: "list_all (ok decision) (cap_candidates decision ids remaining items)" for decision ids remaining
    by (induction decision ids remaining items rule: cap_candidates.induct)
      (auto simp: Let_def at split: option.split nat.split)
  have split: "capped n xs @ drop (length (capped n xs)) xs = xs" for n and xs :: "ResolvedItem list"
    by (auto simp: capped_def min_def split: option.split)
  show ?thesis
    using same [of "decide env s exclusions memberships"]
    unfolding ok_def [abs_def]
    by (simp add: evaluate_def Let_def cap_candidates_items cap_candidates_chosen
        cap_candidates_waiting decide_not_deferred split)
qed


text \<open>The states are counted once each.\<close>

lemma count_states_from:
  "let c' = foldl count_state c states
   in lc_total c' = lc_total c + length states \<and>
      lc_in_library c' = lc_in_library c + count_list states M_InLibrary \<and>
      lc_added c' = lc_added c + count_list states M_Added \<and>
      lc_requested c' = lc_requested c + count_list states M_Requested \<and>
      lc_held c' = lc_held c + count_list states M_Held \<and>
      lc_filtered c' = lc_filtered c + count_list states M_Filtered \<and>
      lc_excluded c' = lc_excluded c + count_list states M_Excluded \<and>
      lc_unresolved c' = lc_unresolved c + count_list states M_Unresolved"
  by (induction states arbitrary: c)
    (simp_all add: Let_def count_state_def split: ListMembershipState.split)

end
