(* ===== verification/List_Sync.thy ===== *)
theory List_Sync
  imports List_Evaluate "HOL-Library.Word"
begin

unbundle bit_operations_syntax

text \<open>
  One sync of a list: the membership table (\<open>media/lists/memberships.rs\<close>), the departures
  (\<open>lists/leave.rs\<close>), the pass over the items and what it records (\<open>lists/sync.rs\<close>), and the memory of a
  rejected request (\<open>lists/rejection.rs\<close>). The table is a list of rows; SQL does not promise an order
  beyond the rank, and nothing proved depends on it. What the clients, the gateway and the use cases
  answer is a record of answers; the calls that change anything are returned as effects in order. A
  write to the engine's own tables is taken to succeed: a storage error ends the sync where it is and
  is recorded by \<open>record_storage_failure\<close>.
\<close>

section \<open>The membership table\<close>

type_synonym membership_table = "ListMembership list"

abbreviation row_key :: "ListMembership \<Rightarrow> string \<times> string" where
  "row_key r \<equiv> (mb_subscription_id r, mb_item_key r)"

text \<open>\<open>ON CONFLICT .. DO UPDATE\<close>: a refreshed row keeps its first sighting and is present again.\<close>

definition refresh_row :: "ListMembership \<Rightarrow> ListMembership \<Rightarrow> ListMembership" where
  "refresh_row stored row = row\<lparr>mb_first_seen_at := mb_first_seen_at stored, mb_left_at := None\<rparr>"

fun upsert :: "membership_table \<Rightarrow> ListMembership \<Rightarrow> membership_table" where
  "upsert [] row = [row]"
| "upsert (r # rs) row = (if row_key r = row_key row then refresh_row r row # rs else r # upsert rs row)"

definition upsert_many :: "ListMembership list \<Rightarrow> membership_table \<Rightarrow> membership_table" where
  "upsert_many rows table = foldl upsert table rows"

definition list_by_subscription :: "string \<Rightarrow> membership_table \<Rightarrow> membership_table" where
  "list_by_subscription s table = filter (\<lambda>r. mb_subscription_id r = s) table"

definition list_by_titles :: "string list \<Rightarrow> membership_table \<Rightarrow> membership_table" where
  "list_by_titles titles table = filter (\<lambda>r. case mb_title_id r of Some t \<Rightarrow> t \<in> set titles | None \<Rightarrow> False) table"

definition list_by_request :: "string \<Rightarrow> membership_table \<Rightarrow> membership_table" where
  "list_by_request request table = filter (\<lambda>r. mb_request_id r = Some request) table"

definition mark_left :: "string \<Rightarrow> datetime \<Rightarrow> datetime \<Rightarrow> membership_table \<Rightarrow> membership_table" where
  "mark_left s seen_before left_at table =
     map (\<lambda>r. if mb_subscription_id r = s \<and> mb_left_at r = None \<and> mb_last_seen_at r < seen_before
               then r\<lparr>mb_left_at := Some left_at, mb_left_handled := False\<rparr> else r) table"

definition set_left_handled :: "string \<Rightarrow> string list \<Rightarrow> membership_table \<Rightarrow> membership_table" where
  "set_left_handled s keys table =
     map (\<lambda>r. if mb_subscription_id r = s \<and> mb_item_key r \<in> set keys then r\<lparr>mb_left_handled := True\<rparr> else r) table"

section \<open>Departures\<close>

definition LEFT_LIST_TAG :: string where
  "LEFT_LIST_TAG = ''left-list''"

record leave_env =
  lv_subscription :: "string \<Rightarrow> ListSubscription option" \<comment> \<open>\<open>get_by_id\<close>\<close>
  lv_manages :: "ListRoute \<Rightarrow> AppError + bool" \<comment> \<open>\<open>owner_manages_titles\<close>\<close>
  lv_unmonitor :: "string \<Rightarrow> bool" \<comment> \<open>\<open>set_departed_title_monitored\<close> succeeds\<close>
  lv_tag :: "string \<Rightarrow> bool" \<comment> \<open>\<open>tag_departed_title\<close> succeeds\<close>
  lv_record :: "string \<Rightarrow> ListOnLeave \<Rightarrow> bool" \<comment> \<open>\<open>record_departure\<close> succeeds\<close>
  lv_title_exists :: "string \<Rightarrow> bool" \<comment> \<open>\<open>title_exists(..).unwrap_or(true)\<close>\<close>

datatype leave_effect = Unmonitor string | TagTitle string string | RecordDeparture string ListOnLeave

text \<open>What becomes of one departed row; the first, the last two and \<open>NotPermitted\<close> settle it.\<close>

datatype departure = NothingOwed | Guarded | Unrouted | NotPermitted | ActionFailed | Acted | TitleGone

definition acting_title :: "ListSubscription \<Rightarrow> ListMembership \<Rightarrow> string option" where
  "acting_title s row =
     (if mb_series_movie row \<noteq> None then None
      else case mb_title_id row of
        Some title \<Rightarrow> if mb_added_by_list row \<and> ls_on_leave s \<noteq> Leave_Keep then Some title else None
      | None \<Rightarrow> None)"

definition wanted_elsewhere ::
  "leave_env \<Rightarrow> ListSubscription \<Rightarrow> ListMembership \<Rightarrow> ListMembership \<Rightarrow> bool" where
  "wanted_elsewhere env s row other =
     (let library = map_option rt_library_id (route_for s (mb_kind row))
      in mb_subscription_id other \<noteq> ls_id s \<and> mb_left_at other = None \<and> mb_state other \<notin> {M_Filtered, M_Excluded} \<and>
         (case lv_subscription env (mb_subscription_id other) of
            None \<Rightarrow> False
          | Some o' \<Rightarrow>
              ls_enabled o' \<and>
              (library = None \<or> map_option rt_library_id (route_for o' (mb_kind other)) = library)))"

definition guard_holds ::
  "leave_env \<Rightarrow> ListSubscription \<Rightarrow> membership_table \<Rightarrow> ListMembership \<Rightarrow> string \<Rightarrow> bool" where
  "guard_holds env s table row title =
     list_ex (wanted_elsewhere env s row) (filter (\<lambda>r. mb_title_id r = Some title) table)"

definition waits_for_route :: "ListSubscription \<Rightarrow> ListMembership \<Rightarrow> bool" where
  "waits_for_route s row \<longleftrightarrow>
     is_personal s \<and> ls_on_leave s \<in> {Leave_Unmonitor, Leave_Tag} \<and> route_for s (mb_kind row) = None"

definition leave_action :: "leave_env \<Rightarrow> ListOnLeave \<Rightarrow> string \<Rightarrow> departure \<times> leave_effect list" where
  "leave_action env on_leave title =
     (let (ok, effects) = (case on_leave of
            Leave_Keep \<Rightarrow> (True, [])
          | Leave_Log \<Rightarrow> (lv_record env title on_leave, [RecordDeparture title on_leave])
          | Leave_Unmonitor \<Rightarrow> (lv_unmonitor env title, [Unmonitor title])
          | Leave_Tag \<Rightarrow> (lv_tag env title, [TagTitle title LEFT_LIST_TAG]))
      in if ok
         then (Acted, effects @ (if on_leave \<in> {Leave_Unmonitor, Leave_Tag} then [RecordDeparture title on_leave] else []))
         else if \<not> lv_title_exists env title then (TitleGone, effects)
         else (ActionFailed, effects))"

definition handle_departure ::
  "leave_env \<Rightarrow> ListSubscription \<Rightarrow> membership_table \<Rightarrow> ListMembership \<Rightarrow> departure \<times> leave_effect list" where
  "handle_departure env s table row =
     (case acting_title s row of
        None \<Rightarrow> (NothingOwed, [])
      | Some title \<Rightarrow>
          if guard_holds env s table row title then (Guarded, [])
          else if is_personal s \<and> ls_on_leave s \<in> {Leave_Unmonitor, Leave_Tag} then
            (case route_for s (mb_kind row) of
               None \<Rightarrow> (Unrouted, [])
             | Some route \<Rightarrow>
                 (case lv_manages env route of
                    Inr True \<Rightarrow> leave_action env (ls_on_leave s) title
                  | Inr False \<Rightarrow> (NotPermitted, [RecordDeparture title Leave_Log])
                  | Inl _ \<Rightarrow> (ActionFailed, [])))
          else leave_action env (ls_on_leave s) title)"

definition settles :: "departure \<Rightarrow> bool" where
  "settles d \<longleftrightarrow> d \<in> {NothingOwed, NotPermitted, Acted, TitleGone}"

record LeaveReport =
  lr_departed :: nat
  lr_acted :: nat
  lr_guarded :: nat
  lr_failed :: nat
  lr_gone :: nat
  lr_not_permitted :: nat

definition LeaveReport_default :: LeaveReport where
  "LeaveReport_default = \<lparr>lr_departed = 0, lr_acted = 0, lr_guarded = 0, lr_failed = 0, lr_gone = 0, lr_not_permitted = 0\<rparr>"

definition departed_rows :: "ListSubscription \<Rightarrow> membership_table \<Rightarrow> ListMembership list" where
  "departed_rows s table = filter (\<lambda>r. mb_left_at r \<noteq> None \<and> \<not> mb_left_handled r) (list_by_subscription (ls_id s) table)"

definition handle_departures ::
  "leave_env \<Rightarrow> ListSubscription \<Rightarrow> membership_table \<Rightarrow> LeaveReport \<times> leave_effect list \<times> membership_table" where
  "handle_departures env s table =
     (let results = map (\<lambda>r. (r, handle_departure env s table r)) (departed_rows s table);
          count = (\<lambda>P. length (filter (\<lambda>(_, d, _). P d) results));
          handled = map (\<lambda>(r, _). mb_item_key r) (filter (\<lambda>(_, d, _). settles d) results)
      in (\<lparr>lr_departed = length results, lr_acted = count (\<lambda>d. d = Acted), lr_guarded = count (\<lambda>d. d = Guarded),
           lr_failed = count (\<lambda>d. d = ActionFailed \<or> d = Unrouted), lr_gone = count (\<lambda>d. d = TitleGone),
           lr_not_permitted = count (\<lambda>d. d = NotPermitted)\<rparr>,
          concat (map (\<lambda>(_, _, effects). effects) results),
          set_left_handled (ls_id s) handled table))"

definition awaits_leave_action :: "ListSubscription \<Rightarrow> ListMembership \<Rightarrow> bool" where
  "awaits_leave_action s row \<longleftrightarrow> mb_left_at row \<noteq> None \<and> \<not> mb_left_handled row \<and> acting_title s row \<noteq> None"

definition has_runnable_leave_action ::
  "leave_env \<Rightarrow> ListSubscription \<Rightarrow> membership_table \<Rightarrow> ListMembership list \<Rightarrow> bool" where
  "has_runnable_leave_action env s table rows =
     list_ex (\<lambda>r. case acting_title s r of None \<Rightarrow> False | Some title \<Rightarrow> \<not> guard_holds env s table r title)
       (filter (\<lambda>r. awaits_leave_action s r \<and> \<not> waits_for_route s r) rows)"

section \<open>Times\<close>

text \<open>FNV-1a on 64 bits over the bytes of the id.\<close>

definition fnv1a :: "string \<Rightarrow> 64 word" where
  "fnv1a s = foldl (\<lambda>h b. (h XOR of_nat (of_char b)) * 0x100000001b3) 0xcbf29ce484222325 s"

definition sync_interval_seconds :: "ListSubscription \<Rightarrow> int" where
  "sync_interval_seconds s =
     (if src_provider (ls_source s) = ''simkl''
      then 5 * 3600 + uint (fnv1a (ls_id s) mod (2 * 3600 + 1))
      else max (ls_interval_seconds s) 60)"

definition next_sync_at :: "chrono \<Rightarrow> ListSubscription \<Rightarrow> datetime \<Rightarrow> datetime option" where
  "next_sync_at ch s now = Option.bind (ch_seconds ch (sync_interval_seconds s)) (ch_add ch now)"

definition MAX_RATE_LIMIT_PAUSE_SECONDS :: int where
  "MAX_RATE_LIMIT_PAUSE_SECONDS = 24 * 3600"

section \<open>Failures\<close>

datatype ListFailureClass =
  LF_Unauthorized | LF_NotFound | LF_RateLimited "nat option" | LF_Unavailable | LF_NotInstalled | LF_AccountRequired | LF_Failed

primrec ListFailureClass_as_str :: "ListFailureClass \<Rightarrow> string" where
  "ListFailureClass_as_str LF_Unauthorized = ''unauthorized''"
| "ListFailureClass_as_str LF_NotFound = ''not_found''"
| "ListFailureClass_as_str (LF_RateLimited _) = ''rate_limited''"
| "ListFailureClass_as_str LF_Unavailable = ''unavailable''"
| "ListFailureClass_as_str LF_NotInstalled = ''not_installed''"
| "ListFailureClass_as_str LF_AccountRequired = ''account_required''"
| "ListFailureClass_as_str LF_Failed = ''failed''"

record ListFailure =
  lf_class :: ListFailureClass
  lf_message :: string

definition ListFailure_new :: "ListFailureClass \<Rightarrow> string \<Rightarrow> ListFailure" where
  "ListFailure_new cls provider =
     \<lparr>lf_class = cls,
      lf_message = (case cls of
        LF_Unauthorized \<Rightarrow> provider @ '' no longer accepts the linked account; reconnect it''
      | LF_NotFound \<Rightarrow> ''The list no longer exists or is private.''
      | LF_RateLimited _ \<Rightarrow> provider @ '' returned 429 Too Many Requests. Scryer will retry at the next interval. Titles already added are unaffected.''
      | LF_Unavailable \<Rightarrow> provider @ '' could not be reached. Scryer will retry at the next interval. Titles already added are unaffected.''
      | LF_NotInstalled \<Rightarrow> ''No installed plugin provides '' @ provider @ '' lists.''
      | LF_AccountRequired \<Rightarrow> ''This list needs a linked '' @ provider @ '' account.''
      | LF_Failed \<Rightarrow> provider @ '' returned a list Scryer could not read. Titles already added are unaffected.'')\<rparr>"

definition job_failure_label :: "ListSubscription \<Rightarrow> ListFailure \<Rightarrow> string" where
  "job_failure_label s failure =
     (case ls_scope s of
        LS_Public \<Rightarrow> ''public list '' @ ls_id s @ '' ('' @ src_provider (ls_source s) @ ''): '' @ ListFailureClass_as_str (lf_class failure)
      | LS_Personal \<Rightarrow> ''personal list: '' @ ListFailureClass_as_str (lf_class failure))"

definition LIST_SYNC_EMPTY_FETCH_NOTE :: string where
  "LIST_SYNC_EMPTY_FETCH_NOTE = ''The provider returned no items, so no title was treated as having left the list.''"

definition LIST_SYNC_STORAGE_FAILURE_MESSAGE :: string where
  "LIST_SYNC_STORAGE_FAILURE_MESSAGE = ''Scryer could not save this list'' @ [CHR 0x27] @ ''s sync. It will retry at the next interval.''"

section \<open>Rows of a pass\<close>

definition membership_row ::
  "ListSubscription \<Rightarrow> ResolvedItem \<Rightarrow> ListMembership option \<Rightarrow> datetime \<Rightarrow> ListMembership" where
  "membership_row s item previous now =
     (let carried = (case previous of Some r \<Rightarrow> if mb_left_at r = None then Some r else None | None \<Rightarrow> None);
          bound = (case carried of Some r \<Rightarrow> if mb_title_id r \<noteq> None then Some r else None | None \<Rightarrow> None);
          series_movie = (case bound of
             Some b \<Rightarrow> map_option (\<lambda>target.
                 case ri_series_movie item of
                   Some current \<Rightarrow>
                     if ri_library_title_id item = mb_title_id b \<and> sm_parent_smg_id current = sm_parent_smg_id target \<and>
                        sm_link_id current \<noteq> None
                     then target\<lparr>sm_link_id := sm_link_id current\<rparr> else target
                 | None \<Rightarrow> target) (mb_series_movie b)
           | None \<Rightarrow> ri_series_movie item)
      in \<lparr>mb_series_movie = series_movie, mb_subscription_id = ls_id s, mb_item_key = pi_item_key (ri_item item),
          mb_rank = pi_rank (ri_item item), mb_season = pi_season (ri_item item), mb_display_title = display_title item,
          mb_year = pi_year (ri_item item), mb_external_ids = ri_external_ids item, mb_smg_title_id = ri_smg_title_id item,
          mb_title_id = Option.bind carried mb_title_id, mb_request_id = Option.bind carried mb_request_id,
          mb_kind = (case bound of Some r \<Rightarrow> mb_kind r
            | None \<Rightarrow> (case ri_kind item of Some k \<Rightarrow> k | None \<Rightarrow> (case ls_kinds s of k # _ \<Rightarrow> k | [] \<Rightarrow> Movie))),
          mb_state = M_Unresolved, mb_state_reason = None,
          mb_added_by_list = (case previous of Some r \<Rightarrow> mb_added_by_list r | None \<Rightarrow> False),
          mb_first_seen_at = (case previous of Some r \<Rightarrow> mb_first_seen_at r | None \<Rightarrow> now),
          mb_last_seen_at = now, mb_left_at = None, mb_left_handled = False\<rparr>)"

definition deleted_additions ::
  "(string \<Rightarrow> bool) \<Rightarrow> ResolvedItem list \<Rightarrow> (string \<rightharpoonup> ListMembership) \<Rightarrow> string set" where
  "deleted_additions title_exists items existing =
     set (map (\<lambda>item. pi_item_key (ri_item item))
       (filter (\<lambda>item.
          case existing (pi_item_key (ri_item item)) of
            None \<Rightarrow> False
          | Some row \<Rightarrow>
              mb_left_at row = None \<and> mb_state row = M_Added \<and>
              (case mb_title_id row of
                 None \<Rightarrow> False
               | Some title \<Rightarrow> ri_library_title_id item \<noteq> Some title \<and> \<not> title_exists title)) items))"

definition without_rows :: "(string \<rightharpoonup> ListMembership) \<Rightarrow> string set \<Rightarrow> (string \<rightharpoonup> ListMembership)" where
  "without_rows existing keys = (\<lambda>k. if k \<in> keys then None else existing k)"

datatype SubscriptionStanding = Standing_Active | Standing_Disabled | Standing_Gone

record sync_pass =
  ps_reads :: nat \<comment> \<open>reads of the subscription's standing so far\<close>
  ps_stopped :: bool
  ps_gone :: bool
  ps_table :: membership_table
  ps_rows :: "ListMembership list"
  ps_acted :: "ListMembershipState list"
  ps_effects :: "act_effect list"

definition apply_outcome :: "ActOutcome \<Rightarrow> ListMembership \<Rightarrow> ListMembership" where
  "apply_outcome outcome row =
     row\<lparr>mb_state := ao_state outcome, mb_state_reason := ao_reason outcome,
         mb_added_by_list := (mb_added_by_list row \<or> ao_added_by_list outcome),
         mb_title_id := (case ao_title_id outcome of Some t \<Rightarrow> Some t | None \<Rightarrow> mb_title_id row),
         mb_request_id := (case ao_request_id outcome of Some r \<Rightarrow> Some r | None \<Rightarrow> mb_request_id row)\<rparr>"

definition act_item ::
  "list_actions \<Rightarrow> (nat \<Rightarrow> SubscriptionStanding) \<Rightarrow> ListSubscription \<Rightarrow> bool \<Rightarrow> ResolvedItem \<Rightarrow> ListMembership \<Rightarrow> sync_pass \<Rightarrow> sync_pass" where
  "act_item act standing s hold item row p =
     (let now_standing = (if ps_stopped p then Standing_Disabled else standing (ps_reads p));
          p = (if ps_stopped p then p else p\<lparr>ps_reads := ps_reads p + 1\<rparr>)
      in case now_standing of
           Standing_Gone \<Rightarrow> p\<lparr>ps_gone := True\<rparr>
         | Standing_Disabled \<Rightarrow>
             p\<lparr>ps_stopped := True, ps_rows := ps_rows p @ [row\<lparr>mb_state := M_Pending\<rparr>]\<rparr>
         | Standing_Active \<Rightarrow>
             (let (outcome, effects) = act_on_candidate act s item hold; row = apply_outcome outcome row
              in p\<lparr>ps_acted := ps_acted p @ [ao_state outcome], ps_effects := ps_effects p @ effects,
                   ps_table := upsert_many [row] (ps_table p), ps_rows := ps_rows p @ [row]\<rparr>))"

definition sync_item ::
  "list_actions \<Rightarrow> (nat \<Rightarrow> SubscriptionStanding) \<Rightarrow> ListSubscription \<Rightarrow> bool \<Rightarrow> (string \<rightharpoonup> ListMembership) \<Rightarrow> string set \<Rightarrow>
   datetime \<Rightarrow> sync_pass \<Rightarrow> EvaluatedItem \<Rightarrow> sync_pass" where
  "sync_item act standing s hold existing deleted now p e =
     (if ps_gone p then p
      else
        (let previous = existing (pi_item_key (ri_item (ev_item e)));
             row = membership_row s (ev_item e) previous now;
             row = (if mb_item_key row \<in> deleted then row\<lparr>mb_title_id := None, mb_added_by_list := False\<rparr> else row);
             keep = (\<lambda>row. p\<lparr>ps_rows := ps_rows p @ [row]\<rparr>)
         in case ev_decision e of
              D_Excluded \<Rightarrow> keep (row\<lparr>mb_state := M_Excluded\<rparr>)
            | D_Filtered r \<Rightarrow> keep (row\<lparr>mb_state := M_Filtered, mb_state_reason := Some r\<rparr>)
            | D_InLibrary title \<Rightarrow> keep (row\<lparr>mb_state := M_InLibrary, mb_title_id := Some title\<rparr>)
            | D_Keep state \<Rightarrow>
                keep (row\<lparr>mb_state := state, mb_state_reason := Option.bind previous mb_state_reason\<rparr>)
            | D_Unresolved \<Rightarrow>
                keep (row\<lparr>mb_state := M_Unresolved, mb_state_reason := ri_resolution_reason (ev_item e)\<rparr>)
            | D_Deferred \<Rightarrow> keep (row\<lparr>mb_state := M_Pending\<rparr>)
            | D_Candidate \<Rightarrow> act_item act standing s hold (ev_item e) row p))"

definition INCLUDE_MEDIA_PARAM :: string where
  "INCLUDE_MEDIA_PARAM = ''__include__''"

definition retained_rows :: "ListSubscription \<Rightarrow> ListMembership list \<Rightarrow> ListMembership list \<Rightarrow> datetime \<Rightarrow> ListMembership list" where
  "retained_rows s existing rows now =
     (if list_ex (\<lambda>(k, v). k \<in> {''kind'', ''type''} \<and> v = INCLUDE_MEDIA_PARAM) (src_params (ls_source s))
      then map (\<lambda>r. r\<lparr>mb_last_seen_at := now\<rparr>)
             (filter (\<lambda>r. mb_left_at r = None \<and> mb_kind r \<notin> set (ls_kinds s) \<and> mb_item_key r \<notin> set (map mb_item_key rows)) existing)
      else [])"

section \<open>Records of a sync\<close>

record list_world =
  lw_memberships :: membership_table
  lw_sync :: ListSyncStatus
  lw_counts :: ListCounts
  lw_runs :: "(ListSyncRunOutcome \<times> ListCounts \<times> string option) list"

datatype sync_effect = Act act_effect | Leave leave_effect | ExpireAccount | RecordSyncFailure ListFailure

datatype SubscriptionSyncOutcome = Synced ListCounts nat | Unchanged | SyncOff | SyncFailed ListFailure

text \<open>\<open>record_sync_outcome\<close>: a sync asked for while this one ran is kept.\<close>

definition record_sync_outcome :: "ListSyncStatus \<Rightarrow> ListSyncStatus \<Rightarrow> ListSyncStatus \<Rightarrow> ListSyncStatus" where
  "record_sync_outcome stored read sync =
     (if ss_next_at stored \<noteq> ss_next_at read
      then sync\<lparr>ss_next_at := ss_next_at stored, ss_fetch_fingerprint := ss_fetch_fingerprint stored\<rparr> else sync)"

definition finish ::
  "ListSubscription \<Rightarrow> ListSyncStatus \<Rightarrow> ListCounts \<Rightarrow> ListSyncRunOutcome \<Rightarrow> string option \<Rightarrow> list_world \<Rightarrow> list_world" where
  "finish s status counts outcome note' w =
     w\<lparr>lw_sync := record_sync_outcome (lw_sync w) (ls_sync s) status, lw_counts := counts,
       lw_runs := (outcome, counts, note') # lw_runs w\<rparr>"

definition ok_status :: "datetime \<Rightarrow> datetime \<Rightarrow> string option \<Rightarrow> ListSyncStatus" where
  "ok_status now next fingerprint =
     \<lparr>ss_state = Sync_Ok, ss_last_at = Some now, ss_next_at = Some next, ss_error_message = None, ss_error_at = None,
      ss_paused_until = None, ss_fetch_fingerprint = fingerprint\<rparr>"

text \<open>Each of these is \<open>None\<close> when the date arithmetic leaves the range of the date type (a panic).\<close>

definition record_unchanged ::
  "chrono \<Rightarrow> ListSubscription \<Rightarrow> datetime \<Rightarrow> string option \<Rightarrow> list_world \<Rightarrow> (SubscriptionSyncOutcome \<times> list_world) option" where
  "record_unchanged ch s now fingerprint w =
     map_option (\<lambda>next.
       (Unchanged, finish s (ok_status now next (or_else fingerprint (ss_fetch_fingerprint (ls_sync s))))
          (ls_counts s) Run_Succeeded None w)) (next_sync_at ch s now)"

definition record_empty_fetch ::
  "chrono \<Rightarrow> ListSubscription \<Rightarrow> datetime \<Rightarrow> string option \<Rightarrow> list_world \<Rightarrow> (SubscriptionSyncOutcome \<times> list_world) option" where
  "record_empty_fetch ch s now fingerprint w =
     map_option (\<lambda>next.
       (Synced ListCounts_default 0,
        finish s (ok_status now next fingerprint) (ls_counts s) Run_Succeeded (Some LIST_SYNC_EMPTY_FETCH_NOTE) w))
       (next_sync_at ch s now)"

definition record_off ::
  "chrono \<Rightarrow> ListSubscription \<Rightarrow> datetime \<Rightarrow> list_world \<Rightarrow> (SubscriptionSyncOutcome \<times> list_world) option" where
  "record_off ch s now w =
     map_option (\<lambda>next.
       (SyncOff, finish s ((ls_sync s)\<lparr>ss_state := Sync_Off, ss_next_at := Some next\<rparr>) (ls_counts s) Run_Skipped None w))
       (next_sync_at ch s now)"

definition paused_until :: "chrono \<Rightarrow> ListFailureClass \<Rightarrow> datetime \<Rightarrow> datetime \<Rightarrow> datetime option option" where
  "paused_until ch cls now next =
     (case cls of
        LF_RateLimited (Some seconds) \<Rightarrow>
          map_option (\<lambda>retry. if next < retry then Some retry else None)
            (Option.bind (ch_seconds ch (min (min (int seconds) i64_max) MAX_RATE_LIMIT_PAUSE_SECONDS)) (ch_add ch now))
      | _ \<Rightarrow> Some None)"

definition record_failure ::
  "chrono \<Rightarrow> bool \<Rightarrow> ListSubscription \<Rightarrow> datetime \<Rightarrow> ListFailure \<Rightarrow> list_world \<Rightarrow>
   (SubscriptionSyncOutcome \<times> sync_effect list \<times> list_world) option" where
  "record_failure ch own_account s now failure w =
     do {
       next \<leftarrow> next_sync_at ch s now;
       paused \<leftarrow> paused_until ch (lf_class failure) now next;
       let status = (ls_sync s)\<lparr>ss_state := Sync_Fail, ss_error_message := Some (lf_message failure), ss_error_at := Some now,
              ss_next_at := Some (case paused of Some p \<Rightarrow> p | None \<Rightarrow> next), ss_paused_until := paused\<rparr>;
       let newly_failing = (ss_state (ls_sync s) \<noteq> Sync_Fail \<or> ss_error_message (ls_sync s) \<noteq> Some (lf_message failure));
       Some (SyncFailed failure,
             (if is_personal s \<and> lf_class failure = LF_Unauthorized \<and> own_account then [ExpireAccount] else []) @
             (if newly_failing then [RecordSyncFailure failure] else []),
             finish s status (ls_counts s) Run_Failed (Some (lf_message failure)) w)
     }"

definition record_storage_failure ::
  "chrono \<Rightarrow> ListSubscription \<Rightarrow> datetime \<Rightarrow> list_world \<Rightarrow> (SubscriptionSyncOutcome \<times> list_world) option" where
  "record_storage_failure ch s now w =
     map_option (\<lambda>next.
       (SyncFailed \<lparr>lf_class = LF_Failed, lf_message = LIST_SYNC_STORAGE_FAILURE_MESSAGE\<rparr>,
        finish s ((ls_sync s)\<lparr>ss_state := Sync_Fail, ss_error_message := Some LIST_SYNC_STORAGE_FAILURE_MESSAGE,
            ss_error_at := Some now, ss_next_at := Some next\<rparr>)
          (ls_counts s) Run_Failed (Some LIST_SYNC_STORAGE_FAILURE_MESSAGE) w))
       (next_sync_at ch s now)"

section \<open>One sync\<close>

record FetchedList =
  fe_items :: "ListPluginItem list"
  fe_unchanged :: bool
  fe_fingerprint :: "string option"

definition dedupe :: "ListPluginItem list \<Rightarrow> ListPluginItem list" where
  "dedupe items = filter_seen pi_item_key [] items"

record 'e sync_env =
  sy_chrono :: chrono
  sy_filters :: filter_env
  sy_current :: "ListSubscription option" \<comment> \<open>a personal list, read again under the account lock\<close>
  sy_same_credential :: bool \<comment> \<open>it still reads with the same account\<close>
  sy_policy :: ListPolicy \<comment> \<open>of the owner of a personal list\<close>
  sy_owner_enabled :: bool
  sy_credential :: "ListFailure option" \<comment> \<open>why the linked account cannot be used\<close>
  sy_own_account :: bool \<comment> \<open>the linked account is the owner's and the provider's\<close>
  sy_fetch :: "ListFailure + FetchedList"
  sy_fetch_whole :: "ListFailure + FetchedList" \<comment> \<open>without the fingerprint\<close>
  sy_normalize :: "ListSubscription \<Rightarrow> ListSubscription option" \<comment> \<open>\<open>normalize_filters\<close>\<close>
  sy_resolver :: "ResolveInput list \<Rightarrow> 'e + ResolveOutput list"
  sy_enrich :: "ResolvedItem list \<Rightarrow> 'e + ResolvedItem list"
  sy_exclusions :: "ListExclusion list"
  sy_title_exists :: "string \<Rightarrow> bool"
  sy_standing :: "nat \<Rightarrow> SubscriptionStanding"
  sy_actions :: list_actions
  sy_leave :: leave_env

definition stored_item :: "ListMembership \<Rightarrow> ListPluginItem" where
  "stored_item row =
     \<lparr>pi_item_key = mb_item_key row,
      pi_rank = (case mb_rank row of Some r \<Rightarrow> if 0 \<le> r \<and> r \<le> int u32_max then Some r else None | None \<Rightarrow> None),
      pi_kind_hint = Some (if mb_series_movie row \<noteq> None then Movie else mb_kind row),
      pi_title = mb_display_title row, pi_year = mb_year row,
      pi_external_ids = map (\<lambda>x. \<lparr>li_source = xid_source x, li_kind = xid_kind x, li_id = xid_value x\<rparr>) (mb_external_ids row) @
        (case mb_smg_title_id row of Some i \<Rightarrow> [\<lparr>li_source = ''smg'', li_kind = None, li_id = show_int i\<rparr>] | None \<Rightarrow> []),
      pi_season = mb_season row, pi_format = None\<rparr>"

definition cmp_stored :: "ListMembership \<Rightarrow> ListMembership \<Rightarrow> ordering" where
  "cmp_stored a b = then_with (cmp_option (mb_rank a) (mb_rank b)) (cmp (mb_item_key a) (mb_item_key b))"

text \<open>An unchanged list whose filters read metadata is weighed again from its stored rows.\<close>

definition from_stored :: "ListSubscription \<Rightarrow> membership_table \<Rightarrow> FetchedList \<Rightarrow> FetchedList" where
  "from_stored s table fetched =
     (let stored = filter (\<lambda>r. mb_left_at r = None) (list_by_subscription (ls_id s) table)
      in if fe_unchanged fetched \<and> requires_metadata (ls_filters s) \<and>
            \<not> list_ex (\<lambda>f. case f of Format _ \<Rightarrow> True | _ \<Rightarrow> False) (ls_filters s) \<and>
            list_all (\<lambda>r. mb_state r \<noteq> M_Unresolved) stored
         then fetched\<lparr>fe_items := map stored_item (sort_by cmp_stored stored), fe_unchanged := False\<rparr>
         else fetched)"

definition has_unfinished_work :: "'e sync_env \<Rightarrow> ListSubscription \<Rightarrow> membership_table \<Rightarrow> bool" where
  "has_unfinished_work env s table =
     (let rows = list_by_subscription (ls_id s) table
      in edited_since_last_sync s \<or>
         list_ex (\<lambda>r. mb_left_at r = None \<and> mb_state r \<in> {M_Pending, M_Unresolved}) rows \<or>
         list_ex (\<lambda>r. mb_left_at r = None \<and> mb_state r = M_Added \<and>
            (case mb_title_id r of Some t \<Rightarrow> \<not> sy_title_exists env t | None \<Rightarrow> False)) rows \<or>
         has_runnable_leave_action (sy_leave env) s table rows)"

text \<open>The pass over the items: act, write the rows, mark what left, run the departures, record.\<close>

definition sync_items ::
  "'e sync_env \<Rightarrow> ListSubscription \<Rightarrow> datetime \<Rightarrow> string option \<Rightarrow> ResolvedItem list \<Rightarrow> list_world \<Rightarrow>
   (SubscriptionSyncOutcome \<times> sync_effect list \<times> list_world) option" where
  "sync_items env s now fingerprint resolved w =
     (let stored = list_by_subscription (ls_id s) (lw_memberships w);
          existing = map_of (map (\<lambda>r. (mb_item_key r, r)) stored);
          deleted = deleted_additions (sy_title_exists env) resolved existing;
          evaluated = evaluate (sy_filters env) s (sy_exclusions env) (without_rows existing deleted) resolved;
          p = foldl (sync_item (sy_actions env) (sy_standing env) s (is_personal s \<and> sy_policy env = Policy_Approval) existing deleted now)
                \<lparr>ps_reads = 0, ps_stopped = False, ps_gone = False, ps_table = lw_memberships w, ps_rows = [],
                 ps_acted = [], ps_effects = []\<rparr> evaluated;
          acts = map Act (ps_effects p)
      in if ps_gone p then Some (SyncOff, acts, w\<lparr>lw_memberships := ps_table p\<rparr>)
         else
           (let rows = ps_rows p @ retained_rows s stored (ps_rows p) now;
                table = mark_left (ls_id s) now now (upsert_many rows (ps_table p));
                standing = (if ps_stopped p then Standing_Disabled else sy_standing env (ps_reads p))
            in if standing = Standing_Gone then Some (SyncOff, acts, w\<lparr>lw_memberships := table\<rparr>)
               else
                 (let (report, leaves, table) =
                        (if standing = Standing_Disabled then (LeaveReport_default, [], table)
                         else handle_departures (sy_leave env) s table);
                      counts = count_states (map mb_state rows)
                  in map_option (\<lambda>next.
                       (Synced (count_states (ps_acted p)) (lr_acted report), acts @ map Leave leaves,
                        finish s (ok_status now next fingerprint) counts Run_Succeeded None (w\<lparr>lw_memberships := table\<rparr>)))
                       (next_sync_at (sy_chrono env) s now))))"

definition metadata_failure :: ListFailure where
  "metadata_failure = ListFailure_new LF_Unavailable ''The metadata service''"

definition sync_fetched ::
  "'e sync_env \<Rightarrow> ListSubscription \<Rightarrow> datetime \<Rightarrow> FetchedList \<Rightarrow> list_world \<Rightarrow>
   (SubscriptionSyncOutcome \<times> sync_effect list \<times> list_world) option" where
  "sync_fetched env s now fetched w =
     (let items = dedupe (fe_items fetched); fail = (\<lambda>s. record_failure (sy_chrono env) (sy_own_account env) s now metadata_failure w)
      in if items = []
         then map_option (\<lambda>(outcome, w). (outcome, [], w)) (record_empty_fetch (sy_chrono env) s now (fe_fingerprint fetched) w)
         else case sy_normalize env s of
           None \<Rightarrow> fail s
         | Some normalized \<Rightarrow>
             (case resolve_items normalized items (sy_resolver env) (sy_enrich env) of
                Inl _ \<Rightarrow> fail normalized
              | Inr resolved \<Rightarrow> sync_items env normalized now (fe_fingerprint fetched) resolved w))"

definition sync_following ::
  "'e sync_env \<Rightarrow> ListSubscription \<Rightarrow> datetime \<Rightarrow> list_world \<Rightarrow>
   (SubscriptionSyncOutcome \<times> sync_effect list \<times> list_world) option" where
  "sync_following env s now w =
     (let fail = (\<lambda>failure. record_failure (sy_chrono env) (sy_own_account env) s now failure w);
          unchanged = (\<lambda>fetched. map_option (\<lambda>(outcome, w). (outcome, [], w))
            (record_unchanged (sy_chrono env) s now (fe_fingerprint fetched) w))
      in case sy_fetch env of
           Inl failure \<Rightarrow> fail failure
         | Inr first_fetch \<Rightarrow>
             (let fetched = from_stored s (lw_memberships w) first_fetch
              in if \<not> fe_unchanged fetched then sync_fetched env s now fetched w
                 else if \<not> requires_metadata (ls_filters s) \<and> \<not> has_unfinished_work env s (lw_memberships w)
                 then unchanged fetched
                 else case sy_fetch_whole env of
                   Inl failure \<Rightarrow> fail failure
                 | Inr whole \<Rightarrow> if fe_unchanged whole then unchanged whole else sync_fetched env s now whole w))"

definition sync_subscription ::
  "'e sync_env \<Rightarrow> ListSubscription \<Rightarrow> datetime \<Rightarrow> list_world \<Rightarrow>
   (SubscriptionSyncOutcome \<times> sync_effect list \<times> list_world) option" where
  "sync_subscription env s now w =
     (let current = (if \<not> is_personal s then Some s
            else case sy_current env of
              Some row \<Rightarrow>
                if is_personal row \<and> ls_enabled row \<and> ls_owner_user_id row = ls_owner_user_id s \<and> sy_same_credential env
                then Some row else None
            | None \<Rightarrow> None)
      in case current of
           None \<Rightarrow> Some (SyncOff, [], w)
         | Some s \<Rightarrow>
             if is_personal s \<and> (sy_policy env = Policy_None \<or> \<not> sy_owner_enabled env)
             then map_option (\<lambda>(outcome, w). (outcome, [], w)) (record_off (sy_chrono env) s now w)
             else case (if is_personal s then sy_credential env else None) of
               Some failure \<Rightarrow> record_failure (sy_chrono env) (sy_own_account env) s now failure w
             | None \<Rightarrow> sync_following env s now w)"

section \<open>Rejected requests\<close>

record MediaRequest =
  mr_id :: string
  mr_origin :: MediaRequestOrigin
  mr_facet :: MediaFacet
  mr_external_ids :: "ExternalId list"
  mr_title :: string
  mr_year :: "int option"
  mr_identity_fingerprint :: string
  mr_series_movies :: "(ExternalId list \<times> string) list" \<comment> \<open>of the requested monitor selection\<close>

definition is_list_series_movie :: "MediaRequest \<Rightarrow> bool" where
  "is_list_series_movie r \<longleftrightarrow>
     origin_subscription_id (mr_origin r) \<noteq> None \<and> starts_with (mr_identity_fingerprint r) ''list-movie:''"

record RejectionRecord =
  rj_exclusions_created :: nat
  rj_memberships_excluded :: nat
  rj_memberships_rejected :: nat

definition rejected_target :: "MediaRequest \<Rightarrow> (MediaFacet \<times> ExternalId list \<times> string) option" where
  "rejected_target r =
     (if is_list_series_movie r
      then (case mr_series_movies r of (ids, name) # _ \<Rightarrow> Some (Movie, ids, name) | [] \<Rightarrow> None)
      else Some (mr_facet r, mr_external_ids r, mr_title r))"

definition rejected_subscriptions :: "MediaRequest \<Rightarrow> ListMembership list \<Rightarrow> string list" where
  "rejected_subscriptions r rows =
     sort_dedup ((case origin_subscription_id (mr_origin r) of Some i \<Rightarrow> [i] | None \<Rightarrow> []) @ map mb_subscription_id rows)"

text \<open>
  The store of exclusions is the list of them; \<open>find_matching\<close> is the store's query. The result is the
  record, the exclusions and the memberships, or \<open>None\<close> for a list movie request without its movie.
\<close>

definition remember_rejected_request ::
  "(string \<Rightarrow> ListSubscription option) \<Rightarrow>
   (ListExclusion list \<Rightarrow> MediaFacet \<Rightarrow> ExternalId list \<Rightarrow> string \<Rightarrow> ListExclusion list) \<Rightarrow> MediaRequest \<Rightarrow> string \<Rightarrow> datetime \<Rightarrow>
   ListExclusion list \<Rightarrow> membership_table \<Rightarrow> (RejectionRecord \<times> ListExclusion list \<times> membership_table) option" where
  "remember_rejected_request subscriptions find_matching r user now exclusions table =
     (let rows = list_by_request (mr_id r) table; ids = rejected_subscriptions r rows
      in if mr_origin r = Manual \<and> rows = [] then Some (\<lparr>rj_exclusions_created = 0, rj_memberships_excluded = 0, rj_memberships_rejected = 0\<rparr>, exclusions, table)
         else case rejected_target r of
           None \<Rightarrow> None
         | Some (kind, external_ids, title) \<Rightarrow>
             (let public = filter (\<lambda>s. ls_scope s = LS_Public) (List.map_filter subscriptions ids);
                  exclusions' = foldl (\<lambda>es s.
                    if find_matching es kind external_ids (ls_id s) \<noteq> [] \<or> external_ids = [] then es
                    else es @ [\<lparr>ex_kind = kind, ex_external_ids = external_ids, ex_display_title = title, ex_year = mr_year r,
                                ex_scope = OneList (ls_id s), ex_created_by_user_id = Some user, ex_created_at = now\<rparr>])
                    exclusions public;
                  present = filter (\<lambda>row. mb_left_at row = None) rows;
                  state = (\<lambda>row. if mb_subscription_id row \<in> set (map ls_id public) then M_Excluded else M_Rejected);
                  updated = map (\<lambda>row. row\<lparr>mb_state := state row, mb_state_reason := Some ''request_rejected''\<rparr>) present
              in Some (\<lparr>rj_exclusions_created = length exclusions' - length exclusions,
                        rj_memberships_excluded = length (filter (\<lambda>row. state row = M_Excluded) present),
                        rj_memberships_rejected = length (filter (\<lambda>row. state row = M_Rejected) present)\<rparr>,
                       exclusions', upsert_many updated table)))"

section \<open>The table keeps its key\<close>

definition table_ok :: "membership_table \<Rightarrow> bool" where
  "table_ok table \<longleftrightarrow> distinct (map row_key table)"

lemma refresh_key: "row_key (refresh_row r row) = row_key row"
  by (simp add: refresh_row_def)

lemma upsert_keys: "set (map row_key (upsert table row)) = insert (row_key row) (set (map row_key table))"
  by (induction table) (auto simp: refresh_row_def)

lemma upsert_ok: "table_ok table \<Longrightarrow> table_ok (upsert table row)"
proof (induction table)
  case Nil
  then show ?case by (simp add: table_ok_def)
next
  case (Cons r rs)
  then have r: "row_key r \<notin> set (map row_key rs)" and rs: "table_ok rs" by (simp_all add: table_ok_def)
  show ?case
  proof (cases "row_key r = row_key row")
    case True
    with Cons.prems show ?thesis by (simp add: table_ok_def refresh_row_def)
  next
    case False
    then have "row_key r \<notin> set (map row_key (upsert rs row))" unfolding upsert_keys using r by simp
    moreover have "upsert (r # rs) row = r # upsert rs row" using False by (simp only: upsert.simps if_False)
    ultimately show ?thesis using Cons.IH [OF rs] by (simp only: table_ok_def list.map distinct.simps) simp
  qed
qed

lemma upsert_many_ok: "table_ok table \<Longrightarrow> table_ok (upsert_many rows table)"
  unfolding upsert_many_def by (induction rows arbitrary: table) (simp_all add: upsert_ok)

lemma mark_left_keys: "map row_key (mark_left s seen_before t table) = map row_key table"
  by (simp add: mark_left_def)

lemma set_left_handled_keys: "map row_key (set_left_handled s keys table) = map row_key table"
  by (simp add: set_left_handled_def)

text \<open>What an upsert of rows of one subscription leaves of the others.\<close>

lemma upsert_others:
  "P row = False \<Longrightarrow> (\<And>r. row_key r = row_key row \<Longrightarrow> P r = False) \<Longrightarrow> filter P (upsert table row) = filter P table"
  by (induction table) (auto simp: refresh_row_def)

section \<open>Departures touch only what the list added\<close>

text \<open>A title an effect changes, as opposed to a departure that is only recorded.\<close>

fun touched :: "leave_effect \<Rightarrow> string option" where
  "touched (Unmonitor t) = Some t"
| "touched (TagTitle t _) = Some t"
| "touched (RecordDeparture _ _) = None"

lemma leave_action_touched:
  "e \<in> set (snd (leave_action env on_leave title)) \<Longrightarrow> touched e = Some t \<Longrightarrow>
   t = title \<and> on_leave \<in> {Leave_Unmonitor, Leave_Tag}"
  by (cases on_leave) (auto simp: leave_action_def Let_def split: if_splits)


text \<open>
  C37. Every departure is acted on at most once. After the departures of a list have been handled, the
  rows that were settled (acted on, nothing owed, not permitted, or the title gone) are marked, so a
  second handling over what is left issues effects only for rows whose action is still owed: another
  list held them back, the kind had no route, or the action failed.
\<close>
theorem departures_are_handled_once:
  assumes "row \<in> set (departed_rows s (snd (snd (handle_departures env s table))))"
  shows "row \<in> set (departed_rows s table) \<and>
    fst (handle_departure env s table row) \<in> {Guarded, Unrouted, ActionFailed}"
proof -
  define handled where "handled = map (\<lambda>(r, _). mb_item_key r) (filter (\<lambda>(_, d, _). settles d)
      (map (\<lambda>r. (r, handle_departure env s table r)) (departed_rows s table)))"
  have table': "snd (snd (handle_departures env s table)) = set_left_handled (ls_id s) handled table"
    by (simp add: handle_departures_def Let_def handled_def)
  have row: "row \<in> set (departed_rows s table)" "mb_item_key row \<notin> set handled"
    using assms unfolding table' by (auto simp: departed_rows_def list_by_subscription_def set_left_handled_def split: if_splits)
  have "\<not> settles (fst (handle_departure env s table row))"
  proof
    assume "settles (fst (handle_departure env s table row))"
    with row(1) have "mb_item_key row \<in> set handled" by (force simp: handled_def)
    with row(2) show False by simp
  qed
  then show ?thesis using row(1) by (cases "fst (handle_departure env s table row)") (simp_all add: settles_def)
qed

section \<open>What a sync leaves in the table\<close>

definition row_at :: "string \<times> string \<Rightarrow> membership_table \<Rightarrow> ListMembership option" where
  "row_at k table = List.find (\<lambda>r. row_key r = k) table"

lemma row_at_upsert:
  "row_at k (upsert table row) =
     (if k = row_key row then Some (case row_at k table of Some r \<Rightarrow> refresh_row r row | None \<Rightarrow> row) else row_at k table)"
  by (induction table) (auto simp: row_at_def refresh_row_def)

lemma row_at_upsert_many_other:
  "k \<notin> row_key ` set rows \<Longrightarrow> row_at k (upsert_many rows table) = row_at k table"
  unfolding upsert_many_def by (induction rows arbitrary: table) (auto simp: row_at_upsert)

lemma upsert_many_snoc: "upsert_many (rows @ [row]) table = upsert (upsert_many rows table) row"
  by (simp add: upsert_many_def)

lemma row_at_upsert_many:
  assumes "\<And>row r. row \<in> set rows \<Longrightarrow> P row \<and> P (refresh_row r row)" "k \<in> row_key ` set rows"
  shows "\<exists>r. row_at k (upsert_many rows table) = Some r \<and> P r"
  using assms
proof (induction rows rule: rev_induct)
  case Nil
  then show ?case by simp
next
  case (snoc row rows)
  then show ?case
    by (cases "k = row_key row") (auto simp: upsert_many_snoc row_at_upsert split: option.split)
qed

lemma row_at_unique: "table_ok table \<Longrightarrow> row_at k table = Some r \<longleftrightarrow> r \<in> set table \<and> row_key r = k"
proof (induction table)
  case Nil
  then show ?case by (simp add: row_at_def)
next
  case (Cons x xs)
  then have "row_key x \<notin> row_key ` set xs" "table_ok xs" by (simp_all add: table_ok_def)
  with Cons.IH show ?case by (auto simp: row_at_def)
qed

text \<open>A row of this pass: seen now and present.\<close>

definition current_row :: "ListSubscription \<Rightarrow> datetime \<Rightarrow> ListMembership \<Rightarrow> bool" where
  "current_row s now r \<longleftrightarrow> mb_subscription_id r = ls_id s \<and> mb_last_seen_at r = now \<and> mb_left_at r = None"

lemma current_refresh: "current_row s now row \<Longrightarrow> current_row s now (refresh_row r row)"
  by (simp add: current_row_def refresh_row_def)

lemma membership_row_current:
  "current_row s now (membership_row s item previous now)" "mb_item_key (membership_row s item previous now) = pi_item_key (ri_item item)"
  by (simp_all add: current_row_def membership_row_def Let_def)

definition pass_ok :: "ListSubscription \<Rightarrow> datetime \<Rightarrow> membership_table \<Rightarrow> string list \<Rightarrow> sync_pass \<Rightarrow> bool" where
  "pass_ok s now table keys p \<longleftrightarrow>
     list_all (current_row s now) (ps_rows p) \<and>
     (\<exists>acted. set acted \<subseteq> set (ps_rows p) \<and> ps_table p = upsert_many acted table) \<and>
     (ps_gone p \<or> map mb_item_key (ps_rows p) = keys)"

lemma pass_ok_step:
  assumes "pass_ok s now table keys p"
  shows "pass_ok s now table (keys @ [pi_item_key (ri_item (ev_item e))])
    (sync_item act standing s hold existing deleted now p e)"
proof (cases "ps_gone p")
  case True
  with assms show ?thesis by (auto simp: pass_ok_def sync_item_def)
next
  case False
  define row where "row = (let row = membership_row s (ev_item e) (existing (pi_item_key (ri_item (ev_item e)))) now
    in if mb_item_key row \<in> deleted then row\<lparr>mb_title_id := None, mb_added_by_list := False\<rparr> else row)"
  have row: "current_row s now row" "mb_item_key row = pi_item_key (ri_item (ev_item e))"
    using membership_row_current [where s = s and now = now and item = "ev_item e"]
    by (auto simp: row_def Let_def current_row_def)
  obtain acted where acted: "set acted \<subseteq> set (ps_rows p)" "ps_table p = upsert_many acted table"
    using assms by (auto simp: pass_ok_def)
  have keep: "pass_ok s now table (keys @ [pi_item_key (ri_item (ev_item e))]) (q\<lparr>ps_rows := ps_rows p @ [r]\<rparr>)"
    if "current_row s now r" "mb_item_key r = pi_item_key (ri_item (ev_item e))" "ps_table q = ps_table p" for q r
    using assms False acted that by (auto simp: pass_ok_def)
  have act: "pass_ok s now table (keys @ [pi_item_key (ri_item (ev_item e))]) (act_item act standing s hold (ev_item e) row p)"
  proof -
    have "\<exists>acted'. set acted' \<subseteq> insert r (set (ps_rows p)) \<and> upsert_many [r] (ps_table p) = upsert_many acted' table" for r
      using acted by (intro exI [of _ "acted @ [r]"]) (auto simp: upsert_many_def)
    then show ?thesis
      using assms False acted row
      by (auto simp: act_item_def Let_def case_prod_unfold pass_ok_def apply_outcome_def current_row_def
          split: SubscriptionStanding.split)
  qed
  have "sync_item act standing s hold existing deleted now p e =
    (case ev_decision e of
       D_Excluded \<Rightarrow> p\<lparr>ps_rows := ps_rows p @ [row\<lparr>mb_state := M_Excluded\<rparr>]\<rparr>
     | D_Filtered r \<Rightarrow> p\<lparr>ps_rows := ps_rows p @ [row\<lparr>mb_state := M_Filtered, mb_state_reason := Some r\<rparr>]\<rparr>
     | D_InLibrary title \<Rightarrow> p\<lparr>ps_rows := ps_rows p @ [row\<lparr>mb_state := M_InLibrary, mb_title_id := Some title\<rparr>]\<rparr>
     | D_Keep state \<Rightarrow> p\<lparr>ps_rows := ps_rows p @ [row\<lparr>mb_state := state,
         mb_state_reason := Option.bind (existing (pi_item_key (ri_item (ev_item e)))) mb_state_reason\<rparr>]\<rparr>
     | D_Unresolved \<Rightarrow> p\<lparr>ps_rows := ps_rows p @ [row\<lparr>mb_state := M_Unresolved, mb_state_reason := ri_resolution_reason (ev_item e)\<rparr>]\<rparr>
     | D_Deferred \<Rightarrow> p\<lparr>ps_rows := ps_rows p @ [row\<lparr>mb_state := M_Pending\<rparr>]\<rparr>
     | D_Candidate \<Rightarrow> act_item act standing s hold (ev_item e) row p)"
    using False by (simp add: sync_item_def row_def Let_def split: ItemDecision.split)
  then show ?thesis
    using act row by (simp add: current_row_def keep split: ItemDecision.split)
qed

abbreviation start_pass :: "membership_table \<Rightarrow> sync_pass" where
  "start_pass table \<equiv> \<lparr>ps_reads = 0, ps_stopped = False, ps_gone = False, ps_table = table, ps_rows = [], ps_acted = [], ps_effects = []\<rparr>"

lemma pass_ok_fold:
  "pass_ok s now table (map (\<lambda>e. pi_item_key (ri_item (ev_item e))) evs)
     (foldl (sync_item act standing s hold existing deleted now) (start_pass table) evs)"
proof (induction evs rule: rev_induct)
  case Nil
  then show ?case by (auto simp: pass_ok_def upsert_many_def intro: exI [of _ "[]"])
next
  case (snoc e evs)
  then show ?case using pass_ok_step [OF snoc] by simp
qed

lemma evaluate_keys:
  "map (\<lambda>e. pi_item_key (ri_item (ev_item e))) (evaluate env s exclusions memberships items) =
     map (\<lambda>i. pi_item_key (ri_item i)) items"
  using arg_cong [OF cap_candidates_items, of "map (\<lambda>i. pi_item_key (ri_item i))"]
  by (simp add: evaluate_def comp_def)

lemma row_at_mark_left:
  "row_at k (mark_left s seen_before t table) =
     map_option (\<lambda>r. if mb_subscription_id r = s \<and> mb_left_at r = None \<and> mb_last_seen_at r < seen_before
        then r\<lparr>mb_left_at := Some t, mb_left_handled := False\<rparr> else r) (row_at k table)"
  by (induction table) (auto simp: row_at_def mark_left_def)

lemma row_at_set_left_handled:
  "row_at k (set_left_handled s keys table) =
     map_option (\<lambda>r. if mb_subscription_id r = s \<and> mb_item_key r \<in> set keys then r\<lparr>mb_left_handled := True\<rparr> else r) (row_at k table)"
  by (induction table) (auto simp: row_at_def set_left_handled_def)

lemma departures_left_at:
  "map_option mb_left_at (row_at k (snd (snd (handle_departures env s table)))) = map_option mb_left_at (row_at k table)"
  by (cases "row_at k table") (auto simp: handle_departures_def Let_def row_at_set_left_handled)

lemma row_at_Some: "row_at k table = Some r \<Longrightarrow> r \<in> set table \<and> row_key r = k"
  by (induction table) (auto simp: row_at_def split: if_splits)

lemma pass_marks:
  assumes pass: "pass_ok s now table keys p" "\<not> ps_gone p"
    and retained: "list_all (current_row s now) retained"
    and old: "list_all (\<lambda>r. mb_last_seen_at r < now) table"
    and row: "row_at (ls_id s, k) (mark_left (ls_id s) now now (upsert_many (ps_rows p @ retained) (ps_table p))) = Some r"
  shows "mb_left_at r = None \<longleftrightarrow> k \<in> set keys \<union> mb_item_key ` set retained"
proof -
  let ?rows = "ps_rows p @ retained"
  obtain acted where acted: "set acted \<subseteq> set (ps_rows p)" "ps_table p = upsert_many acted table" and
    keys: "keys = map mb_item_key (ps_rows p)" and current: "list_all (current_row s now) ?rows"
    using assms(1-3) by (auto simp: pass_ok_def)
  have mem: "(ls_id s, k) \<in> row_key ` set ?rows \<longleftrightarrow> k \<in> set keys \<union> mb_item_key ` set retained"
    using current by (auto simp: keys list_all_iff current_row_def image_iff)
  have rows: "P \<in> set ?rows \<Longrightarrow> current_row s now P \<and> current_row s now (refresh_row r' P)" for P r'
    using current current_refresh by (auto simp: list_all_iff)
  show ?thesis
  proof (cases "(ls_id s, k) \<in> row_key ` set ?rows")
    case True
    then obtain r0 where "row_at (ls_id s, k) (upsert_many ?rows (ps_table p)) = Some r0" "current_row s now r0"
      using row_at_upsert_many [of ?rows "current_row s now"] rows by blast
    then show ?thesis using row True mem by (auto simp: row_at_mark_left current_row_def)
  next
    case False
    then have "(ls_id s, k) \<notin> row_key ` set acted" using acted(1) by auto
    with False have "row_at (ls_id s, k) (upsert_many ?rows (ps_table p)) = row_at (ls_id s, k) table"
      by (metis acted(2) row_at_upsert_many_other)
    with row obtain r0 where r0: "row_at (ls_id s, k) table = Some r0"
      and r: "r = (if mb_subscription_id r0 = ls_id s \<and> mb_left_at r0 = None \<and> mb_last_seen_at r0 < now
        then r0\<lparr>mb_left_at := Some now, mb_left_handled := False\<rparr> else r0)"
      by (auto simp only: row_at_mark_left map_option_eq_Some)
    have "mb_subscription_id r0 = ls_id s" "mb_last_seen_at r0 < now"
      using row_at_Some [OF r0] old by (auto simp: list_all_iff)
    with r have "mb_left_at r \<noteq> None" by auto
    with False mem show ?thesis by simp
  qed
qed

lemma retained_current:
  "list_all (\<lambda>r. mb_subscription_id r = ls_id s) existing \<Longrightarrow> list_all (current_row s now) (retained_rows s existing rows now)"
  by (auto simp: retained_rows_def list_all_iff current_row_def)

lemma retained_keys:
  assumes "map mb_item_key rows = ks"
  shows "mb_item_key ` set (retained_rows s stored rows now) = mb_item_key ` set (retained_rows s stored [] now) - set ks"
  unfolding assms [symmetric] by (auto simp: retained_rows_def image_image)


end
