(* ===== verification/List_Safety.thy ===== *)
theory List_Safety
  imports List_Sync
begin

text \<open>
  What a sync of a list may do: it acts on candidates only, it changes nothing on a list it could not
  read, a rejected request is not made again, and the next sync lies within its bounds; with the
  applications of the theorems of \<open>List_Sync\<close> and two histories in which the engine departs from its
  documentation.
\<close>

section \<open>Isolation\<close>

definition changes_titles :: "sync_effect \<Rightarrow> bool" where
  "changes_titles e = (case e of Act _ \<Rightarrow> True | Leave _ \<Rightarrow> True | ExpireAccount \<Rightarrow> False | RecordSyncFailure _ \<Rightarrow> False)"

definition untouched :: "list_world \<Rightarrow> sync_effect list \<Rightarrow> list_world \<Rightarrow> bool" where
  "untouched w effects w' \<longleftrightarrow> lw_memberships w' = lw_memberships w \<and> \<not> list_ex changes_titles effects"

lemma untouched_refl [simp]: "untouched w [] w"
  by (simp add: untouched_def)

lemma finish_memberships: "lw_memberships (finish s status counts outcome note' w) = lw_memberships w"
  by (simp add: finish_def)

lemma record_failure_untouched:
  "record_failure ch own s now failure w = Some (outcome, effects, w') \<Longrightarrow> untouched w effects w' \<and> outcome = SyncFailed failure"
  by (auto simp: record_failure_def Let_def untouched_def changes_titles_def finish_memberships split: bind_splits if_splits)

lemma record_unchanged_untouched:
  "record_unchanged ch s now fp w = Some (outcome, w') \<Longrightarrow> untouched w [] w'"
  "record_empty_fetch ch s now fp w = Some (outcome, w') \<Longrightarrow> untouched w [] w'"
  "record_off ch s now w = Some (outcome, w') \<Longrightarrow> untouched w [] w'"
  by (auto simp: record_unchanged_def record_empty_fetch_def record_off_def untouched_def finish_memberships)

lemma dedupe_Nil: "dedupe items = [] \<longleftrightarrow> items = []"
proof -
  have "set (map pi_item_key (dedupe items)) = pi_item_key ` set items"
    using filter_seen_keys [of pi_item_key "[]" items] by (simp add: dedupe_def)
  then show ?thesis by (metis image_is_empty list.map_disc_iff set_empty)
qed

lemma sync_fetched_read:
  assumes "sync_fetched env s now fetched w = Some (outcome, effects, w')"
  shows "untouched w effects w' \<or>
    (\<exists>s' resolved. fe_items fetched \<noteq> [] \<and> sy_normalize env s = Some s' \<and>
       resolve_items s' (dedupe (fe_items fetched)) (sy_resolver env) (sy_enrich env) = Inr resolved \<and>
       sync_items env s' now (fe_fingerprint fetched) resolved w = Some (outcome, effects, w'))"
  using assms record_unchanged_untouched(2) [of "sy_chrono env" s now "fe_fingerprint fetched" w]
  by (auto simp: sync_fetched_def Let_def dedupe_Nil dest: record_failure_untouched split: if_splits option.splits sum.splits)

text \<open>The lists a sync may work from: the answer to one of its two reads, or its stored rows.\<close>

definition read_list :: "'e sync_env \<Rightarrow> ListSubscription \<Rightarrow> list_world \<Rightarrow> FetchedList \<Rightarrow> bool" where
  "read_list env s w fetched \<longleftrightarrow>
     \<not> fe_unchanged fetched \<and>
     ((\<exists>answer. sy_fetch env = Inr answer \<and> fetched = from_stored s (lw_memberships w) answer) \<or>
      sy_fetch_whole env = Inr fetched)"

lemma sync_following_read:
  assumes "sync_following env s now w = Some (outcome, effects, w')"
  shows "untouched w effects w' \<or>
    (\<exists>fetched. read_list env s w fetched \<and> sync_fetched env s now fetched w = Some (outcome, effects, w'))"
  using assms
  by (auto simp: sync_following_def Let_def read_list_def dest: record_failure_untouched record_unchanged_untouched(1)
      split: if_splits option.splits sum.splits)


section \<open>Actions\<close>

fun acted_key :: "act_effect \<Rightarrow> string" where
  "acted_key (AddTitle _ k) = k"
| "acted_key (SubmitRequest _ k _) = k"

lemma act_on_candidate_keys:
  "a \<in> set (snd (act_on_candidate act s item hold)) \<Longrightarrow>
   acted_key a = pi_item_key (ri_item item) \<and> ls_mode s \<noteq> Mode_Discover \<and>
   (case a of AddTitle r _ \<Rightarrow> Option.bind (ri_kind item) (route_for s) = Some r
            | SubmitRequest r _ _ \<Rightarrow> Option.bind (ri_kind item) (route_for s) = Some r)"
  by (auto simp: act_on_candidate_def add_outcome_def request_outcome_def Let_def
      split: option.splits sum.splits ListMode.splits bool.splits if_splits)

lemma sync_item_effects:
  "set (ps_effects (sync_item act standing s hold existing deleted now p e)) \<subseteq>
     set (ps_effects p) \<union> (if ev_decision e = D_Candidate then set (snd (act_on_candidate act s (ev_item e) hold)) else {})"
  by (auto simp: sync_item_def act_item_def Let_def case_prod_unfold split: ItemDecision.splits SubscriptionStanding.splits if_splits)

lemma pass_effects:
  "a \<in> set (ps_effects (foldl (sync_item act standing s hold existing deleted now) (start_pass table) evs)) \<Longrightarrow>
   \<exists>e \<in> set evs. ev_decision e = D_Candidate \<and> a \<in> set (snd (act_on_candidate act s (ev_item e) hold))"
proof (induction evs rule: rev_induct)
  case Nil
  then show ?case by simp
next
  case (snoc e evs)
  then show ?case
    using sync_item_effects [of act standing s hold existing deleted now
        "foldl (sync_item act standing s hold existing deleted now) (start_pass table) evs" e]
    by (auto split: if_splits)
qed

lemma candidate_from_decide:
  assumes "e \<in> set (evaluate env s exclusions memberships items)" "ev_decision e = D_Candidate"
  shows "ev_item e \<in> set items \<and> decide env s exclusions memberships (ev_item e) = D_Candidate"
proof -
  have "ev_item e \<in> set items"
    using assms(1) cap_candidates_items [of "decide env s exclusions memberships" "{}" "ls_max_per_sync s" items]
    by (metis evaluate_def image_eqI set_map)
  moreover have "decision (ev_item e) = D_Candidate"
    if "e \<in> set (cap_candidates decision ids remaining items)" for decision ids remaining
    using that assms(2)
    by (induction decision ids remaining items rule: cap_candidates.induct)
      (auto simp: Let_def split: option.splits nat.splits if_splits)
  ultimately show ?thesis using assms(1) by (simp add: evaluate_def)
qed

lemma sync_items_acts:
  assumes "sync_items env s now fingerprint resolved w = Some (outcome, effects, w')" "Act a \<in> set effects"
  shows "\<exists>item \<in> set resolved. \<exists>memberships.
     decide (sy_filters env) s (sy_exclusions env) memberships item = D_Candidate \<and>
     a \<in> set (snd (act_on_candidate (sy_actions env) s item (is_personal s \<and> sy_policy env = Policy_Approval)))"
proof -
  define stored where "stored = list_by_subscription (ls_id s) (lw_memberships w)"
  define existing where "existing = map_of (map (\<lambda>r. (mb_item_key r, r)) stored)"
  define deleted where "deleted = deleted_additions (sy_title_exists env) resolved existing"
  define evs where "evs = evaluate (sy_filters env) s (sy_exclusions env) (without_rows existing deleted) resolved"
  define p where "p = foldl (sync_item (sy_actions env) (sy_standing env) s (is_personal s \<and> sy_policy env = Policy_Approval)
    existing deleted now) (start_pass (lw_memberships w)) evs"
  have "a \<in> set (ps_effects p)"
    using assms unfolding sync_items_def Let_def stored_def [symmetric] existing_def [symmetric] deleted_def [symmetric]
      evs_def [symmetric] p_def [symmetric]
    by (auto simp: case_prod_unfold split: if_splits)
  from pass_effects [OF this [unfolded p_def]] obtain e where e: "e \<in> set evs" "ev_decision e = D_Candidate"
    "a \<in> set (snd (act_on_candidate (sy_actions env) s (ev_item e) (is_personal s \<and> sy_policy env = Policy_Approval)))"
    by blast
  with candidate_from_decide [OF e(1,2) [unfolded evs_def]] show ?thesis by blast
qed

text \<open>
  C30. What a sync adds or requests. Every add and every request of a sync is for an item of the list
  that no exclusion covers, that the gateway resolved, that passes the list's kinds and filters and
  is in no library, under the route of its kind; a list that only feeds Discover adds and requests
  nothing, and an item of a list that holds its items for review is never added.
\<close>
theorem sync_acts_on_admitted_items:
  assumes "sync_items env s now fingerprint resolved w = Some (outcome, effects, w')" "Act a \<in> set effects"
  shows "\<exists>item \<in> set resolved. acted_key a = pi_item_key (ri_item item) \<and>
    \<not> is_excluded s item (sy_exclusions env) \<and> ri_resolved item \<and> ri_resolution_reason item = None \<and>
    filter_reason (sy_filters env) s item = None \<and> ri_library_title_id item = None \<and> ls_mode s \<noteq> Mode_Discover \<and>
    (case a of
       AddTitle route _ \<Rightarrow> Option.bind (ri_kind item) (route_for s) = Some route \<and> ls_mode s \<noteq> Mode_Hold
     | SubmitRequest route _ hold \<Rightarrow>
         Option.bind (ri_kind item) (route_for s) = Some route \<and> (if ls_mode s = Mode_Hold then hold else True))"
proof -
  obtain item memberships where item: "item \<in> set resolved"
    "decide (sy_filters env) s (sy_exclusions env) memberships item = D_Candidate"
    "a \<in> set (snd (act_on_candidate (sy_actions env) s item (is_personal s \<and> sy_policy env = Policy_Approval)))"
    using sync_items_acts [OF assms] by blast
  have admitted: "\<not> is_excluded s item (sy_exclusions env)" "ri_resolved item" "ri_resolution_reason item = None"
    "filter_reason (sy_filters env) s item = None" "ri_library_title_id item = None"
    using item(2) by (auto simp: decide_def Let_def split: if_splits option.splits)
  have "acted_key a = pi_item_key (ri_item item)" "ls_mode s \<noteq> Mode_Discover"
    using act_on_candidate_keys [OF item(3)] by auto
  moreover have "case a of
       AddTitle route _ \<Rightarrow> Option.bind (ri_kind item) (route_for s) = Some route \<and> ls_mode s \<noteq> Mode_Hold
     | SubmitRequest route _ hold \<Rightarrow>
         Option.bind (ri_kind item) (route_for s) = Some route \<and> (if ls_mode s = Mode_Hold then hold else True)"
    using item(3)
    by (auto simp: act_on_candidate_def add_outcome_def request_outcome_def Let_def
        split: option.splits sum.splits ListMode.splits bool.splits if_splits)
  ultimately show ?thesis using item(1) admitted by blast
qed

section \<open>Rejections\<close>

lemma exclusion_matches_mono:
  "exclusion_matches e kind ids sid \<Longrightarrow> set ids \<subseteq> set ids' \<Longrightarrow> exclusion_matches e kind ids' sid"
  by (auto simp: exclusion_matches_def list_ex_iff split: if_splits)

text \<open>The documented behaviour of the store's query: it finds exclusions of the store that cover the item.\<close>

definition finds_covering ::
  "(ListExclusion list \<Rightarrow> MediaFacet \<Rightarrow> ExternalId list \<Rightarrow> string \<Rightarrow> ListExclusion list) \<Rightarrow> bool" where
  "finds_covering query \<longleftrightarrow>
     (\<forall>es kind ids sid. set (query es kind ids sid) \<subseteq> {e \<in> set es. exclusion_matches e kind ids sid})"

abbreviation exclude_for ::
  "(ListExclusion list \<Rightarrow> MediaFacet \<Rightarrow> ExternalId list \<Rightarrow> string \<Rightarrow> ListExclusion list) \<Rightarrow>
   MediaFacet \<Rightarrow> ExternalId list \<Rightarrow> (string \<Rightarrow> ListExclusion) \<Rightarrow> ListExclusion list \<Rightarrow> ListSubscription \<Rightarrow> ListExclusion list" where
  "exclude_for query kind ids mk es s \<equiv> (if query es kind ids (ls_id s) \<noteq> [] \<or> ids = [] then es else es @ [mk (ls_id s)])"

lemma exclude_fold_mono: "set es \<subseteq> set (foldl (exclude_for query kind ids mk) es subs)"
proof (induction subs arbitrary: es)
  case Nil
  then show ?case by simp
next
  case (Cons x xs)
  have "set es \<subseteq> set (exclude_for query kind ids mk es x)" by auto
  also have "\<dots> \<subseteq> set (foldl (exclude_for query kind ids mk) es (x # xs))" using Cons.IH by simp
  finally show ?case .
qed

lemma exclude_fold_covers:
  assumes "finds_covering query" "ids \<noteq> []" "\<And>sid. exclusion_matches (mk sid) kind ids sid" "s \<in> set subs"
  shows "\<exists>e \<in> set (foldl (exclude_for query kind ids mk) es subs). exclusion_matches e kind ids (ls_id s)"
  using assms(4)
proof (induction subs arbitrary: es)
  case Nil
  then show ?case by simp
next
  case (Cons x xs)
  show ?case
  proof (cases "x = s")
    case True
    have "\<exists>e \<in> set (exclude_for query kind ids mk es s). exclusion_matches e kind ids (ls_id s)"
    proof (cases "query es kind ids (ls_id s) = []")
      case True
      with assms(2,3) show ?thesis by auto
    next
      case False
      then obtain e where "e \<in> set (query es kind ids (ls_id s))" by (cases "query es kind ids (ls_id s)") auto
      with assms(1) False show ?thesis unfolding finds_covering_def by fastforce
    qed
    then obtain e where "e \<in> set (exclude_for query kind ids mk es s)" "exclusion_matches e kind ids (ls_id s)" by blast
    moreover have "set (exclude_for query kind ids mk es s) \<subseteq> set (foldl (exclude_for query kind ids mk) es (x # xs))"
      using exclude_fold_mono [of "exclude_for query kind ids mk es s" query kind ids mk xs] unfolding True by simp
    ultimately show ?thesis by blast
  next
    case False
    with Cons show ?thesis by simp
  qed
qed

text \<open>
  C33. A rejected request is not made again. Once a reviewer's rejection of a request has been
  remembered, every public list that made it (or has a row for it) decides an item of the rejected
  kind that carries the rejected ids as excluded, whatever else is known of it. On every other list
  a row still on the list is settled as rejected, and while it stands the list does not act on the
  item again: no later settings or ids reopen it.
\<close>
theorem rejected_request_is_not_repeated:
  assumes query: "finds_covering query"
    and remembered: "remember_rejected_request subscriptions query r user now exclusions table = Some (rec, exclusions', table')"
    and target: "rejected_target r = Some (kind, ids, title)" "ids \<noteq> []"
    and involved: "sid \<in> set (rejected_subscriptions r (list_by_request (mr_id r) table))"
      "subscriptions sid = Some s" "\<And>i x. subscriptions i = Some x \<Longrightarrow> ls_id x = i"
  shows "(if ls_scope s = LS_Public
      then \<forall>env memberships item. excluded_kind item = Some kind \<and> set ids \<subseteq> set (ri_external_ids item) \<longrightarrow>
        decide env s exclusions' memberships item = D_Excluded
      else \<forall>row item memberships env. row \<in> set (list_by_request (mr_id r) table) \<and> mb_subscription_id row = sid \<and>
        mb_left_at row = None \<and> pi_item_key (ri_item item) = mb_item_key row \<and>
        memberships (mb_item_key row) = row_at (sid, mb_item_key row) table' \<longrightarrow>
        decide env s exclusions' memberships item \<noteq> D_Candidate)"
proof -
  define rows where "rows = list_by_request (mr_id r) table"
  define subs where "subs = filter (\<lambda>s. ls_scope s = LS_Public) (List.map_filter subscriptions (rejected_subscriptions r rows))"
  define mk where "mk = (\<lambda>sid. \<lparr>ex_kind = kind, ex_external_ids = ids, ex_display_title = title, ex_year = mr_year r,
     ex_scope = OneList sid, ex_created_by_user_id = Some user, ex_created_at = now\<rparr>)"
  define reject where "reject = (\<lambda>row :: ListMembership. row\<lparr>mb_state := (if mb_subscription_id row \<in> set (map ls_id subs) then M_Excluded else M_Rejected),
     mb_state_reason := Some ''request_rejected''\<rparr>)"
  have some: "\<not> (mr_origin r = Manual \<and> rows = [])"
    using involved(1) by (auto simp: rejected_subscriptions_def rows_def split: option.splits)
  have out: "exclusions' = foldl (exclude_for query kind ids mk) exclusions subs"
    "table' = upsert_many (map reject (filter (\<lambda>row. mb_left_at row = None) rows)) table"
    using remembered some target(1) unfolding mk_def reject_def
    by (auto simp: remember_rejected_request_def Let_def rows_def [symmetric] subs_def [symmetric])
  have covers: "exclusion_matches (mk sid) kind ids sid" for sid
    using target(2) by (cases ids) (simp_all add: mk_def exclusion_matches_def same_entity_refl)
  show ?thesis
  proof (cases "ls_scope s = LS_Public")
    case True
    then have "s \<in> set subs" using involved by (auto simp: subs_def rows_def map_filter_def intro!: image_eqI [of _ _ sid])
    then obtain e where "e \<in> set exclusions'" "exclusion_matches e kind ids (ls_id s)"
      using exclude_fold_covers [where query = query and ids = ids and mk = mk and kind = kind, OF query target(2) covers] out(1)
      by blast
    then have "is_excluded s item exclusions'"
      if "excluded_kind item = Some kind" "set ids \<subseteq> set (ri_external_ids item)" for item
      using that exclusion_matches_mono [of e kind ids "ls_id s"] by (auto simp: is_excluded_def list_ex_iff)
    then have "decide env s exclusions' memberships item = D_Excluded"
      if "excluded_kind item = Some kind" "set ids \<subseteq> set (ri_external_ids item)" for env memberships item
      using that by (simp add: decide_def)
    with True show ?thesis by auto
  next
    case False
    define P where "P = (\<lambda>x :: ListMembership. if mb_subscription_id x = sid
      then mb_state x = M_Rejected \<and> mb_state_reason x = Some ''request_rejected'' \<and> mb_left_at x = None else True)"
    have "sid \<notin> set (map ls_id subs)"
      using False involved(2,3) by (auto simp: subs_def map_filter_def)
    then have P: "P x \<and> P (refresh_row y x)" if "x \<in> set (map reject (filter (\<lambda>row. mb_left_at row = None) rows))" for x y
      using that by (auto simp: P_def reject_def refresh_row_def)
    have "decide env s exclusions' memberships item \<noteq> D_Candidate"
      if row: "row \<in> set rows" "mb_subscription_id row = sid" "mb_left_at row = None"
        and item: "pi_item_key (ri_item item) = mb_item_key row"
          "memberships (mb_item_key row) = row_at (sid, mb_item_key row) table'" for row item memberships env
    proof -
      have "(sid, mb_item_key row) = row_key (reject row)" using row(2) by (simp add: reject_def)
      moreover have "reject row \<in> set (map reject (filter (\<lambda>row. mb_left_at row = None) rows))" using row by simp
      ultimately have "(sid, mb_item_key row) \<in> row_key ` set (map reject (filter (\<lambda>row. mb_left_at row = None) rows))"
        by (rule image_eqI)
      from row_at_upsert_many [where P = P, OF P this] obtain r'
        where r': "row_at (sid, mb_item_key row) table' = Some r'" "P r'" unfolding out(2) by blast
      then have "mb_state r' = M_Rejected" "mb_state_reason r' = Some ''request_rejected''" "mb_left_at r' = None"
        using row_at_Some [OF r'(1)] by (auto simp: P_def)
      then have "settled_row s item r'"
        by (simp add: settled_row_def is_settled_def refusal_may_have_lifted_def is_refused_action_reason_def
            REFUSED_REASON_def NOT_FOUND_REASON_def)
      with r'(1) item show ?thesis by (auto simp: decide_def Let_def split: option.splits)
    qed
    with False show ?thesis by (auto simp: rows_def)
  qed
qed

section \<open>Schedules\<close>

lemma sync_interval_bounds:
  "60 \<le> sync_interval_seconds s" "src_provider (ls_source s) = ''simkl'' \<Longrightarrow> 18000 \<le> sync_interval_seconds s \<and> sync_interval_seconds s \<le> 25200"
proof -
  have "uint (h mod (2 * 3600 + 1)) = uint h mod 7201" for h :: "64 word"
    by (simp add: uint_mod_distrib)
  moreover have "0 \<le> uint h mod 7201 \<and> uint h mod 7201 \<le> 7200" for h :: "64 word"
    using pos_mod_bound [of 7201 "uint h"] by simp
  ultimately show "60 \<le> sync_interval_seconds s"
    "src_provider (ls_source s) = ''simkl'' \<Longrightarrow> 18000 \<le> sync_interval_seconds s \<and> sync_interval_seconds s \<le> 25200"
    by (auto simp: sync_interval_seconds_def)
qed

text \<open>
  C38. When a failed list is tried again. The next sync of a list whose sync failed is recorded at
  least a minute ahead and, for a provider that asked for a pause, no later than the list's interval
  or a day, whichever is longer, however long a pause it asked for; a list of the rate-limited
  provider that spreads its clients comes back within five to seven hours unless it was told to
  wait. Under the documented arithmetic of the date library the record is written whenever these
  times are representable.
\<close>
theorem failed_list_is_retried_in_time:
  assumes "chrono_time ch" "in_range ch now" "in_range ch (now + max (sync_interval_seconds s) MAX_RATE_LIMIT_PAUSE_SECONDS * ns_per_second)"
    and "sync_interval_seconds s \<le> delta_max_seconds" "lw_sync w = ls_sync s"
  shows "\<exists>effects w' t. record_failure ch own s now failure w = Some (SyncFailed failure, effects, w') \<and>
    ss_next_at (lw_sync w') = Some t \<and> ss_state (lw_sync w') = Sync_Fail \<and> lw_memberships w' = lw_memberships w \<and>
    60 \<le> sync_interval_seconds s \<and>
    (if src_provider (ls_source s) = ''simkl'' then sync_interval_seconds s \<in> {18000..25200} else True) \<and>
    now + sync_interval_seconds s * ns_per_second \<le> t \<and>
    t \<le> now + max (sync_interval_seconds s) MAX_RATE_LIMIT_PAUSE_SECONDS * ns_per_second"
proof -
  have iv: "60 \<le> sync_interval_seconds s" by (rule sync_interval_bounds)
  have between: "in_range ch (now + d * ns_per_second)"
    if "0 \<le> d" "d \<le> max (sync_interval_seconds s) MAX_RATE_LIMIT_PAUSE_SECONDS" for d
  proof -
    have "now \<le> now + d * ns_per_second"
      "now + d * ns_per_second \<le> now + max (sync_interval_seconds s) MAX_RATE_LIMIT_PAUSE_SECONDS * ns_per_second"
      using that by (simp_all add: mult_right_mono)
    with assms(2,3) show ?thesis unfolding in_range_def by linarith
  qed
  have add: "Option.bind (ch_seconds ch d) (ch_add ch now) = Some (now + d * ns_per_second)"
    if "0 \<le> d" "d \<le> max (sync_interval_seconds s) MAX_RATE_LIMIT_PAUSE_SECONDS" "d \<le> delta_max_seconds" for d
    using that between [OF that(1,2)]
    by (simp add: chrono_time.seconds [OF assms(1)] chrono_time.add [OF assms(1)])
  have next_at: "next_sync_at ch s now = Some (now + sync_interval_seconds s * ns_per_second)"
    using iv assms(4) add [of "sync_interval_seconds s"] by (simp add: next_sync_at_def)
  obtain paused where paused: "paused_until ch (lf_class failure) now (now + sync_interval_seconds s * ns_per_second) = Some paused"
    "case paused of None \<Rightarrow> True | Some p \<Rightarrow> now + sync_interval_seconds s * ns_per_second \<le> p \<and>
       p \<le> now + MAX_RATE_LIMIT_PAUSE_SECONDS * ns_per_second"
  proof (cases "\<exists>seconds. lf_class failure = LF_RateLimited (Some seconds)")
    case True
    then obtain seconds where cls: "lf_class failure = LF_RateLimited (Some seconds)" by blast
    define d where "d = min (min (int seconds) i64_max) MAX_RATE_LIMIT_PAUSE_SECONDS"
    have d: "0 \<le> d" "d \<le> MAX_RATE_LIMIT_PAUSE_SECONDS" by (simp_all add: d_def i64_max_def MAX_RATE_LIMIT_PAUSE_SECONDS_def)
    then have "Option.bind (ch_seconds ch d) (ch_add ch now) = Some (now + d * ns_per_second)"
      by (intro add) (auto simp: MAX_RATE_LIMIT_PAUSE_SECONDS_def delta_max_seconds_def)
    then show ?thesis using that d by (auto simp: paused_until_def cls d_def [symmetric] split: if_splits)
  next
    case False
    then have "paused_until ch (lf_class failure) now (now + sync_interval_seconds s * ns_per_second) = Some None"
      by (auto simp: paused_until_def split: ListFailureClass.split option.split)
    then show ?thesis using that by simp
  qed
  have "max (sync_interval_seconds s) MAX_RATE_LIMIT_PAUSE_SECONDS * ns_per_second \<ge> sync_interval_seconds s * ns_per_second"
    "max (sync_interval_seconds s) MAX_RATE_LIMIT_PAUSE_SECONDS * ns_per_second \<ge> MAX_RATE_LIMIT_PAUSE_SECONDS * ns_per_second"
    by (simp_all add: mult_right_mono)
  with paused(2) iv sync_interval_bounds(2) [of s] show ?thesis
    by (auto simp: record_failure_def Let_def next_at paused(1) finish_def record_sync_outcome_def assms(5) split: option.splits)
qed

section \<open>Applications\<close>

definition sample_route :: ListRoute where
  "sample_route = \<lparr>rt_kind = Movie, rt_library_id = ''films''\<rparr>"

definition sample_status :: ListSyncStatus where
  "sample_status =
     \<lparr>ss_state = Sync_Ok, ss_last_at = Some 0, ss_next_at = Some 50, ss_error_message = None, ss_error_at = None,
      ss_paused_until = None, ss_fetch_fingerprint = None\<rparr>"

definition sample_list :: "string \<Rightarrow> ListSubscription" where
  "sample_list i =
     \<lparr>ls_id = i, ls_scope = LS_Public, ls_owner_user_id = ''u'',
      ls_source = \<lparr>src_provider = ''trakt'', src_source_type = ''chart'', src_params = [], src_origin = ProviderFetch\<rparr>,
      ls_kinds = [Movie], ls_enabled = True, ls_mode = Mode_Add, ls_routes = [sample_route], ls_filters = [],
      ls_max_per_sync = None, ls_on_leave = Leave_Unmonitor, ls_interval_seconds = 3600, ls_sync = sample_status,
      ls_counts = ListCounts_default, ls_updated_at = 0\<rparr>"

definition sample_plugin_item :: "string \<Rightarrow> ListPluginItem" where
  "sample_plugin_item k =
     \<lparr>pi_item_key = k, pi_rank = None, pi_kind_hint = Some Movie, pi_title = Some k, pi_year = None,
      pi_external_ids = [\<lparr>li_source = ''imdb'', li_kind = None, li_id = k\<rparr>], pi_season = None, pi_format = None\<rparr>"

text \<open>An item the gateway resolved, in the library under the given title or not.\<close>

definition sample_resolved :: "string \<Rightarrow> string option \<Rightarrow> ResolvedItem" where
  "sample_resolved k title =
     (ResolvedItem_unresolved (sample_plugin_item k) (Some Movie))\<lparr>ri_resolved := True, ri_library_title_id := title\<rparr>"

definition sample_row :: "string \<Rightarrow> string \<Rightarrow> string option \<Rightarrow> ListMembership" where
  "sample_row s k title =
     (membership_row (sample_list s) (sample_resolved k title) None 10)\<lparr>mb_state := M_Added, mb_title_id := title, mb_added_by_list := True\<rparr>"

definition sample_left :: "string \<Rightarrow> string \<Rightarrow> string \<Rightarrow> ListMembership" where
  "sample_left s k title = (sample_row s k (Some title))\<lparr>mb_left_at := Some 20\<rparr>"

definition sample_leave :: leave_env where
  "sample_leave =
     \<lparr>lv_subscription = (\<lambda>i. Some (sample_list i)), lv_manages = (\<lambda>_. Inr True), lv_unmonitor = (\<lambda>_. True), lv_tag = (\<lambda>_. True),
      lv_record = (\<lambda>_ _. True), lv_title_exists = (\<lambda>_. True)\<rparr>"

text \<open>Two rows have left: another list still wants the second title, so only the first is unmonitored.\<close>

definition sample_table :: membership_table where
  "sample_table = [sample_left ''l'' ''k1'' ''t1'', sample_left ''l'' ''k2'' ''t2'', sample_row ''m'' ''k2'' (Some ''t2'')]"

lemma sample_departures:
  "handle_departures sample_leave (sample_list ''l'') sample_table =
     (\<lparr>lr_departed = 2, lr_acted = 1, lr_guarded = 1, lr_failed = 0, lr_gone = 0, lr_not_permitted = 0\<rparr>,
      [Unmonitor ''t1'', RecordDeparture ''t1'' Leave_Unmonitor],
      [(sample_left ''l'' ''k1'' ''t1'')\<lparr>mb_left_handled := True\<rparr>, sample_left ''l'' ''k2'' ''t2'', sample_row ''m'' ''k2'' (Some ''t2'')])"
  by code_simp


theorem departures_are_handled_once_witness:
  "fst (handle_departure sample_leave (sample_list ''l'') sample_table (sample_left ''l'' ''k2'' ''t2''))
     \<in> {Guarded, Unrouted, ActionFailed}"
proof -
  have "departed_rows (sample_list ''l'') [(sample_left ''l'' ''k1'' ''t1'')\<lparr>mb_left_handled := True\<rparr>, sample_left ''l'' ''k2'' ''t2'',
      sample_row ''m'' ''k2'' (Some ''t2'')] = [sample_left ''l'' ''k2'' ''t2'']"
    by code_simp
  then show ?thesis
    using departures_are_handled_once [of "sample_left ''l'' ''k2'' ''t2''" "sample_list ''l''" sample_leave sample_table]
    by (simp add: sample_departures)
qed

definition sample_filters :: filter_env where
  "sample_filters = \<lparr>fl_today = 0, fl_language = (\<lambda>_. None), fl_ratio_ge = (\<lambda>_ _ _. False)\<rparr>"

definition sample_sync :: "unit sync_env" where
  "sample_sync =
     \<lparr>sy_chrono = chrono_ns, sy_filters = sample_filters, sy_current = None, sy_same_credential = True, sy_policy = Policy_Approval,
      sy_owner_enabled = True, sy_credential = None, sy_own_account = False,
      sy_fetch = Inr \<lparr>fe_items = [sample_plugin_item ''k1''], fe_unchanged = False, fe_fingerprint = None\<rparr>,
      sy_fetch_whole = Inr \<lparr>fe_items = [], fe_unchanged = True, fe_fingerprint = None\<rparr>,
      sy_normalize = Some, sy_resolver = (\<lambda>is. Inr (map (\<lambda>_. \<lparr>out_series_movie = None, out_resolution_reason = None,
         out_resolved = True, out_smg_title_id = None, out_external_ids = [], out_library_title_id = None\<rparr>) is)),
      sy_enrich = Inr, sy_exclusions = [], sy_title_exists = (\<lambda>_. True), sy_standing = (\<lambda>_. Standing_Active),
      sy_actions = \<lparr>la_add_title = (\<lambda>_ item. Inr \<lparr>at_title_id = ''t-'' @ pi_item_key (ri_item item), at_created = True\<rparr>),
        la_owner_manages_titles = (\<lambda>_ _. Inr True), la_submit_request = (\<lambda>_ _ _. Inr ''r'')\<rparr>,
      sy_leave = sample_leave\<rparr>"

definition sample_world :: "membership_table \<Rightarrow> list_world" where
  "sample_world table = \<lparr>lw_memberships = table, lw_sync = sample_status, lw_counts = ListCounts_default, lw_runs = []\<rparr>"

text \<open>The list now has one new item and no longer the one it added; the title of that one is unmonitored.\<close>

definition sample_synced :: list_world where
  "sample_synced =
     finish (sample_list ''l'') (ok_status 30 (30 + 3600 * ns_per_second) None)
       (ListCounts_default\<lparr>lc_total := 1, lc_added := 1\<rparr>) Run_Succeeded None
       (sample_world [(sample_row ''l'' ''k2'' (Some ''t2''))\<lparr>mb_left_at := Some 30, mb_left_handled := True\<rparr>,
         (membership_row (sample_list ''l'') (sample_resolved ''k1'' None) None 30)
           \<lparr>mb_state := M_Added, mb_title_id := Some ''t-k1'', mb_added_by_list := True\<rparr>])"

lemma sample_sync_run:
  "sync_items sample_sync (sample_list ''l'') 30 None [sample_resolved ''k1'' None] (sample_world [sample_row ''l'' ''k2'' (Some ''t2'')]) =
     Some (Synced (ListCounts_default\<lparr>lc_total := 1, lc_added := 1\<rparr>) 1,
       [Act (AddTitle sample_route ''k1''), Leave (Unmonitor ''t2''), Leave (RecordDeparture ''t2'' Leave_Unmonitor)], sample_synced)"
  by code_simp

lemma sample_resolution:
  "resolve_items (sample_list ''l'') [sample_plugin_item ''k1''] (sy_resolver sample_sync) (sy_enrich sample_sync) =
     Inr [sample_resolved ''k1'' None]"
  by code_simp


theorem sync_acts_on_admitted_items_witness:
  "\<exists>item \<in> {sample_resolved ''k1'' None}. acted_key (AddTitle sample_route ''k1'') = pi_item_key (ri_item item) \<and>
     \<not> is_excluded (sample_list ''l'') item [] \<and> filter_reason sample_filters (sample_list ''l'') item = None"
  using sync_acts_on_admitted_items [OF sample_sync_run, of "AddTitle sample_route ''k1''"]
  by (auto simp: sample_sync_def)


definition sample_request :: MediaRequest where
  "sample_request =
     \<lparr>mr_id = ''r'', mr_origin = PublicList ''l'', mr_facet = Movie,
      mr_external_ids = [\<lparr>xid_source = ''imdb'', xid_kind = None, xid_value = ''k1''\<rparr>], mr_title = ''K'', mr_year = None,
      mr_identity_fingerprint = ''f'', mr_series_movies = []\<rparr>"

definition sample_exclusion :: ListExclusion where
  "sample_exclusion =
     \<lparr>ex_kind = Movie, ex_external_ids = [\<lparr>xid_source = ''imdb'', xid_kind = None, xid_value = ''k1''\<rparr>],
      ex_display_title = ''K'', ex_year = None, ex_scope = OneList ''l'', ex_created_by_user_id = Some ''u'', ex_created_at = 5\<rparr>"

text \<open>The store's query, read directly off its documentation.\<close>

definition query_exclusions ::
  "ListExclusion list \<Rightarrow> MediaFacet \<Rightarrow> ExternalId list \<Rightarrow> string \<Rightarrow> ListExclusion list" where
  "query_exclusions es kind ids sid = filter (\<lambda>e. exclusion_matches e kind ids sid) es"

theorem rejected_request_is_not_repeated_witness:
  "decide sample_filters (sample_list ''l'') [sample_exclusion] Map.empty (sample_resolved ''k1'' None) = D_Excluded"
proof -
  have query: "finds_covering query_exclusions" by (auto simp: finds_covering_def query_exclusions_def)
  have run: "remember_rejected_request (\<lambda>i. Some (sample_list i)) query_exclusions sample_request ''u'' 5 [] [] =
      Some (\<lparr>rj_exclusions_created = 1, rj_memberships_excluded = 0, rj_memberships_rejected = 0\<rparr>, [sample_exclusion], [])"
    by code_simp
  have target: "rejected_target sample_request = Some (Movie, [\<lparr>xid_source = ''imdb'', xid_kind = None, xid_value = ''k1''\<rparr>], ''K'')"
    by code_simp
  have involved: "''l'' \<in> set (rejected_subscriptions sample_request (list_by_request (mr_id sample_request) []))" by code_simp
  have item: "excluded_kind (sample_resolved ''k1'' None) = Some Movie"
    "set [\<lparr>xid_source = ''imdb'', xid_kind = None, xid_value = ''k1''\<rparr>] \<subseteq> set (ri_external_ids (sample_resolved ''k1'' None))"
    by code_simp+
  have "ls_scope (sample_list ''l'') = LS_Public" by (simp add: sample_list_def)
  then show ?thesis
    using rejected_request_is_not_repeated [OF query run target _ involved, of "sample_list ''l''"] item
    by (auto simp: sample_list_def)
qed

theorem failed_list_is_retried_in_time_witness:
  "\<exists>t. ss_next_at (lw_sync (snd (snd (the (record_failure chrono_ns False (sample_list ''l'') 0
       (ListFailure_new (LF_RateLimited (Some 1000000)) ''trakt'') (sample_world [])))))) = Some t \<and>
     3600 * ns_per_second \<le> t \<and> t \<le> 86400 * ns_per_second"
proof -
  have iv: "sync_interval_seconds (sample_list ''l'') = 3600" by (simp add: sync_interval_seconds_def sample_list_def)
  have pre: "in_range chrono_ns 0" "in_range chrono_ns (0 + max 3600 MAX_RATE_LIMIT_PAUSE_SECONDS * ns_per_second)"
    "(3600 :: int) \<le> delta_max_seconds" "lw_sync (sample_world []) = ls_sync (sample_list ''l'')"
    by (simp_all add: chrono_ns_simps MAX_RATE_LIMIT_PAUSE_SECONDS_def sample_world_def sample_list_def)
  from failed_list_is_retried_in_time [OF ns.chrono_time_axioms, unfolded iv, OF pre(1), where s = "sample_list ''l''", unfolded iv,
      OF pre(2-4), of False "ListFailure_new (LF_RateLimited (Some 1000000)) ''trakt''"]
  show ?thesis by (auto simp: MAX_RATE_LIMIT_PAUSE_SECONDS_def)
qed

section \<open>Two histories\<close>

text \<open>
  An item leaves a list that had added its title, the title is deleted and an operator adds it anew,
  and the item comes back: the row still says that the list added it, now naming the operator's title,
  and the next departure unmonitors a title the list did not add.
\<close>

lemma returned_item_claims_operator_title:
  "let before = (sample_left ''l'' ''k1'' ''old'')\<lparr>mb_left_handled := True\<rparr>;
       back = sync_item (sy_actions sample_sync) (sy_standing sample_sync) (sample_list ''l'') False
         [''k1'' \<mapsto> before] {} 40 (start_pass [before])
         \<lparr>ev_item = sample_resolved ''k1'' (Some ''operator''),
          ev_decision = decide sample_filters (sample_list ''l'') [] [''k1'' \<mapsto> before] (sample_resolved ''k1'' (Some ''operator''))\<rparr>
   in map mb_state (ps_rows back) = [M_InLibrary] \<and>
      acting_title (sample_list ''l'') (hd (ps_rows back)) = Some ''operator''"
  by code_simp

text \<open>
  A row that found its title in the library keeps saying so after the title was deleted: the item is
  neither in a library nor a candidate, so the list does not add it again.
\<close>

lemma deleted_library_title_is_not_readded:
  "let row = (sample_row ''l'' ''k1'' (Some ''gone''))\<lparr>mb_state := M_InLibrary, mb_added_by_list := False\<rparr>;
       existing = [''k1'' \<mapsto> row]; item = sample_resolved ''k1'' None
   in deleted_additions (\<lambda>_. False) [item] existing = {} \<and>
      decide sample_filters (sample_list ''l'') [] (without_rows existing {}) item = D_Keep M_InLibrary"
  by code_simp

end
