(* ===== verification/Spec2Isabelle.thy ===== *)
theory Spec2Isabelle
  imports Backoff Request_Arbitration Import_Decide Search_Rank Auto_Decision Seeding Tracked_Invariant List_Safety
begin

text \<open>
  Verification of the decision core of Scryer, a media manager that watches indexers for releases,
  grabs them through download clients, imports what lands into a library, keeps torrents seeding as
  long as they must, and follows lists of titles to add.

  \<^bold>\<open>The program's path and the theories.\<close> A search result is matched to a title, scored under the
  title's quality profile and judged by the automatic decision; what is grabbed is tracked in the
  client until it completes, is judged again as a file by the import decision, and replaces what it
  improves on; a torrent stays in the client until its seeding obligation is discharged. Lists feed
  the library with titles. File names below are relative to \<open>src/crates/scryer-application/src\<close>
  unless a crate is named.

  \<^item> \<open>Prelude\<close> holds what all share: Rust's saturating and checked integers, byte strings and their
    methods, comparators (locale \<open>comparator\<close>) with stable sorting, vectors without duplicates.
    \<open>Time_Interface\<close> states the date arithmetic the program relies on as the locale \<open>chrono_time\<close>,
    interpreted by exact nanoseconds; \<open>Float64\<close> the \<open>f64\<close> values that are only compared.
  \<^item> \<open>Domain_Types\<close>, \<open>Release_Model\<close>, \<open>Download_Types\<close>, \<open>List_Types\<close>: the enumerations and records of
    \<open>scryer-domain\<close>, of \<open>contracts.rs\<close> and of the parser's \<open>model.rs\<close>. Each label table is an
    interpretation of the locale \<open>label_codec\<close> (printing and parsing a value is the identity).
  \<^item> \<open>Audio_Requirements\<close> (\<open>media/audio_requirements.rs\<close>), \<open>Quality_Profile\<close> (\<open>quality/profile.rs\<close>) and
    \<open>Canonical_Scoring\<close> (\<open>quality/canonical.rs\<close>): requirements, the scoring log and its final gate,
    the score of an announced and of a landed release, and which of them lied.
  \<^item> \<open>Title_Evidence\<close>, \<open>Indexer_Category\<close>, \<open>Release_Coverage\<close> (\<open>acquisition/release_search.rs\<close>,
    \<open>indexer_category.rs\<close>, \<open>acquisition/coverage.rs\<close>): which title, kind and episodes a release names.
  \<^item> \<open>Blocklist\<close> (the \<open>blocklist\<close> table of the library store and the signatures a search loads; locale
    \<open>block_store\<close>), \<open>Delay_Profiles\<close> (\<open>acquisition/delay_profile.rs\<close>), \<open>Backoff\<close>
    (\<open>escalation_backoff.rs\<close>, the client status store and the indexer tracker),
    \<open>Request_Arbitration\<close> (\<open>request_rules/arbitration.rs\<close>).
  \<^item> \<open>Client_Snapshot\<close> (\<open>acquisition/workflow/client_snapshot.rs\<close>), \<open>Search_Candidate\<close>, \<open>Search_Rank\<close>
    (\<open>acquisition/scoring.rs\<close>), \<open>Admission\<close> (\<open>acquisition/admission.rs\<close>), \<open>Auto_Decision\<close>
    (\<open>evaluate_auto_candidate\<close> of \<open>release_search.rs\<close> with every gate in its order).
  \<^item> \<open>Import_Decide\<close> (\<open>import/decide.rs\<close> and the verdicts of \<open>import/post_download_gate.rs\<close>) and
    \<open>Seeding\<close> (\<open>acquisition/seed_goals.rs\<close>, \<open>import/seeding_gate.rs\<close>).
  \<^item> \<open>Tracked_Downloads\<close>, \<open>Tracked_Poll\<close>, \<open>Tracked_Invariant\<close> (\<open>integration/tracked_downloads.rs\<close>,
    \<open>import/failed_download.rs\<close>): the service's state as a record (the cache and its side tables),
    one definition per operation, and its histories as the inductive relations \<open>snapshot_step\<close>,
    \<open>service_step\<close> and \<open>history\<close>. The sweeps over the rows share the locale \<open>row_sweep\<close>.
  \<^item> \<open>List_Evaluate\<close>, \<open>List_Sync\<close>, \<open>List_Safety\<close> (\<open>lists/resolve.rs\<close>, \<open>lists/evaluate.rs\<close>,
    \<open>lists/act.rs\<close>, \<open>lists/sync.rs\<close>, \<open>lists/leave.rs\<close>, \<open>lists/rejection.rs\<close>, and the membership table
    of \<open>scryer-infrastructure-library\<close>): a sync as a function from the store to an outcome, the
    effects it issues in order, and the store it leaves.

  \<^bold>\<open>What is proved.\<close> The first property joins the components: a release the search called eligible
  and that lands as announced is imported, with the score the search saw. Around it:
  \<^item> \<^emph>\<open>the search\<close>: what is grabbed is new, matched, admitted and not held back; what was burned stays
    burned; an identity refusal is final; the blocklist of the search is that of the store; an
    operator's search is no stricter than the automatic one;
  \<^item> \<^emph>\<open>admission and import\<close>: exact characterisations of the single-file and the season-pack verdict, no
    downgrades, no cycles of upgrades, and exactly when an import burns a release or holds it;
  \<^item> \<^emph>\<open>scoring\<close>: exactly which releases a profile allows, and whom the comparison of the announced
    with the landed file may blame;
  \<^item> \<^emph>\<open>the download clients\<close>: an unreadable client frees nothing, backoff is bounded, tracked rows stay
    indexed by their own id over every history, work survives every snapshot and every prune, the cache is
    bounded, a warning must stand for its whole timeout, and a terminal outcome survives a restart;
  \<^item> \<^emph>\<open>seeding\<close>: exactly when a client entry is touched, tracker minimums hold, a payload is moved only
    after the obligation is discharged, and a verdict to act is not withdrawn;
  \<^item> \<^emph>\<open>lists\<close>: the evaluation loop is the capped selection it stands for, a sync acts on admitted items
    only, changes nothing on a list it could not read, marks exactly what left, touches on departure
    only what the list itself added, handles a departure once, repeats no rejected request, and comes
    back within its bounds.

  \<^bold>\<open>Modelling conventions.\<close> A Rust string is the list of its bytes. Integers are \<open>int\<close> or \<open>nat\<close> with the
  saturation, the check or the wrap of the source written out (the hash that spreads list syncs is
  a \<open>64 word\<close>). \<open>None\<close> of an operation that returns otherwise is a panic of the source (date
  arithmetic out of range, a string sliced inside a character). An asynchronous read of a store or a
  client is an argument of the definition that performs it, one per read where the code may see
  different answers; a write is a field of the returned state or an effect in the returned list. A
  hash map is an association list whose order stands for the unspecified iteration order, or a
  HOL map where it is only looked up. No definition needs fuel: every loop of the modelled code
  runs over a finite list or carries a measure.

  \<^bold>\<open>Parameters.\<close> The date crate, the rule engine's results, the media probe, the size bands and other
  floating-point divisions, the language tables, the two passes of the parser that propose a title, a
  provider's answer, the metadata gateway and the outcome of each action on the library are arguments,
  with what the code relies on as a named hypothesis (\<open>chrono_time\<close>, \<open>in_range\<close>, \<open>finds_covering\<close>) that
  is shown to hold of a concrete instance in the applications (\<open>_witness\<close>).

  \<^bold>\<open>Where the code departs from its own words.\<close> Lemmas show: revisions honoured within a group let three
  releases replace each other in a cycle (\<open>honoured_revisions_cycle\<close>); a tier label with letters before
  the resolution is not found under its name (\<open>compound_tier_not_found\<close>); a huge tracker minimum erases
  the operator's seed-time goal (\<open>huge_tracker_minimum_erases_time_goal\<close>), and a profile's seed time
  releases a torrent below a declared ratio; deleting an indexer lifts a block by
  info hash (\<open>deleted_indexer_lifts_hash_block\<close>); a list claims a title an operator added while the item
  was off the list (\<open>returned_item_claims_operator_title\<close>), and does not add again a title that was
  deleted after the list had found it in the library (\<open>deleted_library_title_is_not_readded\<close>).

  \<^bold>\<open>Not modelled.\<close> The release-name parser's tokenizer and grammar, the mediainfo readers, archive
  extraction, renaming and moving of files, subtitles and maintenance rules, the asynchronous task
  runners around the modelled gates (searches of whole pages, RSS, parked releases, the loop over due
  lists), account linking, the SQL and HTTP layers, the plugin host, the GraphQL interface and the
  web client. They are input and output around the decisions, or grammars whose output record is the
  input here.
\<close>

section \<open>From the grab to the library\<close>

text \<open>
  The facts the grab path puts before the gate: the tier, revision and score of the announced
  release, scored at its announced size.
\<close>

definition grab_candidate ::
  "('a, 'f) scoring_env \<Rightarrow> ScoringContext \<Rightarrow> ParsedReleaseMetadata \<Rightarrow> int \<Rightarrow> ListingFacts option \<Rightarrow> CandidateFacts" where
  "grab_candidate env ctx parsed bytes listing =
     (let scored = score_release env (with_listing (evidence_announced parsed (Some bytes)) listing) ctx
      in with_revision_policy
           (CandidateFacts_new (quality_tier_index (criteria (sc_profile ctx)) (parsed_quality scored))
              (sr_revision scored) (sr_release_score scored))
           (rel_release_group parsed) (crit_ignore_proper_repack (criteria (sc_profile ctx))))"

text \<open>A probe that only confirms the announcement.\<close>

definition honest :: "('a, 'f) import_env \<Rightarrow> ParsedReleaseMetadata \<Rightarrow> ('a, 'f) ImportedFileAcceptance \<Rightarrow> bool" where
  "honest env parsed acceptance =
     (acc_rule_file_doc acceptance = None \<and>
      (case acc_analysis acceptance of
         None \<Rightarrow> True
       | Some a \<Rightarrow> rescore env a parsed = parsed \<and> disc_details env a = None \<and> \<not> is_stream_pointer env a))"

lemma truncate_env:
  "rescore (scoring_env.truncate env) = rescore env" "disc_details (scoring_env.truncate env) = disc_details env"
  "is_stream_pointer (scoring_env.truncate env) = is_stream_pointer env"
  by (simp_all add: scoring_env.truncate_def)

lemma announced_scores:
  "truth_verdict (score_release env (with_listing (evidence_announced parsed b) listing) ctx) = Consistent \<and>
   sr_total (score_release env (with_listing (evidence_announced parsed b) listing) ctx) =
     sr_release_score (score_release env (with_listing (evidence_announced parsed b) listing) ctx)"
  using decision_ok_pipeline [of env parsed b None listing ctx]
  by (simp add: score_release_def score_disc_scope_def score_single_release_def with_listing_def
      evidence_announced_def Let_def numeric_score_ok decision_ok_def)

lemma honest_post_download:
  assumes "honest env parsed acceptance"
  shows "let pd = compute_post_download_acquisition_decision env ctx parsed acceptance bytes prior listing
    in pd_truth_verdict pd = Consistent \<and>
       import_candidate ctx pd = grab_candidate (scoring_env.truncate env) ctx parsed bytes listing"
proof (cases "acc_analysis acceptance")
  case None
  then show ?thesis
    using announced_scores [of "scoring_env.truncate env" parsed "Some bytes" listing ctx]
    by (simp add: compute_post_download_acquisition_decision_def Let_def import_candidate_def grab_candidate_def)
next
  case (Some a)
  let ?facts = "\<lparr>analysis = a, actual_size_bytes = bytes, rule_file_doc = acc_rule_file_doc acceptance\<rparr>"
  have h: "rescore (scoring_env.truncate env) (analysis ?facts) parsed = parsed"
    "\<not> is_disc_image (scoring_env.truncate env) (analysis ?facts)"
    "\<not> is_stream_pointer (scoring_env.truncate env) (analysis ?facts)" "rule_file_doc ?facts = None"
    using assms Some by (simp_all add: honest_def truncate_env is_disc_image_def)
  show ?thesis
    using honest_landed [OF h, of listing ctx] assms Some
    by (simp add: compute_post_download_acquisition_decision_def Let_def import_candidate_def
        grab_candidate_def honest_def)
qed

text \<open>The release key the grab path adds is read by the queue only.\<close>

lemma member_improves_release_key [simp]:
  "member_improves (c\<lparr>cand_release_key := k\<rparr>) policy i = member_improves c policy i"
proof -
  have "revision_cmp (c\<lparr>cand_release_key := k\<rparr>) = revision_cmp c"
    by (simp add: fun_eq_iff revision_cmp_def is_related_def)
  then show ?thesis by (simp add: member_improves_def split: ordering.split)
qed

text \<open>A search result carries what the scorer said of the announced release.\<close>

definition carries_score ::
  "('a, 'f) scoring_env \<Rightarrow> ScoringContext \<Rightarrow> ParsedReleaseMetadata \<Rightarrow> int \<Rightarrow> ListingFacts option \<Rightarrow> IndexerSearchResult \<Rightarrow> bool" where
  "carries_score env ctx parsed bytes listing r \<longleftrightarrow>
     parsed_release_metadata r = Some parsed \<and>
     quality_profile_decision r =
       Some (announced_decision (score_release env (with_listing (evidence_announced parsed (Some bytes)) listing) ctx))"

lemma result_facts_grab_candidate:
  assumes "carries_score env ctx parsed bytes listing r" "sc_profile ctx = profile"
  shows "\<exists>k. result_facts aenv profile r = (grab_candidate env ctx parsed bytes listing)\<lparr>cand_release_key := k\<rparr>"
    and "result_score r = cand_score (grab_candidate env ctx parsed bytes listing)"
  using assms
  by (auto simp: carries_score_def result_facts_def grab_candidate_def with_revision_policy_def with_release_title_def
      CandidateFacts_new_def candidate_revision_def result_score_def Let_def score_release_def score_disc_scope_def
      score_single_release_def with_listing_def evidence_announced_def or_else_def)

text \<open>The import side: what lands as announced is admitted over incumbents it does not fall short of.\<close>

lemma landed_release_imports:
  fixes input :: "('a, 'f, 'c) ImportDecisionInput"
  assumes better: "list_all (\<lambda>i. within_span (subj_scope (in_subject input)) i \<and>
      member_improves (grab_candidate (scoring_env.truncate env) (in_context input) (in_parsed input) announced
        (in_listing input)) not_a_downgrade i) (incumbents (in_subject input))"
    and single: "\<not> subj_per_member (in_subject input)"
    and landed: "honest env (in_parsed input) (in_accepted input)" "in_announced_size_bytes input = Some announced"
      "0 < announced" "0 < landed_size_bytes input" "in_overhead_band env (landed_size_bytes input) announced"
    and rows: "is_unoccupied (in_subject input) \<or>
      \<not> list_all (\<lambda>i. inc_file_id i \<notin> set (row_ids (incumbent_rows input))) (incumbents (in_subject input))"
    and by_hand: "\<not> operator_intent input"
  shows "\<exists>plan. decide_import env input = ID_Admit plan \<and>
    plan_score plan = cand_score (grab_candidate (scoring_env.truncate env) (in_context input) (in_parsed input)
      announced (in_listing input)) \<and>
    blocklist_after_import plan = None \<and>
    row_ids (plan_superseded plan) =
      filter (\<lambda>i. i \<in> set (row_ids (incumbent_rows input))) (map inc_file_id (incumbents (in_subject input)))"
proof -
  let ?pd = "score_landed env input (landed_size_bytes input)"
  let ?c = "grab_candidate (scoring_env.truncate env) (in_context input) (in_parsed input) announced (in_listing input)"
  have "?pd = compute_post_download_acquisition_decision env (in_context input) (in_parsed input) (in_accepted input)
      announced (prior_rescore_changes input) (in_listing input)"
    using landed by (simp add: score_landed_def size_basis_bytes_def)
  then have pd: "pd_truth_verdict ?pd = Consistent" "import_candidate (in_context input) ?pd = ?c"
    using honest_post_download [OF landed(1), of "in_context input" announced "prior_rescore_changes input" "in_listing input"]
    by (simp_all add: Let_def)
  have score: "pd_score ?pd = cand_score ?c"
    using arg_cong [OF pd(2), of cand_score]
    by (simp add: import_candidate_def with_revision_policy_def CandidateFacts_new_def)
  have adm: "is_admitted (evaluate_admission (in_subject input) ?c not_a_downgrade)"
    using better unfolding admit_single [OF single] by (simp add: list_all_iff)
  have ids: "row_ids (resolve_superseded_rows (incumbent_rows input) (superseded_ids (incumbents (in_subject input)))) =
      filter (\<lambda>i. i \<in> set (row_ids (incumbent_rows input))) (map inc_file_id (incumbents (in_subject input)))"
    by (simp add: row_ids_resolve superseded_ids_def)
  have "is_unoccupied (in_subject input) \<or> \<not> superseded_is_empty
      (resolve_superseded_rows (incumbent_rows input) (superseded_ids (incumbents (in_subject input))))"
    using rows unfolding superseded_is_empty_iff ids by (auto simp: filter_empty_conv list_all_iff)
  then show ?thesis
    using admit_single_superseded [OF single adm] ids score by_hand
    by (auto simp: decide_import_def Let_def pd resolve_truth_verdict_action_for_origin_def admit_import_def
        evaluate_import_admission_def)
qed


definition example_landed :: "(unit, unit, unit) ImportDecisionInput" where
  "example_landed = (example_input example_occupied False)\<lparr>in_announced_size_bytes := Some 950\<rparr>"

lemma example_tier: "quality_tier_index (criteria (sc_profile example_context)) (Some ''1080p'') = Some 1"
  by code_simp

lemma example_landed_simps:
  "in_subject example_landed = example_occupied" "in_context example_landed = example_context"
  "in_parsed example_landed = (ParsedReleaseMetadata_empty ''Movie'')\<lparr>rel_quality := Some ''1080p''\<rparr>"
  "in_listing example_landed = None" "in_announced_size_bytes example_landed = Some 950"
  "landed_size_bytes example_landed = 900" "\<not> operator_intent example_landed"
  "in_accepted example_landed = \<lparr>acc_analysis = None, acc_rule_file_doc = None\<rparr>"
  "row_ids (incumbent_rows example_landed) = [''old'']"
  by (simp_all add: example_landed_def example_input_def)

definition example_scored_release :: ScoredRelease where
  "example_scored_release =
     score_release (scoring_env.truncate example_import_env)
       (with_listing (evidence_announced ((ParsedReleaseMetadata_empty ''Movie'')\<lparr>rel_quality := Some ''1080p''\<rparr>) (Some 950)) None)
       example_context"

definition example_result :: IndexerSearchResult where
  "example_result =
     \<lparr>sr_indexer_id = Some ''idx'', sr_title = ''Movie.1080p'', sr_link = None, sr_download_url = None,
      sr_source_kind = Some NzbUrl, sr_published_at = None,
      parsed_release_metadata = Some ((ParsedReleaseMetadata_empty ''Movie'')\<lparr>rel_quality := Some ''1080p''\<rparr>),
      quality_profile_decision = Some (announced_decision example_scored_release), sr_extra = Map.empty,
      response_attributes = \<lparr>resp_tvdb_id = None, resp_tmdb_id = None, resp_imdb_id = None, resp_categories = []\<rparr>,
      coverage_scope = None, auto_eligible = None, auto_decision_code = None, auto_decision_summary = None,
      http_page_url = None\<rparr>"

definition example_evidence :: "unit CanonicalTitleEvidence" where
  "example_evidence =
     \<lparr>identity_tvdb_id = None, identity_tmdb_id = None, identity_imdb_id = None, lookup_keys = [''movie''],
      canonical_key = ''movie'', ev_year = None, episode_release_years = {}, alias_release_years = Map.empty,
      shared_lookup_keys = [], ev_rest = ()\<rparr>"

definition example_auto_env :: "unit auto_env" where
  "example_auto_env =
     \<lparr>contextual_match = (\<lambda>_ _ _. Some \<lparr>matched_key = ''movie'', year_corroborated = False, id_corroborated = False,
        requires_external_id = False\<rparr>),
      relaxed_match = (\<lambda>_ _ _. None), parsed_ids = (\<lambda>_ _. None), spelling_competitor = (\<lambda>_ _ _. False),
      parse_for_target = (\<lambda>t _. ParsedReleaseMetadata_empty t), parse_neutral = ParsedReleaseMetadata_empty,
      env_chrono = chrono_ns, env_published_at = (\<lambda>_. None), env_alphanumeric_lowercase = (\<lambda>s. s), env_hasher = length\<rparr>"

definition example_auto_context :: "unit AutoCandidateEvaluationContext" where
  "example_auto_context =
     \<lparr>cx_title = \<lparr>title_tags = [], title_facet = Series, title_library_id = ''lib''\<rparr>,
      cx_subject = \<lparr>rs_title_evidence = example_evidence, rs_imdb_id = None, rs_tmdb_id = None, rs_tvdb_id = None,
        rs_owner_facet = Series, rs_search_facet = Series, rs_season = None, rs_episode = None,
        rs_absolute_episode = None, rs_submission_scope = Scope_Title\<rparr>,
      cx_admission = example_occupied, cx_profile = builtin_4k_profile,
      cx_thresholds = AcquisitionThresholds_for_persona Balanced, cx_incumbent_at_cutoff = False,
      cx_is_rss_lane = False, cx_user_invoked = False, cx_oldest_pending_published_at = None, cx_now = 0,
      cx_dl_snapshot = Some empty_snapshot, cx_db_blocklist = \<lparr>release_names = {}, info_hashes = {}\<rparr>,
      cx_existing_files = [], cx_delay_profiles = [], cx_failed_routes = Some [], cx_minimum_seeders = Map.empty,
      cx_unmonitored_episode_ids = {}\<rparr>"

text \<open>The example is one resolution step above the floor of its profile and meets every requirement.\<close>

definition example_decision :: QualityProfileDecision where
  "example_decision = log_with_source ''quality_resolution_1080p'' 100 Builtin
     (QualityProfileDecision_new\<lparr>dec_tier_index := Some 1\<rparr>)"

lemma example_labels:
  "normalize_quality_tier (Some ''1080p'') = Some ''1080P''" "normalize_quality_tier (Some ''2160P'') = Some ''2160P''"
  "normalize_quality_tier (Some ''1080P'') = Some ''1080P''" "normalize_quality_tier (Some ''720P'') = Some ''720P''"
  "to_ascii_lowercase ''1080P'' = ''1080p''"
  by code_simp+

lemma example_words:
  "trim ''2160P'' = ''2160P''" "trim ''1080P'' = ''1080P''" "trim ''720P'' = ''720P''"
  "to_ascii_lowercase ''2160P'' = ''2160p''" "to_ascii_lowercase ''720P'' = ''720p''"
  "split_non_alphanumeric ''2160p'' = [''2160p'']" "split_non_alphanumeric ''1080p'' = [''1080p'']"
  "split_non_alphanumeric ''720p'' = [''720p'']"
  by code_simp+

lemma example_lines:
  "resolution_lines (Some ''2160P'') = Some 2160" "resolution_lines (Some ''1080P'') = Some 1080"
  "resolution_lines (Some ''720P'') = Some 720"
  by (simp_all add: resolution_lines_def example_words example_labels token_lines_def plausible_lines_def Let_def
      strip_suffix_def parse_uint_def strip_plus_def u32_max_def digits_value_def map_filter_simps
      is_digit_def digit_value_def or_else_def)

lemma example_bonus:
  "quality_tiers c = [''2160P'', ''1080P'', ''720P''] \<Longrightarrow> resolution_bonus c 1080 = 100"
  by (simp add: resolution_bonus_def Let_def map_filter_simps example_labels example_lines)

lemma example_requirements:
  assumes "rel_quality p = Some ''1080p''" "rel_source p = None" "rel_video_codec p = None" "rel_audio p = None"
    "rel_audio_codecs p = []" "\<not> rel_is_dolby_vision p" "\<not> rel_detected_hdr p" "\<not> rel_is_bd_disk p"
    and "criteria profile = criteria builtin_4k_profile"
  shows "evaluate_profile_requirements reader profile p False = example_decision"
  using assms example_bonus [of "criteria builtin_4k_profile"] example_tier
  by (simp add: evaluate_profile_requirements_def Let_def log_resolution_def example_labels example_lines quality_block_def
      source_block_def video_codec_block_def audio_codec_block_def normalized_audio_codecs_def block_when_def
      reject_opt_def example_decision_def push_all_unique_def QualityProfileDecision_new_def builtin_4k_profile_def
      builtin_criteria_def example_context_def)

lemma example_gate: "allowed (apply_min_score_gate builtin_4k_profile example_decision)"
  by (simp add: gate_fields gate_base_allowed)
     (simp add: mandatory_codes_def gate_base_def policy_score_def example_decision_def log_with_source_def refresh_def
      Let_def drop_final_def zero_rejection_def policy_entry_def starts_with_def sum_score_deltas_def
      BLOCK_SCORE_THRESHOLD_def QualityProfileDecision_new_def builtin_4k_profile_def builtin_criteria_def sat_i32_def)

lemma example_profile:
  "(sc_profile example_context)\<lparr>criteria := (criteria (sc_profile example_context))
     \<lparr>required_audio_languages := sc_required_audio_languages example_context\<rparr>\<rparr> = builtin_4k_profile"
  by (simp add: example_context_def builtin_4k_profile_def builtin_criteria_def)

lemma example_allowed: "allowed (announced_decision example_scored_release)"
  by (simp add: example_scored_release_def score_release_def score_disc_scope_def score_single_release_def
      with_listing_def evidence_announced_def run_term_pipeline_def Let_def canonical_parse_def
      example_import_env_def scoring_env.truncate_def append_rule_scores_def example_profile)
     (subst example_requirements; simp add: ParsedReleaseMetadata_empty_def example_gate)

lemma example_subject_refusal: "subject_refusal example_auto_env example_result example_auto_context = None"
proof -
  have "\<not> release_title_is_subtitles_only ''Movie.1080p''" by code_simp
  moreover have "normalize_release_name (Some ''Movie.1080p'') = Some ''movie.1080p''" by code_simp
  ultimately show ?thesis
    by (simp add: subject_refusal_def matched_refusal_def Let_def example_result_def example_auto_env_def
        example_auto_context_def candidate_title_match_def parsed_or_for_target_def asserted_ids_def example_evidence_def
        match_parsed_release_with_asserted_ids_def match_env.truncate_def year_checked_def root_or_episode_year_def
        ParsedReleaseMetadata_empty_def movie_subject_refusal_def subject_is_standalone_movie_def
        candidate_parse_state_def candidate_numbering_contradicts_subject_def touches_unmonitored_def
        indexer_categories_contradict_facet_def is_release_blocklisted_def candidate_meets_minimum_seeders_def
        meets_minimum_seeders_def requires_disambiguator_def info_hash_def normalize_info_hash_def filled_def)
qed

lemma example_result_scored:
  "carries_score (scoring_env.truncate example_import_env) example_context
     ((ParsedReleaseMetadata_empty ''Movie'')\<lparr>rel_quality := Some ''1080p''\<rparr>) 950 None example_result"
  by (simp add: carries_score_def example_result_def example_scored_release_def)

lemma example_after_cutoff: "after_cutoff example_auto_env example_result example_auto_context = Some AD_Eligible"
proof -
  let ?facts = "result_facts example_auto_env builtin_4k_profile example_result"
  have "cand_tier_index ?facts = Some 1"
    using example_tier
    by (simp add: result_facts_def with_revision_policy_def with_release_title_def CandidateFacts_new_def
        example_result_def example_context_def)
  then have "member_improves ?facts (grab_policy builtin_4k_profile (AcquisitionThresholds_for_persona Balanced))
      (example_incumbent ''old'' None 0 50)"
    by (simp add: member_improves_def example_incumbent_def tier_cmp_def grab_policy_def builtin_4k_profile_def
        builtin_criteria_def)
  then have "is_admitted (evaluate_admission example_occupied ?facts
      (grab_policy builtin_4k_profile (AcquisitionThresholds_for_persona Balanced)))"
    by (simp add: admit_single example_occupied_simps queued_rejection_None within_span_def)
  then show ?thesis
    by (simp add: after_cutoff_eligible example_auto_context_def snapshot_is_active_def empty_snapshot_def
        candidate_matches_existing_media_file_def route_failed_def auto_candidate_delay_decision_def
        automatic_candidate_delay_decision_def grab_time_delay_decision_with_context_def map_panicking_def
        resolve_delay_profile_def Let_def route_for_candidate_def)
qed

lemma example_eligible: "evaluate_auto_candidate example_auto_env example_result example_auto_context = Some AD_Eligible"
proof -
  have "\<not> candidate_is_revision_upgrade (result_facts example_auto_env builtin_4k_profile example_result) example_occupied"
    by (simp add: candidate_is_revision_upgrade_def revision_upgrade_over_def example_occupied_simps revision_cmp_def
        is_related_def example_incumbent_def result_facts_def with_revision_policy_def group_name_def
        example_result_def ParsedReleaseMetadata_empty_def)
  then have "cutoff_refusal chrono_ns (result_facts example_auto_env builtin_4k_profile example_result) example_occupied
      False False 0 = Some None"
    by (simp add: cutoff_refusal_def)
  moreover have "quality_profile_decision example_result = Some (announced_decision example_scored_release)"
    by (simp add: example_result_def)
  ultimately show ?thesis
    using example_subject_refusal example_after_cutoff example_allowed
    by (simp add: eligible_iff example_auto_context_def example_auto_env_def)
qed


theorem eligible_release_is_new_and_admitted_witness:
  "candidate_matches_title_subject example_auto_env example_result example_evidence \<and>
   is_admitted (evaluate_admission example_occupied (result_facts example_auto_env builtin_4k_profile example_result)
     (grab_policy builtin_4k_profile (AcquisitionThresholds_for_persona Balanced)))"
  using eligible_release_is_new_and_admitted [OF example_eligible] by (simp add: example_auto_context_def)

end
